(* ===== verification/Prelude.thy ===== *)
theory Prelude
  imports Main "HOL-Library.AList"
begin

text \<open>
  Shared vocabulary of the development: the fixed-width integers of the Go source, the
  results of fallible operations, decimal printing as \<^verbatim>\<open>fmt.Sprintf("%d")\<close> does it, and the generic
  lemmas on lists, options and finite maps that the component theories use.

  Go's \<^verbatim>\<open>int32\<close> and \<^verbatim>\<open>int64\<close> are mathematical integers here. The functions \<open>i32\<close> and \<open>i64\<close>
  are the two's complement wrap-around of the arithmetic, and they are written at the
  operations whose result may leave the range.
\<close>

named_theorems go_simps \<open>simplification rules of the Go primitives\<close>
named_theorems inv_intros \<open>introduction rules of the component invariants\<close>

section \<open>Fixed-width integers\<close>

definition i32 :: "int \<Rightarrow> int" where
  "i32 x = (x + 2147483648) mod 4294967296 - 2147483648"

definition i64 :: "int \<Rightarrow> int" where
  "i64 x = (x + 9223372036854775808) mod 18446744073709551616 - 9223372036854775808"

abbreviation MaxInt32 :: int where "MaxInt32 \<equiv> 2147483647"
abbreviation MaxInt64 :: int where "MaxInt64 \<equiv> 9223372036854775807"

definition is_i32 :: "int \<Rightarrow> bool" where
  "is_i32 x \<longleftrightarrow> - 2147483648 \<le> x \<and> x \<le> MaxInt32"

definition is_i64 :: "int \<Rightarrow> bool" where
  "is_i64 x \<longleftrightarrow> - 9223372036854775808 \<le> x \<and> x \<le> MaxInt64"

lemma i32_id [go_simps]: "is_i32 x \<Longrightarrow> i32 x = x"
  by (simp add: i32_def is_i32_def)

lemma i64_id [go_simps]: "is_i64 x \<Longrightarrow> i64 x = x"
  by (simp add: i64_def is_i64_def)

lemma is_i32_i32 [simp]: "is_i32 (i32 x)"
proof -
  have "0 \<le> (x + 2147483648) mod 4294967296" "(x + 2147483648) mod 4294967296 < 4294967296"
    by simp_all
  then show ?thesis
    unfolding i32_def is_i32_def by linarith
qed

lemma is_i64_i64 [simp]: "is_i64 (i64 x)"
proof -
  have "0 \<le> (x + 9223372036854775808) mod 18446744073709551616"
    "(x + 9223372036854775808) mod 18446744073709551616 < 18446744073709551616"
    by simp_all
  then show ?thesis
    unfolding i64_def is_i64_def by linarith
qed

section \<open>Decimal printing\<close>

definition digit_char :: "nat \<Rightarrow> char" where
  "digit_char d = char_of (48 + d)"

fun show_nat :: "nat \<Rightarrow> string" where
  "show_nat n = (if n < 10 then [digit_char n] else show_nat (n div 10) @ [digit_char (n mod 10)])"

declare show_nat.simps [simp del]

definition show_int :: "int \<Rightarrow> string" where
  "show_int i = (if i < 0 then CHR ''-'' # show_nat (nat (- i)) else show_nat (nat i))"

definition is_digit :: "char \<Rightarrow> bool" where
  "is_digit c \<longleftrightarrow> of_char c \<ge> (48::nat) \<and> of_char c \<le> (57::nat)"

lemma of_digit_char [simp]: "d < 10 \<Longrightarrow> of_char (digit_char d) = 48 + d"
  by (simp add: digit_char_def of_char_of)

lemma digit_char_inject: "d < 10 \<Longrightarrow> e < 10 \<Longrightarrow> digit_char d = digit_char e \<longleftrightarrow> d = e"
  by (metis add_left_cancel of_digit_char)

lemma digits_show_nat: "c \<in> set (show_nat n) \<Longrightarrow> is_digit c"
proof (induction n rule: show_nat.induct)
  case (1 n)
  then show ?case
    by (subst (asm) (2) show_nat.simps) (auto simp: is_digit_def split: if_splits)
qed

lemma show_nat_nonempty [simp]: "show_nat n \<noteq> []"
  by (subst show_nat.simps) simp

lemma Nil_not_show_nat [simp]: "[] \<noteq> show_nat n"
  by (metis show_nat_nonempty)

lemma digits_show_int: "c \<in> set (show_int i) \<Longrightarrow> is_digit c \<or> c = CHR ''-''"
  by (auto simp: show_int_def dest: digits_show_nat split: if_splits)

lemma show_nat_small: "n < 10 \<Longrightarrow> show_nat n = [digit_char n]"
  by (subst show_nat.simps) simp

lemma show_nat_large: "\<not> n < 10 \<Longrightarrow> show_nat n = show_nat (n div 10) @ [digit_char (n mod 10)]"
  by (subst show_nat.simps) simp

lemma show_nat_inject: "show_nat m = show_nat n \<Longrightarrow> m = n"
proof (induction m arbitrary: n rule: show_nat.induct)
  case (1 m)
  have small: "k < 10 \<Longrightarrow> \<not> l < 10 \<Longrightarrow> show_nat k \<noteq> show_nat l" for k l
    by (simp add: show_nat_small show_nat_large)
  show ?case
  proof (cases "m < 10 \<or> n < 10")
    case True
    with 1(2) small[of m n] small[of n m] have "m < 10" "n < 10" by metis+
    with 1(2) show ?thesis by (simp add: show_nat_small digit_char_inject)
  next
    case False
    with 1(2) have "show_nat (m div 10) = show_nat (n div 10)"
      "digit_char (m mod 10) = digit_char (n mod 10)"
      by (simp_all add: show_nat_large)
    with 1(1)[of "n div 10"] False have "m div 10 = n div 10" "m mod 10 = n mod 10"
      by (simp_all add: digit_char_inject)
    then show ?thesis by (metis mult_div_mod_eq)
  qed
qed

lemma minus_not_in_show_nat: "CHR ''-'' \<notin> set (show_nat n)"
  using digits_show_nat[of "CHR ''-''" n] by (auto simp: is_digit_def)

lemma show_int_inject [simp]: "show_int i = show_int j \<longleftrightarrow> i = j"
proof
  assume eq: "show_int i = show_int j"
  have sgn: "CHR ''-'' \<in> set (show_int k) \<longleftrightarrow> k < 0" for k
    using minus_not_in_show_nat by (simp add: show_int_def)
  have "i < 0 \<longleftrightarrow> j < 0" using eq sgn by metis
  then show "i = j"
    using eq by (cases "i < 0") (auto simp: show_int_def dest!: show_nat_inject)
qed simp

text \<open>A printed field ends at its separator, so concatenations of fields can be taken apart.\<close>

lemma split_at_separator:
  assumes "xs @ c # ys = xs' @ c # ys'" "c \<notin> set xs" "c \<notin> set xs'"
  shows "xs = xs' \<and> ys = ys'"
  using assms by (induction xs arbitrary: xs') (auto simp: Cons_eq_append_conv)

section \<open>Go maps\<close>

text \<open>
  A Go map is an association list with distinct keys. Go leaves the iteration order of a map
  unspecified: a loop over a map runs in the order of the list, and since every property is
  stated for all lists it is stated for all iteration orders.
\<close>

type_synonym ('k, 'v) gomap = "('k \<times> 'v) list"

abbreviation gget :: "('k, 'v) gomap \<Rightarrow> 'k \<Rightarrow> 'v option" where
  "gget m k \<equiv> map_of m k"

abbreviation gput :: "'k \<Rightarrow> 'v \<Rightarrow> ('k, 'v) gomap \<Rightarrow> ('k, 'v) gomap" where
  "gput k v m \<equiv> AList.update k v m"

abbreviation gdel :: "'k \<Rightarrow> ('k, 'v) gomap \<Rightarrow> ('k, 'v) gomap" where
  "gdel k m \<equiv> AList.delete k m"

abbreviation gkeys :: "('k, 'v) gomap \<Rightarrow> 'k list" where
  "gkeys m \<equiv> map fst m"

abbreviation gmap_ok :: "('k, 'v) gomap \<Rightarrow> bool" where
  "gmap_ok m \<equiv> distinct (gkeys m)"

text \<open>Lookups are kept as they are, membership in the list is reached through \<open>gget_Some_iff\<close>.\<close>

declare map_of_eq_Some_iff [simp del] Some_eq_map_of_iff [simp del]

lemma gget_gput [simp]: "gget (gput k v m) x = (if x = k then Some v else gget m x)"
  by (simp add: update_conv')

lemma gget_gdel [simp]: "gget (gdel k m) x = (if x = k then None else gget m x)"
  by (simp add: delete_conv' restrict_map_def)

lemma gmap_ok_gput [simp]: "gmap_ok m \<Longrightarrow> gmap_ok (gput k v m)"
  by (rule distinct_update)

lemma gmap_ok_gdel [simp]: "gmap_ok m \<Longrightarrow> gmap_ok (gdel k m)"
  by (rule distinct_delete)

lemma keys_gput [simp]: "fst ` set (gput k v m) = insert k (fst ` set m)"
  by (simp add: dom_update)

lemma keys_gdel [simp]: "fst ` set (gdel k m) = fst ` set m - {k}"
  by (metis delete_keys set_map set_removeAll)

lemma gget_None_iff: "gget m k = None \<longleftrightarrow> k \<notin> set (gkeys m)"
  by (simp add: map_of_eq_None_iff)

lemma gget_Some_iff: "gmap_ok m \<Longrightarrow> gget m k = Some v \<longleftrightarrow> (k, v) \<in> set m"
  by (simp add: map_of_eq_Some_iff)

lemma length_gput: "length (gput k v m) = (if k \<in> set (gkeys m) then length m else Suc (length m))"
  by (induction m) auto

lemma length_gdel_fresh: "k \<notin> set (gkeys m) \<Longrightarrow> gdel k m = m"
  by (simp add: delete_id)

lemma gmap_ok_Cons [simp]: "gmap_ok ((k, v) # m) \<longleftrightarrow> k \<notin> fst ` set m \<and> gmap_ok m"
  by simp

lemma length_gdel: "gmap_ok m \<Longrightarrow> k \<in> set (gkeys m) \<Longrightarrow> Suc (length (gdel k m)) = length m"
  by (induction m) (auto simp: delete_id rev_image_eqI)

lemma gmap_ok_fold_gput: "gmap_ok m \<Longrightarrow> gmap_ok (fold (\<lambda>(k, v). gput k v) xs m)"
  by (induction xs arbitrary: m) auto

lemma gget_fold_gput:
  "gget (fold (\<lambda>(k, v). gput k v) xs m) k = (case map_of (rev xs) k of None \<Rightarrow> gget m k | Some v \<Rightarrow> Some v)"
  by (induction xs arbitrary: m) (auto simp: map_add_def split: option.splits)

text \<open>
  The copy loops of the source: each builds a new map from the entries of another that pass a
  test.
\<close>

lemma gget_copy_if:
  "gmap_ok m \<Longrightarrow>
   gget (fold (\<lambda>(k, v) r. if P k v then gput k (f v) r else r) m r) x =
     (case gget m x of None \<Rightarrow> gget r x | Some v \<Rightarrow> if P x v then Some (f v) else gget r x)"
proof (induction m arbitrary: r)
  case (Cons kv m)
  obtain k v where kv: "kv = (k, v)" by fastforce
  from Cons.prems have "gget m k = None" by (auto simp: kv map_of_eq_None_iff)
  with Cons show ?case by (auto simp: kv split: option.split)
qed simp

lemma gmap_ok_copy_if:
  "gmap_ok r \<Longrightarrow> gmap_ok (fold (\<lambda>(k, v) r. if P k v then gput k (f v) r else r) m r)"
  by (induction m arbitrary: r) auto

lemma gget_copy:
  "gmap_ok m \<Longrightarrow> gget (fold (\<lambda>(k, v). gput k (f v)) m []) x = map_option f (gget m x)"
  using gget_copy_if[of m "\<lambda>_ _. True" f "[]" x] by (simp split: option.splits)

lemma gmap_ok_copy: "gmap_ok (fold (\<lambda>(k, v). gput k (f v)) m [])"
  using gmap_ok_copy_if[of "[]" "\<lambda>_ _. True" f m] by simp

section \<open>Cluster shards\<close>

record ClusterShardID =
  ClusterID :: int
  ShardID :: int

definition ClusterShardIDtoString :: "ClusterShardID \<Rightarrow> string" where
  "ClusterShardIDtoString sd =
     ''(id: '' @ show_int (ClusterID sd) @ '', shard: '' @ show_int (ShardID sd) @ '')''"

definition ClusterShardIDtoShortString :: "ClusterShardID \<Rightarrow> string" where
  "ClusterShardIDtoShortString sd = show_int (ClusterID sd) @ '':'' @ show_int (ShardID sd)"

lemma not_in_show_int [simp]:
  "CHR '':'' \<notin> set (show_int i)" "CHR '','' \<notin> set (show_int i)"
  "CHR '')'' \<notin> set (show_int i)" "CHR ''|'' \<notin> set (show_int i)"
  using digits_show_int by (fastforce simp: is_digit_def)+

lemma ClusterShardIDtoShortString_inject [simp]:
  "ClusterShardIDtoShortString a = ClusterShardIDtoShortString b \<longleftrightarrow> a = b"
proof
  assume "ClusterShardIDtoShortString a = ClusterShardIDtoShortString b"
  then have "show_int (ClusterID a) = show_int (ClusterID b) \<and> show_int (ShardID a) = show_int (ShardID b)"
    by (intro split_at_separator[where c = "CHR '':''"])
       (simp_all add: ClusterShardIDtoShortString_def)
  then show "a = b" by simp
qed simp

lemma ClusterShardIDtoString_inject [simp]:
  "ClusterShardIDtoString a = ClusterShardIDtoString b \<longleftrightarrow> a = b"
proof
  assume "ClusterShardIDtoString a = ClusterShardIDtoString b"
  then have "show_int (ClusterID a) = show_int (ClusterID b) \<and>
      '' shard: '' @ show_int (ShardID a) @ '')'' = '' shard: '' @ show_int (ShardID b) @ '')''"
    by (intro split_at_separator[where c = "CHR '',''"]) (simp_all add: ClusterShardIDtoString_def)
  then show "a = b" by simp
qed simp

section \<open>Lists and options\<close>

lemma take_map_upt: "take n (map f [0..<m]) = map f [0..<min n m]"
  by (simp add: take_map min_def)

lemma drop_map_upt: "drop n (map f [0..<m]) = map (\<lambda>i. f (i + n)) [0..<m - n]"
  by (rule nth_equalityI) (simp_all add: add.commute)

lemma option_bind_Some_iff [go_simps]:
  "Option.bind x f = Some y \<longleftrightarrow> (\<exists>a. x = Some a \<and> f a = Some y)"
  by (cases x) auto

end
