(* ===== verification/RingBuffer.thy ===== *)
theory RingBuffer
  imports Prelude
begin

text \<open>
  The ring buffer of \<^verbatim>\<open>proxy/proxy_streams.go\<close> that remembers, for a run of consecutive proxy
  task IDs, the source shard and the source task each ID stands for. The buffer is refined to
  a list (\<open>contents\<close>) with the ID of its first element, and the laws its client relies on
  are the locale \<open>id_queue\<close>, interpreted on the buffer's operations.
\<close>

record proxyIDMapping =
  sourceShard :: ClusterShardID
  sourceTask :: int

record proxyIDRingBuffer =
  entries :: "proxyIDMapping list"
  head :: nat
  rsize :: nat
  maxSize :: nat
  startProxyID :: int

definition zeroShard :: ClusterShardID where
  "zeroShard = \<lparr>ClusterID = 0, ShardID = 0\<rparr>"

definition zeroMapping :: proxyIDMapping where
  "zeroMapping = \<lparr>sourceShard = zeroShard, sourceTask = 0\<rparr>"

definition newProxyIDRingBuffer :: "int \<Rightarrow> proxyIDRingBuffer" where
  "newProxyIDRingBuffer capacity =
     (let capacity = (if capacity < 1 then 1 else capacity)
      in \<lparr>entries = replicate (nat capacity) zeroMapping, head = 0, rsize = 0, maxSize = 0,
          startProxyID = 0\<rparr>)"

text \<open>The element at offset \<open>i\<close> from the head.\<close>

definition ring_at :: "proxyIDRingBuffer \<Rightarrow> nat \<Rightarrow> proxyIDMapping" where
  "ring_at b i = entries b ! ((head b + i) mod length (entries b))"

definition ensureCapacity :: "proxyIDRingBuffer \<Rightarrow> proxyIDRingBuffer" where
  "ensureCapacity b =
     (if rsize b < length (entries b) then b
      else
        let newCap = length (entries b) * 2;
            newCap = (if newCap = 0 then 1 else newCap);
            newEntries = map (\<lambda>i. if i < rsize b then ring_at b i else zeroMapping) [0..<newCap]
        in b\<lparr>entries := newEntries, head := 0\<rparr>)"

text \<open>The write that both the hole-filling loop and the end of \<open>Append\<close> perform.\<close>

definition ring_write :: "proxyIDMapping \<Rightarrow> proxyIDRingBuffer \<Rightarrow> proxyIDRingBuffer" where
  "ring_write m b =
     (let pos = (head b + rsize b) mod length (entries b);
          b = b\<lparr>entries := (entries b)[pos := m], rsize := rsize b + 1\<rparr>
      in if rsize b > maxSize b then b\<lparr>maxSize := rsize b\<rparr> else b)"

function fill_holes :: "int \<Rightarrow> int \<Rightarrow> proxyIDRingBuffer \<Rightarrow> proxyIDRingBuffer" where
  "fill_holes expected proxyID b =
     (if expected < proxyID
      then fill_holes (expected + 1) proxyID (ring_write zeroMapping (ensureCapacity b))
      else b)"
  by pat_completeness auto
termination by (relation "measure (\<lambda>(e, p, _). nat (p - e))") auto

declare fill_holes.simps [simp del]

definition Append :: "proxyIDRingBuffer \<Rightarrow> int \<Rightarrow> ClusterShardID \<Rightarrow> int \<Rightarrow> proxyIDRingBuffer" where
  "Append b proxyID srcShard srcTask =
     (let b = ensureCapacity b;
          b = (if rsize b = 0 then b\<lparr>startProxyID := proxyID\<rparr>
               else
                 let expected = i64 (startProxyID b + int (rsize b))
                 in if proxyID \<noteq> expected then fill_holes expected proxyID b else b)
      in ring_write \<lparr>sourceShard = srcShard, sourceTask = srcTask\<rparr> b)"

definition agg_step ::
  "proxyIDMapping \<Rightarrow> (ClusterShardID, int) gomap \<Rightarrow> (ClusterShardID, int) gomap" where
  "agg_step m result =
     (if ClusterID (sourceShard m) = 0 \<and> ShardID (sourceShard m) = 0 then result
      else case gget result (sourceShard m) of
          None \<Rightarrow> gput (sourceShard m) (sourceTask m) result
        | Some current \<Rightarrow>
            if sourceTask m > current then gput (sourceShard m) (sourceTask m) result
            else result)"

definition AggregateUpTo ::
  "proxyIDRingBuffer \<Rightarrow> int \<Rightarrow> (ClusterShardID, int) gomap \<times> nat" where
  "AggregateUpTo b watermark =
     (if rsize b = 0 then ([], 0)
      else if watermark < startProxyID b then ([], 0)
      else
        let count64 = i64 (watermark - startProxyID b + 1)
        in if count64 \<le> 0 then ([], 0)
           else
             let count = nat count64;
                 count = (if count > rsize b then rsize b else count)
             in (fold (\<lambda>i. agg_step (ring_at b i)) [0..<count] [], count))"

definition Discard :: "proxyIDRingBuffer \<Rightarrow> int \<Rightarrow> proxyIDRingBuffer" where
  "Discard b count =
     (if count \<le> 0 then b
      else
        let count = (if count > int (rsize b) then rsize b else nat count)
        in b\<lparr>head := (head b + count) mod length (entries b), rsize := rsize b - count,
             startProxyID := i64 (startProxyID b + int count)\<rparr>)"

section \<open>Contents and invariant\<close>

definition contents :: "proxyIDRingBuffer \<Rightarrow> proxyIDMapping list" where
  "contents b = map (ring_at b) [0..<rsize b]"

text \<open>
  The buffer is well formed when the live entries fit into it and the IDs they stand for are
  positive \<^verbatim>\<open>int64\<close> values with room for one more.
\<close>

definition ring_inv :: "proxyIDRingBuffer \<Rightarrow> bool" where
  "ring_inv b \<longleftrightarrow>
     0 < length (entries b) \<and> head b < length (entries b) \<and> rsize b \<le> length (entries b) \<and>
     rsize b \<le> maxSize b \<and> 0 \<le> startProxyID b \<and> (0 < rsize b \<longrightarrow> 1 \<le> startProxyID b) \<and>
     startProxyID b + int (rsize b) \<le> MaxInt64"

lemma length_contents [simp]: "length (contents b) = rsize b"
  by (simp add: contents_def)

lemma contents_Nil_iff [simp]: "contents b = [] \<longleftrightarrow> rsize b = 0"
  by (simp add: contents_def)

lemma ring_inv_new: "ring_inv (newProxyIDRingBuffer capacity)"
  by (simp add: ring_inv_def newProxyIDRingBuffer_def Let_def)

lemma contents_new: "contents (newProxyIDRingBuffer capacity) = []"
  by (simp add: newProxyIDRingBuffer_def Let_def)

lemma ensureCapacity_fields [simp]:
  "rsize (ensureCapacity b) = rsize b" "startProxyID (ensureCapacity b) = startProxyID b"
  "maxSize (ensureCapacity b) = maxSize b"
  by (simp_all add: ensureCapacity_def Let_def)

lemma contents_ensureCapacity [simp]:
  "rsize b \<le> length (entries b) \<Longrightarrow> contents (ensureCapacity b) = contents b"
  by (auto simp: contents_def ensureCapacity_def ring_at_def Let_def)

lemma ensureCapacity_room:
  "ring_inv b \<Longrightarrow> rsize b < length (entries (ensureCapacity b))"
  by (auto simp: ensureCapacity_def Let_def ring_inv_def)

lemma ring_inv_ensureCapacity: "ring_inv b \<Longrightarrow> ring_inv (ensureCapacity b)"
  by (auto simp: ring_inv_def ensureCapacity_def Let_def)

lemma ring_write_fields [simp]:
  "rsize (ring_write m b) = Suc (rsize b)" "startProxyID (ring_write m b) = startProxyID b"
  "head (ring_write m b) = head b" "length (entries (ring_write m b)) = length (entries b)"
  "maxSize (ring_write m b) = max (maxSize b) (Suc (rsize b))"
  by (simp_all add: ring_write_def Let_def)

lemma ring_at_write_old:
  assumes "i < rsize b" "rsize b < length (entries b)"
  shows "ring_at (ring_write m b) i = ring_at b i"
proof -
  let ?n = "length (entries b)"
  have "(head b + i) mod ?n \<noteq> (head b + rsize b) mod ?n"
  proof
    assume "(head b + i) mod ?n = (head b + rsize b) mod ?n"
    then have "?n dvd (head b + rsize b) - (head b + i)"
      by (metis assms(1) add_left_mono mod_eq_dvd_iff_nat less_imp_le_nat)
    then have "?n dvd rsize b - i" by simp
    with assms show False by (auto dest: dvd_imp_le)
  qed
  then show ?thesis by (simp add: ring_at_def ring_write_def Let_def)
qed

lemma contents_ring_write:
  assumes "rsize b < length (entries b)"
  shows "contents (ring_write m b) = contents b @ [m]"
proof -
  have "(head b + rsize b) mod length (entries b) < length (entries b)"
    using assms by (intro mod_less_divisor) linarith
  then have "ring_at (ring_write m b) (rsize b) = m"
    by (simp add: ring_at_def ring_write_def Let_def)
  then show ?thesis
    using assms by (simp add: contents_def ring_at_write_old)
qed


lemma Append_contiguous:
  assumes "ring_inv b" "rsize b = 0 \<or> proxyID = startProxyID b + int (rsize b)"
  shows "Append b proxyID sh t =
    (let b' = (if rsize b = 0 then (ensureCapacity b)\<lparr>startProxyID := proxyID\<rparr> else ensureCapacity b)
     in ring_write \<lparr>sourceShard = sh, sourceTask = t\<rparr> b')"
  using assms by (auto simp: Append_def Let_def ring_inv_def i64_id is_i64_def)

lemma contents_start_update [simp]: "contents (b\<lparr>startProxyID := p\<rparr>) = contents b"
  by (simp add: contents_def ring_at_def)

lemma contents_Append:
  assumes "ring_inv b" "rsize b = 0 \<or> proxyID = startProxyID b + int (rsize b)"
  shows "contents (Append b proxyID sh t) = contents b @ [\<lparr>sourceShard = sh, sourceTask = t\<rparr>]"
  using assms ensureCapacity_room[OF assms(1)] contents_ensureCapacity[of b]
  by (cases "rsize b = 0") (auto simp: Append_contiguous Let_def contents_ring_write ring_inv_def)

lemma startProxyID_Append:
  assumes "ring_inv b" "rsize b = 0 \<or> proxyID = startProxyID b + int (rsize b)"
  shows "startProxyID (Append b proxyID sh t) = (if rsize b = 0 then proxyID else startProxyID b)"
  using assms by (simp add: Append_contiguous Let_def)

lemma ring_inv_Append:
  assumes "ring_inv b" "rsize b = 0 \<or> proxyID = startProxyID b + int (rsize b)"
    "1 \<le> proxyID" "proxyID < MaxInt64"
  shows "ring_inv (Append b proxyID sh t)"
  using assms ring_inv_ensureCapacity[OF assms(1)] ensureCapacity_room[OF assms(1)]
  by (auto simp: Append_contiguous Let_def ring_inv_def)

section \<open>Aggregation\<close>

text \<open>
  The reference for \<open>AggregateUpTo\<close>: the largest source task of a shard in a list of mappings.
  The zero shard marks a hole and is never reported.
\<close>

definition tasks_of :: "ClusterShardID \<Rightarrow> proxyIDMapping list \<Rightarrow> int set" where
  "tasks_of sh ms = sourceTask ` {m \<in> set ms. sourceShard m = sh}"

definition max_task :: "proxyIDMapping list \<Rightarrow> ClusterShardID \<Rightarrow> int option" where
  "max_task ms sh =
     (if sh = zeroShard \<or> tasks_of sh ms = {} then None else Some (Max (tasks_of sh ms)))"

lemma finite_tasks_of [simp]: "finite (tasks_of sh ms)"
  by (simp add: tasks_of_def)

lemma tasks_of_snoc [simp]:
  "tasks_of sh (ms @ [m]) =
     (if sourceShard m = sh then insert (sourceTask m) (tasks_of sh ms) else tasks_of sh ms)"
  by (auto simp: tasks_of_def)

lemma tasks_of_Nil [simp]: "tasks_of sh [] = {}"
  by (simp add: tasks_of_def)

lemma zeroShard_iff: "ClusterID sh = 0 \<and> ShardID sh = 0 \<longleftrightarrow> sh = zeroShard"
  by (cases sh) (auto simp: zeroShard_def)

lemma max_task_snoc:
  "max_task (ms @ [m]) sh =
     (if sourceShard m = sh \<and> sh \<noteq> zeroShard
      then Some (case max_task ms sh of None \<Rightarrow> sourceTask m | Some c \<Rightarrow> max (sourceTask m) c)
      else max_task ms sh)"
  by (auto simp: max_task_def)

lemma gget_agg_step:
  "gget (agg_step m r) sh =
     (if sourceShard m = sh \<and> sh \<noteq> zeroShard
      then Some (case gget r sh of None \<Rightarrow> sourceTask m | Some c \<Rightarrow> max (sourceTask m) c)
      else gget r sh)"
  by (auto simp: agg_step_def zeroShard_iff max_def split: option.splits)

lemma gget_fold_agg_step: "gget (fold agg_step ms []) sh = max_task ms sh"
  by (induction ms rule: rev_induct) (simp_all add: gget_agg_step max_task_snoc, simp add: max_task_def)

lemma gmap_ok_fold_agg_step: "gmap_ok r \<Longrightarrow> gmap_ok (fold agg_step ms r)"
proof (induction ms arbitrary: r)
  case (Cons m ms)
  then have "gmap_ok (agg_step m r)"
    by (simp add: agg_step_def split: option.splits)
  with Cons show ?case by simp
qed simp

lemma AggregateUpTo_contents:
  assumes "ring_inv b" "w \<le> MaxInt64"
  shows "AggregateUpTo b w =
    (let n = min (nat (w - startProxyID b + 1)) (rsize b)
     in (fold agg_step (take n (contents b)) [], n))"
proof (cases "rsize b = 0 \<or> w < startProxyID b")
  case True
  then show ?thesis by (auto simp: AggregateUpTo_def Let_def)
next
  case False
  with assms have "is_i64 (w - startProxyID b + 1)"
    by (auto simp: ring_inv_def is_i64_def)
  with False show ?thesis
    by (auto simp: AggregateUpTo_def Let_def i64_id contents_def take_map_upt fold_map comp_def
             min_def)
qed

section \<open>Discarding\<close>

lemma Discard_eq:
  assumes "ring_inv b"
  shows "Discard b n =
    (let c = min (nat n) (rsize b)
     in if n \<le> 0 then b
        else b\<lparr>head := (head b + c) mod length (entries b), rsize := rsize b - c,
               startProxyID := startProxyID b + int c\<rparr>)"
  using assms by (auto simp: Discard_def Let_def ring_inv_def min_def i64_id is_i64_def)

lemma contents_Discard:
  assumes "ring_inv b"
  shows "contents (Discard b n) = drop (nat n) (contents b)"
proof -
  have "((h + c) mod k + i) mod k = (h + (i + c)) mod k" for h c i k :: nat
    by (metis mod_add_left_eq add.commute add.assoc)
  with assms show ?thesis
    by (auto simp: Discard_eq Let_def contents_def ring_at_def drop_map_upt min_def)
qed

lemma startProxyID_Discard:
  "ring_inv b \<Longrightarrow> startProxyID (Discard b n) = startProxyID b + int (min (nat n) (rsize b))"
  by (auto simp: Discard_eq Let_def)

lemma ring_inv_Discard: "ring_inv b \<Longrightarrow> ring_inv (Discard b n)"
  by (auto simp: Discard_eq Let_def ring_inv_def)


section \<open>The interface of the ID queue\<close>

text \<open>
  What the sender relies on: a queue of mappings for consecutive IDs. Appending the next ID
  extends the list, aggregation reports the largest task per shard of the prefix an
  acknowledgement covers, and discarding drops that prefix.
\<close>

locale id_queue =
  fixes qinv :: "'q \<Rightarrow> bool"
    and qstart :: "'q \<Rightarrow> int"
    and qlist :: "'q \<Rightarrow> proxyIDMapping list"
    and qappend :: "'q \<Rightarrow> int \<Rightarrow> ClusterShardID \<Rightarrow> int \<Rightarrow> 'q"
    and qagg :: "'q \<Rightarrow> int \<Rightarrow> (ClusterShardID, int) gomap \<times> nat"
    and qdiscard :: "'q \<Rightarrow> int \<Rightarrow> 'q"
  assumes append_inv: "qinv q \<Longrightarrow> qlist q = [] \<or> n = qstart q + int (length (qlist q)) \<Longrightarrow>
      1 \<le> n \<Longrightarrow> n < MaxInt64 \<Longrightarrow> qinv (qappend q n sh t)"
    and append_list: "qinv q \<Longrightarrow> qlist q = [] \<or> n = qstart q + int (length (qlist q)) \<Longrightarrow>
      1 \<le> n \<Longrightarrow> n < MaxInt64 \<Longrightarrow>
      qlist (qappend q n sh t) = qlist q @ [\<lparr>sourceShard = sh, sourceTask = t\<rparr>]"
    and append_start: "qinv q \<Longrightarrow> qlist q = [] \<or> n = qstart q + int (length (qlist q)) \<Longrightarrow>
      1 \<le> n \<Longrightarrow> n < MaxInt64 \<Longrightarrow>
      qstart (qappend q n sh t) = (if qlist q = [] then n else qstart q)"
    and agg_count: "qinv q \<Longrightarrow> w \<le> MaxInt64 \<Longrightarrow>
      snd (qagg q w) = min (nat (w - qstart q + 1)) (length (qlist q))"
    and agg_lookup: "qinv q \<Longrightarrow> w \<le> MaxInt64 \<Longrightarrow>
      gget (fst (qagg q w)) sh = max_task (take (snd (qagg q w)) (qlist q)) sh"
    and agg_ok: "qinv q \<Longrightarrow> w \<le> MaxInt64 \<Longrightarrow> gmap_ok (fst (qagg q w))"
    and discard_inv: "qinv q \<Longrightarrow> qinv (qdiscard q n)"
    and discard_list: "qinv q \<Longrightarrow> qlist (qdiscard q n) = drop (nat n) (qlist q)"
    and discard_start: "qinv q \<Longrightarrow>
      qstart (qdiscard q n) = qstart q + int (min (nat n) (length (qlist q)))"
begin

text \<open>The position \<open>j\<close> of the queue stands for the ID \<open>qstart q + j\<close>.\<close>

lemma agg_covers:
  assumes "qinv q" "w \<le> MaxInt64" "j < length (qlist q)" "qstart q + int j \<le> w"
    "sourceShard (qlist q ! j) = sh" "sh \<noteq> zeroShard"
  shows "\<exists>a. gget (fst (qagg q w)) sh = Some a \<and> sourceTask (qlist q ! j) \<le> a"
proof -
  let ?p = "take (snd (qagg q w)) (qlist q)"
  have "j < snd (qagg q w)" using assms by (simp add: agg_count)
  then have "?p ! j = qlist q ! j" "j < length ?p" using assms by simp_all
  then have "qlist q ! j \<in> set ?p" by (metis nth_mem)
  then have "sourceTask (qlist q ! j) \<in> tasks_of sh ?p"
    using assms(5) by (auto simp: tasks_of_def)
  then show ?thesis
    using assms(1,2,6) by (auto simp: agg_lookup max_task_def)
qed

lemma agg_attained:
  assumes "qinv q" "w \<le> MaxInt64" "gget (fst (qagg q w)) sh = Some a"
  shows "\<exists>k < length (qlist q). qstart q + int k \<le> w \<and>
    sourceShard (qlist q ! k) = sh \<and> sourceTask (qlist q ! k) = a"
proof -
  let ?p = "take (snd (qagg q w)) (qlist q)"
  have "max_task ?p sh = Some a" using assms by (simp add: agg_lookup)
  then have "tasks_of sh ?p \<noteq> {}" "a = Max (tasks_of sh ?p)"
    by (auto simp: max_task_def split: if_splits)
  then have "a \<in> tasks_of sh ?p" by simp
  then obtain k where "k < length ?p" "sourceShard (?p ! k) = sh" "sourceTask (?p ! k) = a"
    by (auto simp: tasks_of_def in_set_conv_nth)
  moreover from this have "qstart q + int k \<le> w"
    using assms by (simp add: agg_count) linarith
  ultimately show ?thesis by auto
qed

text \<open>
  When each shard's tasks entered the queue in order, an aggregated acknowledgement only
  passes over tasks whose IDs lie below the watermark.
\<close>

lemma agg_safe:
  assumes "qinv q" "w \<le> MaxInt64" "gget (fst (qagg q w)) sh = Some a"
    and mono: "\<And>i j. i < j \<Longrightarrow> j < length (qlist q) \<Longrightarrow>
      sourceShard (qlist q ! i) = sh \<Longrightarrow> sourceShard (qlist q ! j) = sh \<Longrightarrow>
      sourceTask (qlist q ! i) \<le> sourceTask (qlist q ! j)"
    and "j < length (qlist q)" "sourceShard (qlist q ! j) = sh" "sourceTask (qlist q ! j) < a"
  shows "qstart q + int j < w"
proof -
  obtain k where k: "k < length (qlist q)" "qstart q + int k \<le> w"
    "sourceShard (qlist q ! k) = sh" "sourceTask (qlist q ! k) = a"
    using agg_attained[OF assms(1-3)] by auto
  have "\<not> k \<le> j"
    using mono[of k j] k assms(5-7) by (cases "k = j") auto
  with k show ?thesis by linarith
qed

text \<open>Aggregating and then discarding what was aggregated leaves exactly the uncovered IDs.\<close>

lemma agg_discard:
  assumes "qinv q" "w \<le> MaxInt64" and q': "q' = qdiscard q (int (snd (qagg q w)))"
  shows "qinv q' \<and> qlist q = take (snd (qagg q w)) (qlist q) @ qlist q' \<and>
    qstart q' = qstart q + int (snd (qagg q w)) \<and> (qlist q' = [] \<or> w < qstart q')"
  using assms by (auto simp: discard_inv discard_list discard_start agg_count min_def)

lemma append_next:
  assumes "qinv q" "qlist q = [] \<or> n = qstart q + int (length (qlist q))" "1 \<le> n" "n < MaxInt64"
  shows "n + 1 = qstart (qappend q n sh t) + int (length (qlist (qappend q n sh t)))"
  using assms by (auto simp: append_list append_start)

end

interpretation ring: id_queue ring_inv startProxyID contents Append AggregateUpTo Discard
proof
  fix q n sh t assume q: "ring_inv q" "contents q = [] \<or> n = startProxyID q + int (length (contents q))"
    and n: "1 \<le> n" "n < MaxInt64"
  show "ring_inv (Append q n sh t)"
    using q n by (intro ring_inv_Append) auto
  show "contents (Append q n sh t) = contents q @ [\<lparr>sourceShard = sh, sourceTask = t\<rparr>]"
    using q by (intro contents_Append) auto
  show "startProxyID (Append q n sh t) = (if contents q = [] then n else startProxyID q)"
    using q by (subst startProxyID_Append) auto
next
  fix q and w :: int and sh assume "ring_inv q" "w \<le> MaxInt64"
  then show "snd (AggregateUpTo q w) = min (nat (w - startProxyID q + 1)) (length (contents q))"
    and "gget (fst (AggregateUpTo q w)) sh = max_task (take (snd (AggregateUpTo q w)) (contents q)) sh"
    and "gmap_ok (fst (AggregateUpTo q w))"
    by (simp_all add: AggregateUpTo_contents Let_def gget_fold_agg_step gmap_ok_fold_agg_step)
qed (simp_all add: ring_inv_Discard contents_Discard startProxyID_Discard)


text \<open>Clients see the buffer through its contents.\<close>

declare length_contents [simp del] contents_Nil_iff [simp del]


section \<open>Properties\<close>

text \<open>
  C3: The ring buffer implements a list of mappings for consecutive IDs. On a well-formed buffer,
  appending the next ID adds the mapping at the end and keeps the buffer well formed, also when
  the buffer is full and has to grow; discarding drops that many mappings from the front and
  moves the first ID accordingly.
\<close>

theorem ring_refines_list:
  assumes "ring_inv b" "rsize b = 0 \<or> proxyID = startProxyID b + int (rsize b)"
    "1 \<le> proxyID" "proxyID < MaxInt64"
  shows "ring_inv (Append b proxyID sh t) \<and>
    contents (Append b proxyID sh t) = contents b @ [\<lparr>sourceShard = sh, sourceTask = t\<rparr>] \<and>
    startProxyID (Append b proxyID sh t) = (if rsize b = 0 then proxyID else startProxyID b) \<and>
    ring_inv (Discard b n) \<and> contents (Discard b n) = drop (nat n) (contents b) \<and>
    startProxyID (Discard b n) = startProxyID b + int (min (nat n) (length (contents b)))"
  using assms ring_inv_Append[OF assms] contents_Append[OF assms(1,2)] startProxyID_Append[OF assms(1,2)]
  by (simp add: ring_inv_Discard contents_Discard startProxyID_Discard length_contents)

definition exA :: ClusterShardID where "exA = \<lparr>ClusterID = 1, ShardID = 4\<rparr>"
definition exB :: ClusterShardID where "exB = \<lparr>ClusterID = 1, ShardID = 7\<rparr>"

text \<open>A full buffer of capacity two whose head has moved.\<close>

definition exRing :: proxyIDRingBuffer where
  "exRing = Append (Discard (Append (Append (newProxyIDRingBuffer 2) 1 exA 10) 2 exB 20) 1) 3 exA 30"

lemma exRing_eval:
  "exRing = \<lparr>entries = [\<lparr>sourceShard = exA, sourceTask = 30\<rparr>, \<lparr>sourceShard = exB, sourceTask = 20\<rparr>],
     head = 1, rsize = 2, maxSize = 2, startProxyID = 2\<rparr>"
  by code_simp

lemma exRing_inv: "ring_inv exRing"
  by (simp add: exRing_eval ring_inv_def)

theorem ring_refines_list_witness:
  "contents (Append exRing 4 exB 40) = contents exRing @ [\<lparr>sourceShard = exB, sourceTask = 40\<rparr>] \<and>
   contents (Discard exRing 1) = drop 1 (contents exRing)"
  using ring_refines_list[of exRing 4 exB 40 1] exRing_inv by (simp add: exRing_eval)

text \<open>
  C8: Aggregation up to a watermark covers exactly the entries whose ID is at most the watermark
  and reports for each source shard the largest source task among them, and nothing for other
  shards; holes are never reported.
\<close>

theorem aggregate_is_max_per_shard:
  assumes "ring_inv b" "w \<le> MaxInt64"
  shows "snd (AggregateUpTo b w) = min (nat (w - startProxyID b + 1)) (length (contents b)) \<and>
    (\<forall>sh. gget (fst (AggregateUpTo b w)) sh =
       max_task (take (snd (AggregateUpTo b w)) (contents b)) sh)"
  using ring.agg_count[OF assms] ring.agg_lookup[OF assms] by blast

theorem aggregate_is_max_per_shard_witness:
  "gget (fst (AggregateUpTo exRing 2)) exB = max_task (take (snd (AggregateUpTo exRing 2)) (contents exRing)) exB \<and>
   AggregateUpTo exRing 2 = ([(exB, 20)], 1)"
proof
  show "gget (fst (AggregateUpTo exRing 2)) exB =
      max_task (take (snd (AggregateUpTo exRing 2)) (contents exRing)) exB"
    using aggregate_is_max_per_shard[of exRing 2] exRing_inv by simp
qed code_simp

text \<open>
  When an ID is appended that leaves a gap, the holes may fill the buffer, and the mapping
  is then written without growing it: the head entry is lost and the buffer claims more entries
  than it has room for. Here the buffer of capacity two holds the mapping of ID 1, and ID 3 is
  appended.
\<close>

lemma append_gap_overwrites_head:
  "(let b = Append (newProxyIDRingBuffer 2) 1 exA 10; b' = Append b 3 exB 30
    in ring_inv b \<and> rsize b' = 3 \<and> length (entries b') = 2 \<and> \<not> ring_inv b' \<and>
       ring_at b' 0 = \<lparr>sourceShard = exB, sourceTask = 30\<rparr>)"
  by code_simp

end
