(* ===== verification/Messages.thy ===== *)
theory Messages
  imports Prelude
begin

text \<open>
  The replication stream messages the proxy reads and rewrites, and the retry loop that the
  stream handlers of \<^verbatim>\<open>proxy/proxy_streams.go\<close> use to deliver a set of messages to shard owners.
\<close>

section \<open>Replication stream messages\<close>

record RawTaskInfo =
  NamespaceId :: string
  WorkflowId :: string
  TaskId :: int

record ReplicationTask =
  SourceTaskId :: int
  RawTask :: "RawTaskInfo option"

record WorkflowReplicationMessages =
  ReplicationTasks :: "ReplicationTask list"
  ExclusiveHighWatermark :: int
  Priority :: int

record SyncReplicationState =
  InclusiveLowWatermark :: int
  InclusiveLowWatermarkTime :: "int option"

text \<open>
  The oneof attributes of a response and of a request. The argument of the alternative the
  proxy handles is a pointer that may be nil; \<open>RespOther\<close> and \<open>ReqOther\<close> stand for every other
  value of the attributes.
\<close>

datatype StreamResp = RespMessages "WorkflowReplicationMessages option" | RespOther
datatype StreamReq = ReqSync "SyncReplicationState option" | ReqOther

record RoutedAck =
  TargetShard :: ClusterShardID
  Req :: StreamReq

record RoutedMessage =
  SourceShard :: ClusterShardID
  Resp :: StreamResp

definition watermarkMessage :: "int \<Rightarrow> int \<Rightarrow> StreamResp" where
  "watermarkMessage high prio =
     RespMessages (Some \<lparr>ReplicationTasks = [], ExclusiveHighWatermark = high, Priority = prio\<rparr>)"

definition syncRequest :: "int \<Rightarrow> int option \<Rightarrow> StreamReq" where
  "syncRequest low time =
     ReqSync (Some \<lparr>InclusiveLowWatermark = low, InclusiveLowWatermarkTime = time\<rparr>)"

text \<open>How one turn of a stream loop ends.\<close>

datatype turn =
    Continue
  | Return "string option"  \<comment> \<open>the handler returns, with an error or nil\<close>
  | OutOfFuel               \<comment> \<open>the retry loop was still running when the fuel ran out\<close>

section \<open>The delivery retry loop\<close>

text \<open>
  \<open>recvAck\<close> and \<open>recvReplicationMessages\<close> share one loop: go over the items that are not sent
  yet, deliver each, and repeat until all are sent or the stream shuts down. After a round
  without progress the loop sleeps, doubling the pause while it is below a second.

  The environment is given by rounds: \<open>shut r\<close> tells whether the shutdown channel is closed
  when round \<open>r\<close> starts, and \<open>deliver r k v\<close> whether the delivery of item \<open>k\<close> succeeds in
  round \<open>r\<close>. The number of rounds is not bounded by the code, hence the fuel.
\<close>

record ('k, 'v) retry_state =
  sent :: "'k list"
  numRemaining :: nat
  progress :: bool
  backoff :: int  \<comment> \<open>milliseconds\<close>
  delivered :: "('k \<times> 'v) list"

definition retry_init :: "('k, 'v) gomap \<Rightarrow> ('k, 'v) retry_state" where
  "retry_init items =
     \<lparr>sent = [], numRemaining = length items, progress = False, backoff = 10, delivered = []\<rparr>"

definition retry_item ::
  "('k \<Rightarrow> 'v \<Rightarrow> bool) \<Rightarrow> 'k \<times> 'v \<Rightarrow> ('k, 'v) retry_state \<Rightarrow> ('k, 'v) retry_state" where
  "retry_item deliver item st =
     (if fst item \<in> set (sent st) then st
      else if deliver (fst item) (snd item)
      then st\<lparr>sent := fst item # sent st, numRemaining := numRemaining st - 1, progress := True,
              delivered := delivered st @ [item]\<rparr>
      else st)"

definition retry_round ::
  "('k \<Rightarrow> 'v \<Rightarrow> bool) \<Rightarrow> ('k, 'v) gomap \<Rightarrow> ('k, 'v) retry_state \<Rightarrow> ('k, 'v) retry_state" where
  "retry_round deliver items st =
     (let st = fold (retry_item deliver) items (st\<lparr>progress := False\<rparr>)
      in if \<not> progress st
         then (if backoff st < 1000 then st\<lparr>backoff := backoff st * 2\<rparr> else st)
         else if backoff st > 10 then st\<lparr>backoff := 10\<rparr> else st)"

datatype retry_outcome = RetryDone | RetryShutdown | RetryFuel

fun retry_loop ::
  "nat \<Rightarrow> (nat \<Rightarrow> bool) \<Rightarrow> (nat \<Rightarrow> 'k \<Rightarrow> 'v \<Rightarrow> bool) \<Rightarrow> ('k, 'v) gomap \<Rightarrow> nat \<Rightarrow>
   ('k, 'v) retry_state \<Rightarrow> retry_outcome \<times> ('k, 'v) retry_state" where
  "retry_loop fuel shut deliver items r st =
     (if numRemaining st = 0 then (RetryDone, st)
      else case fuel of
          0 \<Rightarrow> (RetryFuel, st)
        | Suc fuel' \<Rightarrow>
            if shut r then (RetryShutdown, st)
            else retry_loop fuel' shut deliver items (Suc r) (retry_round (deliver r) items st))"

declare retry_loop.simps [simp del]

definition deliver_all ::
  "nat \<Rightarrow> (nat \<Rightarrow> bool) \<Rightarrow> (nat \<Rightarrow> 'k \<Rightarrow> 'v \<Rightarrow> bool) \<Rightarrow> ('k, 'v) gomap \<Rightarrow>
   retry_outcome \<times> ('k \<times> 'v) list" where
  "deliver_all fuel shut deliver items =
     map_prod id delivered (retry_loop fuel shut deliver items 0 (retry_init items))"

section \<open>What the loop delivers\<close>

text \<open>
  The state of the loop after some rounds: what is sent is what was delivered, once each, and
  the counter is the number of items that are left. The pause stays on the doubling sequence
  that starts at ten milliseconds.
\<close>

definition backoff_values :: "int list" where
  "backoff_values = [10, 20, 40, 80, 160, 320, 640, 1280]"

definition retry_inv :: "('k, 'v) gomap \<Rightarrow> ('k, 'v) retry_state \<Rightarrow> bool" where
  "retry_inv items st \<longleftrightarrow>
     set (sent st) = fst ` set (delivered st) \<and> distinct (map fst (delivered st)) \<and>
     set (delivered st) \<subseteq> set items \<and>
     numRemaining st + length (delivered st) = length items \<and>
     backoff st \<in> set backoff_values"

lemma retry_inv_init: "retry_inv items (retry_init items)"
  by (simp add: retry_inv_def retry_init_def backoff_values_def)

lemma delivered_lt:
  assumes "gmap_ok items" "distinct (map fst ds)" "set ds \<subseteq> set items" "(k, v) \<in> set items" "k \<notin> fst ` set ds"
  shows "length ds < length items"
proof -
  have "distinct ds" "distinct items" using assms(1,2) by (auto simp: distinct_map)
  moreover have "set ds \<subset> set items" using assms(3-5) by force
  ultimately show ?thesis by (metis distinct_card finite_set psubset_card_mono)
qed

lemma retry_inv_item:
  assumes "retry_inv items st" "gmap_ok items" "item \<in> set items"
  shows "retry_inv items (retry_item deliver item st)"
proof (cases "fst item \<notin> set (sent st) \<and> deliver (fst item) (snd item)")
  case True
  then have "length (delivered st) < length items"
    using assms delivered_lt[of items "delivered st" "fst item" "snd item"]
    by (auto simp: retry_inv_def)
  with True assms show ?thesis
    by (auto simp: retry_inv_def retry_item_def)
qed (use assms in \<open>auto simp: retry_item_def\<close>)

lemma retry_inv_fold:
  assumes "retry_inv items st" "gmap_ok items" "set xs \<subseteq> set items"
  shows "retry_inv items (fold (retry_item deliver) xs st)"
  using assms
  by (induction xs arbitrary: st) (simp_all add: retry_inv_item)

lemma backoff_cases:
  "backoff (fold (retry_item deliver) xs st) = backoff st"
  by (induction xs arbitrary: st) (simp_all add: retry_item_def)

lemma retry_inv_round:
  assumes "retry_inv items st" "gmap_ok items"
  shows "retry_inv items (retry_round deliver items st)"
proof -
  let ?st = "fold (retry_item deliver) items (st\<lparr>progress := False\<rparr>)"
  have inv: "retry_inv items ?st"
    using assms by (intro retry_inv_fold) (auto simp: retry_inv_def)
  then have "backoff ?st < 1000 \<longrightarrow> backoff ?st * 2 \<in> set backoff_values"
    "(10::int) \<in> set backoff_values"
    by (auto simp: retry_inv_def backoff_values_def)
  with inv show ?thesis by (auto simp: retry_round_def Let_def retry_inv_def)
qed

lemma retry_inv_loop:
  assumes "retry_inv items st" "gmap_ok items"
  shows "retry_inv items (snd (retry_loop fuel shut deliver items r st))"
  using assms
  by (induction fuel shut deliver items r st rule: retry_loop.induct)
     (subst retry_loop.simps, auto simp: retry_inv_round split: nat.split)

lemma retry_loop_zero: "fst (retry_loop fuel shut deliver items r st) = RetryDone \<Longrightarrow>
    numRemaining (snd (retry_loop fuel shut deliver items r st)) = 0"
proof (induction fuel shut deliver items r st rule: retry_loop.induct)
  case (1 fuel shut deliver items r st)
  show ?case
    using 1(2) by (subst (asm) retry_loop.simps, subst retry_loop.simps)
      (auto split: nat.splits if_splits intro: 1(1))
qed

lemma sent_fold_mono: "set (sent st) \<subseteq> set (sent (fold (retry_item deliver) xs st))"
proof (induction xs arbitrary: st)
  case (Cons x xs)
  have "set (sent st) \<subseteq> set (sent (retry_item deliver x st))" by (auto simp: retry_item_def)
  with Cons[of "retry_item deliver x st"] show ?case by auto
qed simp

lemma sent_fold_deliver:
  assumes "(k, v) \<in> set xs" "deliver k v"
  shows "k \<in> set (sent (fold (retry_item deliver) xs st))"
  using assms
proof (induction xs arbitrary: st)
  case (Cons x xs)
  show ?case
  proof (cases "x = (k, v)")
    case True
    with Cons.prems have "k \<in> set (sent (retry_item deliver x st))" by (simp add: retry_item_def)
    with sent_fold_mono[of "retry_item deliver x st" deliver xs] show ?thesis by auto
  qed (use Cons in auto)
qed simp

lemma sent_retry_round [simp]:
  "sent (retry_round deliver items st) = sent (fold (retry_item deliver) items (st\<lparr>progress := False\<rparr>))"
  by (simp add: retry_round_def Let_def)

lemma all_sent:
  assumes "retry_inv items st" "gmap_ok items" "\<forall>k \<in> fst ` set items. k \<in> set (sent st)"
  shows "numRemaining st = 0"
proof -
  have "length items = card (fst ` set items)" using assms(2) by (metis distinct_card length_map set_map)
  also have "\<dots> \<le> card (fst ` set (delivered st))"
    using assms by (intro card_mono) (auto simp: retry_inv_def)
  also have "\<dots> \<le> length (delivered st)" by (metis card_length length_map set_map)
  finally show ?thesis using assms(1) by (simp add: retry_inv_def)
qed

text \<open>Every item that some round accepts is delivered: with enough rounds the loop ends.\<close>

lemma retry_loop_terminates:
  assumes "retry_inv items st" "gmap_ok items" "\<forall>i < fuel. \<not> shut (r + i)"
    "\<forall>(k, v) \<in> set items. k \<in> set (sent st) \<or> (\<exists>i < fuel. deliver (r + i) k v)"
  shows "fst (retry_loop fuel shut deliver items r st) = RetryDone"
  using assms
proof (induction fuel arbitrary: r st)
  case 0
  then have "numRemaining st = 0" by (intro all_sent[of items]) auto
  then show ?case by (subst retry_loop.simps) simp
next
  case (Suc fuel)
  let ?st = "retry_round (deliver r) items st"
  have "k \<in> set (sent ?st) \<or> (\<exists>i < fuel. deliver (Suc r + i) k v)" if kv: "(k, v) \<in> set items" for k v
  proof (cases "k \<in> set (sent st) \<or> deliver r k v")
    case True
    then show ?thesis
      using sent_fold_mono[of "st\<lparr>progress := False\<rparr>" "deliver r" items] sent_fold_deliver[OF kv]
      by auto
  next
    case False
    with Suc.prems(4) kv obtain i where "i < Suc fuel" "deliver (r + i) k v" by auto
    with False have "i \<noteq> 0" "i < Suc fuel" by (auto intro: ccontr)
    then obtain j where "i = Suc j" "j < fuel" by (cases i) auto
    with \<open>deliver (r + i) k v\<close> show ?thesis by auto
  qed
  moreover have "\<forall>i < fuel. \<not> shut (Suc r + i)"
    using Suc.prems(3) by auto
  ultimately have "fst (retry_loop fuel shut deliver items (Suc r) ?st) = RetryDone"
    using Suc by (intro Suc.IH) (auto simp: retry_inv_round)
  then show ?case using Suc.prems(3) by (subst retry_loop.simps) auto
qed

lemma deliver_all_done_iff:
  assumes "gmap_ok items" "fst (deliver_all fuel shut deliver items) = RetryDone"
  shows "set (snd (deliver_all fuel shut deliver items)) = set items \<and>
    distinct (map fst (snd (deliver_all fuel shut deliver items)))"
proof -
  let ?res = "retry_loop fuel shut deliver items 0 (retry_init items)"
  have inv: "retry_inv items (snd ?res)" by (rule retry_inv_loop[OF retry_inv_init assms(1)])
  have "numRemaining (snd ?res) = 0"
    using assms(2) by (intro retry_loop_zero) (simp add: deliver_all_def)
  then have len: "length (delivered (snd ?res)) = length items"
    using inv by (simp add: retry_inv_def)
  have "distinct (delivered (snd ?res))" "distinct items"
    using inv assms(1) by (auto simp: retry_inv_def distinct_map)
  then have "card (set (delivered (snd ?res))) = card (set items)"
    using len by (simp add: distinct_card)
  then have "set (delivered (snd ?res)) = set items"
    using inv by (intro card_subset_eq) (auto simp: retry_inv_def)
  with inv show ?thesis by (simp add: deliver_all_def retry_inv_def)
qed

lemma deliver_all_subset:
  assumes "gmap_ok items"
  shows "set (snd (deliver_all fuel shut deliver items)) \<subseteq> set items"
  using retry_inv_loop[OF retry_inv_init assms, of fuel shut deliver 0]
  by (simp add: deliver_all_def retry_inv_def)

lemma deliver_all_terminates:
  assumes "gmap_ok items" "\<forall>i < fuel. \<not> shut i" "\<forall>(k, v) \<in> set items. \<exists>i < fuel. deliver i k v"
  shows "fst (deliver_all fuel shut deliver items) = RetryDone"
proof -
  have "fst (retry_loop fuel shut deliver items 0 (retry_init items)) = RetryDone"
    by (rule retry_loop_terminates[OF retry_inv_init assms(1)]) (use assms(2,3) in auto)
  then show ?thesis by (simp add: deliver_all_def)
qed


text \<open>What was delivered was accepted in some round.\<close>

lemma delivered_fold_ok:
  "set (delivered (fold (retry_item deliver) xs st)) \<subseteq>
     set (delivered st) \<union> {(k, v). deliver k v}"
proof (induction xs arbitrary: st)
  case (Cons x xs)
  have "set (delivered (retry_item deliver x st)) \<subseteq> set (delivered st) \<union> {(k, v). deliver k v}"
    by (auto simp: retry_item_def)
  with Cons[of "retry_item deliver x st"] show ?case by auto
qed simp

lemma delivered_round_ok:
  "set (delivered (retry_round deliver items st)) \<subseteq> set (delivered st) \<union> {(k, v). deliver k v}"
  using delivered_fold_ok[of deliver items "st\<lparr>progress := False\<rparr>"]
  by (auto simp: retry_round_def Let_def)

lemma delivered_loop_ok:
  "set (delivered (snd (retry_loop fuel shut deliver items r st))) \<subseteq>
     set (delivered st) \<union> {(k, v). \<exists>i. deliver i k v}"
proof (induction fuel shut deliver items r st rule: retry_loop.induct)
  case (1 fuel shut deliver items r st)
  show ?case
  proof (cases "numRemaining st = 0 \<or> fuel = 0 \<or> shut r")
    case True
    then show ?thesis by (subst retry_loop.simps) (auto split: nat.splits)
  next
    case False
    then obtain n where n: "fuel = Suc n" by (cases fuel) auto
    show ?thesis
      using False 1[OF _ n] delivered_round_ok[of "deliver r" items st]
      by (subst retry_loop.simps) (auto simp: n)
  qed
qed

lemma deliver_all_accepted:
  "(k, v) \<in> set (snd (deliver_all fuel shut deliver items)) \<Longrightarrow> \<exists>i. deliver i k v"
  using delivered_loop_ok[of fuel shut deliver items 0 "retry_init items"]
  by (auto simp: deliver_all_def retry_init_def)

end
