(* ===== verification/StreamTracker.thy ===== *)
theory StreamTracker
  imports Prelude
begin

text \<open>
  The registry of active streams of \<^verbatim>\<open>proxy/stream_tracker.go\<close> with the debug structures of
  \<^verbatim>\<open>proxy/debug.go\<close>. Points in time are nanoseconds; the value of \<^verbatim>\<open>time.Now()\<close> is the argument
  \<open>now\<close> of each operation. The laws of a keyed registry are the locale \<open>keyed_registry\<close>,
  interpreted on the tracker.
\<close>

record ProxyIDEntry =
  PE_ProxyID :: int
  PE_SourceShard :: string
  PE_SourceTask :: int

record SenderDebugInfo =
  RingStartProxyID :: int
  RingSize :: nat
  RingMaxSize :: nat
  RingCapacity :: nat
  RingHead :: nat
  NextProxyTaskID :: int
  PrevAckBySource :: "(string, int) gomap"
  LastHighBySource :: "(string, int) gomap"
  LastProxyHighBySource :: "(string, int) gomap"
  EntriesPreview :: "ProxyIDEntry list"

record ReceiverDebugInfo =
  AckByTarget :: "(string, int) gomap"
  LastAggregatedMin :: int
  LastExclusiveHighOriginal :: int

record StreamInfo =
  ID :: string
  Method :: string
  Direction :: string
  Role :: string
  ClientShard :: string
  ServerShard :: string
  StartTime :: int
  LastSeen :: int
  TotalDuration :: string
  IdleDuration :: string
  LastSyncWatermark :: "int option"
  LastSyncWatermarkTime :: "int option"
  LastExclusiveHighWatermark :: "int option"
  LastTaskIDs :: "int list"
  SenderDebug :: SenderDebugInfo
  ReceiverDebug :: ReceiverDebugInfo

type_synonym StreamTracker = "(string, StreamInfo) gomap"

definition StreamRoleSender :: string where "StreamRoleSender = ''Sender''"
definition StreamRoleReceiver :: string where "StreamRoleReceiver = ''Receiver''"
definition StreamRoleForwarder :: string where "StreamRoleForwarder = ''Forwarder''"

definition emptySenderDebug :: SenderDebugInfo where
  "emptySenderDebug =
     \<lparr>RingStartProxyID = 0, RingSize = 0, RingMaxSize = 0, RingCapacity = 0, RingHead = 0,
      NextProxyTaskID = 0, PrevAckBySource = [], LastHighBySource = [],
      LastProxyHighBySource = [], EntriesPreview = []\<rparr>"

definition emptyReceiverDebug :: ReceiverDebugInfo where
  "emptyReceiverDebug =
     \<lparr>AckByTarget = [], LastAggregatedMin = 0, LastExclusiveHighOriginal = 0\<rparr>"

definition NewStreamTracker :: StreamTracker where
  "NewStreamTracker = []"

definition RegisterStream ::
  "int \<Rightarrow> string \<Rightarrow> string \<Rightarrow> string \<Rightarrow> string \<Rightarrow> string \<Rightarrow> string \<Rightarrow> StreamTracker \<Rightarrow> StreamTracker" where
  "RegisterStream now sid method direction srcShard tgtShard role st =
     gput sid
       \<lparr>ID = sid, Method = method, Direction = direction, Role = role, ClientShard = tgtShard,
        ServerShard = srcShard, StartTime = now, LastSeen = now, TotalDuration = [],
        IdleDuration = [], LastSyncWatermark = None, LastSyncWatermarkTime = None,
        LastExclusiveHighWatermark = None, LastTaskIDs = [], SenderDebug = emptySenderDebug,
        ReceiverDebug = emptyReceiverDebug\<rparr> st"

text \<open>Every update method changes the entry of a registered stream and ignores an unknown ID.\<close>

definition on_stream :: "string \<Rightarrow> (StreamInfo \<Rightarrow> StreamInfo) \<Rightarrow> StreamTracker \<Rightarrow> StreamTracker" where
  "on_stream sid f st = (case gget st sid of Some s \<Rightarrow> gput sid (f s) st | None \<Rightarrow> st)"

definition UpdateStream :: "int \<Rightarrow> string \<Rightarrow> StreamTracker \<Rightarrow> StreamTracker" where
  "UpdateStream now sid = on_stream sid (\<lambda>s. s\<lparr>LastSeen := now\<rparr>)"

definition UpdateStreamSyncReplicationState ::
  "int \<Rightarrow> string \<Rightarrow> int \<Rightarrow> int option \<Rightarrow> StreamTracker \<Rightarrow> StreamTracker" where
  "UpdateStreamSyncReplicationState now sid inclusiveLowWatermark watermarkTime =
     on_stream sid (\<lambda>s. s\<lparr>LastSeen := now, LastSyncWatermark := Some inclusiveLowWatermark,
                           LastSyncWatermarkTime := watermarkTime\<rparr>)"

definition UpdateStreamReplicationMessages ::
  "int \<Rightarrow> string \<Rightarrow> int \<Rightarrow> StreamTracker \<Rightarrow> StreamTracker" where
  "UpdateStreamReplicationMessages now sid exclusiveHighWatermark =
     on_stream sid (\<lambda>s. s\<lparr>LastSeen := now,
                           LastExclusiveHighWatermark := Some exclusiveHighWatermark\<rparr>)"

definition UpdateStreamLastTaskIDs ::
  "int \<Rightarrow> string \<Rightarrow> int list \<Rightarrow> StreamTracker \<Rightarrow> StreamTracker" where
  "UpdateStreamLastTaskIDs now sid taskIDs =
     on_stream sid (\<lambda>s. s\<lparr>LastSeen := now, LastTaskIDs := taskIDs\<rparr>)"

definition UnregisterStream :: "string \<Rightarrow> StreamTracker \<Rightarrow> StreamTracker" where
  "UnregisterStream sid st = gdel sid st"

definition UpdateStreamSenderDebug ::
  "int \<Rightarrow> string \<Rightarrow> SenderDebugInfo \<Rightarrow> StreamTracker \<Rightarrow> StreamTracker" where
  "UpdateStreamSenderDebug now sid info =
     on_stream sid (\<lambda>s. s\<lparr>SenderDebug := info, LastSeen := now\<rparr>)"

definition UpdateStreamReceiverDebug ::
  "int \<Rightarrow> string \<Rightarrow> ReceiverDebugInfo \<Rightarrow> StreamTracker \<Rightarrow> StreamTracker" where
  "UpdateStreamReceiverDebug now sid info =
     on_stream sid (\<lambda>s. s\<lparr>ReceiverDebug := info, LastSeen := now\<rparr>)"

definition formatDurationSeconds :: "int \<Rightarrow> string" where
  "formatDurationSeconds totalSeconds =
     (if totalSeconds < 60 then show_int totalSeconds @ ''s''
      else
        let minutes = totalSeconds div 60; seconds = totalSeconds mod 60
        in if minutes < 60 then
             if seconds = 0 then show_int minutes @ ''m''
             else show_int minutes @ ''m'' @ show_int seconds @ ''s''
           else
             let hours = minutes div 60; minutes = minutes mod 60
             in if minutes = 0 \<and> seconds = 0 then show_int hours @ ''h''
                else if seconds = 0 then show_int hours @ ''h'' @ show_int minutes @ ''m''
                else if minutes = 0 then show_int hours @ ''h'' @ show_int seconds @ ''s''
                else show_int hours @ ''h'' @ show_int minutes @ ''m'' @ show_int seconds @ ''s'')"

text \<open>The whole seconds of a duration in nanoseconds, truncated toward zero.\<close>

definition whole_seconds :: "int \<Rightarrow> int" where
  "whole_seconds d = (if d < 0 then - ((- d) div 1000000000) else d div 1000000000)"

definition GetActiveStreams :: "int \<Rightarrow> StreamTracker \<Rightarrow> StreamInfo list" where
  "GetActiveStreams now st =
     map (\<lambda>(sid, s).
            s\<lparr>TotalDuration := formatDurationSeconds (whole_seconds (now - StartTime s)),
              IdleDuration := formatDurationSeconds (whole_seconds (now - LastSeen s))\<rparr>) st"

definition GetStreamCount :: "StreamTracker \<Rightarrow> nat" where
  "GetStreamCount st = length st"

definition BuildSenderStreamID :: "ClusterShardID \<Rightarrow> ClusterShardID \<Rightarrow> string" where
  "BuildSenderStreamID src tgt = ''snd-'' @ ClusterShardIDtoShortString src"

definition BuildReceiverStreamID :: "ClusterShardID \<Rightarrow> ClusterShardID \<Rightarrow> string" where
  "BuildReceiverStreamID src tgt = ''rcv-'' @ ClusterShardIDtoShortString src"

definition BuildForwarderStreamID :: "ClusterShardID \<Rightarrow> ClusterShardID \<Rightarrow> string" where
  "BuildForwarderStreamID src tgt = ''fwd-snd-'' @ ClusterShardIDtoShortString src"

definition BuildIntraProxySenderStreamID ::
  "string \<Rightarrow> ClusterShardID \<Rightarrow> ClusterShardID \<Rightarrow> string" where
  "BuildIntraProxySenderStreamID peer src tgt =
     ''ip-snd-'' @ ClusterShardIDtoShortString src @ ''-'' @ ClusterShardIDtoShortString tgt @ ''|'' @ peer"

definition BuildIntraProxyReceiverStreamID ::
  "string \<Rightarrow> ClusterShardID \<Rightarrow> ClusterShardID \<Rightarrow> string" where
  "BuildIntraProxyReceiverStreamID peer src tgt =
     ''ip-rcv-'' @ ClusterShardIDtoShortString src @ ''-'' @ ClusterShardIDtoShortString tgt @ ''|'' @ peer"


section \<open>The registry\<close>

lemmas tracker_updates =
  UpdateStream_def UpdateStreamSyncReplicationState_def UpdateStreamReplicationMessages_def
  UpdateStreamLastTaskIDs_def UpdateStreamSenderDebug_def UpdateStreamReceiverDebug_def

lemma keys_on_stream [simp]: "gkeys (on_stream sid f st) = gkeys st"
proof (cases "gget st sid")
  case (Some s)
  then have "sid \<in> set (gkeys st)" by (metis gget_None_iff option.distinct(1))
  with Some show ?thesis by (simp add: on_stream_def update_keys)
qed (simp add: on_stream_def)

lemma gget_on_stream:
  "gget (on_stream sid f st) x = (if x = sid then map_option f (gget st sid) else gget st x)"
  by (simp add: on_stream_def split: option.split)

text \<open>
  A registry keyed by names: registration makes a key visible, updates neither add nor remove
  a key and touch one entry only, and unregistration removes exactly its key.
\<close>

locale keyed_registry =
  fixes rget :: "'r \<Rightarrow> 'k \<Rightarrow> 'e option"
    and rput :: "'k \<Rightarrow> 'e \<Rightarrow> 'r \<Rightarrow> 'r"
    and rmod :: "'k \<Rightarrow> ('e \<Rightarrow> 'e) \<Rightarrow> 'r \<Rightarrow> 'r"
    and rdel :: "'k \<Rightarrow> 'r \<Rightarrow> 'r"
  assumes rget_rput: "rget (rput k e r) x = (if x = k then Some e else rget r x)"
    and rget_rmod: "rget (rmod k f r) x = (if x = k then map_option f (rget r k) else rget r x)"
    and rget_rdel: "rget (rdel k r) x = (if x = k then None else rget r x)"
begin

text \<open>
  The life of one entry: between its registration and its unregistration, updates of other
  entries leave it alone, and its own updates compose.
\<close>

lemma other_untouched:
  assumes "k \<notin> fst ` set upds"
  shows "rget (fold (\<lambda>(x, f). rmod x f) upds r) k = rget r k"
  using assms by (induction upds arbitrary: r) (auto simp: rget_rmod)

lemma own_updates_compose:
  "rget (fold (rmod k) fs (rput k e r)) k = Some (fold id fs e)"
proof (induction fs arbitrary: e r)
  case (Cons f fs)
  have "rget (rmod k f (rput k e r)) k = Some (f e)"
    by (simp add: rget_rmod rget_rput)
  have *: "rget (fold (rmod k) gs r1) k = rget (fold (rmod k) gs r2) k"
    if "rget r1 k = rget r2 k" for gs r1 r2
    using that by (induction gs arbitrary: r1 r2) (simp_all add: rget_rmod)
  have "rget (fold (rmod k) fs (rmod k f (rput k e r))) k = rget (fold (rmod k) fs (rput k (f e) r)) k"
    by (rule *) (simp add: rget_rmod rget_rput)
  with Cons show ?case by simp
qed (simp add: rget_rput)

lemma unregister_restores:
  assumes "rget r k = None"
  shows "rget (rdel k (fold (rmod k) fs (rput k e r))) x = rget r x"
proof -
  have "rget (fold (rmod k) fs r') x = rget r' x" if "x \<noteq> k" for r'
    using that by (induction fs arbitrary: r') (simp_all add: rget_rmod)
  with assms show ?thesis by (simp add: rget_rdel rget_rput)
qed

end

interpretation tracker: keyed_registry gget gput on_stream UnregisterStream
  by unfold_locales (simp_all add: gget_on_stream UnregisterStream_def)

section \<open>Stream IDs\<close>

lemma show_nat_hd: "hd (show_nat n) \<noteq> CHR ''-''"
  using minus_not_in_show_nat[of n] by (metis hd_in_set show_nat_nonempty)

lemma show_int_dash_inject:
  assumes "show_int a @ CHR ''-'' # x = show_int b @ CHR ''-'' # y"
  shows "a = b \<and> x = y"
proof -
  have hd: "hd (show_int i @ z) = CHR ''-'' \<longleftrightarrow> i < 0" for i z
    using show_nat_hd by (simp add: show_int_def)
  have "a < 0 \<longleftrightarrow> b < 0" using assms hd by metis
  then have "show_nat (nat \<bar>a\<bar>) @ CHR ''-'' # x = show_nat (nat \<bar>b\<bar>) @ CHR ''-'' # y"
    using assms by (auto simp: show_int_def split: if_splits)
  then have "show_nat (nat \<bar>a\<bar>) = show_nat (nat \<bar>b\<bar>) \<and> x = y"
    using minus_not_in_show_nat by (intro split_at_separator[where c = "CHR ''-''"]) auto
  with \<open>a < 0 \<longleftrightarrow> b < 0\<close> show ?thesis by (auto dest!: show_nat_inject)
qed

lemma shard_pair_inject:
  assumes "ClusterShardIDtoShortString a @ ''-'' @ ClusterShardIDtoShortString b @ ''|'' @ p =
    ClusterShardIDtoShortString a' @ ''-'' @ ClusterShardIDtoShortString b' @ ''|'' @ p'"
  shows "a = a' \<and> b = b' \<and> p = p'"
proof -
  let ?r = "\<lambda>sd z. show_int (ShardID sd) @ CHR ''-'' # ClusterShardIDtoShortString z"
  have 1: "show_int (ClusterID a) = show_int (ClusterID a') \<and>
      show_int (ShardID a) @ CHR ''-'' # (ClusterShardIDtoShortString b @ ''|'' @ p) =
      show_int (ShardID a') @ CHR ''-'' # (ClusterShardIDtoShortString b' @ ''|'' @ p')"
    by (rule split_at_separator[where c = "CHR '':''"])
       (use assms in \<open>simp_all add: ClusterShardIDtoShortString_def\<close>)
  have 2: "ShardID a = ShardID a' \<and> ClusterShardIDtoShortString b @ ''|'' @ p =
      ClusterShardIDtoShortString b' @ ''|'' @ p'"
    using 1 by (intro show_int_dash_inject) auto
  have nobar: "CHR ''|'' \<notin> set (ClusterShardIDtoShortString z)" for z
    by (simp add: ClusterShardIDtoShortString_def)
  have "ClusterShardIDtoShortString b = ClusterShardIDtoShortString b' \<and> p = p'"
    using 2 nobar by (intro split_at_separator[where c = "CHR ''|''"]) auto
  with 1 2 show ?thesis by simp
qed

section \<open>Durations\<close>

text \<open>A reader of the printed form: units after decimal numbers.\<close>

fun parse_duration :: "nat \<Rightarrow> nat \<Rightarrow> string \<Rightarrow> nat" where
  "parse_duration tot cur [] = tot"
| "parse_duration tot cur (c # cs) =
     (if c = CHR ''h'' then parse_duration (tot + cur * 3600) 0 cs
      else if c = CHR ''m'' then parse_duration (tot + cur * 60) 0 cs
      else if c = CHR ''s'' then parse_duration (tot + cur) 0 cs
      else parse_duration tot (cur * 10 + (of_char c - 48)) cs)"

lemma digit_char_not_unit:
  "d < 10 \<Longrightarrow> digit_char d \<noteq> CHR ''h'' \<and> digit_char d \<noteq> CHR ''m'' \<and> digit_char d \<noteq> CHR ''s''"
  by (auto dest!: arg_cong[where f = "of_char :: char \<Rightarrow> nat"])

lemma parse_show_nat:
  "parse_duration tot 0 (show_nat n @ rest) = parse_duration tot n rest"
proof (induction n arbitrary: rest rule: show_nat.induct)
  case (1 n)
  show ?case
  proof (cases "n < 10")
    case True
    then show ?thesis by (simp add: show_nat_small digit_char_not_unit)
  next
    case False
    with 1 show ?thesis by (simp add: show_nat_large digit_char_not_unit)
  qed
qed

lemma parse_show_int:
  "0 \<le> i \<Longrightarrow> parse_duration tot 0 (show_int i @ rest) = parse_duration tot (nat i) rest"
  by (simp add: show_int_def parse_show_nat)

lemma parse_format:
  assumes "0 \<le> t"
  shows "parse_duration 0 0 (formatDurationSeconds t) = nat t"
proof -
  define mm ss hh m2 where "mm = t div 60" and "ss = t mod 60" and "hh = mm div 60" and "m2 = mm mod 60"
  have nonneg: "0 \<le> mm" "0 \<le> ss" "0 \<le> hh" "0 \<le> m2"
    using assms by (simp_all add: mm_def ss_def hh_def m2_def pos_imp_zdiv_nonneg_iff)
  have "mm * 60 + ss = t" "hh * 60 + m2 = mm"
    by (simp_all add: mm_def ss_def hh_def m2_def)
  with nonneg have sums: "nat mm * 60 + nat ss = nat t" "nat hh * 3600 + nat m2 * 60 + nat ss = nat t"
    by linarith+
  have fmt: "formatDurationSeconds t =
     (if t < 60 then show_int t @ ''s''
      else if mm < 60 then
        if ss = 0 then show_int mm @ ''m'' else show_int mm @ ''m'' @ show_int ss @ ''s''
      else if m2 = 0 \<and> ss = 0 then show_int hh @ ''h''
      else if ss = 0 then show_int hh @ ''h'' @ show_int m2 @ ''m''
      else if m2 = 0 then show_int hh @ ''h'' @ show_int ss @ ''s''
      else show_int hh @ ''h'' @ show_int m2 @ ''m'' @ show_int ss @ ''s'')"
    unfolding formatDurationSeconds_def Let_def mm_def ss_def hh_def m2_def by (rule refl)
  have sec: "ss = 0 \<Longrightarrow> nat mm * 60 = nat t" "m2 = 0 \<Longrightarrow> nat hh * 3600 + nat ss = nat t"
    "ss = 0 \<Longrightarrow> nat hh * 3600 + nat m2 * 60 = nat t" "m2 = 0 \<Longrightarrow> ss = 0 \<Longrightarrow> nat hh * 3600 = nat t"
    using sums by simp_all
  show ?thesis
    unfolding fmt using assms nonneg sums sec by (simp add: parse_show_int)
qed


lemma intra_ids_inject [simp]:
  "BuildIntraProxySenderStreamID p s t = BuildIntraProxySenderStreamID p' s' t' \<longleftrightarrow> p = p' \<and> s = s' \<and> t = t'"
  "BuildIntraProxyReceiverStreamID p s t = BuildIntraProxyReceiverStreamID p' s' t' \<longleftrightarrow> p = p' \<and> s = s' \<and> t = t'"
  "BuildIntraProxySenderStreamID p s t \<noteq> BuildIntraProxyReceiverStreamID p' s' t'"
  "BuildIntraProxyReceiverStreamID p' s' t' \<noteq> BuildIntraProxySenderStreamID p s t"
  using shard_pair_inject[of s t p s' t' p']
  by (auto simp: BuildIntraProxySenderStreamID_def BuildIntraProxyReceiverStreamID_def)


section \<open>Properties\<close>

text \<open>
  The IDs of intra-proxy streams tell streams apart: sender and receiver IDs determine the
  peer, the source and the target, and no sender shares an ID with a receiver.
\<close>

lemma intra_proxy_ids_injective:
  "(BuildIntraProxySenderStreamID p s t = BuildIntraProxySenderStreamID p' s' t' \<longleftrightarrow> p = p' \<and> s = s' \<and> t = t') \<and>
   (BuildIntraProxyReceiverStreamID p s t = BuildIntraProxyReceiverStreamID p' s' t' \<longleftrightarrow> p = p' \<and> s = s' \<and> t = t') \<and>
   BuildIntraProxySenderStreamID p s t \<noteq> BuildIntraProxyReceiverStreamID p' s' t'"
  by simp

text \<open>
  A stream is visible exactly from its registration to its unregistration, with all its own
  updates and none of those of other streams: registering a new ID, applying any updates to it
  and unregistering it restores the tracker, and an update of an unknown stream does nothing.
\<close>

lemma tracker_lifecycle:
  assumes "gget st sid = None"
  shows "gget (UnregisterStream sid (fold (on_stream sid) fs
        (RegisterStream now sid method dir src tgt role st))) x = gget st x \<and>
    gget (fold (on_stream sid) fs (RegisterStream now sid method dir src tgt role st)) sid =
      map_option (\<lambda>e. fold id fs e) (gget (RegisterStream now sid method dir src tgt role st) sid) \<and>
    UpdateStream now sid st = st"
  using tracker.unregister_restores[OF assms] tracker.own_updates_compose assms
  by (simp add: RegisterStream_def UpdateStream_def on_stream_def)

lemma tracker_lifecycle_witness:
  "gget (UnregisterStream ''a'' (fold (on_stream ''a'') [\<lambda>s. s\<lparr>LastSeen := 9\<rparr>]
     (RegisterStream 5 ''a'' ''m'' ''in'' ''s'' ''t'' StreamRoleSender []))) ''a'' = None"
  using tracker_lifecycle[of "[]" "''a''" "[\<lambda>s. s\<lparr>LastSeen := 9\<rparr>]" 5 "''m''" "''in''" "''s''" "''t''"
      StreamRoleSender "''a''"] by simp

text \<open>
  The printed form of a stream's age loses nothing: reading the units back gives the number
  of seconds that was formatted.
\<close>

lemma duration_roundtrip:
  assumes "0 \<le> t"
  shows "parse_duration 0 0 (formatDurationSeconds t) = nat t"
  by (rule parse_format[OF assms])

lemma duration_roundtrip_witness:
  "parse_duration 0 0 (formatDurationSeconds 3725) = 3725"
  using duration_roundtrip[of 3725] by simp

end
