(* ===== verification/StreamSender.thy ===== *)
theory StreamSender
  imports RingBuffer Messages StreamTracker
begin

text \<open>
  \<^verbatim>\<open>proxyStreamSender\<close> of \<^verbatim>\<open>proxy/proxy_streams.go\<close>: it rewrites the task IDs of the batches it
  sends into proxy task IDs and turns the acknowledgements of proxy IDs it receives back into
  acknowledgements of the source shards. The stream loops are modelled turn by turn:
  \<open>sendReplicationMessages\<close> is one turn of the send loop and \<open>recvAck\<close> one turn of the
  acknowledgement loop. The two loops run concurrently; \<open>sender_step\<close> interleaves their
  critical sections. Log output is left out.

  The state is the one \<^verbatim>\<open>Run\<close> establishes: the ring and the acknowledgement map exist.
\<close>

record proxyStreamSender =
  ss_targetShardID :: ClusterShardID
  ss_sourceShardID :: ClusterShardID
  ss_directionLabel :: string
  ss_streamID :: string
  nextProxyTaskID :: int
  idRing :: proxyIDRingBuffer
  prevAckBySource :: "(ClusterShardID, int) gomap"
  lastMsgSendTime :: int
  lastSentWatermark :: int

definition buildSenderDebugSnapshot :: "int \<Rightarrow> proxyStreamSender \<Rightarrow> SenderDebugInfo" where
  "buildSenderDebugSnapshot maxEntries s =
     (let ring = idRing s;
          maxEntries = (if maxEntries \<le> 0 then 20 else maxEntries);
          limit = (if int (rsize ring) > maxEntries then nat maxEntries else rsize ring)
      in emptySenderDebug
           \<lparr>NextProxyTaskID := nextProxyTaskID s,
            PrevAckBySource :=
              fold (\<lambda>(k, v). gput (ClusterShardIDtoString k) v) (prevAckBySource s) [],
            RingStartProxyID := startProxyID ring,
            RingSize := rsize ring,
            RingMaxSize := maxSize ring,
            RingCapacity := length (entries ring),
            RingHead := head ring,
            EntriesPreview :=
              map (\<lambda>i. \<lparr>PE_ProxyID = i64 (startProxyID ring + int i),
                         PE_SourceShard = ClusterShardIDtoString (sourceShard (ring_at ring i)),
                         PE_SourceTask = sourceTask (ring_at ring i)\<rparr>) [0..<limit]\<rparr>)"

section \<open>The send loop\<close>

text \<open>The rewriting of the IDs of one batch.\<close>

definition allocProxyID ::
  "ClusterShardID \<Rightarrow> int \<Rightarrow> proxyStreamSender \<Rightarrow> int \<times> proxyStreamSender" where
  "allocProxyID src original s =
     (let proxyID = i64 (nextProxyTaskID s + 1)
      in (proxyID,
          s\<lparr>nextProxyTaskID := proxyID, idRing := Append (idRing s) proxyID src original\<rparr>))"

definition rewriteTask :: "int \<Rightarrow> ReplicationTask \<Rightarrow> ReplicationTask" where
  "rewriteTask proxyID t =
     t\<lparr>SourceTaskId := proxyID, RawTask := map_option (\<lambda>i. i\<lparr>TaskId := proxyID\<rparr>) (RawTask t)\<rparr>"

fun rewriteTasks ::
  "ClusterShardID \<Rightarrow> ReplicationTask list \<Rightarrow> proxyStreamSender \<Rightarrow>
   ReplicationTask list \<times> proxyStreamSender" where
  "rewriteTasks src [] s = ([], s)"
| "rewriteTasks src (t # ts) s =
     (let (proxyID, s) = allocProxyID src (SourceTaskId t) s;
          (ts, s) = rewriteTasks src ts s
      in (rewriteTask proxyID t # ts, s))"

definition rewriteMessages ::
  "ClusterShardID \<Rightarrow> WorkflowReplicationMessages \<Rightarrow> proxyStreamSender \<Rightarrow>
   WorkflowReplicationMessages \<times> proxyStreamSender" where
  "rewriteMessages src m s =
     (if ReplicationTasks m \<noteq> [] then
        let (ts, s) = rewriteTasks src (ReplicationTasks m) s
        in (m\<lparr>ReplicationTasks := ts, ExclusiveHighWatermark := i64 (SourceTaskId (last ts) + 1)\<rparr>, s)
      else
        let (proxyHigh, s) = allocProxyID src (ExclusiveHighWatermark m) s
        in (m\<lparr>ExclusiveHighWatermark := proxyHigh\<rparr>, s))"

text \<open>
  What the select of the loop picks: a routed message or the closed channel, the ticker, or
  the shutdown signal. \<open>send\<close> is the result of \<^verbatim>\<open>sourceStreamServer.Send\<close>, \<open>None\<close> for success.
  The result is how the turn ends, the new state and the response passed to \<^verbatim>\<open>Send\<close>, if any.
\<close>

datatype send_event = SendChan "RoutedMessage option" | SendTick | SendShutdown

definition sendReplicationMessages ::
  "int \<Rightarrow> (StreamResp \<Rightarrow> string option) \<Rightarrow> send_event \<Rightarrow> proxyStreamSender \<Rightarrow> StreamTracker \<Rightarrow>
   turn \<times> proxyStreamSender \<times> StreamTracker \<times> StreamResp option" where
  "sendReplicationMessages now send ev s tr =
     (case ev of
        SendChan None \<Rightarrow> (Return None, s, tr, None)
      | SendChan (Some routed) \<Rightarrow>
          (case Resp routed of
             RespMessages (Some m) \<Rightarrow>
               let sourceTaskIds = map SourceTaskId (ReplicationTasks m);
                   (m, s) = rewriteMessages (SourceShard routed) m s;
                   resp = RespMessages (Some m)
               in (case send resp of
                     Some err \<Rightarrow> (Return (Some err), s, tr, Some resp)
                   | None \<Rightarrow>
                       let s = s\<lparr>lastMsgSendTime := now,
                                 lastSentWatermark := ExclusiveHighWatermark m\<rparr>;
                           sid = ss_streamID s;
                           tr = UpdateStreamLastTaskIDs now sid sourceTaskIds tr;
                           tr = UpdateStreamReplicationMessages now sid (ExclusiveHighWatermark m) tr;
                           tr = UpdateStreamSenderDebug now sid (buildSenderDebugSnapshot 20 s) tr;
                           tr = UpdateStream now sid tr
                       in (Continue, s, tr, Some resp))
           | _ \<Rightarrow> (Return None, s, tr, None))
      | SendTick \<Rightarrow>
          if lastSentWatermark s > 0 \<and> now - lastMsgSendTime s \<ge> 1000000000 then
            let keepaliveResp = watermarkMessage (lastSentWatermark s) 0
            in (case send keepaliveResp of
                  Some err \<Rightarrow> (Return (Some err), s, tr, Some keepaliveResp)
                | None \<Rightarrow> (Continue, s\<lparr>lastMsgSendTime := now\<rparr>, tr, Some keepaliveResp))
          else (Continue, s, tr, None)
      | SendShutdown \<Rightarrow> (Return None, s, tr, None))"

section \<open>The acknowledgement loop\<close>

text \<open>
  What \<^verbatim>\<open>sourceStreamServer.Recv\<close> returns. \<open>deliver r shard ack\<close> is the result of
  \<^verbatim>\<open>shardManager.DeliverAckToShardOwner\<close> in round \<open>r\<close> of the retry loop and \<open>shut\<close> the state of the
  shutdown channel. Besides the turn and the state, the result holds the acknowledgements that
  were delivered, in order.
\<close>

datatype 'a recv = RecvEOF | RecvErr string | RecvMsg 'a

definition routedAckFor :: "proxyStreamSender \<Rightarrow> SyncReplicationState \<Rightarrow> int \<Rightarrow> RoutedAck" where
  "routedAckFor s st ack =
     \<lparr>TargetShard = ss_targetShardID s, Req = syncRequest ack (InclusiveLowWatermarkTime st)\<rparr>"

definition recordAcks ::
  "(ClusterShardID \<times> int) list \<Rightarrow> proxyStreamSender \<Rightarrow> proxyStreamSender" where
  "recordAcks acks s = s\<lparr>prevAckBySource := fold (\<lambda>(sh, a). gput sh a) acks (prevAckBySource s)\<rparr>"

definition discardAcked :: "nat \<Rightarrow> proxyStreamSender \<Rightarrow> proxyStreamSender" where
  "discardAcked pendingDiscard s =
     (if pendingDiscard > 0 then s\<lparr>idRing := Discard (idRing s) (int pendingDiscard)\<rparr> else s)"

definition recvAck ::
  "int \<Rightarrow> nat \<Rightarrow> (nat \<Rightarrow> bool) \<Rightarrow> (nat \<Rightarrow> ClusterShardID \<Rightarrow> RoutedAck \<Rightarrow> bool) \<Rightarrow> StreamReq recv \<Rightarrow>
   proxyStreamSender \<Rightarrow> StreamTracker \<Rightarrow>
   turn \<times> proxyStreamSender \<times> StreamTracker \<times> (ClusterShardID \<times> RoutedAck) list" where
  "recvAck now fuel shut deliver rcv s tr =
     (case rcv of
        RecvEOF \<Rightarrow> (Return None, s, tr, [])
      | RecvErr err \<Rightarrow> (Return (Some err), s, tr, [])
      | RecvMsg (ReqSync (Some st)) \<Rightarrow>
          let proxyAckWatermark = InclusiveLowWatermark st;
              sid = ss_streamID s;
              tr = UpdateStreamSyncReplicationState now sid proxyAckWatermark None tr;
              tr = UpdateStream now sid tr;
              (shardToAck, pendingDiscard) = AggregateUpTo (idRing s) proxyAckWatermark;
              fresh = (length shardToAck > 0);
              pending = (if fresh then shardToAck else prevAckBySource s);
              (outcome, acks) =
                deliver_all fuel shut (\<lambda>r sh a. deliver r sh (routedAckFor s st a)) pending;
              out = map (\<lambda>(sh, a). (sh, routedAckFor s st a)) acks;
              s = (if fresh then recordAcks acks s else s)
          in (case outcome of
                RetryShutdown \<Rightarrow> (Return None, s, tr, out)
              | RetryFuel \<Rightarrow> (OutOfFuel, s, tr, out)
              | RetryDone \<Rightarrow>
                  let s = discardAcked pendingDiscard s;
                      tr = UpdateStreamSenderDebug now sid (buildSenderDebugSnapshot 20 s) tr
                  in (Continue, s, tr, out))
      | RecvMsg _ \<Rightarrow> (Continue, s, tr, []))"

section \<open>Invariant\<close>

text \<open>
  The ring holds the mappings of the IDs up to \<open>nextProxyTaskID\<close>, without gaps. \<open>room\<close> is
  the number of further IDs that still fit into an \<^verbatim>\<open>int64\<close>.
\<close>

definition sender_inv :: "proxyStreamSender \<Rightarrow> bool" where
  "sender_inv s \<longleftrightarrow>
     ring_inv (idRing s) \<and> 0 \<le> nextProxyTaskID s \<and> nextProxyTaskID s < MaxInt64 \<and>
     (contents (idRing s) = [] \<or>
      nextProxyTaskID s + 1 = startProxyID (idRing s) + int (length (contents (idRing s)))) \<and>
     gmap_ok (prevAckBySource s)"

definition room :: "proxyStreamSender \<Rightarrow> nat \<Rightarrow> bool" where
  "room s n \<longleftrightarrow> nextProxyTaskID s + int n < MaxInt64"

abbreviation ring_list :: "proxyStreamSender \<Rightarrow> proxyIDMapping list" where
  "ring_list s \<equiv> contents (idRing s)"

lemma allocProxyID_spec:
  assumes "sender_inv s" "room s 1" "allocProxyID src original s = (p, s')"
  shows "p = nextProxyTaskID s + 1" "nextProxyTaskID s' = p" "sender_inv s'"
    "ring_list s' = ring_list s @ [\<lparr>sourceShard = src, sourceTask = original\<rparr>]"
    "prevAckBySource s' = prevAckBySource s" "ss_streamID s' = ss_streamID s"
proof -
  have nx: "0 \<le> nextProxyTaskID s" "nextProxyTaskID s + 1 < MaxInt64"
    using assms(1,2) by (simp_all add: sender_inv_def room_def)
  then have id: "i64 (nextProxyTaskID s + 1) = nextProxyTaskID s + 1"
    by (simp add: i64_id is_i64_def)
  have pre: "ring_inv (idRing s)" "ring_list s = [] \<or>
      nextProxyTaskID s + 1 = startProxyID (idRing s) + int (length (ring_list s))"
    using assms(1) by (auto simp: sender_inv_def)
  note eqs = assms(3)[symmetric] id
  show "p = nextProxyTaskID s + 1" "nextProxyTaskID s' = p"
    "prevAckBySource s' = prevAckBySource s" "ss_streamID s' = ss_streamID s"
    using eqs by (simp_all add: allocProxyID_def Let_def)
  show "ring_list s' = ring_list s @ [\<lparr>sourceShard = src, sourceTask = original\<rparr>]"
    using eqs ring.append_list[OF pre] nx by (simp add: allocProxyID_def Let_def)
  show "sender_inv s'"
    using eqs ring.append_inv[OF pre] ring.append_next[OF pre] nx assms(1)
    by (simp add: allocProxyID_def Let_def sender_inv_def)
qed


section \<open>What a batch adds\<close>

definition batch_mappings ::
  "ClusterShardID \<Rightarrow> WorkflowReplicationMessages \<Rightarrow> proxyIDMapping list" where
  "batch_mappings src m =
     (if ReplicationTasks m = [] then [\<lparr>sourceShard = src, sourceTask = ExclusiveHighWatermark m\<rparr>]
      else map (\<lambda>t. \<lparr>sourceShard = src, sourceTask = SourceTaskId t\<rparr>) (ReplicationTasks m))"

lemma room_mono: "room s n \<Longrightarrow> m \<le> n \<Longrightarrow> room s m"
  by (simp add: room_def)

lemma rewriteTasks_spec:
  assumes "sender_inv s" "room s (length ts)" "rewriteTasks src ts s = (ts', s')"
  shows "sender_inv s' \<and> nextProxyTaskID s' = nextProxyTaskID s + int (length ts) \<and>
    ring_list s' = ring_list s @ map (\<lambda>t. \<lparr>sourceShard = src, sourceTask = SourceTaskId t\<rparr>) ts \<and>
    prevAckBySource s' = prevAckBySource s \<and> ss_streamID s' = ss_streamID s \<and>
    ts' = map (\<lambda>(i, t). rewriteTask (nextProxyTaskID s + 1 + int i) t) (List.enumerate 0 ts)"
  using assms
proof (induction ts arbitrary: s ts' s')
  case (Cons t ts)
  obtain p s1 where a: "allocProxyID src (SourceTaskId t) s = (p, s1)" by fastforce
  obtain ts1 s2 where r: "rewriteTasks src ts s1 = (ts1, s2)" by fastforce
  have "room s 1" using Cons.prems(2) by (rule room_mono) simp
  note al = allocProxyID_spec[OF Cons.prems(1) this a]
  have "room s1 (length ts)" using Cons.prems(2) al by (simp add: room_def)
  note ih = Cons.IH[OF al(3) this r]
  have "List.enumerate (Suc 0) ts = map (\<lambda>(i, t). (Suc i, t)) (List.enumerate 0 ts)"
    by (auto simp: enumerate_Suc_eq)
  with ih al Cons.prems(3) a r show ?case
    by (auto simp: case_prod_beta comp_def ac_simps)
qed auto

lemma rewriteMessages_spec:
  assumes "sender_inv s" "room s (length (batch_mappings src m))"
    "rewriteMessages src m s = (m', s')"
  shows "sender_inv s' \<and> nextProxyTaskID s' = nextProxyTaskID s + int (length (batch_mappings src m)) \<and>
    ring_list s' = ring_list s @ batch_mappings src m \<and>
    prevAckBySource s' = prevAckBySource s \<and> ss_streamID s' = ss_streamID s"
proof (cases "ReplicationTasks m = []")
  case True
  obtain p s1 where a: "allocProxyID src (ExclusiveHighWatermark m) s = (p, s1)" by fastforce
  with True assms allocProxyID_spec[OF assms(1) _ a] show ?thesis
    by (auto simp: rewriteMessages_def batch_mappings_def)
next
  case False
  obtain ts s1 where r: "rewriteTasks src (ReplicationTasks m) s = (ts, s1)" by fastforce
  with False assms rewriteTasks_spec[OF assms(1) _ r] show ?thesis
    by (auto simp: rewriteMessages_def batch_mappings_def)
qed

text \<open>The IDs on the wire of a rewritten batch, and its watermark.\<close>

lemma enumerate_Nil_iff [simp]: "List.enumerate n xs = [] \<longleftrightarrow> xs = []"
  by (metis length_0_conv length_enumerate)

lemma enumerate_last:
  "ts \<noteq> [] \<Longrightarrow> last (List.enumerate n ts) = (n + length ts - 1, last ts)"
  by (induction ts arbitrary: n) (auto simp: last_conv_nth nth_enumerate_eq)

lemma rewriteMessages_wire:
  assumes "sender_inv s" "room s (length (batch_mappings src m))"
    "rewriteMessages src m s = (m', s')"
  shows "map SourceTaskId (ReplicationTasks m') =
      map (\<lambda>i. nextProxyTaskID s + 1 + int i) [0..<length (ReplicationTasks m)] \<and>
    (\<forall>t \<in> set (ReplicationTasks m'). \<forall>r. RawTask t = Some r \<longrightarrow> TaskId r = SourceTaskId t) \<and>
    ExclusiveHighWatermark m' =
      (if ReplicationTasks m = [] then nextProxyTaskID s' else nextProxyTaskID s' + 1)"
proof (cases "ReplicationTasks m = []")
  case True
  obtain p s1 where a: "allocProxyID src (ExclusiveHighWatermark m) s = (p, s1)" by fastforce
  with True assms allocProxyID_spec[OF assms(1) _ a] show ?thesis
    by (auto simp: rewriteMessages_def batch_mappings_def)
next
  case False
  let ?ts = "ReplicationTasks m"
  obtain ts s1 where r: "rewriteTasks src ?ts s = (ts, s1)" by fastforce
  have len: "room s (length ?ts)" using assms(2) False by (simp add: batch_mappings_def)
  note sp = rewriteTasks_spec[OF assms(1) len r]
  have ids: "map SourceTaskId ts = map (\<lambda>i. nextProxyTaskID s + 1 + int i) [0..<length ?ts]"
    using sp by (intro nth_equalityI) (auto simp: rewriteTask_def nth_enumerate_eq)
  have raw: "\<forall>t \<in> set ts. \<forall>r. RawTask t = Some r \<longrightarrow> TaskId r = SourceTaskId t"
    using sp by (auto simp: rewriteTask_def)
  have "ts \<noteq> []" using sp False by auto
  moreover have "SourceTaskId (last ts) = nextProxyTaskID s1"
    using sp False by (simp add: last_map enumerate_last rewriteTask_def case_prod_beta Suc_leI)
  moreover have "i64 (nextProxyTaskID s1 + 1) = nextProxyTaskID s1 + 1"
    using sp by (intro i64_id) (auto simp: is_i64_def sender_inv_def)
  ultimately show ?thesis
    using False assms(3) r ids raw by (auto simp: rewriteMessages_def)
qed


section \<open>What an acknowledgement does\<close>

text \<open>
  Every source shard's entries are in the order of their task IDs. It holds when each source
  shard sends increasing task IDs and watermarks.
\<close>

definition mono_per_shard :: "proxyIDMapping list \<Rightarrow> bool" where
  "mono_per_shard ms \<longleftrightarrow>
     (\<forall>j < length ms. \<forall>i < j. sourceShard (ms ! i) = sourceShard (ms ! j) \<longrightarrow>
        sourceTask (ms ! i) \<le> sourceTask (ms ! j))"

lemma mono_per_shard_drop: "mono_per_shard ms \<Longrightarrow> mono_per_shard (drop n ms)"
proof -
  assume m: "mono_per_shard ms"
  show ?thesis unfolding mono_per_shard_def
  proof (intro allI impI)
    fix j i assume "j < length (drop n ms)" "i < j"
      "sourceShard (drop n ms ! i) = sourceShard (drop n ms ! j)"
    then show "sourceTask (drop n ms ! i) \<le> sourceTask (drop n ms ! j)"
      using m[unfolded mono_per_shard_def, rule_format, of "n + j" "n + i"] by simp
  qed
qed

lemma recordAcks_simps [simp]:
  "idRing (recordAcks acks s) = idRing s" "nextProxyTaskID (recordAcks acks s) = nextProxyTaskID s"
  "ss_streamID (recordAcks acks s) = ss_streamID s"
  by (simp_all add: recordAcks_def)

lemma sender_inv_recordAcks: "sender_inv s \<Longrightarrow> sender_inv (recordAcks acks s)"
  by (simp add: sender_inv_def) (simp add: recordAcks_def gmap_ok_fold_gput)

lemma discardAcked_list:
  "ring_inv (idRing s) \<Longrightarrow> ring_list (discardAcked n s) = drop n (ring_list s)"
  by (simp add: discardAcked_def ring.discard_list)

lemma discardAcked_simps [simp]:
  "nextProxyTaskID (discardAcked n s) = nextProxyTaskID s"
  "prevAckBySource (discardAcked n s) = prevAckBySource s"
  "ss_streamID (discardAcked n s) = ss_streamID s"
  by (simp_all add: discardAcked_def)

lemma discardAcked_start:
  "ring_inv (idRing s) \<Longrightarrow>
   startProxyID (idRing (discardAcked n s)) = startProxyID (idRing s) + int (min n (length (ring_list s)))"
  by (auto simp: discardAcked_def ring.discard_start)

lemma sender_inv_discardAcked: "sender_inv s \<Longrightarrow> sender_inv (discardAcked n s)"
  using discardAcked_list[of s n] discardAcked_start[of s n] ring.discard_inv[of "idRing s" "int n"]
  by (auto simp: sender_inv_def discardAcked_def)

lemma map_of_set_eq:
  assumes "distinct (map fst xs)" "distinct (map fst ys)" "set xs = set ys"
  shows "map_of xs = map_of ys"
proof
  fix k
  have "map_of xs k = Some v \<longleftrightarrow> map_of ys k = Some v" for v
    using assms by (simp add: gget_Some_iff)
  then show "map_of xs k = map_of ys k" by (metis option.exhaust)
qed

lemma prevAck_recordAcks:
  assumes "distinct (map fst acks)" "gmap_ok agg" "set acks = set agg"
  shows "gget (prevAckBySource (recordAcks acks s)) sh =
    (case gget agg sh of Some a \<Rightarrow> Some a | None \<Rightarrow> gget (prevAckBySource s) sh)"
proof -
  have "map_of (rev acks) = map_of agg"
    using assms by (intro map_of_set_eq) (auto simp: rev_map[symmetric])
  then show ?thesis by (simp add: recordAcks_def gget_fold_gput split: option.split)
qed

text \<open>The items of an acknowledgement turn: fresh acknowledgements, or the previous ones again.\<close>

definition pendingAcks :: "proxyStreamSender \<Rightarrow> int \<Rightarrow> (ClusterShardID, int) gomap" where
  "pendingAcks s w =
     (if fst (AggregateUpTo (idRing s) w) \<noteq> [] then fst (AggregateUpTo (idRing s) w) else prevAckBySource s)"

lemma gmap_ok_pendingAcks: "sender_inv s \<Longrightarrow> w \<le> MaxInt64 \<Longrightarrow> gmap_ok (pendingAcks s w)"
  using ring.agg_ok[of "idRing s" w] by (simp add: pendingAcks_def sender_inv_def)

lemma recvAck_unfold:
  "recvAck now fuel shut deliver (RecvMsg (ReqSync (Some st))) s tr =
     (let w = InclusiveLowWatermark st; sid = ss_streamID s;
          tr = UpdateStream now sid (UpdateStreamSyncReplicationState now sid w None tr);
          res = deliver_all fuel shut (\<lambda>r sh a. deliver r sh (routedAckFor s st a)) (pendingAcks s w);
          out = map (\<lambda>(sh, a). (sh, routedAckFor s st a)) (snd res);
          s1 = (if fst (AggregateUpTo (idRing s) w) \<noteq> [] then recordAcks (snd res) s else s);
          s2 = discardAcked (snd (AggregateUpTo (idRing s) w)) s1
      in case fst res of
           RetryShutdown \<Rightarrow> (Return None, s1, tr, out)
         | RetryFuel \<Rightarrow> (OutOfFuel, s1, tr, out)
         | RetryDone \<Rightarrow>
             (Continue, s2, UpdateStreamSenderDebug now sid (buildSenderDebugSnapshot 20 s2) tr, out))"
  by (simp add: recvAck_def Let_def pendingAcks_def case_prod_beta split: retry_outcome.split)

section \<open>Interleaving\<close>

text \<open>
  The mutex of the sender protects the rewriting of a batch, the aggregation and the discard
  separately, so batches are rewritten while an acknowledgement is being delivered. The
  history \<open>hist\<close> records the mapping of every ID ever handed out, the ID \<open>i + 1\<close> at position
  \<open>i\<close>.
\<close>

datatype ack_phase = AckIdle | Acking int "(ClusterShardID, int) gomap" nat

record sender_sys =
  snd_state :: proxyStreamSender
  phase :: ack_phase
  hist :: "proxyIDMapping list"

inductive sender_step :: "sender_sys \<Rightarrow> sender_sys \<Rightarrow> bool" where
  step_send:
    "room (snd_state y) (length (batch_mappings src m)) \<Longrightarrow>
     sender_step y (y\<lparr>snd_state := snd (rewriteMessages src m (snd_state y)),
                      hist := hist y @ batch_mappings src m\<rparr>)"
| step_aggregate:
    "phase y = AckIdle \<Longrightarrow> w \<le> MaxInt64 \<Longrightarrow>
     sender_step y (y\<lparr>phase := Acking w (fst (AggregateUpTo (idRing (snd_state y)) w))
                                      (snd (AggregateUpTo (idRing (snd_state y)) w))\<rparr>)"
| step_discard:
    "phase y = Acking w agg n \<Longrightarrow> set acks = set agg \<Longrightarrow>
     sender_step y (y\<lparr>snd_state := discardAcked n (recordAcks acks (snd_state y)), phase := AckIdle\<rparr>)"

inductive_cases sender_stepE: "sender_step y y'"

definition sender_fresh :: "proxyStreamSender \<Rightarrow> bool" where
  "sender_fresh s \<longleftrightarrow> (\<exists>c. idRing s = newProxyIDRingBuffer c) \<and> nextProxyTaskID s = 0 \<and>
     prevAckBySource s = []"

inductive sender_reach :: "sender_sys \<Rightarrow> bool" where
  reach_init: "sender_fresh s \<Longrightarrow> sender_reach \<lparr>snd_state = s, phase = AckIdle, hist = []\<rparr>"
| reach_step: "sender_reach y \<Longrightarrow> sender_step y y' \<Longrightarrow> sender_reach y'"

definition sys_inv :: "sender_sys \<Rightarrow> bool" where
  "sys_inv y \<longleftrightarrow>
     (let s = snd_state y in
      sender_inv s \<and> nextProxyTaskID s = int (length (hist y)) \<and>
      (\<exists>pre. hist y = pre @ ring_list s) \<and>
      (case phase y of AckIdle \<Rightarrow> True
       | Acking w agg n \<Rightarrow> n \<le> length (ring_list s) \<and> gmap_ok agg \<and>
           (n > 0 \<longrightarrow> startProxyID (idRing s) + int n - 1 \<le> w) \<and>
           (\<forall>sh. gget agg sh = max_task (take n (ring_list s)) sh)))"

lemma sender_inv_fresh: "sender_fresh s \<Longrightarrow> sender_inv s"
  by (auto simp: sender_fresh_def sender_inv_def contents_new ring_inv_new)

lemma sys_inv_init: "sender_fresh s \<Longrightarrow> sys_inv \<lparr>snd_state = s, phase = AckIdle, hist = []\<rparr>"
  using sender_inv_fresh[of s] by (auto simp: sys_inv_def sender_fresh_def contents_new Let_def)

lemma start_after_send:
  assumes "sender_inv s" "sender_inv s'" "ring_list s' = ring_list s @ ms" "ring_list s \<noteq> []"
    "nextProxyTaskID s' = nextProxyTaskID s + int (length ms)"
  shows "startProxyID (idRing s') = startProxyID (idRing s)"
  using assms by (auto simp: sender_inv_def)

lemma sys_inv_send:
  assumes inv: "sys_inv y" and room: "room (snd_state y) (length (batch_mappings src m))"
  shows "sys_inv (y\<lparr>snd_state := snd (rewriteMessages src m (snd_state y)),
                    hist := hist y @ batch_mappings src m\<rparr>)"
proof -
  let ?s = "snd_state y" and ?b = "batch_mappings src m"
  obtain m' s' where r: "rewriteMessages src m ?s = (m', s')" by fastforce
  have s: "sender_inv ?s" using inv by (simp add: sys_inv_def Let_def)
  note sp = rewriteMessages_spec[OF s room r]
  have st: "ring_list ?s \<noteq> [] \<longrightarrow> startProxyID (idRing s') = startProxyID (idRing ?s)"
    using start_after_send[of ?s s' ?b] s sp by blast
  show ?thesis
    using inv sp st by (auto simp: sys_inv_def Let_def r split: ack_phase.splits)
qed

lemma sys_inv_aggregate:
  assumes "sys_inv y" "w \<le> MaxInt64"
  shows "sys_inv (y\<lparr>phase := Acking w (fst (AggregateUpTo (idRing (snd_state y)) w))
                                    (snd (AggregateUpTo (idRing (snd_state y)) w))\<rparr>)"
proof -
  have ri: "ring_inv (idRing (snd_state y))"
    using assms(1) by (simp add: sys_inv_def sender_inv_def Let_def)
  note agg = ring.agg_count[OF ri assms(2)] ring.agg_lookup[OF ri assms(2)] ring.agg_ok[OF ri assms(2)]
  show ?thesis
    using assms(1) agg by (auto simp: sys_inv_def Let_def)
qed

lemma sys_inv_discard:
  assumes "sys_inv y" "phase y = Acking w agg n"
  shows "sys_inv (y\<lparr>snd_state := discardAcked n (recordAcks acks (snd_state y)), phase := AckIdle\<rparr>)"
proof -
  let ?s = "recordAcks acks (snd_state y)"
  have s: "sender_inv ?s" "ring_inv (idRing ?s)"
    using assms(1) sender_inv_recordAcks by (auto simp: sys_inv_def Let_def sender_inv_def)
  obtain pre where "hist y = pre @ ring_list ?s"
    using assms(1) by (auto simp: sys_inv_def Let_def)
  then have "hist y = (pre @ take n (ring_list ?s)) @ drop n (ring_list ?s)" by simp
  then have "\<exists>pre. hist y = pre @ drop n (ring_list ?s)" by blast
  then show ?thesis
    using assms s sender_inv_discardAcked[OF s(1), of n]
    by (simp add: sys_inv_def Let_def discardAcked_list)
qed

lemma sys_inv_step: "sender_step y y' \<Longrightarrow> sys_inv y \<Longrightarrow> sys_inv y'"
  by (erule sender_stepE) (simp_all add: sys_inv_send sys_inv_aggregate sys_inv_discard)

lemma sys_inv_reach: "sender_reach y \<Longrightarrow> sys_inv y"
  by (induction rule: sender_reach.induct) (auto intro: sys_inv_init sys_inv_step)

text \<open>
  In every reachable state the acknowledgement being delivered to a source shard passes over
  no task whose proxy ID the target has not acknowledged.
\<close>

lemma acking_attained:
  assumes "sys_inv y" "phase y = Acking w agg n" "gget agg sh = Some a"
  shows "\<exists>k < length (hist y). int k + 1 \<le> w \<and> sourceShard (hist y ! k) = sh \<and>
    sourceTask (hist y ! k) = a"
proof -
  let ?s = "snd_state y" and ?l = "ring_list (snd_state y)"
  obtain pre where inv: "n \<le> length ?l" "hist y = pre @ ?l"
    "nextProxyTaskID ?s = int (length (hist y))" "sender_inv ?s"
    "n > 0 \<longrightarrow> startProxyID (idRing ?s) + int n - 1 \<le> w"
    "max_task (take n ?l) sh = Some a"
    using assms by (auto simp: sys_inv_def Let_def)
  then have "tasks_of sh (take n ?l) \<noteq> {}" "a = Max (tasks_of sh (take n ?l))"
    by (auto simp: max_task_def split: if_splits)
  then have "a \<in> tasks_of sh (take n ?l)" by simp
  then obtain i where i: "i < n" "sourceShard (?l ! i) = sh" "sourceTask (?l ! i) = a"
    using inv(1) by (auto simp: tasks_of_def in_set_conv_nth)
  then have "?l \<noteq> []" using inv(1) by auto
  then have "startProxyID (idRing ?s) = int (length pre) + 1"
    using inv(2-4) by (auto simp: sender_inv_def)
  then show ?thesis
    using i inv(1,2,5) by (intro exI[of _ "length pre + i"]) (auto simp: nth_append)
qed


section \<open>Properties\<close>

lemma acking_safe:
  assumes "sys_inv y" "phase y = Acking w agg n" "gget agg sh = Some a" "mono_per_shard (hist y)"
    "j < length (hist y)" "sourceShard (hist y ! j) = sh" "sourceTask (hist y ! j) < a"
  shows "int j + 1 < w"
proof -
  obtain k where k: "k < length (hist y)" "int k + 1 \<le> w" "sourceShard (hist y ! k) = sh"
    "sourceTask (hist y ! k) = a"
    using acking_attained[OF assms(1-3)] by blast
  have "\<not> k \<le> j"
    using assms(4)[unfolded mono_per_shard_def, rule_format, of j k] k assms(5-7)
    by (cases "k = j") auto
  with k(2) show ?thesis by linarith
qed


definition exTask :: "int \<Rightarrow> ReplicationTask" where
  "exTask i = \<lparr>SourceTaskId = i, RawTask = Some \<lparr>NamespaceId = ''ns'', WorkflowId = ''wf'', TaskId = i\<rparr>\<rparr>"

definition exBatch :: WorkflowReplicationMessages where
  "exBatch = \<lparr>ReplicationTasks = [exTask 10, exTask 12], ExclusiveHighWatermark = 13, Priority = 0\<rparr>"

definition exSender :: proxyStreamSender where
  "exSender =
     \<lparr>ss_targetShardID = \<lparr>ClusterID = 2, ShardID = 1\<rparr>, ss_sourceShardID = \<lparr>ClusterID = 1, ShardID = 1\<rparr>,
      ss_directionLabel = [], ss_streamID = ''snd-1:1'', nextProxyTaskID = 0,
      idRing = newProxyIDRingBuffer 2, prevAckBySource = [], lastMsgSendTime = 0, lastSentWatermark = 0\<rparr>"

definition exSys :: "nat \<Rightarrow> sender_sys" where
  "exSys k =
     (let y0 = \<lparr>snd_state = exSender, phase = AckIdle, hist = []\<rparr>;
          y1 = y0\<lparr>snd_state := snd (rewriteMessages exA exBatch (snd_state y0)),
                  hist := hist y0 @ batch_mappings exA exBatch\<rparr>;
          y2 = y1\<lparr>phase := Acking 2 (fst (AggregateUpTo (idRing (snd_state y1)) 2))
                                   (snd (AggregateUpTo (idRing (snd_state y1)) 2))\<rparr>
      in if k = 0 then y0 else if k = 1 then y1 else y2)"

lemma exSys_reach: "sender_reach (exSys 2)"
proof -
  have "sender_reach (exSys 0)"
    by (simp add: exSys_def Let_def, rule reach_init)
       (auto simp: sender_fresh_def exSender_def)
  moreover have "sender_step (exSys 0) (exSys 1)"
    using step_send[of "exSys 0" exA exBatch]
    by (simp add: exSys_def Let_def room_def exSender_def batch_mappings_def exBatch_def)
  moreover have "sender_step (exSys 1) (exSys 2)"
    using step_aggregate[of "exSys 1" 2] by (simp add: exSys_def Let_def)
  ultimately show ?thesis by (blast intro: reach_step)
qed

lemma exSys_eval:
  "phase (exSys 2) = Acking 2 [(exA, 12)] 2"
  "hist (exSys 2) = [\<lparr>sourceShard = exA, sourceTask = 10\<rparr>, \<lparr>sourceShard = exA, sourceTask = 12\<rparr>]"
  by code_simp+


text \<open>
  C9: A batch leaves the sender with fresh consecutive proxy IDs in place of its task IDs, in
  the source task ID and in the raw task info, and with an exclusive high watermark in the space
  of proxy IDs: one above the last ID of the batch, or the new synthetic ID for an empty batch.
  The ring remembers for each ID the source shard and the original task, or the original
  watermark of an empty batch.
\<close>

theorem send_assigns_proxy_ids:
  assumes "sender_inv s" "room s (length (batch_mappings src m))"
  shows "case rewriteMessages src m s of (m', s') \<Rightarrow>
    sender_inv s' \<and>
    ring_list s' = ring_list s @ batch_mappings src m \<and>
    map SourceTaskId (ReplicationTasks m') =
      map (\<lambda>i. nextProxyTaskID s + 1 + int i) [0..<length (ReplicationTasks m)] \<and>
    (\<forall>t \<in> set (ReplicationTasks m'). \<forall>r. RawTask t = Some r \<longrightarrow> TaskId r = SourceTaskId t) \<and>
    ExclusiveHighWatermark m' =
      (if ReplicationTasks m = [] then nextProxyTaskID s' else nextProxyTaskID s' + 1)"
proof -
  obtain m' s' where r: "rewriteMessages src m s = (m', s')" by fastforce
  show ?thesis
    using rewriteMessages_spec[OF assms r] rewriteMessages_wire[OF assms r] by (simp add: r)
qed

lemma exSender_inv: "sender_inv exSender"
  by (rule sender_inv_fresh) (auto simp: sender_fresh_def exSender_def)

theorem send_assigns_proxy_ids_witness:
  "map SourceTaskId (ReplicationTasks (fst (rewriteMessages exA exBatch exSender))) = [1, 2] \<and>
   ExclusiveHighWatermark (fst (rewriteMessages exA exBatch exSender)) = 3"
proof -
  have nx: "nextProxyTaskID (snd (rewriteMessages exA exBatch exSender)) = 2" by code_simp
  have "room exSender (length (batch_mappings exA exBatch))"
    by (simp add: room_def exSender_def batch_mappings_def exBatch_def)
  from send_assigns_proxy_ids[OF exSender_inv this] nx show ?thesis
    by (simp add: case_prod_beta exSender_def exBatch_def upt_rec)
qed


text \<open>
  C13: When a turn of the acknowledgement loop goes through, the sender has forwarded to every
  source shard the acknowledgement that the aggregation computed for it, once each, remembers
  these levels, and has dropped exactly the covered entries from the ring. When the watermark
  covers no entry, the remembered levels are sent again and nothing changes.
\<close>

theorem recvAck_forwards_and_discards:
  assumes "sender_inv s" "InclusiveLowWatermark st \<le> MaxInt64"
    and turn: "recvAck now fuel shut deliver (RecvMsg (ReqSync (Some st))) s tr = (Continue, s', tr', out)"
  defines "agg \<equiv> fst (AggregateUpTo (idRing s) (InclusiveLowWatermark st))"
    and "n \<equiv> snd (AggregateUpTo (idRing s) (InclusiveLowWatermark st))"
  shows "sender_inv s' \<and> ring_list s' = drop n (ring_list s) \<and> distinct (map fst out) \<and>
    set out = (\<lambda>(sh, a). (sh, routedAckFor s st a)) ` set (if agg \<noteq> [] then agg else prevAckBySource s) \<and>
    (\<forall>sh. gget (prevAckBySource s') sh =
       (case gget agg sh of Some a \<Rightarrow> Some a | None \<Rightarrow> gget (prevAckBySource s) sh))"
proof -
  let ?w = "InclusiveLowWatermark st"
  let ?d = "\<lambda>r sh a. deliver r sh (routedAckFor s st a)"
  let ?res = "deliver_all fuel shut ?d (pendingAcks s ?w)"
  let ?s1 = "if agg \<noteq> [] then recordAcks (snd ?res) s else s"
  have ok: "fst ?res = RetryDone" and s': "s' = discardAcked n ?s1"
    and out: "out = map (\<lambda>(sh, a). (sh, routedAckFor s st a)) (snd ?res)"
    using turn unfolding recvAck_unfold agg_def n_def
    by (auto simp: Let_def split: retry_outcome.splits)
  note acks = deliver_all_done_iff[OF gmap_ok_pendingAcks[OF assms(1,2)] ok]
  have inv1: "sender_inv ?s1" using assms(1) by (simp add: sender_inv_recordAcks)
  have ring: "ring_inv (idRing s)" using assms(1) by (simp add: sender_inv_def)
  have lst: "ring_list s' = drop n (ring_list s)"
    using ring discardAcked_list[of ?s1 n] by (auto simp: s')
  have pa: "pendingAcks s ?w = (if agg \<noteq> [] then agg else prevAckBySource s)"
    by (simp add: pendingAcks_def agg_def)
  have fsts: "map fst out = map fst (snd ?res)"
    by (simp add: out case_prod_beta comp_def)
  have prev: "gget (prevAckBySource s') sh =
       (case gget agg sh of Some a \<Rightarrow> Some a | None \<Rightarrow> gget (prevAckBySource s) sh)" for sh
  proof (cases "agg = []")
    case False
    then show ?thesis
      using prevAck_recordAcks[of "snd ?res" agg s sh] acks ring.agg_ok[OF ring assms(2)]
      by (simp add: s' pa agg_def[symmetric])
  qed (simp add: s')
  have "set out = (\<lambda>(sh, a). (sh, routedAckFor s st a)) ` set (if agg \<noteq> [] then agg else prevAckBySource s)"
    using acks unfolding pa[symmetric] out by simp
  with lst prev fsts acks sender_inv_discardAcked[OF inv1, of n] show ?thesis by (simp add: s')
qed

definition exReq :: "int \<Rightarrow> SyncReplicationState" where
  "exReq w = \<lparr>InclusiveLowWatermark = w, InclusiveLowWatermarkTime = None\<rparr>"

definition exSender1 :: proxyStreamSender where
  "exSender1 = snd (rewriteMessages exA exBatch exSender)"

lemma exSender1_inv: "sender_inv exSender1"
proof -
  have "room exSender (length (batch_mappings exA exBatch))"
    by (simp add: room_def exSender_def batch_mappings_def exBatch_def)
  then show ?thesis
    using rewriteMessages_spec[OF exSender_inv, of exA exBatch] by (simp add: exSender1_def prod_eq_iff)
qed

definition exAckTurn :: "nat \<Rightarrow> turn \<times> proxyStreamSender \<times> StreamTracker \<times> (ClusterShardID \<times> RoutedAck) list" where
  "exAckTurn fuel =
     recvAck 5 fuel (\<lambda>_. False) (\<lambda>r _ _. r = 1) (RecvMsg (ReqSync (Some (exReq 1)))) exSender1 []"

lemma exAckTurn_Continue: "fst (exAckTurn 3) = Continue"
  by code_simp

theorem recvAck_forwards_and_discards_witness:
  "ring_list (fst (snd (exAckTurn 3))) = drop 1 (ring_list exSender1) \<and>
   gget (prevAckBySource (fst (snd (exAckTurn 3)))) exA = Some 10"
proof -
  obtain s' tr' out where r: "exAckTurn 3 = (Continue, s', tr', out)"
    using exAckTurn_Continue by (metis prod.collapse)
  have agg: "AggregateUpTo (idRing exSender1) 1 = ([(exA, 10)], 1)" by code_simp
  from recvAck_forwards_and_discards[OF exSender1_inv _ r[unfolded exAckTurn_def]] agg r
  show ?thesis by (simp add: exReq_def)
qed

text \<open>
  A turn of the acknowledgement loop that ends early, because the stream shuts down, drops
  nothing from the ring: entries are only discarded after their acknowledgements were forwarded.
\<close>

lemma recvAck_abort_keeps_ring:
  assumes "recvAck now fuel shut deliver rcv s tr = (t, s', tr', out)" "t \<noteq> Continue"
  shows "idRing s' = idRing s \<and> nextProxyTaskID s' = nextProxyTaskID s"
proof (cases "\<exists>st. rcv = RecvMsg (ReqSync (Some st))")
  case True
  then show ?thesis
    using assms by (auto simp: recvAck_unfold Let_def split: retry_outcome.splits if_splits)
next
  case False
  then show ?thesis
    using assms by (auto simp: recvAck_def split: recv.splits StreamReq.splits option.splits)
qed

lemma recvAck_abort_keeps_ring_witness:
  "idRing (fst (snd (exAckTurn 1))) = idRing exSender1"
proof -
  obtain t s' tr' out where r: "exAckTurn 1 = (t, s', tr', out)" by (metis prod.collapse)
  moreover have "fst (exAckTurn 1) = OutOfFuel" by code_simp
  ultimately show ?thesis
    using recvAck_abort_keeps_ring[OF r[unfolded exAckTurn_def]] by simp
qed

text \<open>
  C14: The acknowledgement loop makes progress. If the stream is not shut down for \<open>fuel\<close> rounds
  and the owner of every source shard with a pending acknowledgement accepts it in one of these
  rounds, whichever round and order that is, the turn completes.
\<close>

theorem recvAck_completes:
  assumes "sender_inv s" "InclusiveLowWatermark st \<le> MaxInt64" "\<forall>i < fuel. \<not> shut i"
    "\<forall>(sh, a) \<in> set (pendingAcks s (InclusiveLowWatermark st)). \<exists>i < fuel. deliver i sh (routedAckFor s st a)"
  shows "fst (recvAck now fuel shut deliver (RecvMsg (ReqSync (Some st))) s tr) = Continue"
proof -
  have "fst (deliver_all fuel shut (\<lambda>r sh a. deliver r sh (routedAckFor s st a))
      (pendingAcks s (InclusiveLowWatermark st))) = RetryDone"
    by (rule deliver_all_terminates[OF gmap_ok_pendingAcks[OF assms(1,2)] assms(3)])
       (use assms(4) in auto)
  then show ?thesis by (simp add: recvAck_unfold Let_def)
qed

theorem recvAck_completes_witness: "fst (exAckTurn 2) = Continue"
proof -
  have "pendingAcks exSender1 (InclusiveLowWatermark (exReq 1)) = [(exA, 10)]" by code_simp
  then show ?thesis
    unfolding exAckTurn_def
    by (intro recvAck_completes[OF exSender1_inv]) (auto simp: exReq_def)
qed

end
