(* ===== verification/ShardManager.thy ===== *)
theory ShardManager
  imports Messages StreamTracker
begin

text \<open>
  \<^verbatim>\<open>proxy/shard_manager.go\<close>: which shards this proxy instance serves, what it knows of the
  shards of its peers, and the channels over which batches and acknowledgements reach the
  streams of a shard. An operation returns the new state and the effects it starts on other
  components (\<open>sm_effect\<close>), in order. The memberlist library, JSON encoding and the outcome of
  channel operations are arguments. Log output is left out; mutexes are not modelled, each
  operation is atomic.
\<close>

section \<open>State\<close>

record MemberlistConfig =
  NodeName :: string
  BindAddr :: string
  BindPort :: int
  JoinAddrs :: "string list"
  ProxyAddresses :: "(string, string) gomap"
  TCPOnly :: bool
  DisableTCPPings :: bool
  ProbeTimeoutMs :: int
  ProbeIntervalMs :: int

record ShardInfo =
  SI_ID :: ClusterShardID
  SI_Created :: int

record ShardMessage =
  MsgType :: string
  MsgNodeName :: string
  MsgClientShard :: ClusterShardID
  MsgTimestamp :: int

record NodeShardState =
  NS_NodeName :: string
  NS_Shards :: "(string, ShardInfo) gomap"
  NS_Updated :: int

text \<open>
  An active receiver is known by an identity and by the shards its interface methods return.
\<close>

record ActiveReceiver =
  AR_Ident :: nat
  AR_Target :: ClusterShardID
  AR_Source :: ClusterShardID

text \<open>
  Channels and cancel functions are identities. \<open>ml\<close> tells whether the memberlist pointer is
  set, \<open>intraMgr\<close> whether the intra-proxy manager exists, \<open>callbacks\<close> whether \<^verbatim>\<open>SetupCallbacks\<close>
  has installed the four callbacks, and \<open>stopJoinClosed\<close> whether the channel \<^verbatim>\<open>stopJoinRetry\<close> is
  closed.
\<close>

record shardManagerImpl =
  memberlistConfig :: "MemberlistConfig option"
  ml :: bool
  localAddr :: string
  started :: bool
  callbacks :: bool
  intraMgr :: bool
  localShards :: "(string, ShardInfo) gomap"
  stopJoinClosed :: bool
  joinLoopRunning :: bool
  activeReceivers :: "(ClusterShardID, ActiveReceiver) gomap"
  remoteSendChannels :: "(ClusterShardID, nat) gomap"
  localAckChannels :: "(ClusterShardID, nat) gomap"
  localReceiverCancelFuncs :: "(ClusterShardID, nat) gomap"
  remoteNodeStates :: "(string, NodeShardState) gomap"

datatype sm_effect =
    EIntraStart
  | EIntraNotify
  | EUpdateNode
  | EBroadcast string ShardMessage
  | ENotifyReceiver ActiveReceiver ClusterShardID
  | ECancel nat
  | EAckChan nat RoutedAck
  | EMsgChan nat RoutedMessage
  | EIntraAck string ClusterShardID ClusterShardID StreamReq
  | EIntraMsg string ClusterShardID ClusterShardID StreamResp
  | EStartJoinLoop

definition NewShardManager :: "MemberlistConfig option \<Rightarrow> string \<Rightarrow> shardManagerImpl" where
  "NewShardManager cfg mode =
     \<lparr>memberlistConfig = cfg, ml = False, localAddr = [], started = False, callbacks = False,
      intraMgr = (cfg \<noteq> None \<and> mode = ''routing''), localShards = [], stopJoinClosed = False,
      joinLoopRunning = False, activeReceivers = [], remoteSendChannels = [],
      localAckChannels = [], localReceiverCancelFuncs = [], remoteNodeStates = []\<rparr>"

section \<open>Cluster membership\<close>

text \<open>The fields of the library's configuration that the code sets.\<close>

record mlConfig =
  ML_Name :: string
  ML_BindAddr :: string
  ML_BindPort :: int
  ML_AdvertiseAddr :: string
  ML_AdvertisePort :: int
  ML_DisableTcpPings :: bool
  ML_ProbeTimeout :: int  \<comment> \<open>milliseconds\<close>
  ML_ProbeInterval :: int

definition buildMlConfig :: "mlConfig \<Rightarrow> mlConfig \<Rightarrow> MemberlistConfig \<Rightarrow> mlConfig" where
  "buildMlConfig lanDefault localDefault c =
     (let m = (if TCPOnly c then
                 let m = lanDefault\<lparr>ML_DisableTcpPings := DisableTCPPings c\<rparr>;
                     m = (if ProbeTimeoutMs c = 0 then m\<lparr>ML_ProbeTimeout := 1000\<rparr> else m)
                 in if ProbeIntervalMs c = 0 then m\<lparr>ML_ProbeInterval := 2000\<rparr> else m
               else localDefault);
          m = m\<lparr>ML_Name := NodeName c, ML_BindAddr := BindAddr c, ML_BindPort := BindPort c,
                ML_AdvertiseAddr := BindAddr c, ML_AdvertisePort := BindPort c\<rparr>;
          m = (if ProbeTimeoutMs c > 0 then m\<lparr>ML_ProbeTimeout := ProbeTimeoutMs c\<rparr> else m)
      in if ProbeIntervalMs c > 0 then m\<lparr>ML_ProbeInterval := ProbeIntervalMs c\<rparr> else m)"

definition startJoinLoop :: "shardManagerImpl \<Rightarrow> shardManagerImpl \<times> sm_effect list" where
  "startJoinLoop sm =
     (if joinLoopRunning sm then (sm, [])
      else (sm\<lparr>joinLoopRunning := True\<rparr>, [EStartJoinLoop]))"

text \<open>
  \<open>create\<close> is what \<^verbatim>\<open>memberlist.Create\<close> does with a configuration: \<open>None\<close> when it does not return
  within ten seconds, otherwise its error, if any.
\<close>

definition initializeMemberlist ::
  "mlConfig \<Rightarrow> mlConfig \<Rightarrow> (mlConfig \<Rightarrow> string option option) \<Rightarrow> shardManagerImpl \<Rightarrow>
   string option \<times> shardManagerImpl \<times> sm_effect list" where
  "initializeMemberlist lanDefault localDefault create sm =
     (case memberlistConfig sm of
        None \<Rightarrow> (None, sm, [])
      | Some c \<Rightarrow>
          (case create (buildMlConfig lanDefault localDefault c) of
             None \<Rightarrow> (Some ''memberlist.Create() timed out after 10s - check bind address/port availability'', sm, [])
           | Some (Some err) \<Rightarrow> (Some (''failed to create memberlist: '' @ err), sm, [])
           | Some None \<Rightarrow>
               let sm = sm\<lparr>ml := True, localAddr := BindAddr c @ '':'' @ show_int (BindPort c)\<rparr>
               in if length (JoinAddrs c) > 0
                  then (let (sm, effs) = startJoinLoop sm in (None, sm, effs))
                  else (None, sm, [])))"

definition SetupCallbacks :: "shardManagerImpl \<Rightarrow> shardManagerImpl" where
  "SetupCallbacks sm = sm\<lparr>callbacks := True\<rparr>"

definition Start ::
  "mlConfig \<Rightarrow> mlConfig \<Rightarrow> (mlConfig \<Rightarrow> string option option) \<Rightarrow> shardManagerImpl \<Rightarrow>
   string option \<times> shardManagerImpl \<times> sm_effect list" where
  "Start lanDefault localDefault create sm =
     (if started sm then (None, sm, [])
      else
        let effs = (if intraMgr sm then [EIntraStart] else []);
            sm = SetupCallbacks sm
        in (case initializeMemberlist lanDefault localDefault create sm of
              (Some err, sm, effs') \<Rightarrow> (Some err, sm, effs @ effs')
            | (None, sm, effs') \<Rightarrow> (None, sm\<lparr>started := True\<rparr>, effs @ effs')))"

text \<open>
  \<open>None\<close> is the panic of closing a closed channel. Waiting for the join loop ends with the
  loop stopped.
\<close>

definition shutdownMemberlist :: "shardManagerImpl \<Rightarrow> shardManagerImpl option" where
  "shutdownMemberlist sm =
     (if \<not> ml sm then Some sm
      else if stopJoinClosed sm then None
      else Some (sm\<lparr>stopJoinClosed := True, joinLoopRunning := False, ml := False\<rparr>))"

definition Stop :: "shardManagerImpl \<Rightarrow> shardManagerImpl option" where
  "Stop sm =
     (if \<not> started sm then Some sm
      else map_option (\<lambda>sm. sm\<lparr>started := False\<rparr>) (shutdownMemberlist sm))"

text \<open>
  The join loop. In attempt \<open>k\<close>, \<open>mlSet k\<close> tells whether the memberlist is still set, \<open>join k\<close>
  whether joining succeeds and \<open>stop k\<close> whether the stop channel wins over the pause. The
  result lists the pauses taken, in seconds. The loop retries forever, hence the fuel.
\<close>

datatype join_outcome = JoinNoMemberlist | JoinCancelled | Joined | JoinFuel

fun join_loop ::
  "nat \<Rightarrow> (nat \<Rightarrow> bool) \<Rightarrow> (nat \<Rightarrow> bool) \<Rightarrow> (nat \<Rightarrow> bool) \<Rightarrow> nat \<Rightarrow> int \<Rightarrow> join_outcome \<times> int list" where
  "join_loop 0 mlSet join stop k interval = (JoinFuel, [])"
| "join_loop (Suc fuel) mlSet join stop k interval =
     (if \<not> mlSet k then (JoinNoMemberlist, [])
      else if join k then (Joined, [])
      else if stop k then (JoinCancelled, [])
      else
        let next = interval * 2;
            next = (if next > 60 then 60 else next);
            (outcome, waits) = join_loop fuel mlSet join stop (Suc k) next
        in (outcome, interval # waits))"

definition retryJoinCluster ::
  "nat \<Rightarrow> (nat \<Rightarrow> bool) \<Rightarrow> (nat \<Rightarrow> bool) \<Rightarrow> (nat \<Rightarrow> bool) \<Rightarrow> shardManagerImpl \<Rightarrow>
   join_outcome \<times> int list \<times> shardManagerImpl" where
  "retryJoinCluster fuel mlSet join stop sm =
     (let (outcome, waits) = join_loop fuel mlSet join stop 1 2
      in (outcome, waits, if outcome = JoinFuel then sm else sm\<lparr>joinLoopRunning := False\<rparr>))"

definition GetNodeName :: "shardManagerImpl \<Rightarrow> string" where
  "GetNodeName sm = (case memberlistConfig sm of None \<Rightarrow> [] | Some c \<Rightarrow> NodeName c)"

definition GetProxyAddress :: "shardManagerImpl \<Rightarrow> string \<Rightarrow> string option" where
  "GetProxyAddress sm nodeName =
     (case memberlistConfig sm of None \<Rightarrow> None | Some c \<Rightarrow> gget (ProxyAddresses c) nodeName)"

definition NotifyLeave :: "string \<Rightarrow> nat \<Rightarrow> shardManagerImpl \<Rightarrow> shardManagerImpl \<times> sm_effect list" where
  "NotifyLeave node numMembers sm =
     (let sm = sm\<lparr>remoteNodeStates := gdel node (remoteNodeStates sm)\<rparr>
      in case memberlistConfig sm of
           Some c \<Rightarrow> if ml sm \<and> numMembers = 1 \<and> length (JoinAddrs c) > 0 then startJoinLoop sm else (sm, [])
         | None \<Rightarrow> (sm, []))"

section \<open>Shards of this instance\<close>

definition addLocalShard :: "int \<Rightarrow> ClusterShardID \<Rightarrow> shardManagerImpl \<Rightarrow> int \<times> shardManagerImpl" where
  "addLocalShard now shard sm =
     (now, sm\<lparr>localShards :=
       gput (ClusterShardIDtoShortString shard) \<lparr>SI_ID = shard, SI_Created = now\<rparr> (localShards sm)\<rparr>)"

definition removeLocalShard :: "ClusterShardID \<Rightarrow> shardManagerImpl \<Rightarrow> shardManagerImpl" where
  "removeLocalShard shard sm =
     sm\<lparr>localShards := gdel (ClusterShardIDtoShortString shard) (localShards sm)\<rparr>"

definition broadcastShardChange ::
  "int \<Rightarrow> string \<Rightarrow> ClusterShardID \<Rightarrow> shardManagerImpl \<Rightarrow> sm_effect list" where
  "broadcastShardChange now msgType shard sm =
     (if \<not> started sm \<or> \<not> ml sm \<or> memberlistConfig sm = None then []
      else
        let msg = \<lparr>MsgType = msgType, MsgNodeName = GetNodeName sm, MsgClientShard = shard,
                   MsgTimestamp = now\<rparr>;
            nodeNames = filter (\<lambda>n. n \<noteq> GetNodeName sm) (gkeys (remoteNodeStates sm))
        in map (\<lambda>n. EBroadcast n msg) nodeNames)"

definition notifyReceiversOfNewShard :: "ClusterShardID \<Rightarrow> shardManagerImpl \<Rightarrow> sm_effect list" where
  "notifyReceiversOfNewShard target sm =
     map (\<lambda>r. ENotifyReceiver r target)
       (filter (\<lambda>r. ClusterID (AR_Target r) = ClusterID target) (map snd (activeReceivers sm)))"

text \<open>The bodies of the callbacks for local and for remote shard changes agree.\<close>

definition onShardChange :: "ClusterShardID \<Rightarrow> bool \<Rightarrow> shardManagerImpl \<Rightarrow> sm_effect list" where
  "onShardChange shard added sm =
     (if added then notifyReceiversOfNewShard shard sm else []) @
     (if intraMgr sm then [EIntraNotify] else [])"

text \<open>\<open>now\<close> is the clock when the shard is added, \<open>later\<close> the clock when the change is broadcast.\<close>

definition RegisterShard ::
  "int \<Rightarrow> int \<Rightarrow> ClusterShardID \<Rightarrow> shardManagerImpl \<Rightarrow> int \<times> shardManagerImpl \<times> sm_effect list" where
  "RegisterShard now later shard sm =
     (let (registeredAt, sm) = addLocalShard now shard sm
      in (registeredAt, sm,
          broadcastShardChange later ''register'' shard sm @
          (if ml sm then [EUpdateNode] else []) @
          (if callbacks sm then onShardChange shard True sm else [])))"

definition UnregisterShard ::
  "int \<Rightarrow> ClusterShardID \<Rightarrow> int \<Rightarrow> shardManagerImpl \<Rightarrow> shardManagerImpl \<times> sm_effect list" where
  "UnregisterShard later shard expectedRegisteredAt sm =
     (let key = ClusterShardIDtoShortString shard
      in case gget (localShards sm) key of
           Some info \<Rightarrow>
             if SI_Created info = expectedRegisteredAt then
               let sm = sm\<lparr>localShards := gdel key (localShards sm)\<rparr>;
                   sm = removeLocalShard shard sm
               in (sm, broadcastShardChange later ''unregister'' shard sm @
                       (if ml sm then [EUpdateNode] else []) @
                       (if callbacks sm then onShardChange shard False sm else []))
             else (sm, [])
         | None \<Rightarrow> (sm, []))"

definition IsLocalShard :: "shardManagerImpl \<Rightarrow> ClusterShardID \<Rightarrow> bool" where
  "IsLocalShard sm shard =
     (if \<not> started sm then True
      else gget (localShards sm) (ClusterShardIDtoShortString shard) \<noteq> None)"

definition GetLocalShards :: "shardManagerImpl \<Rightarrow> (string, ClusterShardID) gomap" where
  "GetLocalShards sm = fold (\<lambda>(k, v). gput k (SI_ID v)) (localShards sm) []"

section \<open>Shards of the peers\<close>

definition GetRemoteShardsForPeer :: "shardManagerImpl \<Rightarrow> string \<Rightarrow> (string, NodeShardState) gomap" where
  "GetRemoteShardsForPeer sm peerNodeName =
     fold (\<lambda>(nodeName, state) res.
             if nodeName = GetNodeName sm then res
             else if peerNodeName \<noteq> [] \<and> nodeName \<noteq> peerNodeName then res
             else gput nodeName state res) (remoteNodeStates sm) []"

definition getShardOwner :: "shardManagerImpl \<Rightarrow> ClusterShardID \<Rightarrow> string option" where
  "getShardOwner sm shard =
     map_option fst
       (List.find (\<lambda>(nodeName, state). \<exists>(k, s) \<in> set (NS_Shards state). SI_ID s = shard)
          (GetRemoteShardsForPeer sm []))"

text \<open>\<open>None\<close> stands for data that does not unmarshal.\<close>

definition MergeRemoteState :: "NodeShardState option \<Rightarrow> shardManagerImpl \<Rightarrow> shardManagerImpl" where
  "MergeRemoteState state sm =
     (case state of None \<Rightarrow> sm
      | Some st \<Rightarrow> sm\<lparr>remoteNodeStates := gput (NS_NodeName st) st (remoteNodeStates sm)\<rparr>)"

text \<open>
  The metadata of this node: its full state when its encoding, of the length the argument
  \<open>encLen\<close> gives, fits into the limit, otherwise its bare name.
\<close>

datatype node_meta = MetaNil | MetaState NodeShardState | MetaName string

definition NodeMeta ::
  "int \<Rightarrow> (NodeShardState \<Rightarrow> int option) \<Rightarrow> int \<Rightarrow> shardManagerImpl \<Rightarrow> node_meta" where
  "NodeMeta now encLen limit sm =
     (if memberlistConfig sm = None then MetaNil
      else
        let shardsCopy = fold (\<lambda>(k, v). gput k v) (localShards sm) [];
            state = \<lparr>NS_NodeName = GetNodeName sm, NS_Shards = shardsCopy, NS_Updated = now\<rparr>
        in case encLen state of
             None \<Rightarrow> MetaNil
           | Some n \<Rightarrow> if n > limit then MetaName (GetNodeName sm) else MetaState state)"

definition LocalState :: "int \<Rightarrow> (NodeShardState \<Rightarrow> int option) \<Rightarrow> shardManagerImpl \<Rightarrow> node_meta" where
  "LocalState now encLen sm = NodeMeta now encLen 4096 sm"

definition NotifyMsg ::
  "int \<Rightarrow> ShardMessage option \<Rightarrow> shardManagerImpl \<Rightarrow> shardManagerImpl \<times> sm_effect list" where
  "NotifyMsg later data sm =
     (case data of
        None \<Rightarrow> (sm, [])
      | Some msg \<Rightarrow>
          if callbacks sm then
            let added = (MsgType msg = ''register'');
                (sm, effs) =
                  (if added then
                     case gget (localShards sm) (ClusterShardIDtoShortString (MsgClientShard msg)) of
                       Some localShard \<Rightarrow>
                         if SI_Created localShard < MsgTimestamp msg
                         then UnregisterShard later (MsgClientShard msg) (SI_Created localShard) sm
                         else (sm, [])
                     | None \<Rightarrow> (sm, [])
                   else (sm, []))
            in (sm, effs @ onShardChange (MsgClientShard msg) added sm)
          else (sm, []))"


section \<open>Registries of receivers and channels\<close>

definition RegisterActiveReceiver ::
  "ClusterShardID \<Rightarrow> ActiveReceiver \<Rightarrow> shardManagerImpl \<Rightarrow> shardManagerImpl" where
  "RegisterActiveReceiver src r sm = sm\<lparr>activeReceivers := gput src r (activeReceivers sm)\<rparr>"

definition UnregisterActiveReceiver :: "ClusterShardID \<Rightarrow> shardManagerImpl \<Rightarrow> shardManagerImpl" where
  "UnregisterActiveReceiver src sm = sm\<lparr>activeReceivers := gdel src (activeReceivers sm)\<rparr>"

definition GetActiveReceiver :: "shardManagerImpl \<Rightarrow> ClusterShardID \<Rightarrow> ActiveReceiver option" where
  "GetActiveReceiver sm src = gget (activeReceivers sm) src"

definition SetRemoteSendChan :: "ClusterShardID \<Rightarrow> nat \<Rightarrow> shardManagerImpl \<Rightarrow> shardManagerImpl" where
  "SetRemoteSendChan shard ch sm = sm\<lparr>remoteSendChannels := gput shard ch (remoteSendChannels sm)\<rparr>"

definition GetRemoteSendChan :: "shardManagerImpl \<Rightarrow> ClusterShardID \<Rightarrow> nat option" where
  "GetRemoteSendChan sm shard = gget (remoteSendChannels sm) shard"

definition getAllRemoteSendChans :: "shardManagerImpl \<Rightarrow> (ClusterShardID, nat) gomap" where
  "getAllRemoteSendChans sm = fold (\<lambda>(k, v). gput k v) (remoteSendChannels sm) []"

definition GetRemoteSendChansByCluster :: "shardManagerImpl \<Rightarrow> int \<Rightarrow> (ClusterShardID, nat) gomap" where
  "GetRemoteSendChansByCluster sm clusterID =
     fold (\<lambda>(k, v) res. if ClusterID k = clusterID then gput k v res else res) (remoteSendChannels sm) []"

definition RemoveRemoteSendChan :: "ClusterShardID \<Rightarrow> nat \<Rightarrow> shardManagerImpl \<Rightarrow> shardManagerImpl" where
  "RemoveRemoteSendChan shard expectedChan sm =
     (if gget (remoteSendChannels sm) shard = Some expectedChan
      then sm\<lparr>remoteSendChannels := gdel shard (remoteSendChannels sm)\<rparr> else sm)"

definition SetLocalAckChan :: "ClusterShardID \<Rightarrow> nat \<Rightarrow> shardManagerImpl \<Rightarrow> shardManagerImpl" where
  "SetLocalAckChan shard ch sm = sm\<lparr>localAckChannels := gput shard ch (localAckChannels sm)\<rparr>"

definition GetLocalAckChan :: "shardManagerImpl \<Rightarrow> ClusterShardID \<Rightarrow> nat option" where
  "GetLocalAckChan sm shard = gget (localAckChannels sm) shard"

definition getAllLocalAckChans :: "shardManagerImpl \<Rightarrow> (ClusterShardID, nat) gomap" where
  "getAllLocalAckChans sm = fold (\<lambda>(k, v). gput k v) (localAckChannels sm) []"

definition RemoveLocalAckChan :: "ClusterShardID \<Rightarrow> nat \<Rightarrow> shardManagerImpl \<Rightarrow> shardManagerImpl" where
  "RemoveLocalAckChan shard expectedChan sm =
     (if gget (localAckChannels sm) shard = Some expectedChan
      then sm\<lparr>localAckChannels := gdel shard (localAckChannels sm)\<rparr> else sm)"

definition forceRemoveLocalAckChan :: "ClusterShardID \<Rightarrow> shardManagerImpl \<Rightarrow> shardManagerImpl" where
  "forceRemoveLocalAckChan shard sm = sm\<lparr>localAckChannels := gdel shard (localAckChannels sm)\<rparr>"

definition SetLocalReceiverCancelFunc :: "ClusterShardID \<Rightarrow> nat \<Rightarrow> shardManagerImpl \<Rightarrow> shardManagerImpl" where
  "SetLocalReceiverCancelFunc shard c sm =
     sm\<lparr>localReceiverCancelFuncs := gput shard c (localReceiverCancelFuncs sm)\<rparr>"

definition GetLocalReceiverCancelFunc :: "shardManagerImpl \<Rightarrow> ClusterShardID \<Rightarrow> nat option" where
  "GetLocalReceiverCancelFunc sm shard = gget (localReceiverCancelFuncs sm) shard"

definition RemoveLocalReceiverCancelFunc :: "ClusterShardID \<Rightarrow> shardManagerImpl \<Rightarrow> shardManagerImpl" where
  "RemoveLocalReceiverCancelFunc shard sm =
     sm\<lparr>localReceiverCancelFuncs := gdel shard (localReceiverCancelFuncs sm)\<rparr>"

definition TerminatePreviousLocalReceiver ::
  "ClusterShardID \<Rightarrow> shardManagerImpl \<Rightarrow> shardManagerImpl \<times> sm_effect list" where
  "TerminatePreviousLocalReceiver shard sm =
     (case GetLocalReceiverCancelFunc sm shard of
        None \<Rightarrow> (sm, [])
      | Some cancel \<Rightarrow>
          (forceRemoveLocalAckChan shard (RemoveLocalReceiverCancelFunc shard sm), [ECancel cancel]))"

section \<open>Debug information\<close>

record ShardDebugInfo =
  SD_Enabled :: bool
  SD_NodeName :: string
  SD_LocalShards :: "(string, ClusterShardID) gomap"
  SD_LocalShardCount :: nat
  SD_RemoteShards :: "(string, string) gomap"
  SD_RemoteShardCounts :: "(string, nat) gomap"

definition getShardInfo :: "shardManagerImpl \<Rightarrow> ShardDebugInfo" where
  "getShardInfo sm =
     (let localShardMap = GetLocalShards sm;
          remoteShards = GetRemoteShardsForPeer sm [];
          remoteShardsMap =
            fold (\<lambda>(nodeName, shards).
                    fold (\<lambda>(k, shard). gput (ClusterShardIDtoShortString (SI_ID shard)) nodeName)
                      (NS_Shards shards)) remoteShards [];
          remoteShardCounts =
            fold (\<lambda>(nodeName, shards). gput nodeName (length (NS_Shards shards))) remoteShards []
      in \<lparr>SD_Enabled = True, SD_NodeName = GetNodeName sm, SD_LocalShards = localShardMap,
          SD_LocalShardCount = length localShardMap, SD_RemoteShards = remoteShardsMap,
          SD_RemoteShardCounts = remoteShardCounts\<rparr>)"

definition GetShardInfos :: "shardManagerImpl \<Rightarrow> ShardDebugInfo list" where
  "GetShardInfos sm = (if memberlistConfig sm = None then [] else [getShardInfo sm])"

record ChannelDebugInfo =
  RemoteSendChannels :: "(string, nat) gomap"
  LocalAckChannels :: "(string, nat) gomap"
  TotalSendChannels :: nat
  TotalAckChannels :: nat

text \<open>\<open>lenMsg\<close> and \<open>lenAck\<close> give the number of elements buffered in a channel.\<close>

definition GetChannelInfo :: "(nat \<Rightarrow> nat) \<Rightarrow> (nat \<Rightarrow> nat) \<Rightarrow> shardManagerImpl \<Rightarrow> ChannelDebugInfo" where
  "GetChannelInfo lenMsg lenAck sm =
     (let allSendChans = getAllRemoteSendChans sm;
          remoteSend = fold (\<lambda>(sh, ch). gput (ClusterShardIDtoString sh) (lenMsg ch)) allSendChans [];
          allAckChans = getAllLocalAckChans sm;
          localAck = fold (\<lambda>(sh, ch). gput (ClusterShardIDtoString sh) (lenAck ch)) allAckChans []
      in \<lparr>RemoteSendChannels = remoteSend, LocalAckChannels = localAck,
          TotalSendChannels = length allSendChans, TotalAckChannels = length allAckChans\<rparr>)"

section \<open>Delivery\<close>

text \<open>
  A blocking send on a channel against the shutdown signal ends in one of three ways: the
  channel took the value, the channel was closed (the recovered panic), or the shutdown signal
  came first.
\<close>

datatype chan_result = ChanSent | ChanClosed | ChanShutdown

text \<open>
  The environment of a delivery: what a send on a channel does, whether the stream is shut
  down when this is read after an unsuccessful send, and what forwarding over the intra-proxy
  stream returns.
\<close>

record delivery_env =
  onChan :: "nat \<Rightarrow> chan_result"
  isShutdown :: bool
  intraSendAck :: "string \<Rightarrow> ClusterShardID \<Rightarrow> ClusterShardID \<Rightarrow> StreamReq \<Rightarrow> string option"
  intraSendMsg :: "string \<Rightarrow> ClusterShardID \<Rightarrow> ClusterShardID \<Rightarrow> StreamResp \<Rightarrow> string option"

definition DeliverAckToShardOwner ::
  "delivery_env \<Rightarrow> shardManagerImpl \<Rightarrow> ClusterShardID \<Rightarrow> RoutedAck \<Rightarrow> bool \<Rightarrow> bool \<times> sm_effect list" where
  "DeliverAckToShardOwner env sm srcShard routedAck allowForward =
     (let ackCh = GetLocalAckChan sm srcShard;
          forward =
            (if \<not> allowForward then (False, [])
             else if memberlistConfig sm \<noteq> None then
               (case getShardOwner sm srcShard of
                  Some owner \<Rightarrow>
                    if owner \<noteq> GetNodeName sm then
                      (case GetProxyAddress sm owner of
                         Some addr \<Rightarrow>
                           (intraSendAck env owner (TargetShard routedAck) srcShard (Req routedAck) = None,
                            [EIntraAck owner (TargetShard routedAck) srcShard (Req routedAck)])
                       | None \<Rightarrow> (False, []))
                    else (False, [])
                | None \<Rightarrow> (False, []))
             else (False, []))
      in case ackCh of
           Some ch \<Rightarrow>
             if onChan env ch = ChanSent then (True, [EAckChan ch routedAck])
             else if isShutdown env then (False, [])
             else forward
         | None \<Rightarrow> forward)"

definition DeliverMessagesToShardOwner ::
  "delivery_env \<Rightarrow> shardManagerImpl \<Rightarrow> ClusterShardID \<Rightarrow> RoutedMessage \<Rightarrow> bool \<times> sm_effect list" where
  "DeliverMessagesToShardOwner env sm tgtShard routedMsg =
     (let forward =
            (if memberlistConfig sm \<noteq> None then
               (case getShardOwner sm tgtShard of
                  Some owner \<Rightarrow>
                    if owner \<noteq> GetNodeName sm then
                      (case GetProxyAddress sm owner of
                         Some addr \<Rightarrow>
                           if intraMgr sm then
                             (intraSendMsg env owner tgtShard (SourceShard routedMsg) (Resp routedMsg) = None,
                              [EIntraMsg owner tgtShard (SourceShard routedMsg) (Resp routedMsg)])
                           else (False, [])
                       | None \<Rightarrow> (False, []))
                    else (False, [])
                | None \<Rightarrow> (False, []))
             else (False, []))
      in case GetRemoteSendChan sm tgtShard of
           Some ch \<Rightarrow>
             if onChan env ch = ChanSent then (True, [EMsgChan ch routedMsg])
             else if isShutdown env then (False, [])
             else forward
         | None \<Rightarrow> forward)"


section \<open>Invariant\<close>

definition sm_inv :: "shardManagerImpl \<Rightarrow> bool" where
  "sm_inv sm \<longleftrightarrow>
     gmap_ok (localShards sm) \<and> gmap_ok (activeReceivers sm) \<and> gmap_ok (remoteSendChannels sm) \<and>
     gmap_ok (localAckChannels sm) \<and> gmap_ok (localReceiverCancelFuncs sm) \<and>
     gmap_ok (remoteNodeStates sm) \<and>
     (\<forall>k info. gget (localShards sm) k = Some info \<longrightarrow> k = ClusterShardIDtoShortString (SI_ID info)) \<and>
     (\<forall>n st. gget (remoteNodeStates sm) n = Some st \<longrightarrow> NS_NodeName st = n)"

lemma sm_inv_New: "sm_inv (NewShardManager cfg mode)"
  by (simp add: sm_inv_def NewShardManager_def)

text \<open>The operations that change the state, as one relation.\<close>

inductive sm_step :: "shardManagerImpl \<Rightarrow> shardManagerImpl \<Rightarrow> bool" where
  sm_start: "sm_step sm (fst (snd (Start lan loc create sm)))"
| sm_stop: "Stop sm = Some sm' \<Longrightarrow> sm_step sm sm'"
| sm_joined: "sm_step sm (snd (snd (retryJoinCluster fuel mlSet join stop sm)))"
| sm_register: "sm_step sm (fst (snd (RegisterShard now later shard sm)))"
| sm_unregister: "sm_step sm (fst (UnregisterShard later shard expected sm))"
| sm_notify: "sm_step sm (fst (NotifyMsg later data sm))"
| sm_merge: "sm_step sm (MergeRemoteState state sm)"
| sm_leave: "sm_step sm (fst (NotifyLeave node n sm))"
| sm_reg_receiver: "sm_step sm (RegisterActiveReceiver src r sm)"
| sm_unreg_receiver: "sm_step sm (UnregisterActiveReceiver src sm)"
| sm_set_send: "sm_step sm (SetRemoteSendChan shard ch sm)"
| sm_remove_send: "sm_step sm (RemoveRemoteSendChan shard ch sm)"
| sm_set_ack: "sm_step sm (SetLocalAckChan shard ch sm)"
| sm_remove_ack: "sm_step sm (RemoveLocalAckChan shard ch sm)"
| sm_set_cancel: "sm_step sm (SetLocalReceiverCancelFunc shard c sm)"
| sm_remove_cancel: "sm_step sm (RemoveLocalReceiverCancelFunc shard sm)"
| sm_terminate: "sm_step sm (fst (TerminatePreviousLocalReceiver shard sm))"

inductive_cases sm_stepE: "sm_step sm sm'"

inductive sm_reach :: "shardManagerImpl \<Rightarrow> bool" where
  sm_reach_new: "sm_reach (NewShardManager cfg mode)"
| sm_reach_step: "sm_reach sm \<Longrightarrow> sm_step sm sm' \<Longrightarrow> sm_reach sm'"

lemmas sm_channel_defs =
  RegisterActiveReceiver_def UnregisterActiveReceiver_def SetRemoteSendChan_def
  RemoveRemoteSendChan_def SetLocalAckChan_def RemoveLocalAckChan_def
  SetLocalReceiverCancelFunc_def RemoveLocalReceiverCancelFunc_def forceRemoveLocalAckChan_def
  TerminatePreviousLocalReceiver_def

section \<open>Registries guarded by identity\<close>

text \<open>
  The channel registries are shared by streams that come and go: a stream files its channel under
  a shard and removes it at its end only when the entry is still its own. \<open>owned\<close> says that every
  entry belongs to one of the given owners; it survives the arrival and the departure of streams.
\<close>

locale guarded_registry =
  fixes lookup :: "'s \<Rightarrow> 'k \<Rightarrow> 'v option"
    and enter :: "'k \<Rightarrow> 'v \<Rightarrow> 's \<Rightarrow> 's"
    and leave :: "'k \<Rightarrow> 'v \<Rightarrow> 's \<Rightarrow> 's"
  assumes lookup_enter: "lookup (enter k v r) x = (if x = k then Some v else lookup r x)"
    and lookup_leave: "lookup (leave k v r) x = (if x = k \<and> lookup r k = Some v then None else lookup r x)"
begin

definition owned :: "('k \<times> 'v) set \<Rightarrow> 's \<Rightarrow> bool" where
  "owned live r \<longleftrightarrow> (\<forall>k v. lookup r k = Some v \<longrightarrow> (k, v) \<in> live)"

lemma owned_enter: "owned live r \<Longrightarrow> owned (insert (k, v) live) (enter k v r)"
  by (simp add: owned_def lookup_enter)

lemma owned_leave: "owned live r \<Longrightarrow> owned (live - {(k, v)}) (leave k v r)"
  by (auto simp: owned_def lookup_leave)

lemma owned_empty: "owned {} r \<Longrightarrow> lookup r k = None"
  using option.exhaust by (fastforce simp: owned_def)

lemma successor_stays: "v \<noteq> w \<Longrightarrow> lookup r k = Some v \<Longrightarrow> lookup (leave k w r) k = Some v"
  by (simp add: lookup_leave)

lemma other_stays: "j \<noteq> k \<Longrightarrow> lookup (leave k w r) j = lookup r j"
  by (simp add: lookup_leave)

end

interpretation send_registry: guarded_registry GetRemoteSendChan SetRemoteSendChan RemoveRemoteSendChan
  by unfold_locales (auto simp: GetRemoteSendChan_def SetRemoteSendChan_def RemoveRemoteSendChan_def)

interpretation ack_registry: guarded_registry GetLocalAckChan SetLocalAckChan RemoveLocalAckChan
  by unfold_locales (auto simp: GetLocalAckChan_def SetLocalAckChan_def RemoveLocalAckChan_def)

section \<open>Invariant of the tables under every operation\<close>

lemma sm_inv_Start: "sm_inv sm \<Longrightarrow> sm_inv (fst (snd (Start lan loc create sm)))"
  by (simp add: Start_def initializeMemberlist_def startJoinLoop_def SetupCallbacks_def Let_def
        sm_inv_def split: option.splits prod.splits)

lemma sm_inv_Stop: "sm_inv sm \<Longrightarrow> Stop sm = Some sm' \<Longrightarrow> sm_inv sm'"
  by (auto simp: Stop_def shutdownMemberlist_def sm_inv_def split: if_splits)

lemma sm_inv_Register: "sm_inv sm \<Longrightarrow> sm_inv (fst (snd (RegisterShard now later shard sm)))"
  by (simp add: RegisterShard_def addLocalShard_def Let_def sm_inv_def)

lemma sm_inv_Unregister: "sm_inv sm \<Longrightarrow> sm_inv (fst (UnregisterShard later shard expected sm))"
  by (simp add: UnregisterShard_def removeLocalShard_def Let_def sm_inv_def split: option.splits)

lemma sm_inv_NotifyMsg: "sm_inv sm \<Longrightarrow> sm_inv (fst (NotifyMsg later data sm))"
proof -
  assume inv: "sm_inv sm"
  have "sm_inv s" if "UnregisterShard later sh e sm = (s, effs)" for s sh e effs
    using sm_inv_Unregister[OF inv, of later sh e] that by simp
  with inv show ?thesis
    by (auto simp: NotifyMsg_def Let_def split: option.splits prod.splits)
qed

lemma sm_inv_Merge: "sm_inv sm \<Longrightarrow> sm_inv (MergeRemoteState state sm)"
  by (simp add: MergeRemoteState_def sm_inv_def split: option.splits)

lemma sm_inv_Leave: "sm_inv sm \<Longrightarrow> sm_inv (fst (NotifyLeave node n sm))"
  by (simp add: NotifyLeave_def startJoinLoop_def Let_def sm_inv_def split: option.splits)

lemma sm_inv_join: "sm_inv sm \<Longrightarrow> sm_inv (snd (snd (retryJoinCluster fuel mlSet join stop sm)))"
  by (simp add: retryJoinCluster_def sm_inv_def split: prod.splits)

lemma sm_inv_channels:
  assumes "sm_inv sm"
  shows "sm_inv (RegisterActiveReceiver src r sm)" "sm_inv (UnregisterActiveReceiver src sm)"
    "sm_inv (SetRemoteSendChan shard ch sm)" "sm_inv (RemoveRemoteSendChan shard ch sm)"
    "sm_inv (SetLocalAckChan shard ch sm)" "sm_inv (RemoveLocalAckChan shard ch sm)"
    "sm_inv (SetLocalReceiverCancelFunc shard c sm)" "sm_inv (RemoveLocalReceiverCancelFunc shard sm)"
    "sm_inv (fst (TerminatePreviousLocalReceiver shard sm))"
  using assms by (simp_all add: sm_channel_defs sm_inv_def split: option.splits)

lemma sm_inv_step: "sm_step sm sm' \<Longrightarrow> sm_inv sm \<Longrightarrow> sm_inv sm'"
  by (erule sm_stepE)
     (simp_all add: sm_inv_Start sm_inv_Stop sm_inv_Register sm_inv_Unregister sm_inv_NotifyMsg
        sm_inv_Merge sm_inv_Leave sm_inv_join sm_inv_channels)

lemma sm_inv_reach: "sm_reach sm \<Longrightarrow> sm_inv sm"
  by (induction rule: sm_reach.induct) (auto intro: sm_inv_New sm_inv_step)

section \<open>Ownership\<close>

lemma GetRemoteShardsForPeer_lookup:
  assumes "gmap_ok (remoteNodeStates sm)"
  shows "gget (GetRemoteShardsForPeer sm p) n =
    (if n = GetNodeName sm \<or> (p \<noteq> [] \<and> n \<noteq> p) then None else gget (remoteNodeStates sm) n)"
proof -
  have "GetRemoteShardsForPeer sm p =
      fold (\<lambda>(k, v) r. if \<not> (k = GetNodeName sm \<or> (p \<noteq> [] \<and> k \<noteq> p)) then gput k (id v) r else r)
        (remoteNodeStates sm) []"
    unfolding GetRemoteShardsForPeer_def
    by (rule fold_cong) (auto split: prod.splits)
  then show ?thesis
    using gget_copy_if[OF assms, of "\<lambda>k v. \<not> (k = GetNodeName sm \<or> (p \<noteq> [] \<and> k \<noteq> p))" id "[]" n]
    by (simp split: option.splits)
qed

lemma gmap_ok_GetRemoteShardsForPeer: "gmap_ok (GetRemoteShardsForPeer sm p)"
proof -
  have "gmap_ok r \<Longrightarrow> gmap_ok (fold (\<lambda>(nodeName, state) res.
             if nodeName = GetNodeName sm then res
             else if p \<noteq> [] \<and> nodeName \<noteq> p then res
             else gput nodeName state res) xs r)" for xs r
    by (induction xs arbitrary: r) auto
  from this[of "[]"] show ?thesis by (simp add: GetRemoteShardsForPeer_def)
qed

text \<open>A node that announces a shard.\<close>

definition announces :: "shardManagerImpl \<Rightarrow> string \<Rightarrow> ClusterShardID \<Rightarrow> bool" where
  "announces sm n shard \<longleftrightarrow>
     (\<exists>st. gget (remoteNodeStates sm) n = Some st \<and> (\<exists>(k, s) \<in> set (NS_Shards st). SI_ID s = shard))"

lemma find_Some_in: "List.find P xs = Some x \<Longrightarrow> x \<in> set xs \<and> P x"
  by (induction xs) (auto split: if_splits)

lemma find_None_iff_ball: "List.find P xs = None \<longleftrightarrow> (\<forall>x \<in> set xs. \<not> P x)"
  by (induction xs) auto

lemma getShardOwner_sound:
  assumes "sm_inv sm" "getShardOwner sm shard = Some owner"
  shows "owner \<noteq> GetNodeName sm \<and> announces sm owner shard"
proof -
  from assms(2) obtain st where "(owner, st) \<in> set (GetRemoteShardsForPeer sm [])"
    "\<exists>(k, s) \<in> set (NS_Shards st). SI_ID s = shard"
    unfolding getShardOwner_def by (auto dest!: find_Some_in)
  moreover from this have "gget (GetRemoteShardsForPeer sm []) owner = Some st"
    by (simp add: gget_Some_iff[OF gmap_ok_GetRemoteShardsForPeer])
  ultimately show ?thesis
    using assms(1) by (auto simp: GetRemoteShardsForPeer_lookup sm_inv_def announces_def split: if_splits)
qed

lemma getShardOwner_complete:
  assumes "sm_inv sm" "announces sm n shard" "n \<noteq> GetNodeName sm"
  shows "getShardOwner sm shard \<noteq> None"
proof -
  from assms obtain st where st: "gget (GetRemoteShardsForPeer sm []) n = Some st"
    "\<exists>(k, s) \<in> set (NS_Shards st). SI_ID s = shard"
    by (auto simp: announces_def GetRemoteShardsForPeer_lookup sm_inv_def)
  then have "(n, st) \<in> set (GetRemoteShardsForPeer sm [])"
    by (simp add: gget_Some_iff[OF gmap_ok_GetRemoteShardsForPeer])
  with st(2) have "List.find (\<lambda>(nodeName, state). \<exists>(k, s) \<in> set (NS_Shards state). SI_ID s = shard)
      (GetRemoteShardsForPeer sm []) \<noteq> None"
    unfolding find_None_iff_ball by (auto intro!: bexI[of _ "(n, st)"])
  then show ?thesis by (simp add: getShardOwner_def)
qed


section \<open>Registration\<close>

lemma IsLocal_after_Register:
  "started sm \<Longrightarrow>
   IsLocalShard (fst (snd (RegisterShard now later shard sm))) other = (other = shard \<or> IsLocalShard sm other)"
  by (auto simp: RegisterShard_def addLocalShard_def IsLocalShard_def Let_def)

lemma Unregister_current:
  assumes "gget (localShards sm) (ClusterShardIDtoShortString shard) = Some info"
  shows "localShards (fst (UnregisterShard later shard (SI_Created info) sm)) =
    gdel (ClusterShardIDtoShortString shard) (localShards sm)"
  using assms by (simp add: UnregisterShard_def removeLocalShard_def Let_def)

lemma Unregister_stale:
  assumes "\<And>info. gget (localShards sm) (ClusterShardIDtoShortString shard) = Some info \<Longrightarrow>
    SI_Created info \<noteq> expected"
  shows "UnregisterShard later shard expected sm = (sm, [])"
  using assms by (simp add: UnregisterShard_def Let_def split: option.splits)

lemma Unregister_started [simp]:
  "started (fst (UnregisterShard later shard expected sm)) = started sm"
  "callbacks (fst (UnregisterShard later shard expected sm)) = callbacks sm"
  by (simp_all add: UnregisterShard_def removeLocalShard_def Let_def split: option.splits)

lemma NotifyMsg_started [simp]: "started (fst (NotifyMsg later data sm)) = started sm"
  by (simp add: NotifyMsg_def Let_def case_prod_beta split: option.split)

lemma NotifyMsg_local:
  assumes "callbacks sm" "gget (localShards sm) (ClusterShardIDtoShortString (MsgClientShard msg)) = Some info"
    "MsgType msg = ''register''"
  shows "localShards (fst (NotifyMsg later (Some msg) sm)) =
    (if SI_Created info < MsgTimestamp msg
     then gdel (ClusterShardIDtoShortString (MsgClientShard msg)) (localShards sm) else localShards sm)"
  using assms Unregister_current[OF assms(2), of later]
  by (auto simp: NotifyMsg_def Let_def split: prod.splits)

section \<open>Delivery\<close>

text \<open>
  What a client may rely on when it hands a message to the owner of a shard: a delivery has at
  most one effect, and a successful one has exactly one, which carries the message.
\<close>

locale owner_delivery =
  fixes deliver :: "'e \<Rightarrow> ClusterShardID \<Rightarrow> 'm \<Rightarrow> bool \<times> sm_effect list"
    and carries :: "sm_effect \<Rightarrow> ClusterShardID \<Rightarrow> 'm \<Rightarrow> bool"
  assumes at_most_one: "length (snd (deliver e shard m)) \<le> 1"
    and success: "fst (deliver e shard m) \<Longrightarrow> \<exists>ef. snd (deliver e shard m) = [ef] \<and> carries ef shard m"
begin

text \<open>
  The retry loop over such deliveries, in environments that change from round to round: when
  it ends, every message has reached its owner in a round that reported success.
\<close>

lemma loop_delivers:
  assumes "gmap_ok items"
    "fst (deliver_all fuel shut (\<lambda>r shard m. fst (deliver (envs r) shard m)) items) = RetryDone"
    "(shard, m) \<in> set items"
  shows "\<exists>r ef. snd (deliver (envs r) shard m) = [ef] \<and> carries ef shard m"
proof -
  let ?d = "\<lambda>r shard m. fst (deliver (envs r) shard m)"
  have "(shard, m) \<in> set (snd (deliver_all fuel shut ?d items))"
    using deliver_all_done_iff[OF assms(1,2)] assms(3) by simp
  then have "\<exists>i. ?d i shard m" by (rule deliver_all_accepted)
  then obtain r where "fst (deliver (envs r) shard m)" by blast
  then show ?thesis using success by blast
qed

end

fun carries_ack :: "sm_effect \<Rightarrow> ClusterShardID \<Rightarrow> RoutedAck \<Rightarrow> bool" where
  "carries_ack (EAckChan ch a) shard ack = (a = ack)"
| "carries_ack (EIntraAck owner client server req) shard ack =
     (client = TargetShard ack \<and> server = shard \<and> req = Req ack)"
| "carries_ack _ shard ack = False"

fun carries_msg :: "sm_effect \<Rightarrow> ClusterShardID \<Rightarrow> RoutedMessage \<Rightarrow> bool" where
  "carries_msg (EMsgChan ch m) shard msg = (m = msg)"
| "carries_msg (EIntraMsg owner tgt src resp) shard msg =
     (tgt = shard \<and> src = SourceShard msg \<and> resp = Resp msg)"
| "carries_msg _ shard msg = False"

interpretation ack_delivery: owner_delivery
  "\<lambda>(env, sm) shard ack. DeliverAckToShardOwner env sm shard ack allow" carries_ack
  by unfold_locales (auto simp: DeliverAckToShardOwner_def Let_def split: option.splits if_splits)

interpretation msg_delivery: owner_delivery
  "\<lambda>(env, sm). DeliverMessagesToShardOwner env sm" carries_msg
  by unfold_locales (auto simp: DeliverMessagesToShardOwner_def Let_def split: option.splits if_splits)

section \<open>The join loop\<close>

lemma join_loop_waits:
  assumes "2 \<le> i" "i \<le> 60"
  shows "\<forall>w \<in> set (snd (join_loop fuel mlSet join stop k i)). 2 \<le> w \<and> w \<le> 60"
  using assms
proof (induction fuel arbitrary: k i)
  case (Suc fuel)
  let ?n = "if i * 2 > 60 then 60 else i * 2"
  have "\<forall>w \<in> set (snd (join_loop fuel mlSet join stop (Suc k) ?n)). 2 \<le> w \<and> w \<le> 60"
    using Suc.prems by (intro Suc.IH) auto
  then show ?case using Suc.prems by (simp add: Let_def case_prod_beta)
qed simp

lemma join_loop_joins:
  assumes "join (k + n)" "\<forall>i \<le> n. mlSet (k + i)" "\<forall>i < n. \<not> join (k + i) \<and> \<not> stop (k + i)" "n < fuel"
  shows "fst (join_loop fuel mlSet join stop k interval) = Joined"
  using assms
proof (induction n arbitrary: fuel k interval)
  case 0
  then show ?case by (cases fuel) auto
next
  case (Suc n)
  then obtain f where f: "fuel = Suc f" by (cases fuel) auto
  have "mlSet (Suc k + i)" if "i \<le> n" for i
    using Suc.prems(2)[rule_format, of "Suc i"] that by simp
  moreover have "\<not> join (Suc k + i) \<and> \<not> stop (Suc k + i)" if "i < n" for i
    using Suc.prems(3)[rule_format, of "Suc i"] that by simp
  ultimately have ih: "fst (join_loop f mlSet join stop (Suc k) j) = Joined" for j
    using Suc.prems(1,4) f by (intro Suc.IH) auto
  have "mlSet k" "\<not> join k" "\<not> stop k"
    using Suc.prems(2)[rule_format, of 0] Suc.prems(3)[rule_format, of 0] by auto
  then show ?case
    using ih by (simp add: f Let_def case_prod_beta)
qed


section \<open>Properties\<close>


definition exCfg :: MemberlistConfig where
  "exCfg = \<lparr>NodeName = ''n1'', BindAddr = ''0.0.0.0'', BindPort = 7946, JoinAddrs = [''n2:7946''],
            ProxyAddresses = [(''n2'', ''n2:9000'')], TCPOnly = False, DisableTCPPings = False,
            ProbeTimeoutMs = 0, ProbeIntervalMs = 0\<rparr>"

definition exShard :: ClusterShardID where "exShard = \<lparr>ClusterID = 1, ShardID = 3\<rparr>"

definition exMl :: mlConfig where
  "exMl = \<lparr>ML_Name = [], ML_BindAddr = [], ML_BindPort = 0, ML_AdvertiseAddr = [], ML_AdvertisePort = 0,
           ML_DisableTcpPings = False, ML_ProbeTimeout = 500, ML_ProbeInterval = 1000\<rparr>"

definition exStarted :: "string \<Rightarrow> shardManagerImpl" where
  "exStarted mode = fst (snd (Start exMl exMl (\<lambda>_. Some None) (NewShardManager (Some exCfg) mode)))"

definition exRegistered :: shardManagerImpl where
  "exRegistered = fst (snd (RegisterShard 100 105 exShard (exStarted ''routing'')))"

lemma exRegistered_reach: "sm_reach exRegistered"
  unfolding exRegistered_def exStarted_def 
  by (rule sm_reach_step[OF sm_reach_step[OF sm_reach_new sm_start] sm_register])

lemma exShard_short: "ClusterShardIDtoShortString exShard = ''1:3''"
  by (simp add: ClusterShardIDtoShortString_def exShard_def show_int_def show_nat_small digit_char_def
      char_of_def bit_0)

lemmas Start_defs =
  exStarted_def Start_def initializeMemberlist_def startJoinLoop_def SetupCallbacks_def
  NewShardManager_def exCfg_def Let_def

lemma exRegistered_shards: "localShards exRegistered = [(''1:3'', \<lparr>SI_ID = exShard, SI_Created = 100\<rparr>)]"
  by (simp add: exRegistered_def RegisterShard_def addLocalShard_def Start_defs exShard_short)


text \<open>
  A sender that ends late does not take down its successor. After a shard is registered a
  second time, unregistering it with the timestamp of the first registration changes nothing and
  notifies nobody, while unregistering with the timestamp of the second removes exactly that
  shard.
\<close>

lemma stale_unregister_is_ignored:
  fixes shard :: ClusterShardID and l1 l2 l3 :: int
  assumes "started sm" "t1 \<noteq> t2"
  defines "sm2 \<equiv> fst (snd (RegisterShard t2 l2 shard (fst (snd (RegisterShard t1 l1 shard sm)))))"
  shows "UnregisterShard l3 shard t1 sm2 = (sm2, []) \<and> IsLocalShard sm2 shard \<and>
    (\<forall>other. IsLocalShard (fst (UnregisterShard l3 shard t2 sm2)) other =
       (other \<noteq> shard \<and> IsLocalShard sm other))"
proof -
  have info: "gget (localShards sm2) (ClusterShardIDtoShortString shard) = Some \<lparr>SI_ID = shard, SI_Created = t2\<rparr>"
    and st: "started sm2"
    using assms(1) by (simp_all add: sm2_def RegisterShard_def addLocalShard_def Let_def)
  have "UnregisterShard l3 shard t1 sm2 = (sm2, [])"
    using info assms(2) by (intro Unregister_stale) auto
  moreover have "IsLocalShard sm2 other = (other = shard \<or> IsLocalShard sm other)" for other
    using assms(1) by (auto simp: sm2_def RegisterShard_def addLocalShard_def Let_def IsLocalShard_def)
  moreover have "localShards (fst (UnregisterShard l3 shard t2 sm2)) =
      gdel (ClusterShardIDtoShortString shard) (localShards sm2)"
    using Unregister_current[OF info, of l3] by simp
  ultimately show ?thesis
    using st assms(1) by (auto simp: IsLocalShard_def)
qed

lemma exStarted_started: "started (exStarted mode)"
  by (simp add: Start_defs)

definition exTwice :: shardManagerImpl where
  "exTwice = fst (snd (RegisterShard 20 21 exShard (fst (snd (RegisterShard 10 11 exShard (exStarted []))))))"

lemma stale_unregister_is_ignored_witness:
  "UnregisterShard 30 exShard 10 exTwice = (exTwice, []) \<and> IsLocalShard exTwice exShard"
  using stale_unregister_is_ignored[where sm = "exStarted []" and ?t1.0 = 10 and ?t2.0 = 20 and ?l2.0 = 21
      and shard = exShard and ?l1.0 = 11 and ?l3.0 = 30]
  by (simp add: exTwice_def exStarted_started)

text \<open>
  Two instances that register the same shard at about the same time can both give it up.
  The broadcast carries the time of the broadcast and not the time of the registration, so with
  registrations at \<open>tA\<close> and \<open>tB\<close> and broadcasts at \<open>bA > tB\<close> and \<open>bB > tA\<close> each instance takes
  the other's registration to be newer than its own, and neither serves the shard afterwards.
\<close>

lemma concurrent_registration_loses_shard:
  fixes shard :: ClusterShardID and l :: int
  assumes "started smA" "callbacks smA" "started smB" "callbacks smB" "tA < bB" "tB < bA"
  defines "a1 \<equiv> fst (snd (RegisterShard tA bA shard smA))"
    and "b1 \<equiv> fst (snd (RegisterShard tB bB shard smB))"
  defines "msgA \<equiv> \<lparr>MsgType = ''register'', MsgNodeName = GetNodeName smA, MsgClientShard = shard, MsgTimestamp = bA\<rparr>"
    and "msgB \<equiv> \<lparr>MsgType = ''register'', MsgNodeName = GetNodeName smB, MsgClientShard = shard, MsgTimestamp = bB\<rparr>"
  shows "\<not> IsLocalShard (fst (NotifyMsg l (Some msgB) a1)) shard \<and>
    \<not> IsLocalShard (fst (NotifyMsg l (Some msgA) b1)) shard"
proof -
  have lose: "\<not> IsLocalShard (fst (NotifyMsg l (Some msg) (fst (snd (RegisterShard t b shard sm))))) shard"
    if "started sm" "callbacks sm" "t < MsgTimestamp msg" "MsgClientShard msg = shard" "MsgType msg = ''register''"
    for sm msg t b
  proof -
    let ?sm = "fst (snd (RegisterShard t b shard sm))"
    have i: "gget (localShards ?sm) (ClusterShardIDtoShortString (MsgClientShard msg)) =
        Some \<lparr>SI_ID = shard, SI_Created = t\<rparr>" "callbacks ?sm" "started ?sm"
      using that by (simp_all add: RegisterShard_def addLocalShard_def Let_def)
    from NotifyMsg_local[OF i(2,1), of l] that i(3) show ?thesis
      by (simp add: IsLocalShard_def)
  qed
  show ?thesis
    unfolding a1_def b1_def msgA_def msgB_def
    using lose[OF assms(1,2)] lose[OF assms(3,4)] assms(5,6) by simp
qed

lemma concurrent_registration_loses_shard_witness:
  "\<not> IsLocalShard (fst (NotifyMsg 50
       (Some \<lparr>MsgType = ''register'', MsgNodeName = ''n1'', MsgClientShard = exShard, MsgTimestamp = 104\<rparr>)
       (fst (snd (RegisterShard 101 103 exShard (exStarted [])))))) exShard"
proof -
  have s: "started (exStarted [])" "callbacks (exStarted [])" "GetNodeName (exStarted []) = ''n1''"
    by (simp_all add: Start_defs GetNodeName_def)
  show ?thesis
    using concurrent_registration_loses_shard[OF s(1,2) s(1,2), where tA = 101 and bB = 104 and tB = 102
      and bA = 103 and shard = exShard and l = 50] s(3) by simp
qed


text \<open>
  C21: The lookup of a shard's owner is right: it names a peer, never this instance, whose last
  merged state lists the shard, and it finds one whenever such a peer exists. An acknowledgement
  leaves this instance over an intra-proxy stream only when forwarding is allowed, only to that
  owner, and only when the shard has no local channel that took it; so an acknowledgement that
  arrived from a peer, which is delivered without permission to forward, is never passed on to
  another peer.
\<close>

theorem ack_forwarding_is_bounded:
  assumes "sm_reach sm"
  shows "(\<forall>owner. getShardOwner sm shard = Some owner \<longrightarrow> owner \<noteq> GetNodeName sm \<and> announces sm owner shard) \<and>
    (getShardOwner sm shard = None \<longrightarrow> (\<forall>n. announces sm n shard \<longrightarrow> n = GetNodeName sm)) \<and>
    (\<forall>owner c s q. EIntraAck owner c s q \<in> set (snd (DeliverAckToShardOwner env sm shard ack allow)) \<longrightarrow>
       allow \<and> getShardOwner sm shard = Some owner \<and> s = shard \<and>
       (\<forall>ch. GetLocalAckChan sm shard = Some ch \<longrightarrow> onChan env ch \<noteq> ChanSent))"
proof (intro conjI allI impI)
  have inv: "sm_inv sm" by (rule sm_inv_reach[OF assms])
  show "owner \<noteq> GetNodeName sm" "announces sm owner shard" if "getShardOwner sm shard = Some owner" for owner
    using getShardOwner_sound[OF inv that] by blast+
  show "n = GetNodeName sm" if "getShardOwner sm shard = None" "announces sm n shard" for n
    using getShardOwner_complete[OF inv that(2)] that(1) by blast
  fix owner c s q assume "EIntraAck owner c s q \<in> set (snd (DeliverAckToShardOwner env sm shard ack allow))"
  then have "allow \<and> getShardOwner sm shard = Some owner \<and> s = shard \<and>
       (\<forall>ch. GetLocalAckChan sm shard = Some ch \<longrightarrow> onChan env ch \<noteq> ChanSent)"
    by (auto simp: DeliverAckToShardOwner_def Let_def split: option.splits if_splits)
  then show "allow" "getShardOwner sm shard = Some owner" "s = shard"
    "\<And>ch. GetLocalAckChan sm shard = Some ch \<Longrightarrow> onChan env ch \<noteq> ChanSent" by auto
qed

definition exPeerState :: NodeShardState where
  "exPeerState = \<lparr>NS_NodeName = ''n2'', NS_Shards = [(''1:3'', \<lparr>SI_ID = exShard, SI_Created = 90\<rparr>)], NS_Updated = 95\<rparr>"

definition exMerged :: shardManagerImpl where
  "exMerged = MergeRemoteState (Some exPeerState) (exStarted ''routing'')"

lemma exMerged_reach: "sm_reach exMerged"
  unfolding exMerged_def exStarted_def
  by (rule sm_reach_step[OF sm_reach_step[OF sm_reach_new sm_start] sm_merge])

theorem ack_forwarding_is_bounded_witness:
  "getShardOwner exMerged exShard = Some ''n2'' \<and> announces exMerged ''n2'' exShard"
proof -
  have "getShardOwner exMerged exShard = Some ''n2''"
    by (simp add: getShardOwner_def exMerged_def MergeRemoteState_def exPeerState_def Start_defs
        GetRemoteShardsForPeer_def GetNodeName_def)
  moreover from this have "announces exMerged ''n2'' exShard"
    using ack_forwarding_is_bounded[OF exMerged_reach, of exShard] by blast
  ultimately show ?thesis by blast
qed

text \<open>
  The manager cannot be stopped twice: the channel that ends the join loop is made once, in
  the constructor, and closed by every stop. A manager with a configured memberlist that was
  started, stopped and started again panics in the next stop.
\<close>

lemma second_stop_panics:
  fixes lan loc :: mlConfig
  assumes "memberlistConfig sm \<noteq> None" "\<not> started sm" "\<not> ml sm" "\<not> stopJoinClosed sm"
    and create: "\<forall>c. create c = Some None"
  defines "run \<equiv> \<lambda>sm. fst (snd (Start lan loc create sm))"
  shows "\<exists>sm1. Stop (run sm) = Some sm1 \<and> Stop (run sm1) = None"
proof -
  have st: "started (run x) \<and> ml (run x) \<and> stopJoinClosed (run x) = stopJoinClosed x \<and>
      memberlistConfig (run x) = memberlistConfig x"
    if "memberlistConfig x \<noteq> None" "\<not> started x" for x
    using that create
    by (auto simp: run_def Start_def initializeMemberlist_def startJoinLoop_def SetupCallbacks_def Let_def
        split: option.splits)
  let ?sm1 = "(run sm)\<lparr>stopJoinClosed := True, joinLoopRunning := False, ml := False, started := False\<rparr>"
  have "Stop (run sm) = Some ?sm1"
    using st[of sm] assms(1,2,4) by (simp add: Stop_def shutdownMemberlist_def)
  moreover have "Stop (run ?sm1) = None"
    using st[of ?sm1] st[of sm] assms(1,2) by (simp add: Stop_def shutdownMemberlist_def)
  ultimately show ?thesis by blast
qed

lemma second_stop_panics_witness:
  "\<exists>sm1. Stop (exStarted []) = Some sm1 \<and>
     Stop (fst (snd (Start exMl exMl (\<lambda>_. Some None) sm1))) = None"
  unfolding exStarted_def
  by (rule second_stop_panics) (simp_all add: NewShardManager_def)

text \<open>
  The join loop pauses between two and sixty seconds after a failed attempt, never longer,
  and it ends with the instance joined once an attempt succeeds: with the memberlist set and no
  stop signal, an attempt that succeeds after \<open>n\<close> failures is reached.
\<close>

lemma join_retries_until_success:
  assumes "join (1 + n)" "\<forall>i \<le> n. mlSet (1 + i)" "\<forall>i < n. \<not> join (1 + i) \<and> \<not> stop (1 + i)" "n < fuel"
  shows "fst (retryJoinCluster fuel mlSet join stop sm) = Joined \<and>
    (\<forall>w \<in> set (fst (snd (retryJoinCluster fuel mlSet join stop sm))). 2 \<le> w \<and> w \<le> 60) \<and>
    \<not> joinLoopRunning (snd (snd (retryJoinCluster fuel mlSet join stop sm)))"
  using join_loop_joins[OF assms, of 2] join_loop_waits[of 2 fuel mlSet join stop 1]
  by (auto simp: retryJoinCluster_def case_prod_beta)

lemma join_retries_until_success_witness:
  "fst (snd (retryJoinCluster 9 (\<lambda>_. True) (\<lambda>k. k = 7) (\<lambda>_. False) (exStarted []))) = [2, 4, 8, 16, 32, 60] \<and>
   fst (retryJoinCluster 9 (\<lambda>_. True) (\<lambda>k. k = 7) (\<lambda>_. False) (exStarted [])) = Joined"
proof
  show "fst (retryJoinCluster 9 (\<lambda>_. True) (\<lambda>k. k = 7) (\<lambda>_. False) (exStarted [])) = Joined"
    using join_retries_until_success[of "\<lambda>k. k = 7" 6 "\<lambda>_. True" "\<lambda>_. False" 9 "exStarted []"] by simp
  have "snd (join_loop 9 (\<lambda>_. True) (\<lambda>k. k = 7) (\<lambda>_. False) 1 2) = [2, 4, 8, 16, 32, 60]" by code_simp
  then show "fst (snd (retryJoinCluster 9 (\<lambda>_. True) (\<lambda>k. k = 7) (\<lambda>_. False) (exStarted []))) = [2, 4, 8, 16, 32, 60]"
    by (simp add: retryJoinCluster_def case_prod_beta)
qed

end
