(* ===== verification/StreamReceiver.thy ===== *)
theory StreamReceiver
  imports StreamSender ShardManager
begin

text \<open>
  \<^verbatim>\<open>proxyStreamReceiver\<close> of \<^verbatim>\<open>proxy/proxy_streams.go\<close>: it receives the batches of one source shard,
  groups their tasks by the target shard that owns each workflow, hands the groups to the shard
  owners, and aggregates the acknowledgements of the targets into one acknowledgement for the
  source. \<open>recvReplicationMessages\<close> and \<open>sendAck\<close> are one turn of the two loops.

  The hash that assigns a workflow to a shard is a function of the server library and the
  argument \<open>shardOf\<close> of the definitions.
\<close>

record proxyStreamReceiver =
  localShardCount :: int
  sr_targetShardID :: ClusterShardID
  sr_sourceShardID :: ClusterShardID
  sr_directionLabel :: string
  sr_streamID :: string
  ackByTarget :: "(ClusterShardID, int) gomap"
  lastSentMin :: int
  lastExclusiveHighOriginal :: int
  lastAckSendTime :: int
  lastSentAck :: "StreamReq option"
  lastWatermark :: "WorkflowReplicationMessages option"

definition buildReceiverDebugSnapshot :: "proxyStreamReceiver \<Rightarrow> ReceiverDebugInfo" where
  "buildReceiverDebugSnapshot r =
     \<lparr>AckByTarget = fold (\<lambda>(k, v). gput (ClusterShardIDtoString k) v) (ackByTarget r) [],
      LastAggregatedMin = lastSentMin r,
      LastExclusiveHighOriginal = lastExclusiveHighOriginal r\<rparr>"

section \<open>Routing of batches\<close>

type_synonym shard_hash = "string \<Rightarrow> string \<Rightarrow> int \<Rightarrow> int"

definition routeOf :: "shard_hash \<Rightarrow> proxyStreamReceiver \<Rightarrow> ReplicationTask \<Rightarrow> ClusterShardID option" where
  "routeOf shardOf r task =
     (case RawTask task of
        None \<Rightarrow> None
      | Some info \<Rightarrow>
          if NamespaceId info \<noteq> [] \<and> WorkflowId info \<noteq> []
          then Some \<lparr>ClusterID = ClusterID (sr_targetShardID r),
                     ShardID = shardOf (NamespaceId info) (WorkflowId info) (localShardCount r)\<rparr>
          else None)"

definition groupTask ::
  "shard_hash \<Rightarrow> proxyStreamReceiver \<Rightarrow> ReplicationTask \<Rightarrow>
   (ClusterShardID, ReplicationTask list) gomap \<times> int list \<Rightarrow>
   (ClusterShardID, ReplicationTask list) gomap \<times> int list" where
  "groupTask shardOf r task acc =
     (case routeOf shardOf r task of
        None \<Rightarrow> acc
      | Some target \<Rightarrow>
          let (groups, ids) = acc;
              old = (case gget groups target of None \<Rightarrow> [] | Some ts \<Rightarrow> ts)
          in (gput target (old @ [task]) groups, ids @ [SourceTaskId task]))"

definition groupTasks ::
  "shard_hash \<Rightarrow> proxyStreamReceiver \<Rightarrow> ReplicationTask list \<Rightarrow>
   (ClusterShardID, ReplicationTask list) gomap \<times> int list" where
  "groupTasks shardOf r tasks = fold (groupTask shardOf r) tasks ([], [])"

text \<open>
  The batch of one target. The grouping keeps tasks with raw task info only, so the last case
  does not occur.
\<close>

definition targetMessage ::
  "proxyStreamReceiver \<Rightarrow> int \<Rightarrow> ReplicationTask list \<Rightarrow> RoutedMessage" where
  "targetMessage r prio tasks =
     \<lparr>SourceShard = sr_sourceShardID r,
      Resp = RespMessages (Some
        \<lparr>ReplicationTasks = tasks,
         ExclusiveHighWatermark =
           (case RawTask (last tasks) of Some info \<Rightarrow> i64 (TaskId info + 1) | None \<Rightarrow> 0),
         Priority = prio\<rparr>)\<rparr>"

text \<open>
  The broadcast of a watermark: a non-blocking send to the channels of the local shards of the
  target cluster, then a delivery to every shard of that cluster on the peers.
\<close>

definition broadcastWatermark ::
  "delivery_env \<Rightarrow> shardManagerImpl \<Rightarrow> proxyStreamReceiver \<Rightarrow> RoutedMessage \<Rightarrow> sm_effect list" where
  "broadcastWatermark env sm r msg =
     (let localShardsToSend = GetRemoteSendChansByCluster sm (ClusterID (sr_targetShardID r));
          remoteShards = GetRemoteShardsForPeer sm []
      in concat (map (\<lambda>(sh, ch). if onChan env ch = ChanSent then [EMsgChan ch msg] else [])
                   localShardsToSend) @
         concat (map (\<lambda>(node, shards).
                        concat (map (\<lambda>(k, shard).
                                       if ClusterID (SI_ID shard) \<noteq> ClusterID (sr_targetShardID r) then []
                                       else snd (DeliverMessagesToShardOwner env sm (SI_ID shard) msg))
                                  (NS_Shards shards)))
                   remoteShards))"

text \<open>
  One turn of the receive loop. The environment of the retry loop, with the state of the shard
  manager, may differ from round to round; the broadcast happens in the environment of round 0.
\<close>

definition recvReplicationMessages ::
  "shard_hash \<Rightarrow> int \<Rightarrow> nat \<Rightarrow> (nat \<Rightarrow> bool) \<Rightarrow> (nat \<Rightarrow> delivery_env \<times> shardManagerImpl) \<Rightarrow>
   StreamResp recv \<Rightarrow> proxyStreamReceiver \<Rightarrow> StreamTracker \<Rightarrow>
   turn \<times> proxyStreamReceiver \<times> StreamTracker \<times> sm_effect list \<times> (ClusterShardID \<times> RoutedMessage) list" where
  "recvReplicationMessages shardOf now fuel shut envs rcv r tr =
     (case rcv of
        RecvEOF \<Rightarrow> (Return None, r, tr, [], [])
      | RecvErr err \<Rightarrow> (Return (Some err), r, tr, [], [])
      | RecvMsg (RespMessages (Some m)) \<Rightarrow>
          let (tasksByTargetShard, ids) = groupTasks shardOf r (ReplicationTasks m);
              r = r\<lparr>lastExclusiveHighOriginal := ExclusiveHighWatermark m\<rparr>;
              sid = sr_streamID r;
              tr = (if sid \<noteq> [] then
                      let tr = UpdateStreamLastTaskIDs now sid ids tr;
                          tr = UpdateStreamReplicationMessages now sid (ExclusiveHighWatermark m) tr;
                          tr = UpdateStreamReceiverDebug now sid (buildReceiverDebugSnapshot r) tr
                      in UpdateStream now sid tr
                    else tr)
          in if ReplicationTasks m = [] then
               let r = r\<lparr>lastWatermark :=
                         Some \<lparr>ReplicationTasks = [], ExclusiveHighWatermark = ExclusiveHighWatermark m,
                               Priority = Priority m\<rparr>\<rparr>;
                   msg = \<lparr>SourceShard = sr_sourceShardID r,
                          Resp = watermarkMessage (ExclusiveHighWatermark m) (Priority m)\<rparr>;
                   (env, sm) = envs 0
               in (Continue, r, tr, broadcastWatermark env sm r msg, [])
             else
               let items = map (\<lambda>(target, tasks). (target, targetMessage r (Priority m) tasks)) tasksByTargetShard;
                   (outcome, done) =
                     deliver_all fuel shut
                       (\<lambda>k target msg. fst (DeliverMessagesToShardOwner (fst (envs k)) (snd (envs k)) target msg))
                       items
               in (case outcome of RetryDone \<Rightarrow> Continue | RetryShutdown \<Rightarrow> Return None | RetryFuel \<Rightarrow> OutOfFuel,
                   r, tr, [], done)
      | RecvMsg _ \<Rightarrow> (Continue, r, tr, [], []))"

definition sendPendingWatermarkToShard ::
  "delivery_env \<Rightarrow> shardManagerImpl \<Rightarrow> ClusterShardID \<Rightarrow> ClusterShardID \<Rightarrow>
   WorkflowReplicationMessages option \<Rightarrow> sm_effect list" where
  "sendPendingWatermarkToShard env sm srcShard tgtShard lastWm =
     (case lastWm of
        None \<Rightarrow> []
      | Some wm \<Rightarrow>
          if ExclusiveHighWatermark wm = 0 then []
          else
            let msg = \<lparr>SourceShard = srcShard,
                       Resp = watermarkMessage (ExclusiveHighWatermark wm) (Priority wm)\<rparr>
            in case GetRemoteSendChan sm tgtShard of
                 Some ch \<Rightarrow> if onChan env ch = ChanSent then [EMsgChan ch msg] else []
               | None \<Rightarrow> snd (DeliverMessagesToShardOwner env sm tgtShard msg))"

definition NotifyNewTargetShard ::
  "delivery_env \<Rightarrow> shardManagerImpl \<Rightarrow> ClusterShardID \<Rightarrow> proxyStreamReceiver \<Rightarrow> sm_effect list" where
  "NotifyNewTargetShard env sm tgtShard r =
     sendPendingWatermarkToShard env sm (sr_sourceShardID r) tgtShard (lastWatermark r)"

section \<open>Aggregation of acknowledgements\<close>

definition minStep :: "ClusterShardID \<times> int \<Rightarrow> int \<times> bool \<Rightarrow> int \<times> bool" where
  "minStep kv acc =
     (let (mn, first) = acc; wm = snd kv
      in if first \<or> wm < mn then (wm, False) else (mn, first))"

definition aggregateMin :: "(ClusterShardID, int) gomap \<Rightarrow> int \<times> bool" where
  "aggregateMin m = fold minStep m (0, True)"

definition clampAck :: "int \<Rightarrow> int \<Rightarrow> int" where
  "clampAck high mn = (if high > 0 \<and> mn > high then high else mn)"

datatype ack_event = AckChan RoutedAck | AckTick | AckShutdown

definition sendAck ::
  "int \<Rightarrow> (StreamReq \<Rightarrow> string option) \<Rightarrow> ack_event \<Rightarrow> proxyStreamReceiver \<Rightarrow> StreamTracker \<Rightarrow>
   turn \<times> proxyStreamReceiver \<times> StreamTracker \<times> StreamReq option" where
  "sendAck now send ev r tr =
     (case ev of
        AckChan routed \<Rightarrow>
          (case Req routed of
             ReqSync (Some st) \<Rightarrow>
               let r = r\<lparr>ackByTarget := gput (TargetShard routed) (InclusiveLowWatermark st) (ackByTarget r)\<rparr>;
                   (mn, first) = aggregateMin (ackByTarget r)
               in if \<not> first \<and> mn \<ge> lastSentMin r then
                    let mn = clampAck (lastExclusiveHighOriginal r) mn;
                        aggregated = syncRequest mn None
                    in (case send aggregated of
                          Some err \<Rightarrow> (Return (Some err), r, tr, Some aggregated)
                        | None \<Rightarrow>
                            let sid = sr_streamID r;
                                tr = (if sid \<noteq> [] then
                                        let tr = UpdateStreamSyncReplicationState now sid mn None tr;
                                            tr = UpdateStream now sid tr
                                        in UpdateStreamReceiverDebug now sid (buildReceiverDebugSnapshot r) tr
                                      else tr);
                                r = r\<lparr>lastSentMin := mn, lastAckSendTime := now,
                                      lastSentAck := Some aggregated\<rparr>
                            in (Continue, r, tr, Some aggregated))
                  else (Continue, r, tr, None)
           | _ \<Rightarrow> (Continue, r, tr, None))
      | AckTick \<Rightarrow>
          (case lastSentAck r of
             Some lastAck \<Rightarrow>
               if now - lastAckSendTime r \<ge> 1000000000 then
                 (case send lastAck of
                    Some err \<Rightarrow> (Return (Some err), r, tr, Some lastAck)
                  | None \<Rightarrow> (Continue, r\<lparr>lastAckSendTime := now\<rparr>, tr, Some lastAck))
               else (Continue, r, tr, None)
           | None \<Rightarrow> (Continue, r, tr, None))
      | AckShutdown \<Rightarrow> (Return None, r, tr, None))"


section \<open>Grouping\<close>

text \<open>The reference: the tasks of a batch that belong to a target, in the order of the batch.\<close>

definition tasksFor ::
  "shard_hash \<Rightarrow> proxyStreamReceiver \<Rightarrow> ClusterShardID \<Rightarrow> ReplicationTask list \<Rightarrow> ReplicationTask list" where
  "tasksFor shardOf r target = filter (\<lambda>t. routeOf shardOf r t = Some target)"

lemma fold_groupTask:
  "gget (fst (fold (groupTask shardOf r) tasks (g, ids))) target =
     (if tasksFor shardOf r target tasks = [] then gget g target
      else Some ((case gget g target of None \<Rightarrow> [] | Some ts \<Rightarrow> ts) @ tasksFor shardOf r target tasks))"
proof (induction tasks arbitrary: g ids)
  case (Cons t ts)
  show ?case
  proof (cases "routeOf shardOf r t")
    case None
    with Cons show ?thesis by (simp add: groupTask_def tasksFor_def)
  next
    case (Some tgt)
    have "groupTask shardOf r t (g, ids) =
        (gput tgt ((case gget g tgt of None \<Rightarrow> [] | Some ts \<Rightarrow> ts) @ [t]) g, ids @ [SourceTaskId t])"
      by (simp add: groupTask_def Some)
    with Cons Some show ?thesis by (auto simp: tasksFor_def)
  qed
qed (simp add: tasksFor_def)

lemma fold_groupTask_ids:
  "snd (fold (groupTask shardOf r) tasks (g, ids)) =
     ids @ map SourceTaskId (filter (\<lambda>t. routeOf shardOf r t \<noteq> None) tasks)"
  by (induction tasks arbitrary: g ids) (auto simp: groupTask_def split: option.split)

lemma fold_groupTask_ok:
  "gmap_ok g \<Longrightarrow> gmap_ok (fst (fold (groupTask shardOf r) tasks (g, ids)))"
  by (induction tasks arbitrary: g ids) (auto simp: groupTask_def split: option.split)

lemma groupTasks_lookup:
  "gget (fst (groupTasks shardOf r tasks)) target =
     (if tasksFor shardOf r target tasks = [] then None else Some (tasksFor shardOf r target tasks))"
  by (simp add: groupTasks_def fold_groupTask)

lemma gmap_ok_groupTasks: "gmap_ok (fst (groupTasks shardOf r tasks))"
  by (simp add: groupTasks_def fold_groupTask_ok)

lemma groupTasks_items:
  "(target, ts) \<in> set (fst (groupTasks shardOf r tasks)) \<longleftrightarrow>
     ts = tasksFor shardOf r target tasks \<and> ts \<noteq> []"
  using groupTasks_lookup[of shardOf r tasks target]
  by (auto simp: gget_Some_iff[OF gmap_ok_groupTasks, symmetric] split: if_splits)

lemma routeOf_update [simp]: "routeOf shardOf (r\<lparr>lastExclusiveHighOriginal := h\<rparr>) = routeOf shardOf r"
  by (auto simp: routeOf_def fun_eq_iff split: option.split)

section \<open>Aggregation\<close>

lemma fold_minStep:
  "fold minStep m (mn, False) = (Min (insert mn (snd ` set m)), False)"
proof (induction m arbitrary: mn)
  case (Cons kv m)
  have "minStep kv (mn, False) = (min (snd kv) mn, False)"
    by (simp add: minStep_def min_def Let_def)
  then have "fold minStep (kv # m) (mn, False) = (Min (insert (min (snd kv) mn) (snd ` set m)), False)"
    using Cons by simp
  also have "Min (insert (min (snd kv) mn) (snd ` set m)) = Min (insert mn (snd ` set (kv # m)))"
    by (cases "m = []") (simp_all add: min.assoc min.left_commute)
  finally show ?case .
qed simp

lemma aggregateMin_eq:
  "m \<noteq> [] \<Longrightarrow> aggregateMin m = (Min (snd ` set m), False)"
  by (cases m) (simp_all add: aggregateMin_def minStep_def fold_minStep)

lemma aggregateMin_Nil: "aggregateMin [] = (0, True)"
  by (simp add: aggregateMin_def)

lemma gput_nonempty [simp]: "gput k v m \<noteq> []"
  by (cases m) auto

lemma aggregateMin_le:
  assumes "gmap_ok m" "gget m k = Some w"
  shows "fst (aggregateMin m) \<le> w"
proof -
  have "(k, w) \<in> set m" using assms by (simp add: gget_Some_iff)
  then have "m \<noteq> []" "w \<in> snd ` set m" by force+
  then show ?thesis by (simp add: aggregateMin_eq)
qed

text \<open>The acknowledgement turn, in the case the loop acts on.\<close>

lemma sendAck_sync:
  fixes r :: proxyStreamReceiver and tr :: StreamTracker
  assumes "Req routed = ReqSync (Some st)" "send = (\<lambda>_. None)"
  defines "acks \<equiv> gput (TargetShard routed) (InclusiveLowWatermark st) (ackByTarget r)"
  defines "a \<equiv> clampAck (lastExclusiveHighOriginal r) (Min (snd ` set acks))"
  shows "\<exists>r' tr'. sendAck now send (AckChan routed) r tr =
      (Continue, r', tr', if Min (snd ` set acks) \<ge> lastSentMin r then Some (syncRequest a None) else None) \<and>
    ackByTarget r' = acks \<and> lastExclusiveHighOriginal r' = lastExclusiveHighOriginal r \<and>
    lastSentMin r' = (if Min (snd ` set acks) \<ge> lastSentMin r then a else lastSentMin r)"
  using assms by (simp add: sendAck_def aggregateMin_eq Let_def)


section \<open>The acknowledgements of a run\<close>

text \<open>
  A run of the receiver: turns of the receive loop, with a source that never reports a
  watermark below one that was acknowledged to it, and turns of the acknowledgement loop with
  successful sends. The trace lists the watermarks sent to the source.
\<close>

inductive rx_step :: "proxyStreamReceiver \<Rightarrow> StreamReq option \<Rightarrow> proxyStreamReceiver \<Rightarrow> bool" where
  rx_recv:
    "recvReplicationMessages shardOf now fuel shut envs rcv r tr = (t, r', tr', effs, done) \<Longrightarrow>
     lastSentMin r \<le> lastExclusiveHighOriginal r' \<or> r' = r \<Longrightarrow> rx_step r None r'"
| rx_ack:
    "sendAck now (\<lambda>_. None) ev r tr = (t, r', tr', out) \<Longrightarrow> rx_step r out r'"

fun watermarkOf :: "StreamReq \<Rightarrow> int list" where
  "watermarkOf (ReqSync (Some st)) = [InclusiveLowWatermark st]"
| "watermarkOf _ = []"

inductive rx_trace :: "proxyStreamReceiver \<Rightarrow> int list \<Rightarrow> proxyStreamReceiver \<Rightarrow> bool" where
  rx_nil: "rx_trace r [] r"
| rx_cons: "rx_step r out r' \<Longrightarrow> rx_trace r' ws r'' \<Longrightarrow>
     rx_trace r ((case out of None \<Rightarrow> [] | Some q \<Rightarrow> watermarkOf q) @ ws) r''"

definition rx_inv :: "proxyStreamReceiver \<Rightarrow> bool" where
  "rx_inv r \<longleftrightarrow>
     (lastExclusiveHighOriginal r \<le> 0 \<or> lastSentMin r \<le> lastExclusiveHighOriginal r) \<and>
     (lastSentAck r = None \<or> lastSentAck r = Some (syncRequest (lastSentMin r) None))"

lemma rx_recv_fields:
  assumes "recvReplicationMessages shardOf now fuel shut envs rcv r tr = (t, r', tr', effs, done)"
  shows "lastSentMin r' = lastSentMin r \<and> lastSentAck r' = lastSentAck r \<and> ackByTarget r' = ackByTarget r"
  using assms
  by (auto simp: recvReplicationMessages_def Let_def
      split: recv.splits StreamResp.splits option.splits prod.splits if_splits)

lemma watermarkOf_syncRequest [simp]: "watermarkOf (syncRequest w t) = [w]"
  by (simp add: syncRequest_def)

lemma clampAck_le: "clampAck h m \<le> m" "h > 0 \<Longrightarrow> clampAck h m \<le> h"
  by (auto simp: clampAck_def)

lemma rx_ack_fields:
  assumes "sendAck now (\<lambda>_. None) ev r tr = (t, r', tr', out)" "rx_inv r"
  shows "rx_inv r' \<and> lastSentMin r \<le> lastSentMin r' \<and>
    (out = None \<or> out = Some (syncRequest (lastSentMin r') None))"
proof (cases ev)
  case (AckChan routed)
  show ?thesis
  proof (cases "\<exists>st. Req routed = ReqSync (Some st)")
    case True
    then obtain st where st: "Req routed = ReqSync (Some st)" by blast
    obtain mn first where
      "aggregateMin (gput (TargetShard routed) (InclusiveLowWatermark st) (ackByTarget r)) = (mn, first)"
      by fastforce
    then show ?thesis
      using assms
      by (auto simp: AckChan st sendAck_def Let_def rx_inv_def clampAck_def split: if_splits)
  next
    case False
    then show ?thesis
      using assms by (auto simp: AckChan sendAck_def split: StreamReq.splits option.splits)
  qed
qed (use assms in \<open>auto simp: sendAck_def rx_inv_def split: option.splits if_splits\<close>)

lemma rx_step_fields:
  assumes "rx_step r out r'" "rx_inv r"
  shows "rx_inv r' \<and> lastSentMin r \<le> lastSentMin r' \<and>
    (out = None \<or> out = Some (syncRequest (lastSentMin r') None))"
  using assms(1)
proof (cases rule: rx_step.cases)
  case rx_recv
  then show ?thesis using assms(2) rx_recv_fields[OF rx_recv(2)] by (auto simp: rx_inv_def)
next
  case rx_ack
  then show ?thesis using rx_ack_fields assms(2) by blast
qed

lemma rx_trace_sorted:
  assumes "rx_trace r ws r'" "rx_inv r"
  shows "sorted ws \<and> (\<forall>w \<in> set ws. lastSentMin r \<le> w)"
  using assms
proof (induction rule: rx_trace.induct)
  case (rx_cons r out r' ws r'')
  with rx_step_fields[OF rx_cons(1)] have *: "rx_inv r'" "lastSentMin r \<le> lastSentMin r'"
    "out = None \<or> out = Some (syncRequest (lastSentMin r') None)" by auto
  with rx_cons.IH have "sorted ws" "\<forall>w \<in> set ws. lastSentMin r' \<le> w" by auto
  with * show ?case by (fastforce split: option.splits)
qed simp


section \<open>Properties\<close>

lemma tasksFor_cluster:
  "t \<in> set (tasksFor shardOf r target tasks) \<Longrightarrow>
   \<exists>info. RawTask t = Some info \<and> target = \<lparr>ClusterID = ClusterID (sr_targetShardID r),
     ShardID = shardOf (NamespaceId info) (WorkflowId info) (localShardCount r)\<rparr>"
  by (auto simp: tasksFor_def routeOf_def split: option.splits if_splits)

lemma item_of_group:
  "map (\<lambda>(target, tasks). (target, targetMessage r p tasks)) g =
   map (map_prod id (targetMessage r p)) g"
  by (auto simp: map_prod_def)

lemma gmap_ok_items:
  "gmap_ok g \<Longrightarrow> gmap_ok (map (\<lambda>(target, tasks). (target, f tasks)) g)"
  by (simp add: comp_def case_prod_beta)

text \<open>
  C16: The receiver splits a batch by target shard without losing, duplicating or reordering
  routable tasks: the group of a target is the sublist of the batch of the tasks whose namespace
  and workflow hash to it, there is a group exactly for the targets with such a task, and every
  target lies in the cluster of the stream and within the local shard count when the hash does.
\<close>

theorem routing_partitions_batch:
  assumes hash: "\<forall>ns wf. 1 \<le> shardOf ns wf (localShardCount r) \<and>
      shardOf ns wf (localShardCount r) \<le> localShardCount r"
  shows "gmap_ok (fst (groupTasks shardOf r tasks)) \<and>
    (\<forall>target ts. (target, ts) \<in> set (fst (groupTasks shardOf r tasks)) \<longleftrightarrow>
       ts = filter (\<lambda>t. routeOf shardOf r t = Some target) tasks \<and> ts \<noteq> []) \<and>
    (\<forall>(target, ts) \<in> set (fst (groupTasks shardOf r tasks)).
       ClusterID target = ClusterID (sr_targetShardID r) \<and>
       1 \<le> ShardID target \<and> ShardID target \<le> localShardCount r) \<and>
    snd (groupTasks shardOf r tasks) =
      map SourceTaskId (filter (\<lambda>t. routeOf shardOf r t \<noteq> None) tasks)"
proof -
  have range: "ClusterID target = ClusterID (sr_targetShardID r) \<and>
       1 \<le> ShardID target \<and> ShardID target \<le> localShardCount r"
    if "(target, ts) \<in> set (fst (groupTasks shardOf r tasks))" for target ts
  proof -
    from that have "ts = tasksFor shardOf r target tasks" "ts \<noteq> []"
      unfolding groupTasks_items by blast+
    then obtain t where "t \<in> set (tasksFor shardOf r target tasks)"
      by (metis last_in_set)
    from tasksFor_cluster[OF this] hash show ?thesis by auto
  qed
  then show ?thesis
    using gmap_ok_groupTasks groupTasks_items[unfolded tasksFor_def]
    by (auto simp: groupTasks_def fold_groupTask_ids)
qed

definition exReceiver :: proxyStreamReceiver where
  "exReceiver =
     \<lparr>localShardCount = 4, sr_targetShardID = \<lparr>ClusterID = 2, ShardID = 1\<rparr>,
      sr_sourceShardID = exA, sr_directionLabel = [], sr_streamID = ''rcv-1:4'', ackByTarget = [],
      lastSentMin = 0, lastExclusiveHighOriginal = 0, lastAckSendTime = 0, lastSentAck = None,
      lastWatermark = None\<rparr>"

definition exHash :: shard_hash where
  "exHash ns wid n = 1 + int (length ns + length wid) mod n"

definition exTaskFor :: "string \<Rightarrow> int \<Rightarrow> ReplicationTask" where
  "exTaskFor wid i = \<lparr>SourceTaskId = i, RawTask = Some \<lparr>NamespaceId = ''ns'', WorkflowId = wid, TaskId = i\<rparr>\<rparr>"

theorem routing_partitions_batch_witness:
  "fst (groupTasks exHash exReceiver [exTaskFor ''a'' 5, exTaskFor ''bb'' 6, exTaskFor ''c'' 7]) =
     [(\<lparr>ClusterID = 2, ShardID = 4\<rparr>, [exTaskFor ''a'' 5, exTaskFor ''c'' 7]),
      (\<lparr>ClusterID = 2, ShardID = 1\<rparr>, [exTaskFor ''bb'' 6])] \<and>
   snd (groupTasks exHash exReceiver [exTaskFor ''a'' 5, exTaskFor ''bb'' 6, exTaskFor ''c'' 7]) = [5, 6, 7]"
proof
  have mod4: "x mod 4 \<le> 3" for x :: int
    using pos_mod_bound[of 4 x] by linarith
  have "\<forall>ns wf. 1 \<le> exHash ns wf (localShardCount exReceiver) \<and>
      exHash ns wf (localShardCount exReceiver) \<le> localShardCount exReceiver"
    using mod4 by (simp add: exHash_def exReceiver_def)
  then have "snd (groupTasks exHash exReceiver ts) =
      map SourceTaskId (filter (\<lambda>t. routeOf exHash exReceiver t \<noteq> None) ts)" for ts
    using routing_partitions_batch[of exHash exReceiver ts] by blast
  then show
    "snd (groupTasks exHash exReceiver [exTaskFor ''a'' 5, exTaskFor ''bb'' 6, exTaskFor ''c'' 7]) = [5, 6, 7]"
    by (simp add: exTaskFor_def routeOf_def)
qed code_simp


definition exAck :: "int \<Rightarrow> int \<Rightarrow> RoutedAck" where
  "exAck shard w = \<lparr>TargetShard = \<lparr>ClusterID = 2, ShardID = shard\<rparr>, Req = syncRequest w None\<rparr>"

definition exReceiver2 :: proxyStreamReceiver where
  "exReceiver2 = exReceiver\<lparr>lastExclusiveHighOriginal := 20,
     ackByTarget := [(\<lparr>ClusterID = 2, ShardID = 1\<rparr>, 9)]\<rparr>"

definition exAckStep :: "turn \<times> proxyStreamReceiver \<times> StreamTracker \<times> StreamReq option" where
  "exAckStep = sendAck 3 (\<lambda>_. None) (AckChan (exAck 4 12)) exReceiver2 []"

lemma exAckStep_eval:
  "fst exAckStep = Continue \<and> ackByTarget (fst (snd exAckStep)) =
     [(\<lparr>ClusterID = 2, ShardID = 1\<rparr>, 9), (\<lparr>ClusterID = 2, ShardID = 4\<rparr>, 12)] \<and>
   snd (snd (snd exAckStep)) = Some (syncRequest 9 None)"
  by code_simp




text \<open>
  A target that has not acknowledged anything yet does not hold the aggregate back. The
  first acknowledgement of any target is forwarded to the source as it is (within the announced
  watermark), also when tasks of other targets with smaller IDs are still on their way.
\<close>

lemma silent_target_is_ignored:
  assumes "ackByTarget r = []" "lastSentMin r \<le> w" "w \<le> lastExclusiveHighOriginal r"
  shows "snd (snd (snd (sendAck now (\<lambda>_. None)
      (AckChan \<lparr>TargetShard = target, Req = syncRequest w x\<rparr>) r tr))) = Some (syncRequest w None)"
  using assms
  by (simp add: sendAck_def syncRequest_def Let_def aggregateMin_def minStep_def clampAck_def)

lemma silent_target_is_ignored_witness:
  "snd (snd (snd (sendAck 3 (\<lambda>_. None) (AckChan \<lparr>TargetShard = exB, Req = syncRequest 12 None\<rparr>)
     (exReceiver\<lparr>lastExclusiveHighOriginal := 20\<rparr>) []))) = Some (syncRequest 12 None)"
  by (rule silent_target_is_ignored) (simp_all add: exReceiver_def)




definition exEnv :: delivery_env where
  "exEnv = \<lparr>onChan = (\<lambda>_. ChanSent), isShutdown = False, intraSendAck = (\<lambda>_ _ _ _. None),
            intraSendMsg = (\<lambda>_ _ _ _. None)\<rparr>"

definition exSM :: shardManagerImpl where
  "exSM = SetRemoteSendChan \<lparr>ClusterID = 2, ShardID = 4\<rparr> 7 (NewShardManager None [])"

definition exMsgs :: WorkflowReplicationMessages where
  "exMsgs = \<lparr>ReplicationTasks = [exTaskFor ''a'' 5, exTaskFor ''c'' 7], ExclusiveHighWatermark = 8, Priority = 1\<rparr>"


end
