(* ===== verification/IntraProxy.thy ===== *)
theory IntraProxy
  imports StreamReceiver
begin

text \<open>
  \<^verbatim>\<open>proxy/intra_proxy_router.go\<close>: the streams between proxy instances over which batches and
  acknowledgements reach the instance that owns a shard. The manager keeps, per peer, a
  connection, the receivers (client streams this instance opened) and the senders (server streams
  the peer opened), and reconciles them with the shard ownership it sees. Receivers and peer
  states are objects that goroutines keep pointers to; they carry an identity.
\<close>

section \<open>State\<close>

record peerStreamKey =
  k_targetShard :: ClusterShardID
  k_sourceShard :: ClusterShardID

record intraProxyStreamSender =
  is_peerNodeName :: string
  is_targetShardID :: ClusterShardID
  is_sourceShardID :: ClusterShardID
  is_streamID :: string

record intraProxyStreamReceiver =
  ir_ident :: nat
  ir_peerNodeName :: string
  ir_targetShardID :: ClusterShardID
  ir_sourceShardID :: ClusterShardID
  ir_streamID :: string
  ir_streamClient :: bool  \<comment> \<open>the client stream is open\<close>
  ir_cancel :: bool        \<comment> \<open>the cancel function is set\<close>
  ir_lastWatermark :: "WorkflowReplicationMessages option"

record peerState =
  ps_ident :: nat
  conn :: "nat option"
  receivers :: "(peerStreamKey, intraProxyStreamReceiver) gomap"
  senders :: "(peerStreamKey, intraProxyStreamSender) gomap"
  recvShutdown :: "(peerStreamKey, nat) gomap"

text \<open>\<open>nextIdent\<close> is the supply of identities of new objects.\<close>

record intraProxyManager =
  peers :: "(string, peerState) gomap"
  nextIdent :: nat

datatype ip_effect =
    ShutdownReceiver nat
  | CancelReceiver nat
  | CloseSendReceiver nat
  | CloseConn nat
  | RunReceiver nat nat  \<comment> \<open>start the goroutine of a receiver on a connection\<close>

definition newIntraProxyManager :: intraProxyManager where
  "newIntraProxyManager = \<lparr>peers = [], nextIdent = 0\<rparr>"

definition emptyPeer :: "nat \<Rightarrow> nat option \<Rightarrow> peerState" where
  "emptyPeer i c = \<lparr>ps_ident = i, conn = c, receivers = [], senders = [], recvShutdown = []\<rparr>"

definition mkKey :: "ClusterShardID \<Rightarrow> ClusterShardID \<Rightarrow> peerStreamKey" where
  "mkKey target src = \<lparr>k_targetShard = target, k_sourceShard = src\<rparr>"

section \<open>Senders\<close>

definition RegisterSender ::
  "string \<Rightarrow> ClusterShardID \<Rightarrow> ClusterShardID \<Rightarrow> intraProxyStreamSender \<Rightarrow> intraProxyManager \<Rightarrow> intraProxyManager" where
  "RegisterSender peer target src sender m =
     (if ClusterID target = ClusterID src then m
      else
        let (ps, m) = (case gget (peers m) peer of
                         Some ps \<Rightarrow> (ps, m)
                       | None \<Rightarrow> (emptyPeer (nextIdent m) None, m\<lparr>nextIdent := nextIdent m + 1\<rparr>))
        in m\<lparr>peers := gput peer (ps\<lparr>senders := gput (mkKey target src) sender (senders ps)\<rparr>) (peers m)\<rparr>)"

definition UnregisterSender ::
  "string \<Rightarrow> ClusterShardID \<Rightarrow> ClusterShardID \<Rightarrow> intraProxyManager \<Rightarrow> intraProxyManager" where
  "UnregisterSender peer target src m =
     (case gget (peers m) peer of
        Some ps \<Rightarrow> m\<lparr>peers := gput peer (ps\<lparr>senders := gdel (mkKey target src) (senders ps)\<rparr>) (peers m)\<rparr>
      | None \<Rightarrow> m)"

text \<open>
  Sending over a server stream: the tracker is updated for messages, then the stream's \<^verbatim>\<open>Send\<close>
  is called with the result \<open>send\<close>.
\<close>

definition sender_sendReplicationMessages ::
  "int \<Rightarrow> (StreamResp \<Rightarrow> string option) \<Rightarrow> intraProxyStreamSender \<Rightarrow> StreamResp \<Rightarrow> StreamTracker \<Rightarrow>
   string option \<times> StreamTracker" where
  "sender_sendReplicationMessages now send s resp tr =
     (let tr = (case resp of
                  RespMessages (Some msgs) \<Rightarrow>
                    let ids = map SourceTaskId (ReplicationTasks msgs);
                        tr = UpdateStreamLastTaskIDs now (is_streamID s) ids tr;
                        tr = UpdateStreamReplicationMessages now (is_streamID s) (ExclusiveHighWatermark msgs) tr
                    in UpdateStream now (is_streamID s) tr
                | _ \<Rightarrow> tr)
      in (send resp, tr))"

text \<open>One turn of the loop that receives the acknowledgements of the peer.\<close>

definition sender_recvAck ::
  "int \<Rightarrow> delivery_env \<Rightarrow> shardManagerImpl \<Rightarrow> StreamReq recv \<Rightarrow> intraProxyStreamSender \<Rightarrow> StreamTracker \<Rightarrow>
   turn \<times> StreamTracker \<times> sm_effect list" where
  "sender_recvAck now env sm rcv s tr =
     (case rcv of
        RecvEOF \<Rightarrow> (Return None, tr, [])
      | RecvErr err \<Rightarrow> (Return (Some err), tr, [])
      | RecvMsg (ReqSync (Some st)) \<Rightarrow>
          let ack = InclusiveLowWatermark st;
              tr = UpdateStreamSyncReplicationState now (is_streamID s) ack None tr;
              tr = UpdateStream now (is_streamID s) tr;
              routedAck = \<lparr>TargetShard = is_targetShardID s, Req = syncRequest ack None\<rparr>;
              (sent, effs) = DeliverAckToShardOwner env sm (is_sourceShardID s) routedAck False
          in if \<not> sent then (Return (Some ''failed to forward ACK to source shard''), tr, effs)
             else (Continue, tr, effs)
      | RecvMsg _ \<Rightarrow> (Continue, tr, []))"

text \<open>
  The start of a sender's stream: its tracker entry, its registration, and the pending watermark
  of the active receiver of its source shard. \<open>pending\<close> is what \<^verbatim>\<open>GetLastWatermark\<close> of that
  receiver returns.
\<close>

definition sender_Run_start ::
  "int \<Rightarrow> (StreamResp \<Rightarrow> string option) \<Rightarrow> shardManagerImpl \<Rightarrow> (ActiveReceiver \<Rightarrow> WorkflowReplicationMessages option) \<Rightarrow>
   intraProxyStreamSender \<Rightarrow> intraProxyManager \<Rightarrow> StreamTracker \<Rightarrow>
   intraProxyStreamSender \<times> intraProxyManager \<times> StreamTracker \<times> StreamResp option" where
  "sender_Run_start now send sm pending s m tr =
     (let s = s\<lparr>is_streamID := BuildIntraProxySenderStreamID (is_peerNodeName s) (is_sourceShardID s) (is_targetShardID s)\<rparr>;
          tr = RegisterStream now (is_streamID s) ''StreamWorkflowReplicationMessages'' ''intra-proxy''
                 (ClusterShardIDtoString (is_sourceShardID s)) (ClusterShardIDtoString (is_targetShardID s))
                 StreamRoleForwarder tr;
          m = RegisterSender (is_peerNodeName s) (is_targetShardID s) (is_sourceShardID s) s m
      in case GetActiveReceiver sm (is_sourceShardID s) of
           None \<Rightarrow> (s, m, tr, None)
         | Some r \<Rightarrow>
             (case pending r of
                None \<Rightarrow> (s, m, tr, None)
              | Some wm \<Rightarrow>
                  if ExclusiveHighWatermark wm > 0 then
                    let resp = watermarkMessage (ExclusiveHighWatermark wm) (Priority wm)
                    in (s, m, snd (sender_sendReplicationMessages now send s resp tr), Some resp)
                  else (s, m, tr, None)))"

definition sender_Run_end ::
  "intraProxyStreamSender \<Rightarrow> intraProxyManager \<Rightarrow> StreamTracker \<Rightarrow> intraProxyManager \<times> StreamTracker" where
  "sender_Run_end s m tr =
     (UnregisterSender (is_peerNodeName s) (is_targetShardID s) (is_sourceShardID s) m,
      UnregisterStream (is_streamID s) tr)"

section \<open>Receivers\<close>

text \<open>
  The stream metadata a receiver sends: client shard is the target, server shard the source, and
  the origin header names this instance.
\<close>

record streamMD =
  MD_ClientClusterID :: string
  MD_ClientShardID :: string
  MD_ServerClusterID :: string
  MD_ServerShardID :: string
  MD_Origin :: string

definition receiver_metadata :: "shardManagerImpl \<Rightarrow> intraProxyStreamReceiver \<Rightarrow> streamMD" where
  "receiver_metadata sm r =
     \<lparr>MD_ClientClusterID = show_int (ClusterID (ir_targetShardID r)),
      MD_ClientShardID = show_int (ShardID (ir_targetShardID r)),
      MD_ServerClusterID = show_int (ClusterID (ir_sourceShardID r)),
      MD_ServerShardID = show_int (ShardID (ir_sourceShardID r)),
      MD_Origin = (case GetShardInfos sm of [] \<Rightarrow> [] | i # _ \<Rightarrow> SD_NodeName i)\<rparr>"

text \<open>
  The start of a receiver: \<open>open_stream\<close> is the result of opening the client stream. On success
  the receiver is the active receiver of its source shard and has a tracker entry.
\<close>

definition receiver_Run_start ::
  "int \<Rightarrow> (streamMD \<Rightarrow> string option) \<Rightarrow> intraProxyStreamReceiver \<Rightarrow> shardManagerImpl \<Rightarrow> StreamTracker \<Rightarrow>
   string option \<times> intraProxyStreamReceiver \<times> shardManagerImpl \<times> StreamTracker" where
  "receiver_Run_start now open_stream r sm tr =
     (let r = r\<lparr>ir_streamID := BuildIntraProxyReceiverStreamID (ir_peerNodeName r) (ir_sourceShardID r) (ir_targetShardID r)\<rparr>;
          md = receiver_metadata sm r;
          r = r\<lparr>ir_cancel := True\<rparr>
      in case open_stream md of
           Some err \<Rightarrow> (Some err, r, sm, tr)
         | None \<Rightarrow>
             let r = r\<lparr>ir_streamClient := True\<rparr>;
                 sm = RegisterActiveReceiver (ir_sourceShardID r)
                        \<lparr>AR_Ident = ir_ident r, AR_Target = ir_targetShardID r, AR_Source = ir_sourceShardID r\<rparr> sm;
                 tr = RegisterStream now (ir_streamID r) ''StreamWorkflowReplicationMessages'' ''intra-proxy''
                        (ClusterShardIDtoString (ir_sourceShardID r)) (ClusterShardIDtoString (ir_targetShardID r))
                        StreamRoleForwarder tr
             in (None, r, sm, tr))"

definition receiver_Run_end ::
  "intraProxyStreamReceiver \<Rightarrow> shardManagerImpl \<Rightarrow> StreamTracker \<Rightarrow> shardManagerImpl \<times> StreamTracker" where
  "receiver_Run_end r sm tr =
     (UnregisterActiveReceiver (ir_sourceShardID r) sm, UnregisterStream (ir_streamID r) tr)"

text \<open>
  Waiting for the local channel of the target shard: in iteration \<open>k\<close>, \<open>chanAt k\<close> is the
  registered channel, \<open>onChanAt k\<close> the outcome of the send and \<open>shutAt k\<close> the shutdown flag read
  afterwards. Pauses are listed in milliseconds; the loop is unbounded, hence the fuel.
\<close>

datatype wait_outcome = WaitSent nat | WaitReturn "nat option" | WaitFuel

fun wait_send ::
  "nat \<Rightarrow> (nat \<Rightarrow> nat option) \<Rightarrow> (nat \<Rightarrow> nat \<Rightarrow> chan_result) \<Rightarrow> (nat \<Rightarrow> bool) \<Rightarrow> nat \<Rightarrow> int \<Rightarrow> wait_outcome \<times> int list" where
  "wait_send 0 chanAt onChanAt shutAt k pause = (WaitFuel, [])"
| "wait_send (Suc fuel) chanAt onChanAt shutAt k pause =
     (case chanAt k of
        Some ch \<Rightarrow>
          if shutAt k then (WaitReturn (if onChanAt k ch = ChanSent then Some ch else None), [])
          else if onChanAt k ch = ChanSent then (WaitSent ch, [])
          else wait_send fuel chanAt onChanAt shutAt (Suc k) pause
      | None \<Rightarrow>
          let (outcome, pauses) =
                wait_send fuel chanAt onChanAt shutAt (Suc k) (if pause < 1000 then pause * 2 else pause)
          in (outcome, pause # pauses))"

definition receiver_recvReplicationMessages ::
  "int \<Rightarrow> nat \<Rightarrow> (nat \<Rightarrow> nat option) \<Rightarrow> (nat \<Rightarrow> nat \<Rightarrow> chan_result) \<Rightarrow> (nat \<Rightarrow> bool) \<Rightarrow> StreamResp recv \<Rightarrow>
   intraProxyStreamReceiver \<Rightarrow> StreamTracker \<Rightarrow>
   turn \<times> intraProxyStreamReceiver \<times> StreamTracker \<times> sm_effect list" where
  "receiver_recvReplicationMessages now fuel chanAt onChanAt shutAt rcv r tr =
     (case rcv of
        RecvEOF \<Rightarrow> (Return None, r, tr, [])
      | RecvErr err \<Rightarrow> (Return (Some err), r, tr, [])
      | RecvMsg (RespMessages (Some msgs)) \<Rightarrow>
          let ids = map SourceTaskId (ReplicationTasks msgs);
              sid = ir_streamID r;
              tr = UpdateStreamLastTaskIDs now sid ids tr;
              tr = UpdateStreamReplicationMessages now sid (ExclusiveHighWatermark msgs) tr;
              tr = UpdateStream now sid tr;
              r = r\<lparr>ir_lastWatermark :=
                    Some \<lparr>ReplicationTasks = [], ExclusiveHighWatermark = ExclusiveHighWatermark msgs,
                          Priority = Priority msgs\<rparr>\<rparr>;
              msg = \<lparr>SourceShard = ir_sourceShardID r, Resp = RespMessages (Some msgs)\<rparr>
          in (case fst (wait_send fuel chanAt onChanAt shutAt 0 10) of
                WaitSent ch \<Rightarrow> (Continue, r, tr, [EMsgChan ch msg])
              | WaitReturn (Some ch) \<Rightarrow> (Return None, r, tr, [EMsgChan ch msg])
              | WaitReturn None \<Rightarrow> (Return None, r, tr, [])
              | WaitFuel \<Rightarrow> (OutOfFuel, r, tr, []))
      | RecvMsg _ \<Rightarrow> (Continue, r, tr, []))"

definition receiver_sendAck ::
  "int \<Rightarrow> (StreamReq \<Rightarrow> string option) \<Rightarrow> intraProxyStreamReceiver \<Rightarrow> StreamReq \<Rightarrow> StreamTracker \<Rightarrow>
   string option \<times> StreamTracker" where
  "receiver_sendAck now send r req tr =
     (case send req of
        Some err \<Rightarrow> (Some err, tr)
      | None \<Rightarrow>
          (None,
           case req of
             ReqSync (Some st) \<Rightarrow>
               UpdateStream now (ir_streamID r)
                 (UpdateStreamSyncReplicationState now (ir_streamID r) (InclusiveLowWatermark st) None tr)
           | _ \<Rightarrow> tr))"

definition receiver_NotifyNewTargetShard ::
  "delivery_env \<Rightarrow> shardManagerImpl \<Rightarrow> ClusterShardID \<Rightarrow> intraProxyStreamReceiver \<Rightarrow> sm_effect list" where
  "receiver_NotifyNewTargetShard env sm tgtShard r =
     sendPendingWatermarkToShard env sm (ir_sourceShardID r) tgtShard (ir_lastWatermark r)"


section \<open>The manager\<close>

text \<open>
  \<open>tlsErr\<close> is the error of building the TLS configuration, if TLS is enabled and fails, and \<open>dial\<close>
  the result of \<^verbatim>\<open>grpc.NewClient\<close>: an error or the identity of the connection.
\<close>

definition ensurePeer ::
  "string option \<Rightarrow> (string \<Rightarrow> string + nat) \<Rightarrow> shardManagerImpl \<Rightarrow> string \<Rightarrow> intraProxyManager \<Rightarrow>
   (string + peerState) \<times> intraProxyManager \<times> ip_effect list" where
  "ensurePeer tlsErr dial sm peer m =
     (case Option.bind (gget (peers m) peer) (\<lambda>ps. if conn ps \<noteq> None then Some ps else None) of
        Some ps \<Rightarrow> (Inr ps, m, [])
      | None \<Rightarrow>
          (case tlsErr of
             Some err \<Rightarrow> (Inl (''config error when creating tls config: '' @ err), m, [])
           | None \<Rightarrow>
               (case GetProxyAddress sm peer of
                  None \<Rightarrow> (Inl ''proxy address not found'', m, [])
                | Some addr \<Rightarrow>
                    (case dial addr of
                       Inl err \<Rightarrow> (Inl err, m, [])
                     | Inr cc \<Rightarrow>
                         (case gget (peers m) peer of
                            None \<Rightarrow>
                              let ps = emptyPeer (nextIdent m) (Some cc)
                              in (Inr ps, m\<lparr>peers := gput peer ps (peers m), nextIdent := nextIdent m + 1\<rparr>, [])
                          | Some ps \<Rightarrow>
                              let old = conn ps; ps = ps\<lparr>conn := Some cc\<rparr>
                              in (Inr ps, m\<lparr>peers := gput peer ps (peers m)\<rparr>,
                                  case old of Some c \<Rightarrow> [CloseConn c] | None \<Rightarrow> []))))))"

definition newReceiver :: "nat \<Rightarrow> string \<Rightarrow> ClusterShardID \<Rightarrow> ClusterShardID \<Rightarrow> intraProxyStreamReceiver" where
  "newReceiver i peer target src =
     \<lparr>ir_ident = i, ir_peerNodeName = peer, ir_targetShardID = target, ir_sourceShardID = src,
      ir_streamID = [], ir_streamClient = False, ir_cancel = False, ir_lastWatermark = None\<rparr>"

definition ensureStream ::
  "string option \<Rightarrow> (string \<Rightarrow> string + nat) \<Rightarrow> shardManagerImpl \<Rightarrow> string \<Rightarrow> ClusterShardID \<Rightarrow> ClusterShardID \<Rightarrow>
   intraProxyManager \<Rightarrow> string option \<times> intraProxyManager \<times> ip_effect list" where
  "ensureStream tlsErr dial sm peer target src m =
     (let key = mkKey target src;
          existing = Option.bind (gget (peers m) peer) (\<lambda>ps. gget (receivers ps) key)
      in if (case existing of Some r \<Rightarrow> ir_streamClient r | None \<Rightarrow> False) then (None, m, [])
         else
           (case ensurePeer tlsErr dial sm peer m of
              (Inl err, m, effs) \<Rightarrow> (Some err, m, effs)
            | (Inr ps, m, effs) \<Rightarrow>
                let i = nextIdent m;
                    recv = newReceiver i peer target src;
                    ps = ps\<lparr>receivers := gput key recv (receivers ps), recvShutdown := gput key i (recvShutdown ps)\<rparr>
                in (None, m\<lparr>peers := gput peer ps (peers m), nextIdent := i + 1\<rparr>,
                    effs @ [RunReceiver i (case conn ps of Some c \<Rightarrow> c | None \<Rightarrow> 0)])))"

text \<open>
  What a receiver's goroutine does to the manager: its object, reached through the map when it is
  still there, changes when the stream opens; at its end the goroutine removes the entries of its
  key from the peer state it was started for.
\<close>

definition receiver_opened :: "string \<Rightarrow> intraProxyStreamReceiver \<Rightarrow> intraProxyManager \<Rightarrow> intraProxyManager" where
  "receiver_opened peer r m =
     (let key = mkKey (ir_targetShardID r) (ir_sourceShardID r)
      in case gget (peers m) peer of
           None \<Rightarrow> m
         | Some ps \<Rightarrow>
             (case gget (receivers ps) key of
                Some r0 \<Rightarrow>
                  if ir_ident r0 = ir_ident r
                  then m\<lparr>peers := gput peer (ps\<lparr>receivers := gput key r (receivers ps)\<rparr>) (peers m)\<rparr> else m
              | None \<Rightarrow> m))"

definition receiver_finished ::
  "string \<Rightarrow> nat \<Rightarrow> ClusterShardID \<Rightarrow> ClusterShardID \<Rightarrow> intraProxyManager \<Rightarrow> intraProxyManager" where
  "receiver_finished peer psIdent target src m =
     (let key = mkKey target src
      in case gget (peers m) peer of
           None \<Rightarrow> m
         | Some ps \<Rightarrow>
             if ps_ident ps = psIdent
             then m\<lparr>peers := gput peer (ps\<lparr>receivers := gdel key (receivers ps),
                                             recvShutdown := gdel key (recvShutdown ps)\<rparr>) (peers m)\<rparr>
             else m)"

definition EnsureReceiverForPeerShard ::
  "string option \<Rightarrow> (string \<Rightarrow> string + nat) \<Rightarrow> shardManagerImpl \<Rightarrow> string \<Rightarrow> ClusterShardID \<Rightarrow> ClusterShardID \<Rightarrow>
   intraProxyManager \<Rightarrow> intraProxyManager \<times> ip_effect list" where
  "EnsureReceiverForPeerShard tlsErr dial sm peer target src m =
     (if ClusterID target = ClusterID src then (m, [])
      else if peer = GetNodeName sm then (m, [])
      else if \<not> IsLocalShard sm target \<and> \<not> IsLocalShard sm src then (m, [])
      else snd (ensureStream tlsErr dial sm peer target src m))"

definition mgr_sendAck ::
  "int \<Rightarrow> (intraProxyStreamReceiver \<Rightarrow> StreamReq \<Rightarrow> string option) \<Rightarrow> intraProxyManager \<Rightarrow> string \<Rightarrow>
   ClusterShardID \<Rightarrow> ClusterShardID \<Rightarrow> StreamReq \<Rightarrow> StreamTracker \<Rightarrow> string option \<times> StreamTracker" where
  "mgr_sendAck now send m peer clientShard serverShard req tr =
     (case Option.bind (gget (peers m) peer) (\<lambda>ps. gget (receivers ps) (mkKey clientShard serverShard)) of
        Some r \<Rightarrow>
          if ir_streamClient r then receiver_sendAck now (send r) r req tr
          else (Some ''peer not found'', tr)
      | None \<Rightarrow> (Some ''peer not found'', tr))"

text \<open>
  Sending a batch waits up to two seconds for the peer to open its stream. In iteration \<open>k\<close>, \<open>mAt k\<close>
  is the state of the manager and \<open>clock k\<close> the time read after the lookup, in nanoseconds;
  \<open>deadline\<close> is the start time plus two seconds.
\<close>

datatype msg_outcome = MsgSender intraProxyStreamSender | MsgTimeout | MsgFuel

fun msg_loop ::
  "nat \<Rightarrow> (nat \<Rightarrow> intraProxyManager) \<Rightarrow> (nat \<Rightarrow> int) \<Rightarrow> int \<Rightarrow> string \<Rightarrow> peerStreamKey \<Rightarrow> nat \<Rightarrow> int \<Rightarrow>
   msg_outcome \<times> int list" where
  "msg_loop 0 mAt clock deadline peer key k pause = (MsgFuel, [])"
| "msg_loop (Suc fuel) mAt clock deadline peer key k pause =
     (case Option.bind (gget (peers (mAt k)) peer) (\<lambda>ps. gget (senders ps) key) of
        Some sender \<Rightarrow> (MsgSender sender, [])
      | None \<Rightarrow>
          if clock k > deadline then (MsgTimeout, [])
          else
            let (outcome, pauses) =
                  msg_loop fuel mAt clock deadline peer key (Suc k) (if pause < 200 then pause * 2 else pause)
            in (outcome, pause # pauses))"

definition mgr_sendReplicationMessages ::
  "nat \<Rightarrow> (nat \<Rightarrow> intraProxyManager) \<Rightarrow> int \<Rightarrow> (nat \<Rightarrow> int) \<Rightarrow> (intraProxyStreamSender \<Rightarrow> StreamResp \<Rightarrow> string option) \<Rightarrow>
   string \<Rightarrow> ClusterShardID \<Rightarrow> ClusterShardID \<Rightarrow> StreamResp \<Rightarrow> StreamTracker \<Rightarrow> (string option \<times> StreamTracker) option" where
  "mgr_sendReplicationMessages fuel mAt now clock send peer target src resp tr =
     (case fst (msg_loop fuel mAt clock (now + 2000000000) peer (mkKey target src) 0 10) of
        MsgSender s \<Rightarrow> Some (sender_sendReplicationMessages now (send s) s resp tr)
      | MsgTimeout \<Rightarrow> Some (Some ''failed to send replication messages'', tr)
      | MsgFuel \<Rightarrow> None)"

section \<open>Closing\<close>

definition closePeerLocked ::
  "string \<Rightarrow> peerState \<Rightarrow> intraProxyManager \<Rightarrow> StreamTracker \<Rightarrow> intraProxyManager \<times> StreamTracker \<times> ip_effect list" where
  "closePeerLocked peer ps m tr =
     (let effs = map (\<lambda>(key, i). ShutdownReceiver i) (recvShutdown ps);
          tr = fold (\<lambda>(key, i). UnregisterStream (BuildIntraProxyReceiverStreamID peer (k_targetShard key) (k_sourceShard key)))
                 (recvShutdown ps) tr;
          tr = fold (\<lambda>(key, s). UnregisterStream (BuildIntraProxySenderStreamID peer (k_targetShard key) (k_sourceShard key)))
                 (senders ps) tr;
          effs = effs @ (case conn ps of Some c \<Rightarrow> [CloseConn c] | None \<Rightarrow> [])
      in (m\<lparr>peers := gdel peer (peers m)\<rparr>, tr, effs))"

definition closePeerShardLocked ::
  "string \<Rightarrow> peerStreamKey \<Rightarrow> peerState \<Rightarrow> StreamTracker \<Rightarrow> peerState \<times> StreamTracker \<times> ip_effect list" where
  "closePeerShardLocked peer key ps tr =
     (let (ps, tr, effs1) =
            (case gget (recvShutdown ps) key of
               Some i \<Rightarrow>
                 (ps\<lparr>recvShutdown := gdel key (recvShutdown ps)\<rparr>,
                  UnregisterStream (BuildIntraProxyReceiverStreamID peer (k_targetShard key) (k_sourceShard key)) tr,
                  [ShutdownReceiver i])
             | None \<Rightarrow> (ps, tr, []));
          (ps, effs2) =
            (case gget (receivers ps) key of
               Some r \<Rightarrow>
                 (ps\<lparr>receivers := gdel key (receivers ps)\<rparr>,
                  (if ir_cancel r then [CancelReceiver (ir_ident r)] else []) @
                  (if ir_streamClient r then [CloseSendReceiver (ir_ident r)] else []))
             | None \<Rightarrow> (ps, []));
          tr = UnregisterStream (BuildIntraProxySenderStreamID peer (k_targetShard key) (k_sourceShard key)) tr;
          ps = ps\<lparr>senders := gdel key (senders ps)\<rparr>
      in (ps, tr, effs1 @ effs2))"

definition ClosePeer ::
  "string \<Rightarrow> intraProxyManager \<Rightarrow> StreamTracker \<Rightarrow> intraProxyManager \<times> StreamTracker \<times> ip_effect list" where
  "ClosePeer peer m tr =
     (case gget (peers m) peer of Some ps \<Rightarrow> closePeerLocked peer ps m tr | None \<Rightarrow> (m, tr, []))"

definition ClosePeerShard ::
  "string \<Rightarrow> ClusterShardID \<Rightarrow> ClusterShardID \<Rightarrow> intraProxyManager \<Rightarrow> StreamTracker \<Rightarrow>
   intraProxyManager \<times> StreamTracker \<times> ip_effect list" where
  "ClosePeerShard peer clientShard serverShard m tr =
     (case gget (peers m) peer of
        Some ps \<Rightarrow>
          let (ps, tr, effs) = closePeerShardLocked peer (mkKey clientShard serverShard) ps tr
          in (m\<lparr>peers := gput peer ps (peers m)\<rparr>, tr, effs)
      | None \<Rightarrow> (m, tr, []))"

section \<open>Reconciliation\<close>

text \<open>The cross-cluster pairs of a local and a remote shard, with the peer that has the latter.\<close>

definition shardPairs ::
  "shardManagerImpl \<Rightarrow> string \<Rightarrow> (ClusterShardID \<times> ClusterShardID \<times> string) list" where
  "shardPairs sm peerNodeName =
     concat (map (\<lambda>(lk, l). concat (map (\<lambda>(peer, shards).
       concat (map (\<lambda>(rk, r). if ClusterID l = ClusterID (SI_ID r) then [] else [(l, SI_ID r, peer)])
         (NS_Shards shards))) (GetRemoteShardsForPeer sm peerNodeName))) (GetLocalShards sm))"

definition desiredReceivers :: "shardManagerImpl \<Rightarrow> string \<Rightarrow> (peerStreamKey, string) gomap" where
  "desiredReceivers sm peerNodeName =
     fold (\<lambda>(l, r, peer). gput (mkKey l r) peer) (shardPairs sm peerNodeName) []"

definition desiredSenders :: "shardManagerImpl \<Rightarrow> string \<Rightarrow> (peerStreamKey, string) gomap" where
  "desiredSenders sm peerNodeName =
     fold (\<lambda>(l, r, peer). gput (mkKey r l) peer) (shardPairs sm peerNodeName) []"

definition closeKeys ::
  "string \<Rightarrow> peerStreamKey list \<Rightarrow> peerState \<times> StreamTracker \<times> ip_effect list \<Rightarrow>
   peerState \<times> StreamTracker \<times> ip_effect list" where
  "closeKeys peer keys acc =
     fold (\<lambda>key (ps, tr, effs).
             let (ps, tr, effs') = closePeerShardLocked peer key ps tr in (ps, tr, effs @ effs')) keys acc"

definition prunePeer ::
  "(peerStreamKey, string) gomap \<Rightarrow> (peerStreamKey, string) gomap \<Rightarrow> string \<Rightarrow> peerState \<Rightarrow> StreamTracker \<Rightarrow>
   peerState \<times> StreamTracker \<times> ip_effect list" where
  "prunePeer wantR wantS peer ps tr =
     (let receiversToClose = filter (\<lambda>key. gget wantR key = None) (gkeys (receivers ps));
          (ps, tr, effs) = closeKeys peer receiversToClose (ps, tr, []);
          sendersToClose = filter (\<lambda>key. gget wantS key = None) (gkeys (senders ps))
      in closeKeys peer sendersToClose (ps, tr, effs))"

definition prunePeers ::
  "(peerStreamKey, string) gomap \<Rightarrow> (peerStreamKey, string) gomap \<Rightarrow> string list \<Rightarrow>
   intraProxyManager \<times> StreamTracker \<times> ip_effect list \<Rightarrow> intraProxyManager \<times> StreamTracker \<times> ip_effect list" where
  "prunePeers wantR wantS names acc =
     fold (\<lambda>peer (m, tr, effs).
             case gget (peers m) peer of
               None \<Rightarrow> (m, tr, effs)
             | Some ps \<Rightarrow>
                 let (ps, tr, effs') = prunePeer wantR wantS peer ps tr
                 in (m\<lparr>peers := gput peer ps (peers m)\<rparr>, tr, effs @ effs')) names acc"

definition ensureAll ::
  "string option \<Rightarrow> (string \<Rightarrow> string + nat) \<Rightarrow> shardManagerImpl \<Rightarrow> (peerStreamKey, string) gomap \<Rightarrow>
   intraProxyManager \<Rightarrow> intraProxyManager \<times> ip_effect list" where
  "ensureAll tlsErr dial sm want m =
     fold (\<lambda>(key, peer) (m, effs).
             let (m, effs') = EnsureReceiverForPeerShard tlsErr dial sm peer (k_targetShard key) (k_sourceShard key) m
             in (m, effs @ effs')) want (m, [])"

definition ReconcilePeerStreams ::
  "string option \<Rightarrow> (string \<Rightarrow> string + nat) \<Rightarrow> shardManagerImpl \<Rightarrow> string \<Rightarrow> intraProxyManager \<Rightarrow> StreamTracker \<Rightarrow>
   intraProxyManager \<times> StreamTracker \<times> ip_effect list" where
  "ReconcilePeerStreams tlsErr dial sm peerNodeName m tr =
     (let wantR = desiredReceivers sm peerNodeName;
          wantS = desiredSenders sm peerNodeName;
          (m, effs) = ensureAll tlsErr dial sm wantR m;
          names = (if peerNodeName \<noteq> [] then [peerNodeName] else gkeys (peers m))
      in prunePeers wantR wantS names (m, tr, effs))"


section \<open>What pruning keeps\<close>

lemma closePeerShardLocked_maps:
  "gget (receivers (fst (closePeerShardLocked peer key ps tr))) k =
     (if k = key then None else gget (receivers ps) k)"
  "gget (senders (fst (closePeerShardLocked peer key ps tr))) k =
     (if k = key then None else gget (senders ps) k)"
  by (auto simp: closePeerShardLocked_def Let_def split: option.splits)

lemma closeKeys_Cons:
  "closeKeys peer (key # keys) (ps, tr, effs) =
     closeKeys peer keys
       (let (ps, tr, effs') = closePeerShardLocked peer key ps tr in (ps, tr, effs @ effs'))"
  by (simp add: closeKeys_def)

lemma closeKeys_maps:
  "gget (receivers (fst (closeKeys peer keys (ps, tr, effs)))) k =
     (if k \<in> set keys then None else gget (receivers ps) k) \<and>
   gget (senders (fst (closeKeys peer keys (ps, tr, effs)))) k =
     (if k \<in> set keys then None else gget (senders ps) k)"
proof (induction keys arbitrary: ps tr effs)
  case (Cons key keys)
  obtain ps1 tr1 e1 where c: "closePeerShardLocked peer key ps tr = (ps1, tr1, e1)" by (metis prod.collapse)
  show ?case
    using Cons[of ps1 tr1 "effs @ e1"] closePeerShardLocked_maps[of peer key ps tr k, unfolded c fst_conv]
    by (auto simp: closeKeys_Cons c)
qed (simp add: closeKeys_def)

lemma prunePeer_maps:
  "gget (receivers (fst (prunePeer wantR wantS peer ps tr))) k =
     (if gget wantR k = None \<or> (gget (senders ps) k \<noteq> None \<and> gget wantS k = None)
      then None else gget (receivers ps) k)"
  "gget (senders (fst (prunePeer wantR wantS peer ps tr))) k =
     (if gget wantS k = None \<or> (gget (receivers ps) k \<noteq> None \<and> gget wantR k = None)
      then None else gget (senders ps) k)"
proof -
  let ?rc = "filter (\<lambda>key. gget wantR key = None) (gkeys (receivers ps))"
  obtain ps1 tr1 e1 where c: "closeKeys peer ?rc (ps, tr, []) = (ps1, tr1, e1)" by (rule prod_cases3)
  let ?sc = "filter (\<lambda>key. gget wantS key = None) (gkeys (senders ps1))"
  have p: "prunePeer wantR wantS peer ps tr = closeKeys peer ?sc (ps1, tr1, e1)"
    by (simp add: prunePeer_def Let_def c)
  have m: "gget (receivers ps1) k = (if k \<in> set ?rc then None else gget (receivers ps) k)"
    "gget (senders ps1) k = (if k \<in> set ?rc then None else gget (senders ps) k)"
    using closeKeys_maps[of peer ?rc ps tr "[]" k] unfolding c fst_conv by blast+
  have sc: "k \<in> set ?sc \<longleftrightarrow> gget (senders ps1) k \<noteq> None \<and> gget wantS k = None"
    using gget_None_iff[of "senders ps1" k] by auto
  have rc: "k \<in> set ?rc \<longleftrightarrow> gget (receivers ps) k \<noteq> None \<and> gget wantR k = None"
    using gget_None_iff[of "receivers ps" k] by auto
  show "gget (receivers (fst (prunePeer wantR wantS peer ps tr))) k =
     (if gget wantR k = None \<or> (gget (senders ps) k \<noteq> None \<and> gget wantS k = None)
      then None else gget (receivers ps) k)"
    unfolding p closeKeys_maps[THEN conjunct1] sc m rc by auto
  show "gget (senders (fst (prunePeer wantR wantS peer ps tr))) k =
     (if gget wantS k = None \<or> (gget (receivers ps) k \<noteq> None \<and> gget wantR k = None)
      then None else gget (senders ps) k)"
    unfolding p closeKeys_maps[THEN conjunct2] sc m rc by auto
qed

text \<open>Pruning works on each peer once and leaves the others alone.\<close>

lemma prunePeers_lookup:
  assumes "distinct names"
  shows "gget (peers (fst (prunePeers wantR wantS names (m, tr, effs)))) peer =
     (case gget (peers m) peer of
        None \<Rightarrow> None
      | Some ps \<Rightarrow>
          if peer \<in> set names
          then Some (fst (prunePeer wantR wantS peer ps
                 (fst (snd (prunePeers wantR wantS (takeWhile (\<lambda>n. n \<noteq> peer) names) (m, tr, effs))))))
          else Some ps)"
  using assms
proof (induction names arbitrary: m tr effs)
  case (Cons n names)
  show ?case
  proof (cases "gget (peers m) n")
    case None
    then have "prunePeers wantR wantS (n # ns) (m, tr, effs) = prunePeers wantR wantS ns (m, tr, effs)" for ns
      by (simp add: prunePeers_def)
    with Cons None show ?thesis by (auto split: option.splits)
  next
    case (Some ps)
    obtain ps1 tr1 e1 where c: "prunePeer wantR wantS n ps tr = (ps1, tr1, e1)" by (metis prod.collapse)
    let ?m = "m\<lparr>peers := gput n ps1 (peers m)\<rparr>"
    have st: "prunePeers wantR wantS (n # ns) (m, tr, effs) = prunePeers wantR wantS ns (?m, tr1, effs @ e1)" for ns
      by (simp add: prunePeers_def Some c)
    have nil: "prunePeers wantR wantS [] x = x" for x by (simp add: prunePeers_def)
    from Cons.IH[of ?m tr1 "effs @ e1"] Cons.prems Some c show ?thesis
      by (auto simp: st nil split: option.splits)
  qed
qed (simp add: prunePeers_def split: option.split)


section \<open>What reconciliation opens\<close>

definition has_receiver :: "intraProxyManager \<Rightarrow> string \<Rightarrow> peerStreamKey \<Rightarrow> bool" where
  "has_receiver m peer key \<longleftrightarrow>
     (\<exists>ps. gget (peers m) peer = Some ps \<and> gget (receivers ps) key \<noteq> None)"

lemma ensurePeer_keeps:
  assumes "ensurePeer tlsErr dial sm peer m = (res, m', effs)"
  shows "has_receiver m p k \<Longrightarrow> has_receiver m' p k"
    "res = Inr ps \<Longrightarrow> gget (peers m') peer = Some ps"
  using assms
  by (auto simp: ensurePeer_def has_receiver_def Let_def emptyPeer_def Option.bind_eq_Some_conv
      split: option.splits sum.splits if_splits)

lemma ensureStream_keeps:
  assumes "ensureStream tlsErr dial sm peer target src m = (err, m', effs)" "has_receiver m p k"
  shows "has_receiver m' p k"
proof -
  obtain res m1 e1 where e: "ensurePeer tlsErr dial sm peer m = (res, m1, e1)" by (metis prod.collapse)
  note k = ensurePeer_keeps[OF e]
  show ?thesis
    using assms k(1)[OF assms(2)] k(2)
    by (cases res) (auto simp: ensureStream_def Let_def e has_receiver_def split: if_splits option.splits)
qed

lemma ensureStream_adds:
  assumes "ensureStream None dial sm peer target src m = (err, m', effs)"
    "GetProxyAddress sm peer = Some addr" "dial addr = Inr cc"
  shows "has_receiver m' peer (mkKey target src)"
proof -
  obtain res m1 e1 where e: "ensurePeer None dial sm peer m = (res, m1, e1)" by (metis prod.collapse)
  then obtain ps where "res = Inr ps"
    using assms(2,3)
    by (auto simp: ensurePeer_def Let_def split: option.splits)
  with assms(1) e show ?thesis
    by (auto simp: ensureStream_def Let_def has_receiver_def Option.bind_eq_Some_conv
        split: if_splits option.splits)
qed

definition has_sender :: "intraProxyManager \<Rightarrow> string \<Rightarrow> peerStreamKey \<Rightarrow> bool" where
  "has_sender m peer key \<longleftrightarrow>
     (\<exists>ps. gget (peers m) peer = Some ps \<and> gget (senders ps) key \<noteq> None)"

lemma ensureStream_senders:
  "has_sender (fst (snd (ensureStream tlsErr dial sm peer target src m))) p k \<Longrightarrow> has_sender m p k"
  by (auto simp: ensureStream_def ensurePeer_def has_sender_def Let_def emptyPeer_def case_prod_beta
      Option.bind_eq_Some_conv split: option.splits sum.splits if_splits)

lemma Ensure_keeps:
  "has_receiver m p k \<Longrightarrow> has_receiver (fst (EnsureReceiverForPeerShard tlsErr dial sm peer target src m)) p k"
proof -
  assume h: "has_receiver m p k"
  obtain err m1 e1 where c: "ensureStream tlsErr dial sm peer target src m = (err, m1, e1)"
    by (metis prod.collapse)
  show ?thesis
    using h ensureStream_keeps[OF c h] by (simp add: EnsureReceiverForPeerShard_def c)
qed

lemma fold_ensure_keeps:
  "has_receiver m p k \<Longrightarrow>
   has_receiver (fst (fold (\<lambda>(key, peer) (m, effs).
     let (m, effs') = EnsureReceiverForPeerShard tlsErr dial sm peer (k_targetShard key) (k_sourceShard key) m
     in (m, effs @ effs')) want (m, effs))) p k"
proof (induction want arbitrary: m effs)
  case (Cons w want)
  obtain key peer where w: "w = (key, peer)" by fastforce
  obtain m1 e1 where c: "EnsureReceiverForPeerShard tlsErr dial sm peer (k_targetShard key) (k_sourceShard key) m = (m1, e1)"
    by fastforce
  have "has_receiver m1 p k" using Ensure_keeps[OF Cons.prems] c by (metis fst_conv)
  with Cons.IH show ?case by (simp add: w c)
qed simp

lemma Ensure_senders:
  "has_sender (fst (EnsureReceiverForPeerShard tlsErr dial sm peer target src m)) p k \<Longrightarrow> has_sender m p k"
proof -
  assume h: "has_sender (fst (EnsureReceiverForPeerShard tlsErr dial sm peer target src m)) p k"
  obtain err m1 e1 where c: "ensureStream tlsErr dial sm peer target src m = (err, m1, e1)"
    by (rule prod_cases3)
  show ?thesis
    using h ensureStream_senders[of tlsErr dial sm peer target src m p k, unfolded c]
    by (simp add: EnsureReceiverForPeerShard_def c split: if_splits)
qed

lemma ensureAll_senders:
  assumes "has_sender (fst (ensureAll tlsErr dial sm want m)) p k"
  shows "has_sender m p k"
proof -
  have "has_sender (fst (fold (\<lambda>(key, peer) (m, effs).
     let (m, effs') = EnsureReceiverForPeerShard tlsErr dial sm peer (k_targetShard key) (k_sourceShard key) m
     in (m, effs @ effs')) want (m, effs))) p k \<Longrightarrow> has_sender m p k" for effs
  proof (induction want arbitrary: m effs)
    case (Cons w want)
    obtain key peer where w: "w = (key, peer)" by (rule prod.exhaust)
    obtain m1 e1 where c: "EnsureReceiverForPeerShard tlsErr dial sm peer (k_targetShard key) (k_sourceShard key) m = (m1, e1)"
      by (rule prod.exhaust)
    have "has_sender m1 p k" by (rule Cons.IH[of m1 "effs @ e1"]) (use Cons.prems in \<open>simp add: w c\<close>)
    then show ?case using Ensure_senders[of tlsErr dial sm peer "k_targetShard key" "k_sourceShard key" m p k] c by simp
  qed simp
  with assms show ?thesis by (simp add: ensureAll_def)
qed

lemma ensureAll_adds:
  assumes "(key, peer) \<in> set want" "ClusterID (k_targetShard key) \<noteq> ClusterID (k_sourceShard key)"
    "peer \<noteq> GetNodeName sm" "IsLocalShard sm (k_targetShard key) \<or> IsLocalShard sm (k_sourceShard key)"
    "GetProxyAddress sm peer = Some addr" "dial addr = Inr cc"
  shows "has_receiver (fst (ensureAll None dial sm want m)) peer key"
proof -
  let ?f = "\<lambda>(key, peer) (m, effs).
     let (m, effs') = EnsureReceiverForPeerShard None dial sm peer (k_targetShard key) (k_sourceShard key) m
     in (m, effs @ effs')"
  obtain xs ys where w: "want = xs @ (key, peer) # ys" using assms(1) by (metis split_list)
  obtain m1 e1 where c1: "fold ?f xs (m, []) = (m1, e1)" by fastforce
  obtain m2 e2 where c2: "EnsureReceiverForPeerShard None dial sm peer (k_targetShard key) (k_sourceShard key) m1 = (m2, e2)"
    by fastforce
  have key: "mkKey (k_targetShard key) (k_sourceShard key) = key" by (simp add: mkKey_def)
  obtain err m3 e3 where c3: "ensureStream None dial sm peer (k_targetShard key) (k_sourceShard key) m1 = (err, m3, e3)"
    by (metis prod.collapse)
  have "has_receiver m2 peer key"
    using c2 assms(2-4) ensureStream_adds[OF c3 assms(5,6)] key
    by (auto simp: EnsureReceiverForPeerShard_def c3)
  then have "has_receiver (fst (fold ?f ys (m2, e1 @ e2))) peer key" by (rule fold_ensure_keeps)
  then show ?thesis using c1 c2 by (simp add: ensureAll_def w)
qed


section \<open>The wait for a sender\<close>

lemma msg_loop_ends:
  assumes "\<forall>i. clock (Suc i) \<ge> clock i + 10000000" "clock k + int fuel * 10000000 > deadline + 10000000" "fuel > 0"
  shows "fst (msg_loop fuel mAt clock deadline peer key k pause) \<noteq> MsgFuel"
  using assms(2,3)
proof (induction fuel arbitrary: k pause)
  case (Suc fuel)
  show ?case
  proof (cases "clock k > deadline")
    case True
    then show ?thesis by (simp split: option.split)
  next
    case False
    have "clock (Suc k) \<ge> clock k + 10000000" using assms(1) by blast
    then have "clock (Suc k) + int fuel * 10000000 > deadline + 10000000" "fuel > 0"
      using Suc.prems False by (auto simp: algebra_simps)
    from Suc.IH[OF this] show ?thesis
      by (simp add: Let_def case_prod_beta split: option.split)
  qed
qed simp

lemma msg_loop_finds:
  assumes "Option.bind (gget (peers (mAt (k + n))) peer) (\<lambda>ps. gget (senders ps) key) = Some s"
    "\<forall>i < n. Option.bind (gget (peers (mAt (k + i))) peer) (\<lambda>ps. gget (senders ps) key) = None \<and> clock (k + i) \<le> deadline"
    "n < fuel"
  shows "fst (msg_loop fuel mAt clock deadline peer key k pause) = MsgSender s"
  using assms
proof (induction n arbitrary: fuel k pause)
  case 0
  then show ?case by (cases fuel) auto
next
  case (Suc n)
  then obtain f where f: "fuel = Suc f" by (cases fuel) auto
  have "Option.bind (gget (peers (mAt (Suc k + i))) peer) (\<lambda>ps. gget (senders ps) key) = None \<and> clock (Suc k + i) \<le> deadline"
    if "i < n" for i
    using Suc.prems(2)[rule_format, of "Suc i"] that by simp
  then have ih: "fst (msg_loop f mAt clock deadline peer key (Suc k) q) = MsgSender s" for q
    using Suc.prems(1,3) f by (intro Suc.IH) auto
  have "Option.bind (gget (peers (mAt k)) peer) (\<lambda>ps. gget (senders ps) key) = None" "clock k \<le> deadline"
    using Suc.prems(2)[rule_format, of 0] by auto
  then show ?case using ih by (simp add: f Let_def case_prod_beta)
qed


text \<open>The outcome of the wait says what the lookups found.\<close>

abbreviation sender_of :: "intraProxyManager \<Rightarrow> string \<Rightarrow> peerStreamKey \<Rightarrow> intraProxyStreamSender option" where
  "sender_of m peer key \<equiv> Option.bind (gget (peers m) peer) (\<lambda>ps. gget (senders ps) key)"

lemma msg_loop_outcome:
  "fst (msg_loop fuel mAt clock deadline peer key k pause) = MsgFuel \<or>
   (\<exists>n s. fst (msg_loop fuel mAt clock deadline peer key k pause) = MsgSender s \<and>
      sender_of (mAt (k + n)) peer key = Some s \<and> (\<forall>i < n. clock (k + i) \<le> deadline)) \<or>
   (\<exists>n. fst (msg_loop fuel mAt clock deadline peer key k pause) = MsgTimeout \<and>
      clock (k + n) > deadline \<and> (\<forall>i \<le> n. sender_of (mAt (k + i)) peer key = None))"
proof (induction fuel arbitrary: k pause)
  case (Suc fuel)
  show ?case
  proof (cases "sender_of (mAt k) peer key")
    case (Some s)
    then show ?thesis by (intro disjI2 disjI1 exI[of _ 0]) simp
  next
    case None
    show ?thesis
    proof (cases "clock k > deadline")
      case True
      with None show ?thesis by (intro disjI2 exI[of _ 0]) simp
    next
      case False
      let ?p = "if pause < 200 then pause * 2 else pause"
      have st: "fst (msg_loop (Suc fuel) mAt clock deadline peer key k pause) =
          fst (msg_loop fuel mAt clock deadline peer key (Suc k) ?p)"
        using None False by (simp add: case_prod_beta)
      from Suc.IH[of "Suc k" ?p] consider
          "fst (msg_loop fuel mAt clock deadline peer key (Suc k) ?p) = MsgFuel"
        | n s where "fst (msg_loop fuel mAt clock deadline peer key (Suc k) ?p) = MsgSender s"
            "sender_of (mAt (Suc k + n)) peer key = Some s" "\<forall>i < n. clock (Suc k + i) \<le> deadline"
        | n where "fst (msg_loop fuel mAt clock deadline peer key (Suc k) ?p) = MsgTimeout"
            "clock (Suc k + n) > deadline" "\<forall>i \<le> n. sender_of (mAt (Suc k + i)) peer key = None"
        by blast
      then show ?thesis
      proof cases
        case 1
        then show ?thesis unfolding st by blast
      next
        case 2
        have "clock (k + i) \<le> deadline" if "i < Suc n" for i
          using 2(3) False that by (cases i) auto
        with 2 show ?thesis unfolding st by (intro disjI2 disjI1 exI[of _ "Suc n"] exI[of _ s]) simp
      next
        case 3
        have "sender_of (mAt (k + i)) peer key = None" if "i \<le> Suc n" for i
          using 3(3) None that by (cases i) auto
        with 3 show ?thesis unfolding st by (intro disjI2 exI[of _ "Suc n"]) simp
      qed
    qed
  qed
qed simp


section \<open>Properties\<close>

lemma mkKey_inject [simp]: "mkKey a b = mkKey c d \<longleftrightarrow> a = c \<and> b = d"
  by (simp add: mkKey_def)

lemma desiredReceivers_pairs:
  "gget (desiredReceivers sm p) (mkKey l r) = Some peer \<Longrightarrow> (l, r, peer) \<in> set (shardPairs sm p)"
proof -
  have "gget (fold (\<lambda>(l, r, peer). gput (mkKey l r) peer) xs acc) (mkKey l r) = Some peer \<Longrightarrow>
      (l, r, peer) \<in> set xs \<or> gget acc (mkKey l r) = Some peer" for xs acc
    by (induction xs arbitrary: acc) (fastforce split: if_splits)+
  from this[of _ "[]"] show "gget (desiredReceivers sm p) (mkKey l r) = Some peer \<Longrightarrow> ?thesis"
    by (simp add: desiredReceivers_def)
qed

lemma gmap_ok_ensureStream: "gmap_ok (peers m) \<Longrightarrow> gmap_ok (peers (fst (snd (ensureStream tlsErr dial sm peer t s m))))"
  by (simp add: ensureStream_def ensurePeer_def Let_def case_prod_beta split: option.split sum.split)

lemma gmap_ok_ensureAll: "gmap_ok (peers m) \<Longrightarrow> gmap_ok (peers (fst (ensureAll tlsErr dial sm want m)))"
proof -
  let ?f = "\<lambda>(key, peer) (m, effs).
     let (m, effs') = EnsureReceiverForPeerShard tlsErr dial sm peer (k_targetShard key) (k_sourceShard key) m
     in (m, effs @ effs')"
  have "gmap_ok (peers m) \<Longrightarrow> gmap_ok (peers (fst (fold ?f want (m, effs))))" for effs
  proof (induction want arbitrary: m effs)
    case (Cons w want)
    have "gmap_ok (peers (fst (EnsureReceiverForPeerShard tlsErr dial sm p t s m)))" for p t s
      using Cons.prems gmap_ok_ensureStream by (simp add: EnsureReceiverForPeerShard_def)
    then have "gmap_ok (peers (fst (?f w (m, effs))))" by (simp add: case_prod_beta)
    with Cons.IH[of "fst (?f w (m, effs))" "snd (?f w (m, effs))"] show ?case by simp
  qed simp
  then show "gmap_ok (peers m) \<Longrightarrow> ?thesis" by (simp add: ensureAll_def)
qed


lemma reconcile_all:
  "ReconcilePeerStreams tlsErr dial sm [] m tr =
     (let (m1, effs) = ensureAll tlsErr dial sm (desiredReceivers sm []) m
      in prunePeers (desiredReceivers sm []) (desiredSenders sm []) (gkeys (peers m1)) (m1, tr, effs))"
  by (simp add: ReconcilePeerStreams_def Let_def)

lemma reconcile_lookup:
  fixes tlsErr dial sm tr
  assumes "gmap_ok (peers m)"
  defines "m1 \<equiv> fst (ensureAll tlsErr dial sm (desiredReceivers sm []) m)"
    and "m2 \<equiv> fst (ReconcilePeerStreams tlsErr dial sm [] m tr)"
  shows "gget (peers m2) peer = None \<and> gget (peers m1) peer = None \<or>
    (\<exists>ps tr'. gget (peers m1) peer = Some ps \<and>
       gget (peers m2) peer = Some (fst (prunePeer (desiredReceivers sm []) (desiredSenders sm []) peer ps tr')))"
proof -
  obtain effs where e: "ensureAll tlsErr dial sm (desiredReceivers sm []) m = (m1, effs)"
    unfolding m1_def by (metis prod.collapse)
  have d: "distinct (gkeys (peers m1))" unfolding m1_def by (rule gmap_ok_ensureAll[OF assms(1)])
  have "gget (peers m1) peer = Some ps \<Longrightarrow> peer \<in> set (gkeys (peers m1))" for ps
    by (metis gget_None_iff option.distinct(1))
  then show ?thesis
    using prunePeers_lookup[OF d, of "desiredReceivers sm []" "desiredSenders sm []" m1 tr effs peer]
    by (auto simp: m2_def reconcile_all e split: option.splits)
qed

lemma shardPairs_facts:
  assumes "sm_inv sm" "started sm" "(l, r, peer) \<in> set (shardPairs sm [])"
  shows "ClusterID l \<noteq> ClusterID r \<and> peer \<noteq> GetNodeName sm \<and> IsLocalShard sm l"
proof -
  from assms(3) obtain lk st rk si where h: "(lk, l) \<in> set (GetLocalShards sm)"
    "(peer, st) \<in> set (GetRemoteShardsForPeer sm [])" "(rk, si) \<in> set (NS_Shards st)"
    "ClusterID l \<noteq> ClusterID (SI_ID si)" "r = SI_ID si"
    by (auto simp: shardPairs_def split: if_splits)
  have "gget (GetRemoteShardsForPeer sm []) peer = Some st"
    using h(2) by (simp add: gget_Some_iff[OF gmap_ok_GetRemoteShardsForPeer])
  then have "peer \<noteq> GetNodeName sm"
    using assms(1) by (auto simp: GetRemoteShardsForPeer_lookup sm_inv_def split: if_splits)
  moreover have "gget (GetLocalShards sm) lk = Some l"
    using h(1) gmap_ok_copy[of SI_ID "localShards sm"] by (simp add: GetLocalShards_def gget_Some_iff)
  then obtain info where "gget (localShards sm) lk = Some info" "SI_ID info = l"
    using assms(1) by (auto simp: GetLocalShards_def gget_copy sm_inv_def)
  then have "IsLocalShard sm l"
    using assms(1,2) by (auto simp: IsLocalShard_def sm_inv_def)
  ultimately show ?thesis using h by auto
qed




definition exLocal :: ClusterShardID where "exLocal = \<lparr>ClusterID = 2, ShardID = 5\<rparr>"

definition exPair :: shardManagerImpl where
  "exPair = MergeRemoteState (Some exPeerState) (fst (snd (RegisterShard 100 105 exLocal (exStarted ''routing''))))"

lemma exPair_reach: "sm_reach exPair"
  unfolding exPair_def exStarted_def
  by (rule sm_reach_step[OF sm_reach_step[OF sm_reach_step[OF sm_reach_new sm_start] sm_register] sm_merge])

lemma exPair_pairs: "shardPairs exPair [] = [(exLocal, exShard, ''n2'')]"
  by (simp add: shardPairs_def exPair_def MergeRemoteState_def exPeerState_def RegisterShard_def addLocalShard_def
      Start_defs GetRemoteShardsForPeer_def GetLocalShards_def GetNodeName_def exLocal_def exShard_def)

lemma exPair_started: "started exPair"
  by (simp add: exPair_def MergeRemoteState_def exPeerState_def RegisterShard_def addLocalShard_def Start_defs)

lemma exPair_address: "GetProxyAddress exPair ''n2'' = Some ''n2:9000''"
  by (simp add: exPair_def MergeRemoteState_def exPeerState_def RegisterShard_def addLocalShard_def Start_defs
      GetProxyAddress_def)

definition exSender :: intraProxyStreamSender where
  "exSender = \<lparr>is_peerNodeName = ''n2'', is_targetShardID = exShard, is_sourceShardID = exShard, is_streamID = ''s''\<rparr>"

definition exIpm :: intraProxyManager where
  "exIpm = \<lparr>peers = [(''n3'', (emptyPeer 0 None)
      \<lparr>receivers := [(mkKey exLocal exShard, newReceiver 1 ''n3'' exLocal exShard),
                     (mkKey exLocal exLocal, newReceiver 2 ''n3'' exLocal exLocal)]\<rparr>)], nextIdent = 3\<rparr>"



lemma exPair_reconciled_n3:
  "\<exists>ps. gget (peers (fst (ReconcilePeerStreams None (\<lambda>_. Inr 7) exPair [] exIpm []))) ''n3'' = Some ps"
proof -
  have "has_receiver (fst (ensureAll None (\<lambda>_. Inr 7) exPair (desiredReceivers exPair []) exIpm)) ''n3'' (mkKey exLocal exShard)"
    unfolding ensureAll_def by (rule fold_ensure_keeps) (simp add: has_receiver_def exIpm_def)
  then show ?thesis
    using reconcile_lookup[of exIpm None "\<lambda>_. Inr 7" exPair "[]" "''n3''"]
    by (auto simp: exIpm_def has_receiver_def)
qed


text \<open>
  Reconciliation looks at the pair of shards and not at the peer: after a shard has moved from
  one peer to another, the receiver of the pair at the old peer stays open beside the new one.
\<close>

lemma moved_shard_keeps_old_stream:
  assumes "gmap_ok (peers m)" "has_receiver m old key" "gget (desiredReceivers sm []) key = Some new"
    "old \<noteq> new" "\<not> has_sender m old key"
  shows "has_receiver (fst (ReconcilePeerStreams tlsErr dial sm [] m tr)) old key"
proof -
  let ?m1 = "fst (ensureAll tlsErr dial sm (desiredReceivers sm []) m)"
  have "has_receiver ?m1 old key" unfolding ensureAll_def by (rule fold_ensure_keeps[OF assms(2)])
  moreover have "\<not> has_sender ?m1 old key" using assms(5) ensureAll_senders by blast
  ultimately show ?thesis
    using reconcile_lookup[OF assms(1), of tlsErr dial sm tr old] assms(3)
    by (auto simp: has_receiver_def has_sender_def prunePeer_maps)
qed

lemma moved_shard_keeps_old_stream_witness:
  "has_receiver (fst (ReconcilePeerStreams None (\<lambda>_. Inr 7) exPair [] exIpm [])) ''n3'' (mkKey exLocal exShard) \<and>
   getShardOwner exPair exShard = Some ''n2''"
proof
  show "has_receiver (fst (ReconcilePeerStreams None (\<lambda>_. Inr 7) exPair [] exIpm [])) ''n3'' (mkKey exLocal exShard)"
    by (rule moved_shard_keeps_old_stream[where new = "''n2''"])
      (simp_all add: exIpm_def has_receiver_def has_sender_def emptyPeer_def desiredReceivers_def exPair_pairs)
  show "getShardOwner exPair exShard = Some ''n2''"
    by (simp add: getShardOwner_def exPair_def MergeRemoteState_def exPeerState_def RegisterShard_def
        addLocalShard_def Start_defs GetRemoteShardsForPeer_def GetNodeName_def)
qed

text \<open>
  Closing a pair's streams does not remove their entries from the stream tracker: the entries
  are filed under (source, target) when the streams start, and the close paths unregister
  (target, source). The entry of a receiver that has just started, and that of the sender of the
  same pair, are still there after the pair is closed.
\<close>

lemma close_misses_tracker_entries:
  assumes "ClusterID target \<noteq> ClusterID src"
  shows "gget (fst (snd (ClosePeerShard peer target src m tr))) (BuildIntraProxyReceiverStreamID peer src target) =
      gget tr (BuildIntraProxyReceiverStreamID peer src target) \<and>
    gget (fst (snd (ClosePeerShard peer target src m tr))) (BuildIntraProxySenderStreamID peer src target) =
      gget tr (BuildIntraProxySenderStreamID peer src target)"
proof -
  have "target \<noteq> src" using assms by blast
  then show ?thesis
    by (auto simp: ClosePeerShard_def closePeerShardLocked_def UnregisterStream_def mkKey_def Let_def
        split: option.split)
qed

lemma close_misses_tracker_entries_witness:
  "gget (fst (snd (ClosePeerShard ''n2'' exLocal exShard exIpm
      (snd (snd (snd (receiver_Run_start 5 (\<lambda>_. None) (newReceiver 1 ''n2'' exLocal exShard) exPair [])))))))
      (BuildIntraProxyReceiverStreamID ''n2'' exShard exLocal) \<noteq> None"
  using close_misses_tracker_entries[of exLocal exShard "''n2''" exIpm]
  by (simp add: exLocal_def exShard_def receiver_Run_start_def newReceiver_def RegisterStream_def Let_def)



end
