(* ===== verification/StreamLifecycle.thy ===== *)
theory StreamLifecycle
  imports StreamReceiver
begin

text \<open>
  The lifetime of a routed stream: \<^verbatim>\<open>Run\<close> of \<^verbatim>\<open>proxyStreamSender\<close> and \<^verbatim>\<open>proxyStreamReceiver\<close> in
  \<^verbatim>\<open>proxy/proxy_streams.go\<close>, which enter a stream into the tables of the shard manager and the
  stream tracker, start the two loops and take the stream out of the tables when it ends.
  \<open>stream_step\<close> interleaves the beginnings and the ends of any number of streams.
\<close>

section \<open>Construction and \<^verbatim>\<open>Run\<close>\<close>

text \<open>The ring and the acknowledgement map are those \<^verbatim>\<open>Run\<close> creates lazily.\<close>

definition newProxyStreamSender :: "ClusterShardID \<Rightarrow> ClusterShardID \<Rightarrow> string \<Rightarrow> proxyStreamSender" where
  "newProxyStreamSender src target direction =
     \<lparr>ss_targetShardID = target, ss_sourceShardID = src, ss_directionLabel = direction,
      ss_streamID = [], nextProxyTaskID = 0, idRing = newProxyIDRingBuffer 1024,
      prevAckBySource = [], lastMsgSendTime = 0, lastSentWatermark = 0\<rparr>"

definition newProxyStreamReceiver :: "ClusterShardID \<Rightarrow> ClusterShardID \<Rightarrow> int \<Rightarrow> string \<Rightarrow> proxyStreamReceiver" where
  "newProxyStreamReceiver src target shardCount direction =
     \<lparr>localShardCount = shardCount, sr_targetShardID = target, sr_sourceShardID = src,
      sr_directionLabel = direction, sr_streamID = [], ackByTarget = [], lastSentMin = 0,
      lastExclusiveHighOriginal = 0, lastAckSendTime = 0, lastSentAck = None, lastWatermark = None\<rparr>"

text \<open>
  The sender's part up to the start of its loops. \<open>ch\<close> is the identity of the channel it makes;
  the first component of the result is the registration time it keeps for the end.
\<close>

definition sender_begin ::
  "int \<Rightarrow> int \<Rightarrow> nat \<Rightarrow> proxyStreamSender \<Rightarrow> shardManagerImpl \<Rightarrow> StreamTracker \<Rightarrow>
   int \<times> proxyStreamSender \<times> shardManagerImpl \<times> StreamTracker \<times> sm_effect list" where
  "sender_begin now later ch s sm tr =
     (let s = s\<lparr>ss_streamID := BuildSenderStreamID (ss_sourceShardID s) (ss_targetShardID s)\<rparr>;
          tr = RegisterStream now (ss_streamID s) ''StreamWorkflowReplicationMessages'' (ss_directionLabel s)
                 (ClusterShardIDtoString (ss_sourceShardID s)) (ClusterShardIDtoString (ss_targetShardID s))
                 StreamRoleSender tr;
          sm = SetRemoteSendChan (ss_targetShardID s) ch sm;
          (registeredAt, sm, effs) = RegisterShard now later (ss_targetShardID s) sm
      in (registeredAt, s, sm, tr, effs))"

text \<open>The deferred calls, last one first.\<close>

definition sender_finish ::
  "int \<Rightarrow> nat \<Rightarrow> int \<Rightarrow> proxyStreamSender \<Rightarrow> shardManagerImpl \<Rightarrow> StreamTracker \<Rightarrow>
   shardManagerImpl \<times> StreamTracker \<times> sm_effect list" where
  "sender_finish later ch registeredAt s sm tr =
     (let (sm, effs) = UnregisterShard later (ss_targetShardID s) registeredAt sm;
          sm = RemoveRemoteSendChan (ss_targetShardID s) ch sm
      in (sm, UnregisterStream (ss_streamID s) tr, effs))"

record receiverMD =
  RMD_ClientClusterID :: string
  RMD_ClientShardID :: string
  RMD_ServerClusterID :: string
  RMD_ServerShardID :: string

definition receiver_md :: "proxyStreamReceiver \<Rightarrow> receiverMD" where
  "receiver_md r =
     \<lparr>RMD_ClientClusterID = show_int (ClusterID (sr_targetShardID r)),
      RMD_ClientShardID = show_int (ShardID (sr_targetShardID r)),
      RMD_ServerClusterID = show_int (ClusterID (sr_sourceShardID r)),
      RMD_ServerShardID = show_int (ShardID (sr_sourceShardID r))\<rparr>"

text \<open>
  The receiver's part up to the start of its loops. \<open>open_stream\<close> is the result of opening the
  stream to the source; \<open>i\<close> is the identity of the receiver, its channel and its cancel function.
  Without a stream the receiver returns and leaves the tables as they are after the termination
  of its predecessor.
\<close>

definition receiver_begin ::
  "int \<Rightarrow> (receiverMD \<Rightarrow> string option) \<Rightarrow> nat \<Rightarrow> proxyStreamReceiver \<Rightarrow> shardManagerImpl \<Rightarrow> StreamTracker \<Rightarrow>
   bool \<times> proxyStreamReceiver \<times> shardManagerImpl \<times> StreamTracker \<times> sm_effect list" where
  "receiver_begin now open_stream i r sm tr =
     (let src = sr_sourceShardID r;
          (sm, effs) = TerminatePreviousLocalReceiver src sm;
          r = r\<lparr>sr_streamID := BuildReceiverStreamID src (sr_targetShardID r)\<rparr>
      in case open_stream (receiver_md r) of
           Some err \<Rightarrow> (False, r, sm, tr, effs)
         | None \<Rightarrow>
             let sm = SetLocalAckChan src i sm;
                 sm = SetLocalReceiverCancelFunc src i sm;
                 sm = RegisterActiveReceiver src
                        \<lparr>AR_Ident = i, AR_Target = sr_targetShardID r, AR_Source = src\<rparr> sm;
                 r = r\<lparr>ackByTarget := [], lastSentMin := 0\<rparr>;
                 tr = RegisterStream now (sr_streamID r) ''StreamWorkflowReplicationMessages''
                        (sr_directionLabel r) (ClusterShardIDtoString src)
                        (ClusterShardIDtoString (sr_targetShardID r)) StreamRoleReceiver tr
             in (True, r, sm, tr, effs))"

definition receiver_finish ::
  "nat \<Rightarrow> proxyStreamReceiver \<Rightarrow> shardManagerImpl \<Rightarrow> StreamTracker \<Rightarrow> shardManagerImpl \<times> StreamTracker" where
  "receiver_finish i r sm tr =
     (let src = sr_sourceShardID r;
          tr = UnregisterStream (sr_streamID r) tr;
          sm = RemoveLocalAckChan src i sm;
          sm = RemoveLocalReceiverCancelFunc src sm
      in (UnregisterActiveReceiver src sm, tr))"

section \<open>Streams that come and go\<close>

text \<open>
  A live sender is its channel, its registration time and its state; a live receiver its identity
  and its state. \<open>nextId\<close> is the supply of identities. \<open>lastSend\<close> is the channel of the sender
  opened last for each target; it is not part of the program and only observes it.
\<close>

record lifeState =
  life_sm :: shardManagerImpl
  life_tr :: StreamTracker
  liveSenders :: "(nat \<times> int \<times> proxyStreamSender) list"
  liveReceivers :: "(nat \<times> proxyStreamReceiver) list"
  nextId :: nat
  lastSend :: "(ClusterShardID, nat) gomap"

definition open_sender :: "int \<Rightarrow> int \<Rightarrow> proxyStreamSender \<Rightarrow> lifeState \<Rightarrow> lifeState" where
  "open_sender now later s st =
     (let (at, s, sm, tr, effs) = sender_begin now later (nextId st) s (life_sm st) (life_tr st)
      in st\<lparr>life_sm := sm, life_tr := tr, liveSenders := (nextId st, at, s) # liveSenders st,
             nextId := nextId st + 1, lastSend := gput (ss_targetShardID s) (nextId st) (lastSend st)\<rparr>)"

definition close_sender :: "int \<Rightarrow> nat \<times> int \<times> proxyStreamSender \<Rightarrow> lifeState \<Rightarrow> lifeState" where
  "close_sender later l st =
     (case l of (ch, at, s) \<Rightarrow>
        let (sm, tr, effs) = sender_finish later ch at s (life_sm st) (life_tr st)
        in st\<lparr>life_sm := sm, life_tr := tr, liveSenders := filter (\<lambda>x. x \<noteq> l) (liveSenders st)\<rparr>)"

definition open_receiver ::
  "int \<Rightarrow> (receiverMD \<Rightarrow> string option) \<Rightarrow> proxyStreamReceiver \<Rightarrow> lifeState \<Rightarrow> lifeState" where
  "open_receiver now open_stream r st =
     (let (ok, r, sm, tr, effs) = receiver_begin now open_stream (nextId st) r (life_sm st) (life_tr st)
      in st\<lparr>life_sm := sm, life_tr := tr, nextId := nextId st + 1,
             liveReceivers := (if ok then [(nextId st, r)] else []) @ liveReceivers st\<rparr>)"

definition close_receiver :: "nat \<times> proxyStreamReceiver \<Rightarrow> lifeState \<Rightarrow> lifeState" where
  "close_receiver l st =
     (case l of (i, r) \<Rightarrow>
        let (sm, tr) = receiver_finish i r (life_sm st) (life_tr st)
        in st\<lparr>life_sm := sm, life_tr := tr, liveReceivers := filter (\<lambda>x. x \<noteq> l) (liveReceivers st)\<rparr>)"

inductive stream_step :: "lifeState \<Rightarrow> lifeState \<Rightarrow> bool" where
  step_open_sender: "stream_step st (open_sender now later s st)"
| step_close_sender: "l \<in> set (liveSenders st) \<Longrightarrow> stream_step st (close_sender later l st)"
| step_open_receiver: "stream_step st (open_receiver now open_stream r st)"
| step_close_receiver: "l \<in> set (liveReceivers st) \<Longrightarrow> stream_step st (close_receiver l st)"
| step_peer_msg: "stream_step st (st\<lparr>life_sm := fst (NotifyMsg later data (life_sm st))\<rparr>)"
| step_merge: "stream_step st (st\<lparr>life_sm := MergeRemoteState state (life_sm st)\<rparr>)"
| step_leave: "stream_step st (st\<lparr>life_sm := fst (NotifyLeave node n (life_sm st))\<rparr>)"

definition life_start :: "shardManagerImpl \<Rightarrow> lifeState" where
  "life_start sm = \<lparr>life_sm = sm, life_tr = NewStreamTracker, liveSenders = [], liveReceivers = [],
                    nextId = 0, lastSend = []\<rparr>"

inductive stream_reach :: "shardManagerImpl \<Rightarrow> lifeState \<Rightarrow> bool" for sm where
  stream_reach_start: "stream_reach sm (life_start sm)"
| stream_reach_step: "stream_reach sm st \<Longrightarrow> stream_step st st' \<Longrightarrow> stream_reach sm st'"

inductive_cases stream_stepE: "stream_step st st'"


section \<open>Every table entry has a live owner\<close>

abbreviation sendOwners :: "lifeState \<Rightarrow> (ClusterShardID \<times> nat) set" where
  "sendOwners st \<equiv> (\<lambda>(ch, at, s). (ss_targetShardID s, ch)) ` set (liveSenders st)"

abbreviation recvOwners :: "lifeState \<Rightarrow> (ClusterShardID \<times> nat) set" where
  "recvOwners st \<equiv> (\<lambda>(i, r). (sr_sourceShardID r, i)) ` set (liveReceivers st)"

definition shards_owned :: "lifeState \<Rightarrow> bool" where
  "shards_owned st \<longleftrightarrow>
     (\<forall>k info. gget (localShards (life_sm st)) k = Some info \<longrightarrow>
        k = ClusterShardIDtoShortString (SI_ID info) \<and>
        (\<exists>(ch, at, s) \<in> set (liveSenders st). ss_targetShardID s = SI_ID info \<and> at = SI_Created info))"

definition receivers_owned :: "lifeState \<Rightarrow> bool" where
  "receivers_owned st \<longleftrightarrow>
     ack_registry.owned (recvOwners st) (life_sm st) \<and>
     (\<forall>k c. gget (localReceiverCancelFuncs (life_sm st)) k = Some c \<longrightarrow> (k, c) \<in> recvOwners st) \<and>
     (\<forall>k ar. gget (activeReceivers (life_sm st)) k = Some ar \<longrightarrow> (k, AR_Ident ar) \<in> recvOwners st)"

definition idents_ok :: "lifeState \<Rightarrow> bool" where
  "idents_ok st \<longleftrightarrow>
     distinct (map fst (liveSenders st)) \<and> distinct (map fst (liveReceivers st)) \<and>
     (\<forall>l \<in> set (liveSenders st). fst l < nextId st) \<and> (\<forall>l \<in> set (liveReceivers st). fst l < nextId st)"

definition last_sender_registered :: "lifeState \<Rightarrow> bool" where
  "last_sender_registered st \<longleftrightarrow>
     (\<forall>(ch, at, s) \<in> set (liveSenders st).
        gget (lastSend st) (ss_targetShardID s) = Some ch \<longrightarrow>
        GetRemoteSendChan (life_sm st) (ss_targetShardID s) = Some ch)"

definition life_inv :: "lifeState \<Rightarrow> bool" where
  "life_inv st \<longleftrightarrow>
     send_registry.owned (sendOwners st) (life_sm st) \<and> shards_owned st \<and> receivers_owned st \<and>
     idents_ok st \<and> last_sender_registered st"

text \<open>What the operations on shards leave alone.\<close>

lemma Unregister_frame:
  "remoteSendChannels (fst (UnregisterShard later shard e sm)) = remoteSendChannels sm"
    "localAckChannels (fst (UnregisterShard later shard e sm)) = localAckChannels sm"
    "localReceiverCancelFuncs (fst (UnregisterShard later shard e sm)) = localReceiverCancelFuncs sm"
    "activeReceivers (fst (UnregisterShard later shard e sm)) = activeReceivers sm"
    "gget (localShards (fst (UnregisterShard later shard e sm))) k =
       (if k = ClusterShardIDtoShortString shard \<and>
           map_option SI_Created (gget (localShards sm) k) = Some e then None
        else gget (localShards sm) k)"
  by (auto simp: UnregisterShard_def removeLocalShard_def Let_def split: option.splits)

lemma NotifyMsg_frame:
  "remoteSendChannels (fst (NotifyMsg later data sm)) = remoteSendChannels sm"
  "localAckChannels (fst (NotifyMsg later data sm)) = localAckChannels sm"
  "localReceiverCancelFuncs (fst (NotifyMsg later data sm)) = localReceiverCancelFuncs sm"
  "activeReceivers (fst (NotifyMsg later data sm)) = activeReceivers sm"
  "gget (localShards (fst (NotifyMsg later data sm))) k = Some info \<Longrightarrow> gget (localShards sm) k = Some info"
  using Unregister_frame[of later _ _ sm]
  by (auto simp: NotifyMsg_def Let_def case_prod_beta split: option.splits if_splits)

lemma Leave_frame:
  "remoteSendChannels (fst (NotifyLeave node n sm)) = remoteSendChannels sm"
  "localAckChannels (fst (NotifyLeave node n sm)) = localAckChannels sm"
  "localReceiverCancelFuncs (fst (NotifyLeave node n sm)) = localReceiverCancelFuncs sm"
  "activeReceivers (fst (NotifyLeave node n sm)) = activeReceivers sm"
  "localShards (fst (NotifyLeave node n sm)) = localShards sm"
  by (simp_all add: NotifyLeave_def startJoinLoop_def Let_def split: option.split)

lemma Merge_frame:
  "remoteSendChannels (MergeRemoteState st sm) = remoteSendChannels sm"
  "localAckChannels (MergeRemoteState st sm) = localAckChannels sm"
  "localReceiverCancelFuncs (MergeRemoteState st sm) = localReceiverCancelFuncs sm"
  "activeReceivers (MergeRemoteState st sm) = activeReceivers sm"
  "localShards (MergeRemoteState st sm) = localShards sm"
  by (simp_all add: MergeRemoteState_def split: option.split)

text \<open>A change of the manager that only takes shards away keeps the invariant.\<close>

lemma life_inv_frame:
  assumes "life_inv st" "remoteSendChannels sm = remoteSendChannels (life_sm st)"
    "localAckChannels sm = localAckChannels (life_sm st)"
    "localReceiverCancelFuncs sm = localReceiverCancelFuncs (life_sm st)"
    "activeReceivers sm = activeReceivers (life_sm st)"
    "\<And>k info. gget (localShards sm) k = Some info \<Longrightarrow> gget (localShards (life_sm st)) k = Some info"
  shows "life_inv (st\<lparr>life_sm := sm\<rparr>)"
proof -
  have "shards_owned (st\<lparr>life_sm := sm\<rparr>)"
    unfolding shards_owned_def
  proof (intro allI impI)
    fix k info assume "gget (localShards (life_sm (st\<lparr>life_sm := sm\<rparr>))) k = Some info"
    then have "gget (localShards (life_sm st)) k = Some info" using assms(6) by simp
    then show "k = ClusterShardIDtoShortString (SI_ID info) \<and>
        (\<exists>(ch, at, s) \<in> set (liveSenders (st\<lparr>life_sm := sm\<rparr>)). ss_targetShardID s = SI_ID info \<and> at = SI_Created info)"
      using assms(1) by (simp add: life_inv_def shards_owned_def)
  qed
  with assms(1-5) show ?thesis
    by (simp add: life_inv_def send_registry.owned_def ack_registry.owned_def receivers_owned_def
        idents_ok_def last_sender_registered_def GetRemoteSendChan_def GetLocalAckChan_def)
qed

lemma sender_begin_tables:
  assumes "sender_begin now later ch s sm tr = (at, s', sm', tr', effs)"
  shows "at = now" "ss_targetShardID s' = ss_targetShardID s"
    "remoteSendChannels sm' = gput (ss_targetShardID s) ch (remoteSendChannels sm)"
    "localAckChannels sm' = localAckChannels sm"
    "localReceiverCancelFuncs sm' = localReceiverCancelFuncs sm"
    "activeReceivers sm' = activeReceivers sm"
    "localShards sm' = gput (ClusterShardIDtoShortString (ss_targetShardID s))
       \<lparr>SI_ID = ss_targetShardID s, SI_Created = now\<rparr> (localShards sm)"
  using assms
  by (auto simp: sender_begin_def RegisterShard_def addLocalShard_def SetRemoteSendChan_def Let_def)

lemma life_inv_open_sender:
  assumes "life_inv st"
  shows "life_inv (open_sender now later s st)"
proof -
  obtain at s' sm' tr' effs where b:
    "sender_begin now later (nextId st) s (life_sm st) (life_tr st) = (at, s', sm', tr', effs)"
    by (metis prod.collapse)
  note t = sender_begin_tables[OF b]
  have "send_registry.owned (insert (ss_targetShardID s, nextId st) (sendOwners st)) sm'"
    using assms t(3) by (auto simp: life_inv_def send_registry.owned_def GetRemoteSendChan_def)
  moreover have "fst l \<noteq> nextId st" if "l \<in> set (liveSenders st)" for l
    using assms that by (auto simp: life_inv_def idents_ok_def)
  ultimately show ?thesis
    using assms t
    by (auto simp: open_sender_def b life_inv_def ack_registry.owned_def receivers_owned_def
        shards_owned_def idents_ok_def last_sender_registered_def GetRemoteSendChan_def GetLocalAckChan_def
        image_iff less_Suc_eq)
qed

lemma sender_finish_tables:
  assumes "sender_finish later ch at s sm tr = (sm', tr', effs)"
  shows "GetRemoteSendChan sm' k = GetRemoteSendChan (RemoveRemoteSendChan (ss_targetShardID s) ch sm) k"
    "localAckChannels sm' = localAckChannels sm"
    "localReceiverCancelFuncs sm' = localReceiverCancelFuncs sm"
    "activeReceivers sm' = activeReceivers sm"
    "gget (localShards sm') j =
       (if j = ClusterShardIDtoShortString (ss_targetShardID s) \<and>
           map_option SI_Created (gget (localShards sm) j) = Some at then None
        else gget (localShards sm) j)"
proof -
  let ?u = "fst (UnregisterShard later (ss_targetShardID s) at sm)"
  have "sm' = RemoveRemoteSendChan (ss_targetShardID s) ch ?u"
    using assms by (auto simp: sender_finish_def Let_def case_prod_beta)
  then show "GetRemoteSendChan sm' k = GetRemoteSendChan (RemoveRemoteSendChan (ss_targetShardID s) ch sm) k"
    "localAckChannels sm' = localAckChannels sm"
    "localReceiverCancelFuncs sm' = localReceiverCancelFuncs sm"
    "activeReceivers sm' = activeReceivers sm"
    using Unregister_frame(1-4)[of later "ss_targetShardID s" at sm]
    by (simp_all add: RemoveRemoteSendChan_def GetRemoteSendChan_def)
  have "localShards sm' = localShards ?u"
    using \<open>sm' = _\<close> by (simp add: RemoveRemoteSendChan_def)
  then show "gget (localShards sm') j =
       (if j = ClusterShardIDtoShortString (ss_targetShardID s) \<and>
           map_option SI_Created (gget (localShards sm) j) = Some at then None
        else gget (localShards sm) j)"
    by (simp only: Unregister_frame(5))
qed


lemma life_inv_close_sender:
  assumes "life_inv st" "l \<in> set (liveSenders st)"
  shows "life_inv (close_sender later l st)"
proof -
  obtain ch at s where l: "l = (ch, at, s)" by (metis prod.collapse)
  obtain sm' tr' effs where f: "sender_finish later ch at s (life_sm st) (life_tr st) = (sm', tr', effs)"
    by (rule prod_cases3)
  note t = sender_finish_tables[OF f]
  have uniq: "l' = l" if "l' \<in> set (liveSenders st)" "fst l' = ch" for l'
    using assms that l by (auto simp: life_inv_def idents_ok_def distinct_map inj_on_def)
  let ?st = "close_sender later l st"
  have st: "life_sm ?st = sm'" "liveSenders ?st = filter (\<lambda>x. x \<noteq> l) (liveSenders st)"
    "liveReceivers ?st = liveReceivers st" "nextId ?st = nextId st" "lastSend ?st = lastSend st"
    by (simp_all add: close_sender_def l f)
  have "send_registry.owned (sendOwners st - {(ss_targetShardID s, ch)}) sm'"
    using send_registry.owned_leave[of "sendOwners st" "life_sm st" "ss_targetShardID s" ch] assms(1) t(1)
    by (simp add: life_inv_def send_registry.owned_def)
  moreover have "sendOwners st - {(ss_targetShardID s, ch)} \<subseteq> sendOwners ?st"
  proof
    fix x assume "x \<in> sendOwners st - {(ss_targetShardID s, ch)}"
    then obtain m where "m \<in> set (liveSenders st)" "x = (case m of (ch, at, s) \<Rightarrow> (ss_targetShardID s, ch))" "m \<noteq> l"
      using l by auto
    then show "x \<in> sendOwners ?st" unfolding st(2) by auto
  qed
  ultimately have "send_registry.owned (sendOwners ?st) (life_sm ?st)"
    unfolding send_registry.owned_def st(1) by blast
  moreover have "shards_owned ?st"
    unfolding shards_owned_def st
  proof (intro allI impI)
    fix k info assume g: "gget (localShards sm') k = Some info"
    then have g': "gget (localShards (life_sm st)) k = Some info"
      "\<not> (k = ClusterShardIDtoShortString (ss_targetShardID s) \<and> SI_Created info = at)"
      using t(5)[of k] by (auto split: if_splits)
    then obtain ch' at' s' where o: "k = ClusterShardIDtoShortString (SI_ID info)"
      "(ch', at', s') \<in> set (liveSenders st)" "ss_targetShardID s' = SI_ID info" "at' = SI_Created info"
      using assms(1) by (fastforce simp: life_inv_def shards_owned_def)
    with g'(2) have "(ch', at', s') \<noteq> l" by (auto simp: l)
    with o show "k = ClusterShardIDtoShortString (SI_ID info) \<and>
        (\<exists>(ch, at, s) \<in> set (filter (\<lambda>x. x \<noteq> l) (liveSenders st)). ss_targetShardID s = SI_ID info \<and> at = SI_Created info)"
      by auto
  qed
  moreover have "last_sender_registered ?st"
    unfolding last_sender_registered_def st t(1) send_registry.lookup_leave
    using assms(1) uniq by (fastforce simp: life_inv_def last_sender_registered_def)
  moreover have "receivers_owned ?st" "idents_ok ?st"
    using assms(1) t(2-4)
    by (auto simp: life_inv_def receivers_owned_def ack_registry.owned_def idents_ok_def GetLocalAckChan_def st
        distinct_map_filter)
  ultimately show ?thesis by (simp add: life_inv_def)
qed


lemma receiver_begin_tables:
  assumes "receiver_begin now open_stream i r sm tr = (ok, r', sm', tr', effs)"
  shows "sr_sourceShardID r' = sr_sourceShardID r"
    "remoteSendChannels sm' = remoteSendChannels sm" "localShards sm' = localShards sm"
    "gget (localAckChannels sm') k = Some c \<Longrightarrow> gget (localAckChannels sm) k = Some c \<or> ok \<and> k = sr_sourceShardID r \<and> c = i"
    "gget (localReceiverCancelFuncs sm') k = Some c \<Longrightarrow>
       gget (localReceiverCancelFuncs sm) k = Some c \<or> ok \<and> k = sr_sourceShardID r \<and> c = i"
    "gget (activeReceivers sm') k = Some ar \<Longrightarrow>
       gget (activeReceivers sm) k = Some ar \<or> ok \<and> k = sr_sourceShardID r \<and> AR_Ident ar = i"
  using assms
  by (auto simp: receiver_begin_def sm_channel_defs Let_def split: option.splits if_splits)

lemma life_inv_open_receiver:
  assumes "life_inv st"
  shows "life_inv (open_receiver now open_stream r st)"
proof -
  obtain ok r' sm' tr' effs where b:
    "receiver_begin now open_stream (nextId st) r (life_sm st) (life_tr st) = (ok, r', sm', tr', effs)"
    by (metis prod.collapse)
  note t = receiver_begin_tables[OF b]
  let ?st = "open_receiver now open_stream r st"
  have st: "life_sm ?st = sm'" "liveSenders ?st = liveSenders st" "nextId ?st = Suc (nextId st)"
    "liveReceivers ?st = (if ok then [(nextId st, r')] else []) @ liveReceivers st" "lastSend ?st = lastSend st"
    by (simp_all add: open_receiver_def b)
  have new: "recvOwners ?st = (if ok then {(sr_sourceShardID r, nextId st)} else {}) \<union> recvOwners st"
    unfolding st using t(1) by simp
  have "receivers_owned ?st"
    unfolding receivers_owned_def ack_registry.owned_def GetLocalAckChan_def new st(1)
    using assms t(4-6)
    by (fastforce simp: life_inv_def receivers_owned_def ack_registry.owned_def GetLocalAckChan_def)
  moreover have "send_registry.owned (sendOwners ?st) (life_sm ?st)" "shards_owned ?st" "last_sender_registered ?st"
    using assms t(2,3)
    by (simp_all add: life_inv_def send_registry.owned_def shards_owned_def last_sender_registered_def
        GetRemoteSendChan_def st)
  moreover have "idents_ok ?st" using assms by (auto simp: life_inv_def idents_ok_def st)
  ultimately show ?thesis by (simp add: life_inv_def)
qed

lemma life_inv_close_receiver:
  assumes "life_inv st" "l \<in> set (liveReceivers st)"
  shows "life_inv (close_receiver l st)"
proof -
  obtain i r where l: "l = (i, r)" by (rule prod.exhaust)
  let ?k = "sr_sourceShardID r" and ?sm = "life_sm st"
  let ?sm' = "fst (receiver_finish i r ?sm (life_tr st))"
  have t: "remoteSendChannels ?sm' = remoteSendChannels ?sm" "localShards ?sm' = localShards ?sm"
    "gget (localAckChannels ?sm') k = Some c \<Longrightarrow> gget (localAckChannels ?sm) k = Some c \<and> (k, c) \<noteq> (?k, i)"
    "gget (localReceiverCancelFuncs ?sm') k = (if k = ?k then None else gget (localReceiverCancelFuncs ?sm) k)"
    "gget (activeReceivers ?sm') k = (if k = ?k then None else gget (activeReceivers ?sm) k)" for k c
    by (auto simp: receiver_finish_def sm_channel_defs Let_def split: if_splits)
  let ?st = "close_receiver l st"
  have st: "life_sm ?st = ?sm'" "liveSenders ?st = liveSenders st" "nextId ?st = nextId st"
    "liveReceivers ?st = filter (\<lambda>x. x \<noteq> l) (liveReceivers st)" "lastSend ?st = lastSend st"
    by (simp_all add: close_receiver_def l case_prod_beta)
  have sub: "x \<in> recvOwners ?st" if "x \<in> recvOwners st" "x \<noteq> (?k, i)" for x
  proof -
    from that l obtain m where "m \<in> set (liveReceivers st)" "x = (case m of (i, r) \<Rightarrow> (sr_sourceShardID r, i))" "m \<noteq> l"
      by auto
    then show ?thesis unfolding st(4) by auto
  qed
  have "receivers_owned ?st"
    unfolding receivers_owned_def ack_registry.owned_def GetLocalAckChan_def st(1)
  proof (intro conjI allI impI)
    fix k c assume "gget (localAckChannels ?sm') k = Some c"
    with t(3) assms(1) show "(k, c) \<in> recvOwners ?st"
      by (intro sub) (auto simp: life_inv_def receivers_owned_def ack_registry.owned_def GetLocalAckChan_def)
  next
    fix k c assume "gget (localReceiverCancelFuncs ?sm') k = Some c"
    with assms(1) show "(k, c) \<in> recvOwners ?st"
      by (intro sub) (auto simp: t(4) life_inv_def receivers_owned_def split: if_splits)
  next
    fix k ar assume "gget (activeReceivers ?sm') k = Some ar"
    with assms(1) show "(k, AR_Ident ar) \<in> recvOwners ?st"
      by (intro sub) (auto simp: t(5) life_inv_def receivers_owned_def split: if_splits)
  qed
  moreover have "send_registry.owned (sendOwners ?st) (life_sm ?st)" "shards_owned ?st" "last_sender_registered ?st"
    using assms t(1,2)
    by (simp_all add: life_inv_def send_registry.owned_def shards_owned_def last_sender_registered_def
        GetRemoteSendChan_def st)
  moreover have "idents_ok ?st" using assms by (auto simp: life_inv_def idents_ok_def st distinct_map_filter)
  ultimately show ?thesis by (simp add: life_inv_def)
qed

lemma life_inv_step: "stream_step st st' \<Longrightarrow> life_inv st \<Longrightarrow> life_inv st'"
proof (erule stream_stepE)
  fix later data assume "life_inv st" "st' = st\<lparr>life_sm := fst (NotifyMsg later data (life_sm st))\<rparr>"
  then show "life_inv st'" using life_inv_frame[OF _ NotifyMsg_frame] by simp
next
  fix state assume "life_inv st" "st' = st\<lparr>life_sm := MergeRemoteState state (life_sm st)\<rparr>"
  then show "life_inv st'" using life_inv_frame[OF _ Merge_frame(1-4)] by (simp add: Merge_frame)
next
  fix node n assume "life_inv st" "st' = st\<lparr>life_sm := fst (NotifyLeave node n (life_sm st))\<rparr>"
  then show "life_inv st'" using life_inv_frame[OF _ Leave_frame(1-4)] by (simp add: Leave_frame)
qed (simp_all add: life_inv_open_sender life_inv_close_sender life_inv_open_receiver life_inv_close_receiver)


definition tables_empty :: "shardManagerImpl \<Rightarrow> bool" where
  "tables_empty sm \<longleftrightarrow>
     localShards sm = [] \<and> remoteSendChannels sm = [] \<and> localAckChannels sm = [] \<and>
     localReceiverCancelFuncs sm = [] \<and> activeReceivers sm = []"

lemma life_inv_start: "tables_empty sm \<Longrightarrow> life_inv (life_start sm)"
  by (simp add: tables_empty_def life_inv_def life_start_def send_registry.owned_def ack_registry.owned_def
      receivers_owned_def shards_owned_def idents_ok_def last_sender_registered_def GetRemoteSendChan_def
      GetLocalAckChan_def)

lemma life_inv_reach: "stream_reach sm st \<Longrightarrow> tables_empty sm \<Longrightarrow> life_inv st"
  by (induction rule: stream_reach.induct) (auto intro: life_inv_start life_inv_step)


section \<open>Properties\<close>

text \<open>
  C27: However streams begin and end, and whatever the peers announce in between, nothing is left
  behind in the tables of the shard manager: a send channel, a local shard, an acknowledgement
  channel, a cancel function or an active receiver that is registered belongs to a stream that is
  still running. A sender that ends late does not take away the channel of its successor: the
  sender opened last for a target keeps its channel registered for as long as it runs.
\<close>

theorem tables_have_live_owners:
  assumes "stream_reach sm st" "tables_empty sm"
  shows "(GetRemoteSendChan (life_sm st) shard = Some ch \<longrightarrow>
      (\<exists>at s. (ch, at, s) \<in> set (liveSenders st) \<and> ss_targetShardID s = shard)) \<and>
    (gget (localShards (life_sm st)) (ClusterShardIDtoShortString shard) = Some info \<longrightarrow>
      (\<exists>c s. (c, SI_Created info, s) \<in> set (liveSenders st) \<and> ss_targetShardID s = shard)) \<and>
    (GetLocalAckChan (life_sm st) shard = Some ch \<longrightarrow>
      (\<exists>r. (ch, r) \<in> set (liveReceivers st) \<and> sr_sourceShardID r = shard)) \<and>
    (GetLocalReceiverCancelFunc (life_sm st) shard = Some ch \<longrightarrow>
      (\<exists>r. (ch, r) \<in> set (liveReceivers st) \<and> sr_sourceShardID r = shard)) \<and>
    (GetActiveReceiver (life_sm st) shard = Some ar \<longrightarrow>
      (\<exists>r. (AR_Ident ar, r) \<in> set (liveReceivers st) \<and> sr_sourceShardID r = shard)) \<and>
    ((ch, t, snd') \<in> set (liveSenders st) \<and> gget (lastSend st) (ss_targetShardID snd') = Some ch \<longrightarrow>
      GetRemoteSendChan (life_sm st) (ss_targetShardID snd') = Some ch)"
proof -
  have inv: "life_inv st" by (rule life_inv_reach[OF assms])
  have "ClusterShardIDtoShortString shard = ClusterShardIDtoShortString (SI_ID info) \<Longrightarrow> SI_ID info = shard"
    by simp
  moreover have "gget (localShards (life_sm st)) (ClusterShardIDtoShortString shard) = Some info \<Longrightarrow>
      ClusterShardIDtoShortString shard = ClusterShardIDtoShortString (SI_ID info) \<and>
      (\<exists>(ch, at, s) \<in> set (liveSenders st). ss_targetShardID s = SI_ID info \<and> at = SI_Created info)"
    using inv by (simp only: life_inv_def shards_owned_def)
  ultimately show ?thesis
    using inv
    unfolding life_inv_def receivers_owned_def send_registry.owned_def ack_registry.owned_def
      last_sender_registered_def GetActiveReceiver_def GetLocalReceiverCancelFunc_def
    by (intro conjI impI) fastforce+
qed

lemma exStarted_empty: "tables_empty (exStarted mode)"
  by (simp add: tables_empty_def Start_defs)

definition exRunning :: lifeState where
  "exRunning = close_sender 40 (0, 10, (newProxyStreamSender exShard exShard [])\<lparr>ss_streamID := BuildSenderStreamID exShard exShard\<rparr>)
     (open_sender 20 21 (newProxyStreamSender exShard exShard [])
       (open_sender 10 11 (newProxyStreamSender exShard exShard []) (life_start (exStarted []))))"

lemmas life_defs =
  exRunning_def close_sender_def open_sender_def sender_begin_def sender_finish_def newProxyStreamSender_def
  life_start_def RegisterShard_def addLocalShard_def UnregisterShard_def removeLocalShard_def
  SetRemoteSendChan_def RemoveRemoteSendChan_def

lemma exRunning_reach: "stream_reach (exStarted []) exRunning"
  unfolding exRunning_def
  by (rule stream_reach_step[OF stream_reach_step[OF stream_reach_step[OF stream_reach_start step_open_sender]
          step_open_sender] step_close_sender])
    (simp add: open_sender_def sender_begin_def newProxyStreamSender_def RegisterShard_def addLocalShard_def
      life_start_def Let_def)

theorem tables_have_live_owners_witness:
  "map fst (liveSenders exRunning) = [1] \<and> GetRemoteSendChan (life_sm exRunning) exShard = Some 1"
proof -
  have l: "liveSenders exRunning =
      [(1, 20, (newProxyStreamSender exShard exShard [])\<lparr>ss_streamID := BuildSenderStreamID exShard exShard\<rparr>)]"
    "gget (lastSend exRunning) exShard = Some 1"
    by (simp_all add: life_defs Let_def case_prod_beta)
  then show ?thesis
    using tables_have_live_owners[OF exRunning_reach exStarted_empty, of exShard 1 _ _ 20
        "(newProxyStreamSender exShard exShard [])\<lparr>ss_streamID := BuildSenderStreamID exShard exShard\<rparr>"]
    by (simp add: newProxyStreamSender_def)
qed

text \<open>
  A receiver that ends late takes down the registrations of its successor. The registration as
  active receiver and the cancel function are removed at the end of \<^verbatim>\<open>Run\<close> without a look at whose
  they are: after a second receiver for the same source has been opened and the first has ended,
  the second runs and takes acknowledgements, but it is not told of new target shards any more,
  and a third receiver does not terminate it.
\<close>

lemma late_receiver_unregisters_successor:
  fixes st :: lifeState and t1 t2 :: int
  assumes "sr_sourceShardID r1 = src" "sr_sourceShardID r2 = src"
    and "\<forall>md. open1 md = None" "\<forall>md. open2 md = None"
  defines "st1 \<equiv> open_receiver t1 open1 r1 st"
  defines "st2 \<equiv> open_receiver t2 open2 r2 st1"
  defines "st3 \<equiv> close_receiver (hd (liveReceivers st1)) st2"
  shows "GetLocalAckChan (life_sm st3) src = Some (Suc (nextId st)) \<and>
    (\<exists>r. (Suc (nextId st), r) \<in> set (liveReceivers st3) \<and> sr_sourceShardID r = src) \<and>
    GetActiveReceiver (life_sm st3) src = None \<and>
    TerminatePreviousLocalReceiver src (life_sm st3) = (life_sm st3, [])"
  using assms(1-4)
  by (auto simp: st3_def st2_def st1_def open_receiver_def close_receiver_def receiver_begin_def receiver_finish_def
      sm_channel_defs GetLocalAckChan_def GetActiveReceiver_def GetLocalReceiverCancelFunc_def Let_def
      case_prod_beta split: option.split)

lemma late_receiver_unregisters_successor_witness:
  "GetActiveReceiver (life_sm (close_receiver (hd (liveReceivers
       (open_receiver 1 (\<lambda>_. None) (newProxyStreamReceiver exShard exShard 4 []) (life_start (exStarted [])))))
     (open_receiver 2 (\<lambda>_. None) (newProxyStreamReceiver exShard exShard 4 [])
       (open_receiver 1 (\<lambda>_. None) (newProxyStreamReceiver exShard exShard 4 []) (life_start (exStarted []))))))
     exShard = None"
  using late_receiver_unregisters_successor[where ?r1.0 = "newProxyStreamReceiver exShard exShard 4 []" and
      ?r2.0 = "newProxyStreamReceiver exShard exShard 4 []" and src = exShard and ?open1.0 = "\<lambda>_. None" and
      ?open2.0 = "\<lambda>_. None" and ?t1.0 = 1 and ?t2.0 = 2 and st = "life_start (exStarted [])"]
  by (simp add: newProxyStreamReceiver_def)

end
