(* ===== verification/ShardCount.thy ===== *)
theory ShardCount
  imports Prelude "HOL-Library.Signed_Division"
begin

text \<open>
  How the proxy hides a difference in shard counts: the least common multiple of \<^verbatim>\<open>common/common.go\<close>,
  the parameters of the two modes (\<^verbatim>\<open>getLCMParameters\<close> and \<^verbatim>\<open>getRoutingParameters\<close> in
  \<^verbatim>\<open>proxy/cluster_connection.go\<close>), the shard count the proxy reports in \<^verbatim>\<open>DescribeCluster\<close> and the
  remapping of shard IDs (\<^verbatim>\<open>mapShardIDUnique\<close>). Go's division truncates towards zero: it is \<open>sdiv\<close>
  and \<open>smod\<close> here, and the 32-bit product wraps.
\<close>

section \<open>\<^verbatim>\<open>common.GCD\<close> and \<^verbatim>\<open>common.LCM\<close>\<close>

function gcd_loop :: "int \<Rightarrow> int \<Rightarrow> int" where
  "gcd_loop a b = (if b = 0 then a else gcd_loop b (a smod b))"
  by pat_completeness auto
termination
proof (relation "measure (\<lambda>(a, b). nat \<bar>b\<bar>)")
  fix a b :: int assume "b \<noteq> 0"
  then have "\<bar>a smod b\<bar> < \<bar>b\<bar>"
    by (simp add: signed_modulo_int_def abs_mult)
  then show "((b, a smod b), a, b) \<in> measure (\<lambda>(a, b). nat \<bar>b\<bar>)" by simp
qed simp

declare gcd_loop.simps [simp del]

definition GCD32 :: "int \<Rightarrow> int \<Rightarrow> int" where
  "GCD32 a b =
     (if a = 0 \<or> b = 0 then 0
      else let (a, b) = (if a > b then (b, a) else (a, b)) in gcd_loop a b)"

definition LCM32 :: "int \<Rightarrow> int \<Rightarrow> int" where
  "LCM32 a b = (if a = 0 \<or> b = 0 then 0 else i32 (i32 (a * b) sdiv GCD32 a b))"

section \<open>Parameters of a connection\<close>

record ShardCountConfig =
  Mode :: string
  LocalShardCount :: int
  RemoteShardCount :: int

definition ShardCountLCM :: string where "ShardCountLCM = ''lcm''"
definition ShardCountRouting :: string where "ShardCountRouting = ''routing''"

record LCMParameters =
  LCM_count :: int
  TargetShardCount :: int

record RoutingParameters =
  OverrideShardCount :: int
  RoutingLocalShardCount :: int
  DirectionLabel :: string

definition getLCMParameters :: "ShardCountConfig \<Rightarrow> bool \<Rightarrow> LCMParameters" where
  "getLCMParameters cfg inverted =
     (if Mode cfg \<noteq> ShardCountLCM then \<lparr>LCM_count = 0, TargetShardCount = 0\<rparr>
      else
        let lcm = LCM32 (LocalShardCount cfg) (RemoteShardCount cfg)
        in if inverted then \<lparr>LCM_count = lcm, TargetShardCount = LocalShardCount cfg\<rparr>
           else \<lparr>LCM_count = lcm, TargetShardCount = RemoteShardCount cfg\<rparr>)"

definition getRoutingParameters :: "ShardCountConfig \<Rightarrow> bool \<Rightarrow> string \<Rightarrow> RoutingParameters" where
  "getRoutingParameters cfg inverted directionLabel =
     (if Mode cfg \<noteq> ShardCountRouting
      then \<lparr>OverrideShardCount = 0, RoutingLocalShardCount = 0, DirectionLabel = []\<rparr>
      else if inverted
      then \<lparr>OverrideShardCount = RemoteShardCount cfg, RoutingLocalShardCount = LocalShardCount cfg,
            DirectionLabel = directionLabel\<rparr>
      else \<lparr>OverrideShardCount = LocalShardCount cfg, RoutingLocalShardCount = RemoteShardCount cfg,
            DirectionLabel = directionLabel\<rparr>)"

section \<open>Remapping\<close>

text \<open>
  \<open>MapShardID\<close> is \<^verbatim>\<open>servercommon.MapShardID\<close> of the server library. \<open>None\<close> is the panic of the
  source when the remapped shard is not unique.
\<close>

definition mapShardIDUnique :: "(int \<Rightarrow> int \<Rightarrow> int \<Rightarrow> int list) \<Rightarrow> int \<Rightarrow> int \<Rightarrow> int \<Rightarrow> int option" where
  "mapShardIDUnique MapShardID sourceShardCount targetShardCount sourceShardID =
     (case MapShardID sourceShardCount targetShardCount sourceShardID of
        [target] \<Rightarrow> Some target
      | _ \<Rightarrow> None)"

text \<open>
  The documented behaviour of the library function for many-to-one mappings: when the target
  count divides the source count, shard IDs, which start at one, map modulo the target count.
\<close>

definition many_to_one :: "(int \<Rightarrow> int \<Rightarrow> int \<Rightarrow> int list) \<Rightarrow> bool" where
  "many_to_one MapShardID \<longleftrightarrow>
     (\<forall>n t i. 0 < t \<and> t dvd n \<and> 1 \<le> i \<and> i \<le> n \<longrightarrow> MapShardID n t i = [(i - 1) mod t + 1])"

section \<open>Admin calls the proxy rewrites\<close>

text \<open>
  \<^verbatim>\<open>IsRequestTranslationDisabled\<close>: \<open>values\<close> are the values of the header \<^verbatim>\<open>s2s-request-translation\<close>.
  \<open>ParseBool\<close> is \<^verbatim>\<open>strconv.ParseBool\<close>.
\<close>

definition ParseBool :: "string \<Rightarrow> bool option" where
  "ParseBool s =
     (if s \<in> set [''1'', ''t'', ''T'', ''TRUE'', ''true'', ''True''] then Some True
      else if s \<in> set [''0'', ''f'', ''F'', ''FALSE'', ''false'', ''False''] then Some False
      else None)"

definition IsRequestTranslationDisabled :: "string list \<Rightarrow> bool" where
  "IsRequestTranslationDisabled values =
     (case values of
        [] \<Rightarrow> False
      | v # _ \<Rightarrow> (case ParseBool v of None \<Rightarrow> False | Some enabled \<Rightarrow> \<not> enabled))"

text \<open>The fields of the response and of the overrides that the proxy reads or writes.\<close>

record DescribeClusterResponse =
  HistoryShardCount :: int
  FailoverVersionIncrement :: int

record AdminServiceOverrides =
  FVI :: int
  ReplicationEndpoint :: string

definition DescribeCluster ::
  "string list \<Rightarrow> ShardCountConfig \<Rightarrow> LCMParameters \<Rightarrow> RoutingParameters \<Rightarrow> AdminServiceOverrides \<Rightarrow>
   string option \<times> DescribeClusterResponse option \<Rightarrow> string option \<times> DescribeClusterResponse option" where
  "DescribeCluster translationHeader cfg lcmParameters routingParameters overrides result =
     (case result of
        (err, None) \<Rightarrow> (err, None)
      | (Some e, Some resp) \<Rightarrow> (Some e, Some resp)
      | (None, Some resp) \<Rightarrow>
          if IsRequestTranslationDisabled translationHeader then (None, Some resp)
          else
            let resp = (if Mode cfg = ShardCountLCM
                        then resp\<lparr>HistoryShardCount := LCM_count lcmParameters\<rparr>
                        else if Mode cfg = ShardCountRouting
                        then (if OverrideShardCount routingParameters > 0
                              then resp\<lparr>HistoryShardCount := OverrideShardCount routingParameters\<rparr>
                              else resp)
                        else resp);
                resp = (if FVI overrides \<noteq> 0 then resp\<lparr>FailoverVersionIncrement := FVI overrides\<rparr> else resp)
            in (None, Some resp))"

text \<open>The frontend address of the request the proxy passes on.\<close>

definition AddOrUpdateRemoteCluster :: "string list \<Rightarrow> AdminServiceOverrides \<Rightarrow> string \<Rightarrow> string" where
  "AddOrUpdateRemoteCluster translationHeader overrides frontendAddress =
     (if \<not> IsRequestTranslationDisabled translationHeader \<and> length (ReplicationEndpoint overrides) > 0
      then ReplicationEndpoint overrides else frontendAddress)"


section \<open>The loop computes the greatest common divisor\<close>

lemma gcd_loop_correct: "0 \<le> a \<Longrightarrow> 0 \<le> b \<Longrightarrow> gcd_loop a b = gcd a b"
proof (induction a b rule: gcd_loop.induct)
  case (1 a b)
  show ?case
  proof (cases "b = 0")
    case True
    with 1 show ?thesis by (simp add: gcd_loop.simps)
  next
    case False
    then have m: "a smod b = a mod b" using 1 by (simp add: smod_mod_positive)
    then have "gcd_loop b (a smod b) = gcd b (a mod b)"
      using 1 False by simp
    with False m show ?thesis
      by (simp add: gcd_loop.simps[of a b] gcd_red_int[of a b])
  qed
qed

lemma GCD32_correct: "0 < a \<Longrightarrow> 0 < b \<Longrightarrow> GCD32 a b = gcd a b"
  by (simp add: GCD32_def gcd_loop_correct gcd.commute)

lemma LCM32_correct:
  assumes "0 < a" "0 < b" "a * b \<le> MaxInt32"
  shows "LCM32 a b = lcm a b"
proof -
  have pos: "0 < a * b" using assms by simp
  then have p: "i32 (a * b) = a * b" using assms(3) by (intro i32_id) (simp add: is_i32_def)
  have "0 < gcd a b" using assms by simp
  then have "0 \<le> a * b div gcd a b" using pos by (simp only: pos_imp_zdiv_nonneg_iff)
  then have l: "a * b div gcd a b = lcm a b" by (simp add: lcm_gcd)
  have "lcm a b dvd a * b" by (meson dvd_triv_left dvd_triv_right lcm_least)
  then have "lcm a b \<le> a * b" using pos by (rule zdvd_imp_le)
  moreover have "0 \<le> lcm a b" by simp
  ultimately have "i32 (lcm a b) = lcm a b"
    using assms(3) by (intro i32_id) (simp only: is_i32_def, linarith)
  then show ?thesis
    using assms pos by (simp add: LCM32_def GCD32_correct p l signed_divide_int_eq_divide_int)
qed


text \<open>The proxy shards that map to one shard \<open>q\<close> are \<open>q\<close>, \<open>q + T\<close>, \<open>q + 2 T\<close> and so on.\<close>

lemma card_residue_class:
  assumes "0 < T" "1 \<le> q" "q \<le> T" "0 \<le> k"
  shows "card {p \<in> {1..k * T}. (p - 1) mod T + 1 = q} = nat k"
proof -
  have "{p \<in> {1..k * T}. (p - 1) mod T + 1 = q} = (\<lambda>j. q + T * j) ` {0..<k}"
  proof (intro set_eqI iffI)
    fix p assume "p \<in> {p \<in> {1..k * T}. (p - 1) mod T + 1 = q}"
    then have p: "1 \<le> p" "p \<le> k * T" "(p - 1) mod T + 1 = q" by auto
    let ?j = "(p - 1) div T"
    have e: "p = q + T * ?j" using p(3) mult_div_mod_eq[of T "p - 1"] by linarith
    have "0 \<le> ?j" using assms(1) p(1) by (simp add: pos_imp_zdiv_nonneg_iff)
    moreover have "?j < k"
    proof (rule ccontr)
      assume "\<not> ?j < k"
      then have "T * k \<le> T * ?j" using assms(1) by (intro mult_left_mono) auto
      with e p(2) assms(2) show False by (simp add: mult.commute)
    qed
    ultimately have "?j \<in> {0..<k}" by simp
    with e show "p \<in> (\<lambda>j. q + T * j) ` {0..<k}" by blast
  next
    fix p assume "p \<in> (\<lambda>j. q + T * j) ` {0..<k}"
    then obtain j where j: "0 \<le> j" "j < k" "p = q + T * j" by auto
    have "T * j + T \<le> k * T"
      using mult_left_mono[of "j + 1" k T] j(2) assms(1) by (simp add: algebra_simps)
    moreover have "0 \<le> T * j" using j assms(1) by simp
    ultimately have "p \<le> k * T" "1 \<le> p" using j(3) assms(2,3) by linarith+
    moreover have "(q - 1 + T * j) mod T = q - 1" using assms by simp
    ultimately show "p \<in> {p \<in> {1..k * T}. (p - 1) mod T + 1 = q}"
      using j(3) by (simp add: algebra_simps)
  qed
  moreover have "inj_on (\<lambda>j. q + T * j) {0..<k}" using assms(1) by (simp add: inj_on_def)
  ultimately show ?thesis by (simp add: card_image)
qed

section \<open>Properties\<close>


definition exMapShardID :: "int \<Rightarrow> int \<Rightarrow> int \<Rightarrow> int list" where
  "exMapShardID n t i = (if t dvd n then [(i - 1) mod t + 1] else [])"


text \<open>
  Beyond that bound the 32-bit product wraps before the division: two clusters of 65536 shards
  are presented as one with no shards, and clusters of 16384 and 131072 shards as one with a
  negative number of them, which \<^verbatim>\<open>DescribeCluster\<close> reports.
\<close>

lemma lcm_overflows:
  "LCM32 65536 65536 = 0 \<and> LCM32 16384 131072 = - 131072 \<and>
   DescribeCluster [] \<lparr>Mode = ''lcm'', LocalShardCount = 16384, RemoteShardCount = 131072\<rparr>
     (getLCMParameters \<lparr>Mode = ''lcm'', LocalShardCount = 16384, RemoteShardCount = 131072\<rparr> True) routing
     \<lparr>FVI = 0, ReplicationEndpoint = []\<rparr> (None, Some resp) =
     (None, Some (resp\<lparr>HistoryShardCount := - 131072\<rparr>))"
proof -
  have g: "gcd (65536 :: int) 65536 = 65536" "gcd (16384 :: int) 131072 = 16384" by code_simp+
  have l: "LCM32 65536 65536 = 0" "LCM32 16384 131072 = - 131072"
    by (simp_all add: LCM32_def GCD32_correct g i32_def)
  then show ?thesis
    by (simp add: DescribeCluster_def getLCMParameters_def ShardCountLCM_def IsRequestTranslationDisabled_def)
qed

end
