(* ===== verification/StreamObserver.thy ===== *)
theory StreamObserver
  imports Prelude "HOL-Library.Signed_Division"
begin

text \<open>
  \<^verbatim>\<open>proxy/replication_stream_observer.go\<close>: the count of active streams per shard. The slice of
  counters grows on demand; its new size is computed in 32-bit arithmetic. \<open>None\<close> is a panic, which
  leaves the observer's mutex locked.
\<close>

definition NewReplicationStreamObserver :: "int list" where
  "NewReplicationStreamObserver = replicate 1024 0"

definition observer_newSize :: "int \<Rightarrow> int" where
  "observer_newSize idx = min (i32 (i32 (idx + 1) * 9)) MaxInt32 sdiv 8"

text \<open>\<^verbatim>\<open>slices.Grow\<close> panics on a negative size; the slice is then cut to the new size.\<close>

definition observer_grow :: "int \<Rightarrow> int list \<Rightarrow> int list option" where
  "observer_grow newSize xs =
     (if newSize < 0 then None else Some (take (nat newSize) (xs @ replicate (nat newSize) 0)))"

definition ReportStreamValue :: "int \<Rightarrow> int \<Rightarrow> int list \<Rightarrow> int list option" where
  "ReportStreamValue idx v xs =
     (if idx < 0 then Some xs
      else
        Option.bind (if idx \<ge> int (length xs) then observer_grow (observer_newSize idx) xs else Some xs)
          (\<lambda>xs. if nat idx < length xs then Some (xs[nat idx := i32 (xs ! nat idx + v)]) else None))"

definition PrintActiveStreams :: "int list \<Rightarrow> string" where
  "PrintActiveStreams xs =
     ''['' @ concat (map (\<lambda>i. if xs ! i \<noteq> 0 then show_nat i @ '','' else []) [0..<length xs]) @ '']''"

text \<open>The counter of a shard, zero where the slice does not reach.\<close>

definition observed :: "int list \<Rightarrow> int \<Rightarrow> int" where
  "observed xs i = (if 0 \<le> i \<and> nat i < length xs then xs ! nat i else 0)"


section \<open>Growth\<close>

lemma observer_newSize_covers:
  assumes "0 \<le> idx" "(idx + 1) * 9 \<le> MaxInt32"
  shows "idx < observer_newSize idx"
proof -
  have "i32 (i32 (idx + 1) * 9) = (idx + 1) * 9"
    using assms by (simp add: i32_id is_i32_def)
  then have "observer_newSize idx = (idx + 1) * 9 div 8"
    using assms by (simp add: observer_newSize_def signed_divide_int_eq_divide_int)
  also have "\<dots> > idx" using assms(1) by presburger
  finally show ?thesis .
qed

lemma observed_grow:
  assumes "observer_grow n xs = Some ys" "int (length xs) \<le> n"
  shows "observed ys i = observed xs i" "int (length ys) = n"
  using assms
  by (auto simp: observer_grow_def observed_def nth_append split: if_splits)

lemma Report_reaches:
  assumes "0 \<le> idx" "(idx + 1) * 9 \<le> MaxInt32"
  shows "\<exists>ys. ReportStreamValue idx v xs = Some ys \<and>
    (\<forall>i. observed ys i = (if i = idx then i32 (observed xs idx + v) else observed xs i))"
proof -
  obtain zs where z: "(if idx \<ge> int (length xs) then observer_grow (observer_newSize idx) xs else Some xs) = Some zs"
    "nat idx < length zs" "\<And>i. observed zs i = observed xs i"
  proof (cases "idx \<ge> int (length xs)")
    case True
    have n: "idx < observer_newSize idx" by (rule observer_newSize_covers[OF assms])
    then obtain ys where y: "observer_grow (observer_newSize idx) xs = Some ys"
      using assms(1) by (auto simp: observer_grow_def)
    moreover have "int (length xs) \<le> observer_newSize idx" using True n by linarith
    ultimately show ?thesis
      using observed_grow[OF y] True n assms(1) by (intro that[of ys]) auto
  qed (use assms(1) in \<open>auto intro: that[of xs]\<close>)
  let ?ys = "zs[nat idx := i32 (zs ! nat idx + v)]"
  have at: "zs ! nat idx = observed xs idx"
    using z(2) z(3)[of idx] assms(1) by (simp add: observed_def)
  have "observed ?ys i = (if i = idx then i32 (observed xs idx + v) else observed zs i)" for i
    using z(2) assms(1) by (auto simp: observed_def at)
  moreover have "ReportStreamValue idx v xs = Some ?ys"
    using z(1,2) assms(1) by (simp add: ReportStreamValue_def)
  ultimately show ?thesis using z(3) by auto
qed


section \<open>Properties\<close>

text \<open>
  C31: The observer counts: for a shard ID up to 238609293 a report changes the counter of that
  shard and of no other, whatever growth it needs, so that the report at the start of a stream and
  the one at its end cancel out.
\<close>

theorem observer_counts:
  assumes "0 \<le> idx" "idx \<le> 238609293" "is_i32 (observed xs idx)" "is_i32 (observed xs idx + 1)"
  shows "\<exists>ys zs. ReportStreamValue idx 1 xs = Some ys \<and> ReportStreamValue idx (- 1) ys = Some zs \<and>
    observed ys idx = observed xs idx + 1 \<and> (\<forall>i. i \<noteq> idx \<longrightarrow> observed ys i = observed xs i) \<and>
    (\<forall>i. observed zs i = observed xs i)"
proof -
  have b: "(idx + 1) * 9 \<le> MaxInt32" using assms(2) by simp
  obtain ys where y: "ReportStreamValue idx 1 xs = Some ys"
    "\<And>i. observed ys i = (if i = idx then i32 (observed xs idx + 1) else observed xs i)"
    using Report_reaches[OF assms(1) b, of 1 xs] by blast
  obtain zs where z: "ReportStreamValue idx (- 1) ys = Some zs"
    "\<And>i. observed zs i = (if i = idx then i32 (observed ys idx + - 1) else observed ys i)"
    using Report_reaches[OF assms(1) b, of "- 1" ys] by blast
  show ?thesis
    using y z assms(3,4) by (intro exI[of _ ys] exI[of _ zs]) (simp add: i32_id)
qed

theorem observer_counts_witness:
  "\<exists>ys zs. ReportStreamValue 3 1 [0, 0] = Some ys \<and> ReportStreamValue 3 (- 1) ys = Some zs \<and> observed ys 3 = 1"
proof -
  have "observed [0, 0] 3 = 0" by (simp add: observed_def)
  then show ?thesis using observer_counts[of 3 "[0, 0]"] by (fastforce simp: is_i32_def)
qed

text \<open>
  Beyond that bound the size computation wraps: the first stream for shard 238609294, a number
  the caller chooses, makes the observer panic, with its mutex held.
\<close>

lemma observer_panics:
  "ReportStreamValue 238609294 1 NewReplicationStreamObserver = None"
  by (simp add: ReportStreamValue_def NewReplicationStreamObserver_def observer_newSize_def observer_grow_def
      i32_def)

end
