(* ===== verification/StreamForwarder.thy ===== *)
theory StreamForwarder
  imports IntraProxy StreamLifecycle ShardCount StreamObserver
begin

text \<open>
  \<^verbatim>\<open>proxy/admin_stream_transfer.go\<close> and \<^verbatim>\<open>StreamWorkflowReplicationMessages\<close> of
  \<^verbatim>\<open>proxy/adminservice.go\<close>: what the proxy does with an incoming replication stream. \<open>handleStream\<close>
  decides between forwarding (with the shard remapped in LCM mode), an intra-proxy stream and a
  routed stream. The forwarder's two goroutines are modelled turn by turn and interleaved by
  \<open>fwd_step\<close>.
\<close>

section \<open>Stream metadata\<close>

text \<open>
  The four metadata keys that name the shards, and all other metadata. The names of the four keys
  belong to the server library. \<open>md_set\<close> is \<^verbatim>\<open>metadata.MD.Set\<close> with one value.
\<close>

record streamHeaders =
  H_ClientClusterID :: "string list"
  H_ClientShardID :: "string list"
  H_ServerClusterID :: "string list"
  H_ServerShardID :: "string list"
  H_other :: "(string, string list) gomap"

definition IntraProxyHeaderKey :: string where "IntraProxyHeaderKey = ''x-s2s-intra-proxy''"
definition IntraProxyOriginProxyIDHeader :: string where
  "IntraProxyOriginProxyIDHeader = ''x-s2s-origin-proxy-id''"

definition md_get :: "streamHeaders \<Rightarrow> string \<Rightarrow> string list" where
  "md_get h key = (case gget (H_other h) key of Some vs \<Rightarrow> vs | None \<Rightarrow> [])"

definition IsIntraProxy :: "streamHeaders \<Rightarrow> bool" where
  "IsIntraProxy h = (case md_get h IntraProxyHeaderKey of v # _ \<Rightarrow> v = ''1'' | [] \<Rightarrow> False)"

definition WithIntraProxyHeaders :: "(string, string) gomap \<Rightarrow> streamHeaders \<Rightarrow> streamHeaders" where
  "WithIntraProxyHeaders hs h =
     h\<lparr>H_other := fold (\<lambda>(k, v). gput k [v]) hs (gput IntraProxyHeaderKey [''1''] (H_other h))\<rparr>"

definition set_shards :: "ClusterShardID \<Rightarrow> ClusterShardID \<Rightarrow> streamHeaders \<Rightarrow> streamHeaders" where
  "set_shards target src h =
     h\<lparr>H_ClientClusterID := [show_int (ClusterID target)], H_ClientShardID := [show_int (ShardID target)],
       H_ServerClusterID := [show_int (ClusterID src)], H_ServerShardID := [show_int (ShardID src)]\<rparr>"

section \<open>What to do with a stream\<close>

record StreamForwarder =
  fw_targetMetadata :: streamHeaders
  fw_source :: ClusterShardID
  fw_target :: ClusterShardID
  fw_streamID :: string

definition newStreamForwarder :: "streamHeaders \<Rightarrow> ClusterShardID \<Rightarrow> ClusterShardID \<Rightarrow> StreamForwarder" where
  "newStreamForwarder h src target =
     \<lparr>fw_targetMetadata = h, fw_source = src, fw_target = target,
      fw_streamID = BuildForwarderStreamID src target\<rparr>"

datatype stream_plan =
    PlanForward StreamForwarder
  | PlanIntraProxy intraProxyStreamSender
  | PlanNothing
  | PlanRouting proxyStreamSender proxyStreamReceiver
  | PlanPanic

definition streamIntraProxyRouting ::
  "streamHeaders \<Rightarrow> ClusterShardID \<Rightarrow> ClusterShardID \<Rightarrow> shardManagerImpl \<Rightarrow> stream_plan" where
  "streamIntraProxyRouting h src target sm =
     (let peerNodeName = (case md_get h IntraProxyOriginProxyIDHeader of v # _ \<Rightarrow> v | [] \<Rightarrow> []);
          isLocalSource = IsLocalShard sm src;
          isLocalTarget = IsLocalShard sm target
      in if isLocalTarget \<or> \<not> isLocalSource then PlanNothing
         else PlanIntraProxy \<lparr>is_peerNodeName = peerNodeName, is_targetShardID = target,
                              is_sourceShardID = src, is_streamID = []\<rparr>)"

definition streamRouting :: "RoutingParameters \<Rightarrow> ClusterShardID \<Rightarrow> ClusterShardID \<Rightarrow> stream_plan" where
  "streamRouting routingParameters src target =
     PlanRouting (newProxyStreamSender src target (DirectionLabel routingParameters))
       (newProxyStreamReceiver target src (RoutingLocalShardCount routingParameters)
          (DirectionLabel routingParameters))"

definition handleStream ::
  "(int \<Rightarrow> int \<Rightarrow> int \<Rightarrow> int list) \<Rightarrow> streamHeaders \<Rightarrow> ClusterShardID \<Rightarrow> ClusterShardID \<Rightarrow> ShardCountConfig \<Rightarrow>
   LCMParameters \<Rightarrow> RoutingParameters \<Rightarrow> shardManagerImpl \<Rightarrow> stream_plan" where
  "handleStream MapShardID h src target cfg lcmParameters routingParameters sm =
     (if Mode cfg = ShardCountLCM then
        let newTarget = \<lparr>ClusterID = ClusterID target, ShardID = ShardID src\<rparr>
        in (case mapShardIDUnique MapShardID (LCM_count lcmParameters) (TargetShardCount lcmParameters) (ShardID src) of
              None \<Rightarrow> PlanPanic
            | Some shard \<Rightarrow>
                let newSource = \<lparr>ClusterID = ClusterID src, ShardID = shard\<rparr>
                in PlanForward (newStreamForwarder (set_shards newTarget newSource h) src target))
      else if Mode cfg = ShardCountRouting then
        (if IsIntraProxy h then streamIntraProxyRouting h src target sm
         else streamRouting routingParameters src target)
      else PlanForward (newStreamForwarder h src target))"

text \<open>
  The handler up to the start of the stream: \<open>h\<close> is \<open>None\<close> when the call has no metadata, and
  \<open>decode\<close> is \<^verbatim>\<open>history.DecodeClusterShardMD\<close>, which gives the client's and the server's shard.
\<close>

datatype stream_start =
    StartError string
  | StartPanic
  | Started ClusterShardID stream_plan "int list"

definition StreamWorkflowReplicationMessages ::
  "(int \<Rightarrow> int \<Rightarrow> int \<Rightarrow> int list) \<Rightarrow> (streamHeaders \<Rightarrow> string + ClusterShardID \<times> ClusterShardID) \<Rightarrow>
   streamHeaders option \<Rightarrow> ShardCountConfig \<Rightarrow> LCMParameters \<Rightarrow> RoutingParameters \<Rightarrow> shardManagerImpl \<Rightarrow> int list \<Rightarrow>
   stream_start" where
  "StreamWorkflowReplicationMessages MapShardID decode h cfg lcmParameters routingParameters sm observer =
     (case h of
        None \<Rightarrow> StartError ''missing cluster & shard ID metadata''
      | Some h \<Rightarrow>
          (case decode h of
             Inl err \<Rightarrow> StartError err
           | Inr (target, src) \<Rightarrow>
               (case ReportStreamValue (ShardID src) 1 observer of
                  None \<Rightarrow> StartPanic
                | Some observer \<Rightarrow>
                    Started src (handleStream MapShardID h src target cfg lcmParameters routingParameters sm) observer)))"

section \<open>The forwarder\<close>

text \<open>
  What a turn of a forwarding loop finds: the shutdown channel closed, or a value of its listener.
  A closed listener yields the zero value; an error carries whether it is a \<^verbatim>\<open>VisitError\<close>.
\<close>

datatype 'a fwd_event = EvShutdown | EvClosed | EvEOF | EvErr string bool | EvMsg 'a

datatype fwd_next = FwdContinue | FwdReturn | FwdPanic

record fwdState =
  fs_shutdown :: bool
  fs_visitErr :: "string option"
  fs_msgsDone :: bool
  fs_acksDone :: bool
  fs_crashed :: bool
  fs_tracker :: StreamTracker
  fs_toTarget :: "StreamResp list"
  fs_toSource :: "StreamReq list"

text \<open>
  The turns. \<open>send\<close> is the result of \<^verbatim>\<open>Send\<close> on the other side. The messages of a batch are read
  through a pointer that must be set; that of an acknowledgement as well.
\<close>

definition forwardReplicationMessages ::
  "int \<Rightarrow> (StreamResp \<Rightarrow> string option) \<Rightarrow> string \<Rightarrow> StreamResp fwd_event \<Rightarrow> fwdState \<Rightarrow> fwd_next \<times> fwdState" where
  "forwardReplicationMessages now send sid ev s =
     (case ev of
        EvShutdown \<Rightarrow> (FwdReturn, s)
      | EvEOF \<Rightarrow> (FwdReturn, s)
      | EvErr err isVisit \<Rightarrow> (FwdReturn, if isVisit then s\<lparr>fs_visitErr := Some err\<rparr> else s)
      | EvMsg (RespMessages (Some msgs)) \<Rightarrow>
          let s = s\<lparr>fs_tracker := UpdateStreamReplicationMessages now sid (ExclusiveHighWatermark msgs) (fs_tracker s)\<rparr>
          in (case send (RespMessages (Some msgs)) of
                Some err \<Rightarrow> (FwdReturn, s)
              | None \<Rightarrow> (FwdContinue, s\<lparr>fs_toTarget := fs_toTarget s @ [RespMessages (Some msgs)]\<rparr>))
      | EvMsg (RespMessages None) \<Rightarrow> (FwdPanic, s)
      | EvMsg RespOther \<Rightarrow> (FwdReturn, s)
      | EvClosed \<Rightarrow> (FwdReturn, s))"

definition forwardAcks ::
  "int \<Rightarrow> (StreamReq \<Rightarrow> string option) \<Rightarrow> string \<Rightarrow> StreamReq fwd_event \<Rightarrow> fwdState \<Rightarrow> fwd_next \<times> fwdState" where
  "forwardAcks now send sid ev s =
     (case ev of
        EvShutdown \<Rightarrow> (FwdReturn, s)
      | EvEOF \<Rightarrow> (FwdReturn, s)
      | EvErr err isVisit \<Rightarrow> (FwdReturn, s)
      | EvMsg (ReqSync (Some st)) \<Rightarrow>
          let s = s\<lparr>fs_tracker := UpdateStreamSyncReplicationState now sid (InclusiveLowWatermark st)
                                    (InclusiveLowWatermarkTime st) (fs_tracker s)\<rparr>
          in (case send (ReqSync (Some st)) of
                Some err \<Rightarrow> (FwdReturn, s)
              | None \<Rightarrow> (FwdContinue, s\<lparr>fs_toSource := fs_toSource s @ [ReqSync (Some st)]\<rparr>))
      | EvMsg (ReqSync None) \<Rightarrow> (FwdPanic, s)
      | EvMsg ReqOther \<Rightarrow> (FwdReturn, s)
      | EvClosed \<Rightarrow> (FwdReturn, s))"

text \<open>The deferred parts of the two goroutines, and the start and the end of \<^verbatim>\<open>Run\<close>.\<close>

definition finish_msgs :: "fwd_next \<times> fwdState \<Rightarrow> fwdState" where
  "finish_msgs r =
     (case r of
        (FwdContinue, s) \<Rightarrow> s
      | (FwdReturn, s) \<Rightarrow> s\<lparr>fs_shutdown := True, fs_msgsDone := True\<rparr>
      | (FwdPanic, s) \<Rightarrow> s\<lparr>fs_crashed := True\<rparr>)"

definition finish_acks :: "fwd_next \<times> fwdState \<Rightarrow> fwdState" where
  "finish_acks r =
     (case r of
        (FwdContinue, s) \<Rightarrow> s
      | (FwdReturn, s) \<Rightarrow> s\<lparr>fs_shutdown := True, fs_acksDone := True\<rparr>
      | (FwdPanic, s) \<Rightarrow> s\<lparr>fs_crashed := True\<rparr>)"

definition forwarder_begin ::
  "int \<Rightarrow> (streamHeaders \<Rightarrow> string option) \<Rightarrow> StreamForwarder \<Rightarrow> StreamTracker \<Rightarrow> string + fwdState" where
  "forwarder_begin now open_stream f tr =
     (case open_stream (fw_targetMetadata f) of
        Some err \<Rightarrow> Inl err
      | None \<Rightarrow>
          Inr \<lparr>fs_shutdown = False, fs_visitErr = None, fs_msgsDone = False, fs_acksDone = False,
               fs_crashed = False,
               fs_tracker = RegisterStream now (fw_streamID f) ''StreamWorkflowReplicationMessages'' ''forwarder''
                 (ClusterShardIDtoString (fw_source f)) (ClusterShardIDtoString (fw_target f)) StreamRoleForwarder tr,
               fs_toTarget = [], fs_toSource = []\<rparr>)"

definition forwarder_end :: "StreamForwarder \<Rightarrow> fwdState \<Rightarrow> (string option \<times> StreamTracker) option" where
  "forwarder_end f s =
     (if fs_msgsDone s \<and> fs_acksDone s
      then Some (fs_visitErr s, UnregisterStream (fw_streamID f) (fs_tracker s)) else None)"

section \<open>The two goroutines\<close>

text \<open>
  \<open>fwd_step\<close> interleaves the turns of the two loops; the shutdown branch can be taken only once
  the shutdown channel is closed. A crash of one goroutine is a crash of the process. The lists
  \<open>fromSource\<close> and \<open>fromTarget\<close> record the messages the loops took from their listeners.
\<close>

type_synonym fwd_trace = "fwdState \<times> StreamResp list \<times> StreamReq list"

definition taken :: "'a fwd_event \<Rightarrow> 'a list" where
  "taken ev = (case ev of EvMsg m \<Rightarrow> [m] | _ \<Rightarrow> [])"

inductive fwd_step :: "string \<Rightarrow> fwd_trace \<Rightarrow> fwd_trace \<Rightarrow> bool" for sid where
  fwd_msgs: "\<not> fs_crashed s \<Longrightarrow> \<not> fs_msgsDone s \<Longrightarrow> (ev = EvShutdown \<longrightarrow> fs_shutdown s) \<Longrightarrow>
    fwd_step sid (s, fromSource, fromTarget)
      (finish_msgs (forwardReplicationMessages now send sid ev s), fromSource @ taken ev, fromTarget)"
| fwd_acks: "\<not> fs_crashed s \<Longrightarrow> \<not> fs_acksDone s \<Longrightarrow> (ev = EvShutdown \<longrightarrow> fs_shutdown s) \<Longrightarrow>
    fwd_step sid (s, fromSource, fromTarget)
      (finish_acks (forwardAcks now send sid ev s), fromSource, fromTarget @ taken ev)"

inductive fwd_reach :: "StreamForwarder \<Rightarrow> fwd_trace \<Rightarrow> bool" for f where
  fwd_start: "forwarder_begin now open_stream f tr = Inr s \<Longrightarrow> fwd_reach f (s, [], [])"
| fwd_next: "fwd_reach f t \<Longrightarrow> fwd_step (fw_streamID f) t t' \<Longrightarrow> fwd_reach f t'"

definition forwarded :: "bool \<Rightarrow> 'a list \<Rightarrow> 'a list \<Rightarrow> bool" where
  "forwarded ended received passed \<longleftrightarrow>
     (\<exists>rest. received = passed @ rest \<and> length rest \<le> (if ended then 1 else 0))"

definition fwd_inv :: "fwd_trace \<Rightarrow> bool" where
  "fwd_inv t \<longleftrightarrow>
     (case t of (s, fromSource, fromTarget) \<Rightarrow>
        forwarded (fs_msgsDone s \<or> fs_crashed s) fromSource (fs_toTarget s) \<and>
        forwarded (fs_acksDone s \<or> fs_crashed s) fromTarget (fs_toSource s) \<and>
        (fs_msgsDone s \<or> fs_acksDone s \<longrightarrow> fs_shutdown s) \<and>
        (fs_visitErr s \<noteq> None \<longrightarrow> fs_msgsDone s))"

lemma forwarded_same [simp]: "forwarded ended xs xs"
  by (simp add: forwarded_def)

lemma forwarded_open [simp]: "forwarded False xs ys \<longleftrightarrow> xs = ys"
  by (simp add: forwarded_def)

lemma forwarded_last [simp]: "forwarded True (xs @ [x]) xs"
  by (simp add: forwarded_def)

lemma forwarded_weaken: "forwarded e xs ys \<Longrightarrow> forwarded True xs ys"
  by (auto simp: forwarded_def split: if_splits)

lemma fwd_inv_msgs:
  assumes "fwd_inv (s, fromSource, fromTarget)" "\<not> fs_crashed s" "\<not> fs_msgsDone s"
  shows "fwd_inv (finish_msgs (forwardReplicationMessages now send sid ev s), fromSource @ taken ev, fromTarget)"
  using assms
  by (auto simp: fwd_inv_def finish_msgs_def forwardReplicationMessages_def taken_def Let_def
      intro: forwarded_weaken split: fwd_event.split StreamResp.split option.splits)

lemma fwd_inv_acks:
  assumes "fwd_inv (s, fromSource, fromTarget)" "\<not> fs_crashed s" "\<not> fs_acksDone s"
  shows "fwd_inv (finish_acks (forwardAcks now send sid ev s), fromSource, fromTarget @ taken ev)"
  using assms
  by (auto simp: fwd_inv_def finish_acks_def forwardAcks_def taken_def Let_def
      intro: forwarded_weaken split: fwd_event.split StreamReq.split option.splits)

lemma fwd_inv_reach: "fwd_reach f t \<Longrightarrow> fwd_inv t"
proof (induction rule: fwd_reach.induct)
  case (fwd_start now open_stream tr s)
  then show ?case by (auto simp: fwd_inv_def forwarder_begin_def split: option.splits)
next
  case (fwd_next t t')
  from fwd_next.hyps(2) fwd_next.IH show ?case
    by (cases rule: fwd_step.cases) (simp_all add: fwd_inv_msgs fwd_inv_acks)
qed

lemma shutdown_turns:
  "forwardReplicationMessages now send sid EvShutdown s = (FwdReturn, s)"
  "forwardAcks now send' sid EvShutdown s = (FwdReturn, s)"
  by (simp_all add: forwardReplicationMessages_def forwardAcks_def)

text \<open>Once the shutdown channel is closed, two turns at most end both loops.\<close>

lemma shutdown_ends:
  assumes "fs_shutdown s" "\<not> fs_crashed s"
  shows "\<exists>s'. (fwd_step sid)\<^sup>*\<^sup>* (s, xs, ys) (s', xs, ys) \<and> fs_msgsDone s' \<and> fs_acksDone s' \<and>
    fs_visitErr s' = fs_visitErr s \<and> fs_tracker s' = fs_tracker s"
proof -
  let ?s1 = "if fs_msgsDone s then s else s\<lparr>fs_msgsDone := True\<rparr>"
  have 1: "(fwd_step sid)\<^sup>*\<^sup>* (s, xs, ys) (?s1, xs, ys)"
  proof (cases "fs_msgsDone s")
    case False
    then have "fwd_step sid (s, xs, ys) (s\<lparr>fs_shutdown := True, fs_msgsDone := True\<rparr>, xs, ys)"
      using fwd_msgs[of s EvShutdown sid xs ys] assms by (simp add: shutdown_turns finish_msgs_def taken_def)
    moreover have "s\<lparr>fs_shutdown := True, fs_msgsDone := True\<rparr> = ?s1" using assms(1) False by simp
    ultimately show ?thesis by auto
  qed simp
  let ?s2 = "if fs_acksDone ?s1 then ?s1 else ?s1\<lparr>fs_acksDone := True\<rparr>"
  have c: "fs_shutdown ?s1" "\<not> fs_crashed ?s1" using assms by simp_all
  have 2: "(fwd_step sid)\<^sup>*\<^sup>* (?s1, xs, ys) (?s2, xs, ys)"
  proof (cases "fs_acksDone ?s1")
    case False
    then have "fwd_step sid (?s1, xs, ys) (?s1\<lparr>fs_shutdown := True, fs_acksDone := True\<rparr>, xs, ys)"
      using fwd_acks[of ?s1 EvShutdown sid xs ys] c by (simp add: shutdown_turns finish_acks_def taken_def)
    moreover have "?s1\<lparr>fs_shutdown := True, fs_acksDone := True\<rparr> = ?s2" using c False by simp
    ultimately show ?thesis by auto
  qed simp
  from rtranclp_trans[OF 1 2] show ?thesis by (intro exI[of _ ?s2]) auto
qed


section \<open>Properties\<close>

text \<open>
  C25: The forwarder is transparent: in every interleaving of its two loops, each side gets the
  messages of the other side unchanged, in order and without gaps. Only the last message taken
  before a direction ends, or before a crash, can be missing. An error the forwarder reports comes
  from the direction of the messages, which has ended then.
\<close>

theorem forwarder_transparent:
  assumes "fwd_reach f (s, fromSource, fromTarget)"
  shows "\<exists>lostMsgs lostAcks. fromSource = fs_toTarget s @ lostMsgs \<and> fromTarget = fs_toSource s @ lostAcks \<and>
    length lostMsgs \<le> 1 \<and> length lostAcks \<le> 1 \<and>
    (lostMsgs \<noteq> [] \<longrightarrow> fs_msgsDone s \<or> fs_crashed s) \<and> (lostAcks \<noteq> [] \<longrightarrow> fs_acksDone s \<or> fs_crashed s) \<and>
    (fs_visitErr s \<noteq> None \<longrightarrow> fs_msgsDone s)"
proof -
  from fwd_inv_reach[OF assms] have i:
    "forwarded (fs_msgsDone s \<or> fs_crashed s) fromSource (fs_toTarget s)"
    "forwarded (fs_acksDone s \<or> fs_crashed s) fromTarget (fs_toSource s)"
    "fs_visitErr s \<noteq> None \<longrightarrow> fs_msgsDone s"
    by (auto simp: fwd_inv_def)
  from i(1) obtain lostMsgs where m: "fromSource = fs_toTarget s @ lostMsgs"
    "length lostMsgs \<le> (if fs_msgsDone s \<or> fs_crashed s then 1 else 0)" by (auto simp: forwarded_def)
  from i(2) obtain lostAcks where a: "fromTarget = fs_toSource s @ lostAcks"
    "length lostAcks \<le> (if fs_acksDone s \<or> fs_crashed s then 1 else 0)" by (auto simp: forwarded_def)
  from m a i(3) show ?thesis
    by (intro exI[of _ lostMsgs] exI[of _ lostAcks]) (auto split: if_splits)
qed

definition exForwarder :: StreamForwarder where
  "exForwarder = newStreamForwarder \<lparr>H_ClientClusterID = [''1''], H_ClientShardID = [''3''], H_ServerClusterID = [''2''],
     H_ServerShardID = [''5''], H_other = []\<rparr> \<lparr>ClusterID = 2, ShardID = 5\<rparr> \<lparr>ClusterID = 1, ShardID = 3\<rparr>"

definition exBegun :: fwdState where
  "exBegun = (case forwarder_begin 1 (\<lambda>_. None) exForwarder [] of Inr s \<Rightarrow> s)"

definition exMsg :: StreamResp where
  "exMsg = RespMessages (Some \<lparr>ReplicationTasks = [], ExclusiveHighWatermark = 9, Priority = 0\<rparr>)"

definition exForwarded :: fwdState where
  "exForwarded = finish_msgs (forwardReplicationMessages 2 (\<lambda>_. None) (fw_streamID exForwarder) (EvMsg exMsg) exBegun)"

lemma exForwarded_reach: "fwd_reach exForwarder (exForwarded, [exMsg], [])"
proof -
  have b: "forwarder_begin 1 (\<lambda>_. None) exForwarder [] = Inr exBegun"
    by (simp add: exBegun_def forwarder_begin_def)
  have n: "\<not> fs_crashed exBegun" "\<not> fs_msgsDone exBegun" by (simp_all add: exBegun_def forwarder_begin_def)
  have "fwd_step (fw_streamID exForwarder) (exBegun, [], []) (exForwarded, [] @ taken (EvMsg exMsg), [])"
    unfolding exForwarded_def by (rule fwd_msgs[OF n]) simp
  then show ?thesis using fwd_next[OF fwd_start[OF b]] by (simp add: taken_def)
qed

theorem forwarder_transparent_witness: "fs_toTarget exForwarded = [exMsg]"
proof -
  have "\<not> fs_msgsDone exForwarded" "\<not> fs_crashed exForwarded"
    by (simp_all add: exForwarded_def finish_msgs_def forwardReplicationMessages_def exMsg_def exBegun_def
        forwarder_begin_def)
  with forwarder_transparent[OF exForwarded_reach] show ?thesis by auto
qed



text \<open>
  What an incoming stream is used for follows from the mode and from shard ownership. In LCM
  mode the stream is forwarded with all its metadata except the four shard headers, which name the
  presented shard as the client and the shard of the real cluster it maps to as the server. In
  routing mode a stream of a peer proxy is served only when its source is local and its target is
  not, so that no stream is relayed between two instances that both lack the source; every other
  stream is answered with the pair of a sender for the stream and a receiver for the opposite
  direction.
\<close>

lemma handleStream_plan:
  fixes inverted :: bool
  assumes "many_to_one MapShardID" "0 < LocalShardCount cfg" "0 < RemoteShardCount cfg"
    "LocalShardCount cfg * RemoteShardCount cfg \<le> MaxInt32"
  defines "lcmP \<equiv> getLCMParameters cfg inverted"
  shows "(Mode cfg = ShardCountLCM \<and> ShardID src \<in> {1..LCM_count lcmP} \<longrightarrow>
      handleStream MapShardID h src target cfg lcmP routP sm =
        PlanForward (newStreamForwarder
          (h\<lparr>H_ClientClusterID := [show_int (ClusterID target)], H_ClientShardID := [show_int (ShardID src)],
             H_ServerClusterID := [show_int (ClusterID src)],
             H_ServerShardID := [show_int ((ShardID src - 1) mod TargetShardCount lcmP + 1)]\<rparr>) src target)) \<and>
    (Mode cfg = ShardCountRouting \<and> IsIntraProxy h \<longrightarrow>
      (\<forall>s. handleStream MapShardID h src target cfg lcmP routP sm = PlanIntraProxy s \<longleftrightarrow>
         IsLocalShard sm src \<and> \<not> IsLocalShard sm target \<and> is_sourceShardID s = src \<and> is_targetShardID s = target \<and>
         is_peerNodeName s = (case md_get h IntraProxyOriginProxyIDHeader of v # _ \<Rightarrow> v | [] \<Rightarrow> []) \<and> is_streamID s = [])) \<and>
    (Mode cfg = ShardCountRouting \<and> \<not> IsIntraProxy h \<longrightarrow>
      (\<exists>snd' rcv. handleStream MapShardID h src target cfg lcmP routP sm = PlanRouting snd' rcv \<and>
         ss_sourceShardID snd' = src \<and> ss_targetShardID snd' = target \<and>
         sr_sourceShardID rcv = target \<and> sr_targetShardID rcv = src))"
proof (intro conjI impI)
  assume m: "Mode cfg = ShardCountLCM \<and> ShardID src \<in> {1..LCM_count lcmP}"
  have "LCM_count lcmP = lcm (LocalShardCount cfg) (RemoteShardCount cfg)"
    using assms(2-4) m by (simp add: lcmP_def getLCMParameters_def Let_def LCM32_correct)
  then have "0 < TargetShardCount lcmP" "TargetShardCount lcmP dvd LCM_count lcmP"
    using assms(2-4) m by (auto simp: lcmP_def getLCMParameters_def Let_def)
  then have "mapShardIDUnique MapShardID (LCM_count lcmP) (TargetShardCount lcmP) (ShardID src) =
      Some ((ShardID src - 1) mod TargetShardCount lcmP + 1)"
    using assms(1) m by (auto simp: mapShardIDUnique_def many_to_one_def)
  with m show "handleStream MapShardID h src target cfg lcmP routP sm =
        PlanForward (newStreamForwarder
          (h\<lparr>H_ClientClusterID := [show_int (ClusterID target)], H_ClientShardID := [show_int (ShardID src)],
             H_ServerClusterID := [show_int (ClusterID src)],
             H_ServerShardID := [show_int ((ShardID src - 1) mod TargetShardCount lcmP + 1)]\<rparr>) src target)"
    by (simp add: handleStream_def set_shards_def)
next
  have modes: "ShardCountRouting \<noteq> ShardCountLCM" by (simp add: ShardCountRouting_def ShardCountLCM_def)
  show "\<forall>s. handleStream MapShardID h src target cfg lcmP routP sm = PlanIntraProxy s \<longleftrightarrow>
         IsLocalShard sm src \<and> \<not> IsLocalShard sm target \<and> is_sourceShardID s = src \<and> is_targetShardID s = target \<and>
         is_peerNodeName s = (case md_get h IntraProxyOriginProxyIDHeader of v # _ \<Rightarrow> v | [] \<Rightarrow> []) \<and> is_streamID s = []"
    if "Mode cfg = ShardCountRouting \<and> IsIntraProxy h"
    using that modes by (auto simp: handleStream_def streamIntraProxyRouting_def Let_def)
  show "\<exists>snd' rcv. handleStream MapShardID h src target cfg lcmP routP sm = PlanRouting snd' rcv \<and>
         ss_sourceShardID snd' = src \<and> ss_targetShardID snd' = target \<and>
         sr_sourceShardID rcv = target \<and> sr_targetShardID rcv = src"
    if "Mode cfg = ShardCountRouting \<and> \<not> IsIntraProxy h"
    using that modes
    by (simp add: handleStream_def streamRouting_def newProxyStreamSender_def newProxyStreamReceiver_def)
qed

lemma handleStream_plan_witness:
  "handleStream exMapShardID (fw_targetMetadata exForwarder) \<lparr>ClusterID = 2, ShardID = 5\<rparr> \<lparr>ClusterID = 1, ShardID = 3\<rparr>
     \<lparr>Mode = ''lcm'', LocalShardCount = 6, RemoteShardCount = 4\<rparr>
     (getLCMParameters \<lparr>Mode = ''lcm'', LocalShardCount = 6, RemoteShardCount = 4\<rparr> False)
     \<lparr>OverrideShardCount = 0, RoutingLocalShardCount = 0, DirectionLabel = []\<rparr> (NewShardManager None []) =
   PlanForward (newStreamForwarder
     ((fw_targetMetadata exForwarder)\<lparr>H_ClientClusterID := [show_int 1], H_ClientShardID := [show_int 5],
        H_ServerClusterID := [show_int 2], H_ServerShardID := [show_int 1]\<rparr>)
     \<lparr>ClusterID = 2, ShardID = 5\<rparr> \<lparr>ClusterID = 1, ShardID = 3\<rparr>)"
proof -
  have l: "lcm (6 :: int) 4 = 12" by code_simp
  have "many_to_one exMapShardID" by (simp add: many_to_one_def exMapShardID_def)
  from handleStream_plan[OF this, of "\<lparr>Mode = ''lcm'', LocalShardCount = 6, RemoteShardCount = 4\<rparr>"
      "\<lparr>ClusterID = 2, ShardID = 5\<rparr>" False] show ?thesis
    by (simp add: ShardCountLCM_def getLCMParameters_def Let_def l LCM32_correct)
qed

end
