(* ===== verification/NameMapping.thy ===== *)
theory NameMapping
  imports Prelude
begin

text \<open>
  The name mappings between the two clusters: the bijective map of \<^verbatim>\<open>collect/bimap.go\<close> and the
  translations of namespaces and search attributes that \<^verbatim>\<open>config/config.go\<close> and
  \<^verbatim>\<open>config/cluster_conn_config.go\<close> build from it. All instances of the generic map have strings as
  keys and values. A nil map is \<open>None\<close>; a lookup of a missing key gives the empty string.
\<close>

section \<open>\<^verbatim>\<open>staticBiMap\<close>\<close>

record staticBiMap =
  contents :: "(string, string) gomap"
  inverseContents :: "(string, string) gomap"

record ConflictError =
  isKey :: bool
  newItem :: string
  existingItem :: string

definition go_index :: "(string, string) gomap \<Rightarrow> string \<Rightarrow> string" where
  "go_index m k = (case gget m k of Some v \<Rightarrow> v | None \<Rightarrow> [])"

fun bimap_fill ::
  "(string \<times> string) list \<Rightarrow> (string, string) gomap \<Rightarrow> (string, string) gomap \<Rightarrow> ConflictError + staticBiMap" where
  "bimap_fill [] forward backward = Inr \<lparr>contents = forward, inverseContents = backward\<rparr>"
| "bimap_fill ((key, val) # pairs) forward backward =
     (case gget forward key of
        Some value \<Rightarrow> Inl \<lparr>isKey = True, newItem = key, existingItem = go_index backward value\<rparr>
      | None \<Rightarrow>
          let forward = gput key val forward
          in (case gget backward val of
                Some existing \<Rightarrow> Inl \<lparr>isKey = True, newItem = val, existingItem = go_index forward existing\<rparr>
              | None \<Rightarrow> bimap_fill pairs forward (gput val key backward)))"

definition NewStaticBiMap :: "(string \<times> string) list \<Rightarrow> ConflictError + staticBiMap" where
  "NewStaticBiMap pairs = bimap_fill pairs [] []"

definition bi_GetExists :: "staticBiMap option \<Rightarrow> string \<Rightarrow> string \<times> bool" where
  "bi_GetExists m key =
     (case m of
        None \<Rightarrow> ([], False)
      | Some m \<Rightarrow> (case gget (contents m) key of Some v \<Rightarrow> (v, True) | None \<Rightarrow> ([], False)))"

definition bi_Get :: "staticBiMap option \<Rightarrow> string \<Rightarrow> string" where
  "bi_Get m key = (case m of None \<Rightarrow> [] | Some m \<Rightarrow> go_index (contents m) key)"

definition bi_Inverse :: "staticBiMap option \<Rightarrow> staticBiMap option" where
  "bi_Inverse m =
     (case m of
        None \<Rightarrow> None
      | Some m \<Rightarrow> Some \<lparr>contents = inverseContents m, inverseContents = contents m\<rparr>)"

definition bi_Len :: "staticBiMap option \<Rightarrow> nat" where
  "bi_Len m = (case m of None \<Rightarrow> 0 | Some m \<Rightarrow> length (contents m))"

definition bi_AsMap :: "staticBiMap option \<Rightarrow> (string, string) gomap" where
  "bi_AsMap m = (case m of None \<Rightarrow> [] | Some m \<Rightarrow> contents m)"

definition conflict_Error :: "ConflictError \<Rightarrow> string" where
  "conflict_Error e =
     ''attempted to insert conflicting '' @ (if isKey e then ''key'' else ''value'') @ '' '' @ existingItem e @
     '', which is identical to '' @ newItem e"

section \<open>Namespace translation\<close>

text \<open>The configured pairs of a local and a remote name, and the map that is built once.\<close>

record StringTranslator =
  Mappings :: "(string \<times> string) list"
  cachedBiMap :: "staticBiMap option"

definition AsLocalToRemoteBiMap ::
  "StringTranslator \<Rightarrow> (ConflictError + staticBiMap) \<times> StringTranslator" where
  "AsLocalToRemoteBiMap config =
     (case cachedBiMap config of
        Some m \<Rightarrow> (Inr m, config)
      | None \<Rightarrow>
          (case NewStaticBiMap (Mappings config) of
             Inl err \<Rightarrow> (Inl err, config)
           | Inr m \<Rightarrow> (Inr m, config\<lparr>cachedBiMap := Some m\<rparr>)))"

section \<open>Search attribute translation\<close>

record SANamespaceMapping =
  SA_Name :: string
  SA_NamespaceId :: string
  SA_Mappings :: "(string \<times> string) list"  \<comment> \<open>local and remote field name\<close>

record SearchAttributeTranslation =
  inner :: "(string, staticBiMap) gomap"
  inverted :: bool

definition sa_Inverse :: "SearchAttributeTranslation \<Rightarrow> SearchAttributeTranslation" where
  "sa_Inverse s = s\<lparr>inverted := \<not> inverted s\<rparr>"

definition withInvert :: "SearchAttributeTranslation \<Rightarrow> string \<Rightarrow> staticBiMap option" where
  "withInvert s ns =
     (case gget (inner s) ns of
        None \<Rightarrow> None
      | Some m \<Rightarrow> if inverted s then bi_Inverse (Some m) else Some m)"

definition sa_Get :: "SearchAttributeTranslation \<Rightarrow> string \<Rightarrow> string \<Rightarrow> string" where
  "sa_Get s ns attr = (case withInvert s ns of Some m \<Rightarrow> bi_Get (Some m) attr | None \<Rightarrow> [])"

definition sa_GetExists :: "SearchAttributeTranslation \<Rightarrow> string \<Rightarrow> string \<Rightarrow> string \<times> bool" where
  "sa_GetExists s ns attr =
     (case withInvert s ns of Some m \<Rightarrow> bi_GetExists (Some m) attr | None \<Rightarrow> ([], False))"

definition sa_LenNamespaces :: "SearchAttributeTranslation \<Rightarrow> nat" where
  "sa_LenNamespaces s = length (inner s)"

definition sa_Len :: "SearchAttributeTranslation \<Rightarrow> string \<Rightarrow> nat" where
  "sa_Len s ns = (case withInvert s ns of Some m \<Rightarrow> bi_Len (Some m) | None \<Rightarrow> 0)"

definition FlattenMaps :: "SearchAttributeTranslation \<Rightarrow> (string, (string, string) gomap) gomap" where
  "FlattenMaps s =
     fold (\<lambda>(ns, m). gput ns (bi_AsMap (if inverted s then bi_Inverse (Some m) else Some m))) (inner s) []"

fun sa_build ::
  "SANamespaceMapping list \<Rightarrow> (string, staticBiMap) gomap \<Rightarrow> ConflictError + (string, staticBiMap) gomap" where
  "sa_build [] acc = Inr acc"
| "sa_build (m # ms) acc =
     (case NewStaticBiMap (SA_Mappings m) of
        Inl err \<Rightarrow> Inl err
      | Inr b \<Rightarrow> sa_build ms (gput (SA_NamespaceId m) b acc))"

text \<open>\<open>cached\<close> is the translation built by an earlier call.\<close>

definition AsLocalToRemoteSATranslation ::
  "SANamespaceMapping list \<Rightarrow> SearchAttributeTranslation option \<Rightarrow>
   (ConflictError + SearchAttributeTranslation) \<times> SearchAttributeTranslation option" where
  "AsLocalToRemoteSATranslation mappings cached =
     (case cached of
        Some t \<Rightarrow> (Inr t, cached)
      | None \<Rightarrow>
          (case sa_build mappings [] of
             Inl err \<Rightarrow> (Inl err, None)
           | Inr m \<Rightarrow> let t = \<lparr>inner = m, inverted = False\<rparr> in (Inr t, Some t)))"

text \<open>The request and response maps of the older interface.\<close>

definition ToMaps ::
  "SANamespaceMapping list \<Rightarrow> bool \<Rightarrow>
   (string, (string, string) gomap) gomap \<times> (string, (string, string) gomap) gomap" where
  "ToMaps mappings inBound =
     fold (\<lambda>ns (reqMap, respMap).
       let toLocal = fold (\<lambda>(l, r). gput r l) (SA_Mappings ns) [];
           toRemote = fold (\<lambda>(l, r). gput l r) (SA_Mappings ns) []
       in if inBound
          then (gput (SA_NamespaceId ns) toLocal reqMap, gput (SA_NamespaceId ns) toRemote respMap)
          else (gput (SA_NamespaceId ns) toRemote reqMap, gput (SA_NamespaceId ns) toLocal respMap))
       mappings ([], [])"

section \<open>Custom search attribute aliases\<close>

type_synonym aliasConfig = "(string \<times> (string, string) gomap) list"

definition alias_IsEnabled :: "aliasConfig \<Rightarrow> bool" where
  "alias_IsEnabled c = (length c > 0)"

fun Aliases :: "aliasConfig \<Rightarrow> string \<Rightarrow> (string, string) gomap option" where
  "Aliases [] ns = None"
| "Aliases ((name, aliases) # rest) ns =
     (if name \<noteq> ns then Aliases rest ns
      else if length aliases = 0 then None
      else Some (fold (\<lambda>(k, v). gput k v) aliases []))"

text \<open>
  A namespace replication task: \<open>None\<close> for a task of another kind; the attributes have a name and,
  when the task carries a configuration, its aliases. The override leaves all other tasks alone.
\<close>

record namespaceTask =
  NT_Name :: string
  NT_Config :: "(string, string) gomap option"

definition overrideAliases :: "aliasConfig \<Rightarrow> namespaceTask option \<Rightarrow> namespaceTask option" where
  "overrideAliases c task =
     (case task of
        None \<Rightarrow> None
      | Some attrs \<Rightarrow>
          (case Aliases c (NT_Name attrs) of
             None \<Rightarrow> Some attrs
           | Some aliases \<Rightarrow>
               if length aliases = 0 then Some attrs
               else if NT_Config attrs \<noteq> None then Some (attrs\<lparr>NT_Config := Some aliases\<rparr>) else Some attrs))"

definition GetNamespaceReplicationMessages ::
  "aliasConfig \<Rightarrow> string + namespaceTask option list \<Rightarrow> string + namespaceTask option list" where
  "GetNamespaceReplicationMessages c result =
     (case result of
        Inl err \<Rightarrow> Inl err
      | Inr tasks \<Rightarrow> if alias_IsEnabled c then Inr (map (overrideAliases c) tasks) else Inr tasks)"


section \<open>The map is a bijection\<close>

definition mutual :: "(string, string) gomap \<Rightarrow> (string, string) gomap \<Rightarrow> bool" where
  "mutual f b \<longleftrightarrow> gmap_ok f \<and> gmap_ok b \<and> (\<forall>k v. gget f k = Some v \<longleftrightarrow> gget b v = Some k)"

lemma mutual_put:
  "mutual f b \<Longrightarrow> gget f k = None \<Longrightarrow> gget b v = None \<Longrightarrow> mutual (gput k v f) (gput v k b)"
  by (auto simp: mutual_def) (metis option.distinct(1))

lemma bimap_fill_Cons:
  "bimap_fill ((key, val) # pairs) f b = Inr m \<longleftrightarrow>
     gget f key = None \<and> gget b val = None \<and> bimap_fill pairs (gput key val f) (gput val key b) = Inr m"
  by (simp add: Let_def split: option.split)

lemma bimap_fill_mutual:
  "mutual f b \<Longrightarrow> bimap_fill pairs f b = Inr m \<Longrightarrow>
   mutual (contents m) (inverseContents m) \<and>
   (\<forall>k v. gget (contents m) k = Some v \<longleftrightarrow> (k, v) \<in> set pairs \<or> gget f k = Some v)"
proof (induction pairs arbitrary: f b)
  case (Cons p pairs)
  obtain key val where p: "p = (key, val)" by (rule prod.exhaust)
  from Cons.prems(2) have n: "gget f key = None" "gget b val = None"
    and r: "bimap_fill pairs (gput key val f) (gput val key b) = Inr m"
    unfolding p bimap_fill_Cons by blast+
  from Cons.IH[OF mutual_put[OF Cons.prems(1) n] r] n(1) show ?case
    by (auto simp: p split: if_splits)
qed auto

lemma bimap_fill_accepts:
  "mutual f b \<Longrightarrow>
   (\<exists>m. bimap_fill pairs f b = Inr m) \<longleftrightarrow>
     distinct (map fst pairs) \<and> distinct (map snd pairs) \<and>
     (\<forall>k \<in> fst ` set pairs. gget f k = None) \<and> (\<forall>v \<in> snd ` set pairs. gget b v = None)"
proof (induction pairs arbitrary: f b)
  case (Cons p pairs)
  obtain key val where p: "p = (key, val)" by (rule prod.exhaust)
  show ?case
  proof (cases "gget f key = None \<and> gget b val = None")
    case True
    then have "(\<exists>m. bimap_fill (p # pairs) f b = Inr m) =
        (\<exists>m. bimap_fill pairs (gput key val f) (gput val key b) = Inr m)"
      unfolding p bimap_fill_Cons by blast
    also have "\<dots> \<longleftrightarrow> distinct (map fst pairs) \<and> distinct (map snd pairs) \<and>
        (\<forall>k \<in> fst ` set pairs. gget (gput key val f) k = None) \<and>
        (\<forall>v \<in> snd ` set pairs. gget (gput val key b) v = None)"
      by (rule Cons.IH[OF mutual_put[OF Cons.prems]]) (use True in auto)
    also have "\<dots> \<longleftrightarrow> distinct (map fst (p # pairs)) \<and> distinct (map snd (p # pairs)) \<and>
        (\<forall>k \<in> fst ` set (p # pairs). gget f k = None) \<and> (\<forall>v \<in> snd ` set (p # pairs). gget b v = None)"
      using True by (auto simp: p)
    finally show ?thesis .
  next
    case False
    then have "\<not> (\<exists>m. bimap_fill (p # pairs) f b = Inr m)" unfolding p bimap_fill_Cons by blast
    moreover have "\<not> ((\<forall>k \<in> fst ` set (p # pairs). gget f k = None) \<and> (\<forall>v \<in> snd ` set (p # pairs). gget b v = None))"
      using False by (auto simp: p)
    ultimately show ?thesis by blast
  qed
qed simp

lemma mutual_length: "mutual f b \<Longrightarrow> length f = length b"
proof -
  assume m: "mutual f b"
  have "length f = card (set f)" "length b = card (set b)"
    using m by (metis mutual_def distinct_card distinct_map)+
  moreover have "set b = prod.swap ` set f"
    using m by (force simp: mutual_def gget_Some_iff)
  ultimately show "length f = length b" by (simp add: card_image)
qed


section \<open>Properties\<close>

text \<open>
  A name mapping is accepted exactly when no local and no remote name occurs twice. The two
  directions of an accepted mapping contain the configured pairs and nothing else and are inverse
  to each other, so translating a mapped name and translating back gives the name again; the
  inverse of the inverse is the mapping itself, and both directions have the same size.
\<close>

lemma bimap_bijective:
  "((\<exists>m. NewStaticBiMap pairs = Inr m) \<longleftrightarrow> distinct (map fst pairs) \<and> distinct (map snd pairs)) \<and>
   (NewStaticBiMap pairs = Inr m \<longrightarrow>
     (\<forall>k v. bi_GetExists (Some m) k = (v, True) \<longleftrightarrow> (k, v) \<in> set pairs) \<and>
     (\<forall>k v. bi_GetExists (Some m) k = (v, True) \<longleftrightarrow> bi_GetExists (bi_Inverse (Some m)) v = (k, True)) \<and>
     bi_Inverse (bi_Inverse (Some m)) = Some m \<and>
     bi_Len (bi_Inverse (Some m)) = bi_Len (Some m))"
proof -
  have e: "mutual [] []" by (simp add: mutual_def)
  have g: "bi_GetExists (Some m) k = (v, True) \<longleftrightarrow> gget (contents m) k = Some v" for m k v
    by (auto simp: bi_GetExists_def split: option.splits)
  have "mutual (contents m) (inverseContents m) \<and> (\<forall>k v. gget (contents m) k = Some v \<longleftrightarrow> (k, v) \<in> set pairs)"
    if "NewStaticBiMap pairs = Inr m"
    using bimap_fill_mutual[OF e, of pairs m] that by (simp add: NewStaticBiMap_def)
  then show ?thesis
    using bimap_fill_accepts[OF e, of pairs] mutual_length
    by (auto simp: NewStaticBiMap_def g bi_Inverse_def bi_Len_def mutual_def)
qed

lemma bimap_bijective_witness:
  "\<exists>m. NewStaticBiMap [(''a'', ''x''), (''b'', ''y'')] = Inr m \<and>
     bi_GetExists (bi_Inverse (Some m)) ''y'' = (''b'', True)"
  using bimap_bijective[of "[(''a'', ''x''), (''b'', ''y'')]"] by fastforce

text \<open>
  The error for a remote name that occurs twice says that a key conflicts: both errors are
  built with the flag for keys.
\<close>

lemma value_conflict_reported_as_key:
  assumes "k1 \<noteq> k2"
  shows "\<exists>e. NewStaticBiMap [(k1, v), (k2, v)] = Inl e \<and> isKey e \<and> newItem e = v \<and>
    conflict_Error e = ''attempted to insert conflicting key '' @ v @ '', which is identical to '' @ v"
  using assms by (simp add: NewStaticBiMap_def go_index_def conflict_Error_def)

lemma value_conflict_reported_as_key_witness:
  "\<exists>e. NewStaticBiMap [(''a'', ''x''), (''b'', ''x'')] = Inl e \<and> isKey e"
  using value_conflict_reported_as_key[of "''a''" "''b''" "''x''"] by auto

end
