(* ===== verification/RepairTables.thy ===== *)
theory RepairTables
  imports Prelude
begin

text \<open>
  The generated tables of the UTF-8 repair: which failures of a message of the 1.22 protocol are visited
  (\<^verbatim>\<open>proto/compat/repair_utf8_gen.go\<close>), and which messages have a counterpart in that protocol
  (\<^verbatim>\<open>proto/compat/admin_conversion_gen.go\<close> and \<^verbatim>\<open>frontend_conversion_gen.go\<close>). What the statements do is
  defined in \<open>RepairUTF8\<close>.
\<close>

section \<open>The statements\<close>

text \<open>
  \<^item> \<open>Field\<close>: \<^verbatim>\<open>y := x.GetF()\<close> and what is done with \<^verbatim>\<open>y\<close>;
  \<^item> \<open>ForEach\<close>: \<^verbatim>\<open>for _, item := range x.GetF()\<close>, over a slice or over the values of a map;
  \<^item> \<open>OneofSwitch\<close>: \<^verbatim>\<open>switch oneof := x.GetF().(type)\<close>, with the name of the field of each case;
  \<^item> \<open>Block\<close>: a sequence;
  \<^item> \<open>RepairFailure\<close>: the call of \<^verbatim>\<open>repairInvalidUTF8InFailure\<close> with the bookkeeping after it.
\<close>

datatype repairer =
    Field string repairer
  | ForEach string repairer
  | OneofSwitch string repairCases
  | Block repairBlock
  | RepairFailure
and repairCases = NoCase | Case string repairer repairCases
and repairBlock = EmptyBlock | Stmt repairer repairBlock

fun cases :: "(string \<times> repairer) list \<Rightarrow> repairCases" where
  "cases [] = NoCase"
| "cases ((n, r) # rs) = Case n r (cases rs)"

fun block :: "repairer list \<Rightarrow> repairBlock" where
  "block [] = EmptyBlock"
| "block (r # rs) = Stmt r (block rs)"

section \<open>The cases of the switch\<close>

text \<open>One definition for each case; a message inside another one is walked as in its own case.\<close>

definition repair_ContinueAsNewWorkflowExecutionCommandAttributes :: repairer where
  "repair_ContinueAsNewWorkflowExecutionCommandAttributes = Field ''Failure'' RepairFailure"

definition repair_FailWorkflowExecutionCommandAttributes :: repairer where
  "repair_FailWorkflowExecutionCommandAttributes = Field ''Failure'' RepairFailure"

definition repair_RecordMarkerCommandAttributes :: repairer where
  "repair_RecordMarkerCommandAttributes = Field ''Failure'' RepairFailure"

definition repair_Command :: repairer where
  "repair_Command = OneofSwitch ''Attributes'' (cases
     [(''ContinueAsNewWorkflowExecutionCommandAttributes'', repair_ContinueAsNewWorkflowExecutionCommandAttributes),
      (''FailWorkflowExecutionCommandAttributes'', repair_FailWorkflowExecutionCommandAttributes),
      (''RecordMarkerCommandAttributes'', repair_RecordMarkerCommandAttributes)])"

definition repair_Failure :: repairer where
  "repair_Failure = RepairFailure"

definition repair_ActivityTaskFailedEventAttributes :: repairer where
  "repair_ActivityTaskFailedEventAttributes = Field ''Failure'' RepairFailure"

definition repair_ActivityTaskStartedEventAttributes :: repairer where
  "repair_ActivityTaskStartedEventAttributes = Field ''LastFailure'' RepairFailure"

definition repair_ActivityTaskTimedOutEventAttributes :: repairer where
  "repair_ActivityTaskTimedOutEventAttributes = Field ''Failure'' RepairFailure"

definition repair_ChildWorkflowExecutionFailedEventAttributes :: repairer where
  "repair_ChildWorkflowExecutionFailedEventAttributes = Field ''Failure'' RepairFailure"

definition repair_MarkerRecordedEventAttributes :: repairer where
  "repair_MarkerRecordedEventAttributes = Field ''Failure'' RepairFailure"

definition repair_WorkflowExecutionContinuedAsNewEventAttributes :: repairer where
  "repair_WorkflowExecutionContinuedAsNewEventAttributes = Field ''Failure'' RepairFailure"

definition repair_WorkflowExecutionFailedEventAttributes :: repairer where
  "repair_WorkflowExecutionFailedEventAttributes = Field ''Failure'' RepairFailure"

definition repair_WorkflowExecutionStartedEventAttributes :: repairer where
  "repair_WorkflowExecutionStartedEventAttributes = Field ''ContinuedFailure'' RepairFailure"

definition repair_Outcome :: repairer where
  "repair_Outcome = OneofSwitch ''Value'' (cases
     [(''Failure'', RepairFailure)])"

definition repair_WorkflowExecutionUpdateCompletedEventAttributes :: repairer where
  "repair_WorkflowExecutionUpdateCompletedEventAttributes = Field ''Outcome'' repair_Outcome"

definition repair_WorkflowExecutionUpdateRejectedEventAttributes :: repairer where
  "repair_WorkflowExecutionUpdateRejectedEventAttributes = Field ''Failure'' RepairFailure"

definition repair_WorkflowTaskFailedEventAttributes :: repairer where
  "repair_WorkflowTaskFailedEventAttributes = Field ''Failure'' RepairFailure"

definition repair_HistoryEvent :: repairer where
  "repair_HistoryEvent = OneofSwitch ''Attributes'' (cases
     [(''ActivityTaskFailedEventAttributes'', repair_ActivityTaskFailedEventAttributes),
      (''ActivityTaskStartedEventAttributes'', repair_ActivityTaskStartedEventAttributes),
      (''ActivityTaskTimedOutEventAttributes'', repair_ActivityTaskTimedOutEventAttributes),
      (''ChildWorkflowExecutionFailedEventAttributes'', repair_ChildWorkflowExecutionFailedEventAttributes),
      (''MarkerRecordedEventAttributes'', repair_MarkerRecordedEventAttributes),
      (''WorkflowExecutionContinuedAsNewEventAttributes'', repair_WorkflowExecutionContinuedAsNewEventAttributes),
      (''WorkflowExecutionFailedEventAttributes'', repair_WorkflowExecutionFailedEventAttributes),
      (''WorkflowExecutionStartedEventAttributes'', repair_WorkflowExecutionStartedEventAttributes),
      (''WorkflowExecutionUpdateCompletedEventAttributes'', repair_WorkflowExecutionUpdateCompletedEventAttributes),
      (''WorkflowExecutionUpdateRejectedEventAttributes'', repair_WorkflowExecutionUpdateRejectedEventAttributes),
      (''WorkflowTaskFailedEventAttributes'', repair_WorkflowTaskFailedEventAttributes)])"

definition repair_History :: repairer where
  "repair_History = ForEach ''Events'' repair_HistoryEvent"

definition repair_Rejection :: repairer where
  "repair_Rejection = Field ''Failure'' RepairFailure"

definition repair_Response :: repairer where
  "repair_Response = Field ''Outcome'' repair_Outcome"

definition repair_PendingActivityInfo :: repairer where
  "repair_PendingActivityInfo = Field ''LastFailure'' RepairFailure"

definition repair_DescribeWorkflowExecutionResponse :: repairer where
  "repair_DescribeWorkflowExecutionResponse = ForEach ''PendingActivities'' repair_PendingActivityInfo"

definition repair_GetWorkflowExecutionHistoryResponse :: repairer where
  "repair_GetWorkflowExecutionHistoryResponse = Field ''History'' repair_History"

definition repair_GetWorkflowExecutionHistoryReverseResponse :: repairer where
  "repair_GetWorkflowExecutionHistoryReverseResponse = Field ''History'' repair_History"

definition repair_PollWorkflowExecutionUpdateResponse :: repairer where
  "repair_PollWorkflowExecutionUpdateResponse = Field ''Outcome'' repair_Outcome"

definition repair_PollWorkflowTaskQueueResponse :: repairer where
  "repair_PollWorkflowTaskQueueResponse = Field ''History'' repair_History"

definition repair_RespondActivityTaskFailedByIdRequest :: repairer where
  "repair_RespondActivityTaskFailedByIdRequest = Field ''Failure'' RepairFailure"

definition repair_RespondActivityTaskFailedByIdResponse :: repairer where
  "repair_RespondActivityTaskFailedByIdResponse = ForEach ''Failures'' RepairFailure"

definition repair_RespondActivityTaskFailedRequest :: repairer where
  "repair_RespondActivityTaskFailedRequest = Field ''Failure'' RepairFailure"

definition repair_RespondActivityTaskFailedResponse :: repairer where
  "repair_RespondActivityTaskFailedResponse = ForEach ''Failures'' RepairFailure"

definition repair_RespondWorkflowTaskCompletedRequest :: repairer where
  "repair_RespondWorkflowTaskCompletedRequest = ForEach ''Commands'' repair_Command"

definition repair_RespondWorkflowTaskCompletedResponse :: repairer where
  "repair_RespondWorkflowTaskCompletedResponse = Field ''WorkflowTask'' repair_PollWorkflowTaskQueueResponse"

definition repair_RespondWorkflowTaskFailedRequest :: repairer where
  "repair_RespondWorkflowTaskFailedRequest = Field ''Failure'' RepairFailure"

definition repair_StartWorkflowExecutionRequest :: repairer where
  "repair_StartWorkflowExecutionRequest = Field ''ContinuedFailure'' RepairFailure"

definition repair_StartWorkflowExecutionResponse :: repairer where
  "repair_StartWorkflowExecutionResponse = Field ''EagerWorkflowTask'' repair_PollWorkflowTaskQueueResponse"

definition repair_UpdateWorkflowExecutionResponse :: repairer where
  "repair_UpdateWorkflowExecutionResponse = Field ''Outcome'' repair_Outcome"

definition repair_ActivityInfo :: repairer where
  "repair_ActivityInfo = Field ''RetryLastFailure'' RepairFailure"

definition repair_WorkflowMutableState :: repairer where
  "repair_WorkflowMutableState = Block (block
     [ForEach ''ActivityInfos'' repair_ActivityInfo,
      ForEach ''BufferedEvents'' repair_HistoryEvent])"

definition repair_DescribeMutableStateResponse :: repairer where
  "repair_DescribeMutableStateResponse = Block (block
     [Field ''CacheMutableState'' repair_WorkflowMutableState,
      Field ''DatabaseMutableState'' repair_WorkflowMutableState])"

definition repair_SyncActivityTaskAttributes :: repairer where
  "repair_SyncActivityTaskAttributes = Field ''LastFailure'' RepairFailure"

definition repair_SyncWorkflowStateTaskAttributes :: repairer where
  "repair_SyncWorkflowStateTaskAttributes = Field ''WorkflowState'' repair_WorkflowMutableState"

definition repair_ReplicationTask :: repairer where
  "repair_ReplicationTask = OneofSwitch ''Attributes'' (cases
     [(''SyncActivityTaskAttributes'', repair_SyncActivityTaskAttributes),
      (''SyncWorkflowStateTaskAttributes'', repair_SyncWorkflowStateTaskAttributes)])"

definition repair_GetDLQMessagesResponse :: repairer where
  "repair_GetDLQMessagesResponse = ForEach ''ReplicationTasks'' repair_ReplicationTask"

definition repair_GetDLQReplicationMessagesResponse :: repairer where
  "repair_GetDLQReplicationMessagesResponse = ForEach ''ReplicationTasks'' repair_ReplicationTask"

definition repair_ReplicationMessages :: repairer where
  "repair_ReplicationMessages = ForEach ''ReplicationTasks'' repair_ReplicationTask"

definition repair_GetNamespaceReplicationMessagesResponse :: repairer where
  "repair_GetNamespaceReplicationMessagesResponse = Field ''Messages'' repair_ReplicationMessages"

definition repair_GetReplicationMessagesResponse :: repairer where
  "repair_GetReplicationMessagesResponse = ForEach ''ShardMessages'' repair_ReplicationMessages"

definition repair_WorkflowReplicationMessages :: repairer where
  "repair_WorkflowReplicationMessages = ForEach ''ReplicationTasks'' repair_ReplicationTask"

definition repair_StreamWorkflowReplicationMessagesResponse :: repairer where
  "repair_StreamWorkflowReplicationMessagesResponse = OneofSwitch ''Attributes'' (cases
     [(''Messages'', repair_WorkflowReplicationMessages)])"

definition repair_TransientWorkflowTaskInfo :: repairer where
  "repair_TransientWorkflowTaskInfo = ForEach ''HistorySuffix'' repair_HistoryEvent"

text \<open>The switch: the type of the message and its case. A message of another type is left alone.\<close>

definition repairers :: "(string \<times> repairer) list" where
  "repairers =
     [(''apicommand.Command'', repair_Command),
      (''apicommand.ContinueAsNewWorkflowExecutionCommandAttributes'', repair_ContinueAsNewWorkflowExecutionCommandAttributes),
      (''apicommand.FailWorkflowExecutionCommandAttributes'', repair_FailWorkflowExecutionCommandAttributes),
      (''apicommand.RecordMarkerCommandAttributes'', repair_RecordMarkerCommandAttributes),
      (''apifailure.Failure'', repair_Failure),
      (''apihistory.ActivityTaskFailedEventAttributes'', repair_ActivityTaskFailedEventAttributes),
      (''apihistory.ActivityTaskStartedEventAttributes'', repair_ActivityTaskStartedEventAttributes),
      (''apihistory.ActivityTaskTimedOutEventAttributes'', repair_ActivityTaskTimedOutEventAttributes),
      (''apihistory.ChildWorkflowExecutionFailedEventAttributes'', repair_ChildWorkflowExecutionFailedEventAttributes),
      (''apihistory.History'', repair_History),
      (''apihistory.HistoryEvent'', repair_HistoryEvent),
      (''apihistory.MarkerRecordedEventAttributes'', repair_MarkerRecordedEventAttributes),
      (''apihistory.WorkflowExecutionContinuedAsNewEventAttributes'', repair_WorkflowExecutionContinuedAsNewEventAttributes),
      (''apihistory.WorkflowExecutionFailedEventAttributes'', repair_WorkflowExecutionFailedEventAttributes),
      (''apihistory.WorkflowExecutionStartedEventAttributes'', repair_WorkflowExecutionStartedEventAttributes),
      (''apihistory.WorkflowExecutionUpdateCompletedEventAttributes'', repair_WorkflowExecutionUpdateCompletedEventAttributes),
      (''apihistory.WorkflowExecutionUpdateRejectedEventAttributes'', repair_WorkflowExecutionUpdateRejectedEventAttributes),
      (''apihistory.WorkflowTaskFailedEventAttributes'', repair_WorkflowTaskFailedEventAttributes),
      (''apiupdate.Outcome'', repair_Outcome),
      (''apiupdate.Rejection'', repair_Rejection),
      (''apiupdate.Response'', repair_Response),
      (''apiworkflow.PendingActivityInfo'', repair_PendingActivityInfo),
      (''apiworkflowservice.DescribeWorkflowExecutionResponse'', repair_DescribeWorkflowExecutionResponse),
      (''apiworkflowservice.GetWorkflowExecutionHistoryResponse'', repair_GetWorkflowExecutionHistoryResponse),
      (''apiworkflowservice.GetWorkflowExecutionHistoryReverseResponse'', repair_GetWorkflowExecutionHistoryReverseResponse),
      (''apiworkflowservice.PollWorkflowExecutionUpdateResponse'', repair_PollWorkflowExecutionUpdateResponse),
      (''apiworkflowservice.PollWorkflowTaskQueueResponse'', repair_PollWorkflowTaskQueueResponse),
      (''apiworkflowservice.RespondActivityTaskFailedByIdRequest'', repair_RespondActivityTaskFailedByIdRequest),
      (''apiworkflowservice.RespondActivityTaskFailedByIdResponse'', repair_RespondActivityTaskFailedByIdResponse),
      (''apiworkflowservice.RespondActivityTaskFailedRequest'', repair_RespondActivityTaskFailedRequest),
      (''apiworkflowservice.RespondActivityTaskFailedResponse'', repair_RespondActivityTaskFailedResponse),
      (''apiworkflowservice.RespondWorkflowTaskCompletedRequest'', repair_RespondWorkflowTaskCompletedRequest),
      (''apiworkflowservice.RespondWorkflowTaskCompletedResponse'', repair_RespondWorkflowTaskCompletedResponse),
      (''apiworkflowservice.RespondWorkflowTaskFailedRequest'', repair_RespondWorkflowTaskFailedRequest),
      (''apiworkflowservice.StartWorkflowExecutionRequest'', repair_StartWorkflowExecutionRequest),
      (''apiworkflowservice.StartWorkflowExecutionResponse'', repair_StartWorkflowExecutionResponse),
      (''apiworkflowservice.UpdateWorkflowExecutionResponse'', repair_UpdateWorkflowExecutionResponse),
      (''serverapiadminservice.DescribeMutableStateResponse'', repair_DescribeMutableStateResponse),
      (''serverapiadminservice.GetDLQMessagesResponse'', repair_GetDLQMessagesResponse),
      (''serverapiadminservice.GetDLQReplicationMessagesResponse'', repair_GetDLQReplicationMessagesResponse),
      (''serverapiadminservice.GetNamespaceReplicationMessagesResponse'', repair_GetNamespaceReplicationMessagesResponse),
      (''serverapiadminservice.GetReplicationMessagesResponse'', repair_GetReplicationMessagesResponse),
      (''serverapiadminservice.StreamWorkflowReplicationMessagesResponse'', repair_StreamWorkflowReplicationMessagesResponse),
      (''serverapihistory.TransientWorkflowTaskInfo'', repair_TransientWorkflowTaskInfo),
      (''serverapipersistence.ActivityInfo'', repair_ActivityInfo),
      (''serverapipersistence.WorkflowMutableState'', repair_WorkflowMutableState),
      (''serverapireplication.ReplicationMessages'', repair_ReplicationMessages),
      (''serverapireplication.ReplicationTask'', repair_ReplicationTask),
      (''serverapireplication.SyncActivityTaskAttributes'', repair_SyncActivityTaskAttributes),
      (''serverapireplication.SyncWorkflowStateTaskAttributes'', repair_SyncWorkflowStateTaskAttributes),
      (''serverapireplication.WorkflowReplicationMessages'', repair_WorkflowReplicationMessages)]"

section \<open>Counterparts in the old protocol\<close>

text \<open>
  The messages of the two services for which there is a message of the same name in the old protocol.
\<close>

definition admin122 :: "string list" where
  "admin122 =
     [''AddOrUpdateRemoteClusterResponse'', ''AddOrUpdateRemoteClusterRequest'', ''AddSearchAttributesResponse'',
      ''AddSearchAttributesRequest'', ''CloseShardResponse'', ''CloseShardRequest'',
      ''DeleteWorkflowExecutionResponse'', ''DeleteWorkflowExecutionRequest'', ''DescribeClusterResponse'',
      ''DescribeClusterRequest'', ''DescribeHistoryHostResponse'', ''DescribeHistoryHostRequest'',
      ''DescribeMutableStateResponse'', ''DescribeMutableStateRequest'', ''GetDLQMessagesResponse'',
      ''GetDLQMessagesRequest'', ''GetDLQReplicationMessagesResponse'', ''GetDLQReplicationMessagesRequest'',
      ''GetNamespaceResponse'', ''GetNamespaceRequest'', ''GetNamespaceReplicationMessagesResponse'',
      ''GetNamespaceReplicationMessagesRequest'', ''GetReplicationMessagesResponse'',
      ''GetReplicationMessagesRequest'', ''GetSearchAttributesResponse'', ''GetSearchAttributesRequest'',
      ''GetShardResponse'', ''GetShardRequest'', ''GetTaskQueueTasksResponse'', ''GetTaskQueueTasksRequest'',
      ''GetWorkflowExecutionRawHistoryV2Response'', ''GetWorkflowExecutionRawHistoryV2Request'',
      ''ListClusterMembersResponse'', ''ListClusterMembersRequest'', ''ListClustersResponse'',
      ''ListClustersRequest'', ''ListHistoryTasksResponse'', ''ListHistoryTasksRequest'',
      ''MergeDLQMessagesResponse'', ''MergeDLQMessagesRequest'', ''PurgeDLQMessagesResponse'',
      ''PurgeDLQMessagesRequest'', ''ReapplyEventsResponse'', ''ReapplyEventsRequest'',
      ''RebuildMutableStateResponse'', ''RebuildMutableStateRequest'', ''RefreshWorkflowTasksResponse'',
      ''RefreshWorkflowTasksRequest'', ''RemoveRemoteClusterResponse'', ''RemoveRemoteClusterRequest'',
      ''RemoveSearchAttributesResponse'', ''RemoveSearchAttributesRequest'', ''RemoveTaskResponse'',
      ''RemoveTaskRequest'', ''ResendReplicationTasksResponse'', ''ResendReplicationTasksRequest'',
      ''StreamWorkflowReplicationMessagesResponse'', ''StreamWorkflowReplicationMessagesRequest'']"

definition frontend122 :: "string list" where
  "frontend122 =
     [''CountWorkflowExecutionsResponse'', ''CountWorkflowExecutionsRequest'', ''CreateScheduleResponse'',
      ''CreateScheduleRequest'', ''DeleteScheduleResponse'', ''DeleteScheduleRequest'',
      ''DeleteWorkflowExecutionResponse'', ''DeleteWorkflowExecutionRequest'', ''DeprecateNamespaceResponse'',
      ''DeprecateNamespaceRequest'', ''DescribeBatchOperationResponse'', ''DescribeBatchOperationRequest'',
      ''DescribeNamespaceResponse'', ''DescribeNamespaceRequest'', ''DescribeScheduleResponse'',
      ''DescribeScheduleRequest'', ''DescribeTaskQueueResponse'', ''DescribeTaskQueueRequest'',
      ''DescribeWorkflowExecutionResponse'', ''DescribeWorkflowExecutionRequest'', ''GetClusterInfoResponse'',
      ''GetClusterInfoRequest'', ''GetSearchAttributesResponse'', ''GetSearchAttributesRequest'',
      ''GetSystemInfoResponse'', ''GetSystemInfoRequest'', ''GetWorkerBuildIdCompatibilityResponse'',
      ''GetWorkerBuildIdCompatibilityRequest'', ''GetWorkerTaskReachabilityResponse'',
      ''GetWorkerTaskReachabilityRequest'', ''GetWorkflowExecutionHistoryResponse'',
      ''GetWorkflowExecutionHistoryRequest'', ''GetWorkflowExecutionHistoryReverseResponse'',
      ''GetWorkflowExecutionHistoryReverseRequest'', ''ListArchivedWorkflowExecutionsResponse'',
      ''ListArchivedWorkflowExecutionsRequest'', ''ListBatchOperationsResponse'', ''ListBatchOperationsRequest'',
      ''ListClosedWorkflowExecutionsResponse'', ''ListClosedWorkflowExecutionsRequest'', ''ListNamespacesResponse'',
      ''ListNamespacesRequest'', ''ListOpenWorkflowExecutionsResponse'', ''ListOpenWorkflowExecutionsRequest'',
      ''ListScheduleMatchingTimesResponse'', ''ListScheduleMatchingTimesRequest'', ''ListSchedulesResponse'',
      ''ListSchedulesRequest'', ''ListTaskQueuePartitionsResponse'', ''ListTaskQueuePartitionsRequest'',
      ''ListWorkflowExecutionsResponse'', ''ListWorkflowExecutionsRequest'', ''PatchScheduleResponse'',
      ''PatchScheduleRequest'', ''PollActivityTaskQueueResponse'', ''PollActivityTaskQueueRequest'',
      ''PollWorkflowExecutionUpdateResponse'', ''PollWorkflowExecutionUpdateRequest'',
      ''PollWorkflowTaskQueueResponse'', ''PollWorkflowTaskQueueRequest'', ''QueryWorkflowResponse'',
      ''QueryWorkflowRequest'', ''RecordActivityTaskHeartbeatResponse'', ''RecordActivityTaskHeartbeatRequest'',
      ''RecordActivityTaskHeartbeatByIdResponse'', ''RecordActivityTaskHeartbeatByIdRequest'',
      ''RegisterNamespaceResponse'', ''RegisterNamespaceRequest'', ''RequestCancelWorkflowExecutionResponse'',
      ''RequestCancelWorkflowExecutionRequest'', ''ResetStickyTaskQueueResponse'', ''ResetStickyTaskQueueRequest'',
      ''ResetWorkflowExecutionResponse'', ''ResetWorkflowExecutionRequest'', ''RespondActivityTaskCanceledResponse'',
      ''RespondActivityTaskCanceledRequest'', ''RespondActivityTaskCanceledByIdResponse'',
      ''RespondActivityTaskCanceledByIdRequest'', ''RespondActivityTaskCompletedResponse'',
      ''RespondActivityTaskCompletedRequest'', ''RespondActivityTaskCompletedByIdResponse'',
      ''RespondActivityTaskCompletedByIdRequest'', ''RespondActivityTaskFailedResponse'',
      ''RespondActivityTaskFailedRequest'', ''RespondActivityTaskFailedByIdResponse'',
      ''RespondActivityTaskFailedByIdRequest'', ''RespondQueryTaskCompletedResponse'',
      ''RespondQueryTaskCompletedRequest'', ''RespondWorkflowTaskCompletedResponse'',
      ''RespondWorkflowTaskCompletedRequest'', ''RespondWorkflowTaskFailedResponse'',
      ''RespondWorkflowTaskFailedRequest'', ''ScanWorkflowExecutionsResponse'', ''ScanWorkflowExecutionsRequest'',
      ''SignalWithStartWorkflowExecutionResponse'', ''SignalWithStartWorkflowExecutionRequest'',
      ''SignalWorkflowExecutionResponse'', ''SignalWorkflowExecutionRequest'', ''StartBatchOperationResponse'',
      ''StartBatchOperationRequest'', ''StartWorkflowExecutionResponse'', ''StartWorkflowExecutionRequest'',
      ''StopBatchOperationResponse'', ''StopBatchOperationRequest'', ''TerminateWorkflowExecutionResponse'',
      ''TerminateWorkflowExecutionRequest'', ''UpdateNamespaceResponse'', ''UpdateNamespaceRequest'',
      ''UpdateScheduleResponse'', ''UpdateScheduleRequest'', ''UpdateWorkerBuildIdCompatibilityResponse'',
      ''UpdateWorkerBuildIdCompatibilityRequest'', ''UpdateWorkflowExecutionResponse'',
      ''UpdateWorkflowExecutionRequest'']"

end
