(* ===== verification/UTF8.thy ===== *)
theory UTF8
  imports Prelude
begin

text \<open>
  The parts of Go's \<^verbatim>\<open>unicode/utf8\<close> and \<^verbatim>\<open>strings\<close> packages that the repair of messages uses. A Go string
  is a list of bytes, and so is a string here.
\<close>

abbreviation byte :: "char \<Rightarrow> nat" where "byte c \<equiv> of_char c"

definition continuation :: "nat \<Rightarrow> nat \<Rightarrow> char \<Rightarrow> bool" where
  "continuation lo hi c \<longleftrightarrow> lo \<le> byte c \<and> byte c \<le> hi"

text \<open>
  The number of bytes of the code point at the start of a string, 0 when the bytes there are not a
  well-formed sequence: no overlong form, no surrogate, nothing above U+10FFFF.
\<close>

fun tail_ok :: "(nat \<times> nat) list \<Rightarrow> string \<Rightarrow> bool" where
  "tail_ok [] s = True"
| "tail_ok (r # rs) [] = False"
| "tail_ok ((lo, hi) # rs) (c # s) = (continuation lo hi c \<and> tail_ok rs s)"

definition first_ranges :: "nat \<Rightarrow> (nat \<times> nat) list option" where
  "first_ranges b =
     (if b < 0x80 then Some []
      else if 0xC2 \<le> b \<and> b \<le> 0xDF then Some [(0x80, 0xBF)]
      else if b = 0xE0 then Some [(0xA0, 0xBF), (0x80, 0xBF)]
      else if b = 0xED then Some [(0x80, 0x9F), (0x80, 0xBF)]
      else if 0xE1 \<le> b \<and> b \<le> 0xEF then Some [(0x80, 0xBF), (0x80, 0xBF)]
      else if b = 0xF0 then Some [(0x90, 0xBF), (0x80, 0xBF), (0x80, 0xBF)]
      else if 0xF1 \<le> b \<and> b \<le> 0xF3 then Some [(0x80, 0xBF), (0x80, 0xBF), (0x80, 0xBF)]
      else if b = 0xF4 then Some [(0x80, 0x8F), (0x80, 0xBF), (0x80, 0xBF)]
      else None)"

definition rune_len :: "string \<Rightarrow> nat" where
  "rune_len s =
     (case s of [] \<Rightarrow> 0
      | c # cs \<Rightarrow>
          (case first_ranges (byte c) of None \<Rightarrow> 0 | Some rs \<Rightarrow> if tail_ok rs cs then Suc (length rs) else 0))"

lemma tail_ok_length: "tail_ok rs s \<Longrightarrow> length rs \<le> length s"
  by (induction rs s rule: tail_ok.induct) auto

lemma tail_ok_append: "tail_ok rs s \<Longrightarrow> tail_ok rs (s @ t)"
  by (induction rs s rule: tail_ok.induct) auto

lemma rune_len_le: "rune_len s \<le> length s"
  by (auto simp: rune_len_def split: list.splits option.splits dest: tail_ok_length)

lemma rune_len_append: "rune_len s \<noteq> 0 \<Longrightarrow> rune_len (s @ t) = rune_len s"
  by (auto simp: rune_len_def tail_ok_append split: list.splits option.splits if_splits)

lemma rune_len_take: "rune_len (take (rune_len s) s) = rune_len s"
proof -
  have "tail_ok rs (take (length rs) cs)" if "tail_ok rs cs" for rs cs
    using that by (induction rs cs rule: tail_ok.induct) auto
  then show ?thesis
    by (auto simp: rune_len_def split: list.splits option.splits if_splits)
qed

text \<open>\<^verbatim>\<open>utf8.ValidString\<close>.\<close>

function ValidString :: "string \<Rightarrow> bool" where
  "ValidString s = (if s = [] then True else if rune_len s = 0 then False else ValidString (drop (rune_len s) s))"
  by auto
termination
  by (relation "measure length") (auto simp: neq_Nil_conv)

declare ValidString.simps [simp del]

lemma ValidString_Nil [simp]: "ValidString []"
  by (simp add: ValidString.simps)

lemma ValidString_rune: "rune_len s \<noteq> 0 \<Longrightarrow> ValidString s \<longleftrightarrow> ValidString (drop (rune_len s) s)"
  by (subst ValidString.simps) (auto simp: rune_len_def)

lemma ValidString_append: "ValidString s \<Longrightarrow> ValidString t \<Longrightarrow> ValidString (s @ t)"
proof (induction s rule: ValidString.induct)
  case (1 s)
  show ?case
  proof (cases "s = []")
    case False
    with "1.prems"(1) have "rune_len s \<noteq> 0" "ValidString (drop (rune_len s) s)"
      by (auto simp: ValidString.simps[of s] split: if_splits)
    with 1 False show ?thesis
      using rune_len_le[of s] by (simp add: ValidString_rune[of "s @ t"] rune_len_append)
  qed (simp add: "1.prems")
qed

text \<open>A well-formed sequence is a valid string by itself.\<close>

lemma ValidString_take: "rune_len s \<noteq> 0 \<Longrightarrow> ValidString (take (rune_len s) s)"
  by (simp add: ValidString_rune[of "take (rune_len s) s"] rune_len_take)

text \<open>
  \<^verbatim>\<open>strings.ToValidUTF8\<close>: well-formed sequences are copied, and each run of other bytes is replaced by one
  copy of the replacement; \<open>invalid\<close> says that the byte before was of such a run.
\<close>

function valid_from :: "string \<Rightarrow> bool \<Rightarrow> string \<Rightarrow> string" where
  "valid_from r invalid s =
     (if s = [] then []
      else if rune_len s = 0 then (if invalid then [] else r) @ valid_from r True (tl s)
      else take (rune_len s) s @ valid_from r False (drop (rune_len s) s))"
  by auto
termination
  by (relation "measure (\<lambda>(r, i, s). length s)") (auto simp: neq_Nil_conv)

declare valid_from.simps [simp del]

definition ToValidUTF8 :: "string \<Rightarrow> string \<Rightarrow> string" where
  "ToValidUTF8 s replacement = valid_from replacement False s"

lemma valid_from_valid: "ValidString r \<Longrightarrow> ValidString (valid_from r i s)"
proof (induction r i s rule: valid_from.induct)
  case (1 r i s)
  then show ?case
    by (subst valid_from.simps) (auto simp: ValidString_append ValidString_take)
qed

lemma valid_from_id: "ValidString s \<Longrightarrow> valid_from r i s = s"
proof (induction s arbitrary: i rule: ValidString.induct)
  case (1 s)
  then show ?case
    by (auto simp: valid_from.simps[of r i] ValidString.simps[of s] split: if_splits)
qed

lemma ToValidUTF8_valid: "ValidString r \<Longrightarrow> ValidString (ToValidUTF8 s r)"
  by (simp add: ToValidUTF8_def valid_from_valid)

lemma ToValidUTF8_id: "ValidString s \<Longrightarrow> ToValidUTF8 s r = s"
  by (simp add: ToValidUTF8_def valid_from_id)

end
