(* ===== verification/RepairUTF8.thy ===== *)
theory RepairUTF8
  imports RepairTables UTF8
begin

text \<open>
  The repair of messages with invalid UTF-8: \<^verbatim>\<open>repairInvalidUTF8InFailure\<close> of \<^verbatim>\<open>proto/compat/repair_utf8.go\<close> and
  what the generated statements of \<^verbatim>\<open>proto/compat/repair_utf8_gen.go\<close> do. A server of an old version may have
  written failures whose text is not UTF-8, which the current protocol buffers refuse to decode.
\<close>

section \<open>Messages of the old protocol\<close>

text \<open>A failure has its message, its other strings, and its cause.\<close>

datatype failure122 = NilFailure | Failure122 string "string list" failure122

datatype msg122 =
    MNil
  | MMsg "(string \<times> msg122) list"
  | MSlice "msg122 list"
  | MOneof string msg122
  | MFailure failure122
  | MString string
  | MData string

definition get122 :: "msg122 \<Rightarrow> string \<Rightarrow> msg122" where
  "get122 m f = (case m of MMsg fs \<Rightarrow> (case map_of fs f of Some v \<Rightarrow> v | None \<Rightarrow> MNil) | _ \<Rightarrow> MNil)"

fun set_field122 :: "string \<Rightarrow> msg122 \<Rightarrow> (string \<times> msg122) list \<Rightarrow> (string \<times> msg122) list" where
  "set_field122 f v [] = []"
| "set_field122 f v ((g, w) # fs) = (if g = f then (g, v) # fs else (g, w) # set_field122 f v fs)"

definition put122 :: "msg122 \<Rightarrow> string \<Rightarrow> msg122 \<Rightarrow> msg122" where
  "put122 m f v = (case m of MMsg fs \<Rightarrow> MMsg (set_field122 f v fs) | _ \<Rightarrow> m)"

section \<open>The repair\<close>

definition maxFailureDepth :: nat where
  "maxFailureDepth = 10"

definition replacementCharacter :: string where
  "replacementCharacter = [char_of (0xEF::nat), char_of (0xBF::nat), char_of (0xBD::nat)]"

definition depthError :: string where
  "depthError = ''reached maximum failure chain depth''"

text \<open>The loop over the chain of causes, with the number of turns that are left.\<close>

fun repair_loop :: "nat \<Rightarrow> bool \<Rightarrow> failure122 \<Rightarrow> failure122 \<times> bool \<times> string option" where
  "repair_loop n changed NilFailure = (NilFailure, changed, None)"
| "repair_loop 0 changed f = (f, changed, Some depthError)"
| "repair_loop (Suc n) changed (Failure122 msg others cause) =
     (let (cause', changed', err) = repair_loop n (changed \<or> \<not> ValidString msg) cause
      in (Failure122 (if ValidString msg then msg else ToValidUTF8 msg replacementCharacter) others cause', changed', err))"

definition repairInvalidUTF8InFailure :: "failure122 \<Rightarrow> failure122 \<times> bool \<times> string option" where
  "repairInvalidUTF8InFailure f = repair_loop maxFailureDepth False f"

text \<open>The named results of the generated function: whether something was repaired, and the last error.\<close>

type_synonym repairState = "bool \<times> string option"

fun for_each :: "(msg122 \<Rightarrow> repairState \<Rightarrow> msg122 \<times> repairState) \<Rightarrow> msg122 list \<Rightarrow> repairState \<Rightarrow> msg122 list \<times> repairState" where
  "for_each f [] st = ([], st)"
| "for_each f (m # ms) st = (let (m', st') = f m st; (ms', st'') = for_each f ms st' in (m' # ms', st''))"

fun repair :: "repairer \<Rightarrow> msg122 \<Rightarrow> repairState \<Rightarrow> msg122 \<times> repairState"
  and repair_cases :: "repairCases \<Rightarrow> string \<Rightarrow> msg122 \<Rightarrow> repairState \<Rightarrow> msg122 \<times> repairState"
  and repair_block :: "repairBlock \<Rightarrow> msg122 \<Rightarrow> repairState \<Rightarrow> msg122 \<times> repairState" where
  "repair (Field f r) m st = (let (v, st') = repair r (get122 m f) st in (put122 m f v, st'))"
| "repair (ForEach f r) m st =
     (case get122 m f of
        MSlice xs \<Rightarrow> (let (ys, st') = for_each (repair r) xs st in (put122 m f (MSlice ys), st'))
      | _ \<Rightarrow> (m, st))"
| "repair (OneofSwitch f cs) m st =
     (case get122 m f of
        MOneof n v \<Rightarrow> (let (v', st') = repair_cases cs n v st in (put122 m f (MOneof n v'), st'))
      | _ \<Rightarrow> (m, st))"
| "repair (Block b) m st = repair_block b m st"
| "repair RepairFailure m (ret, retErr) =
     (case m of
        MFailure f \<Rightarrow>
          (let (f', changed, err) = repairInvalidUTF8InFailure f
           in (MFailure f', ret \<or> changed, if err \<noteq> None then err else retErr))
      | _ \<Rightarrow> (m, ret, retErr))"
| "repair_cases NoCase n m st = (m, st)"
| "repair_cases (Case k r cs) n m st = (if k = n then repair r m st else repair_cases cs n m st)"
| "repair_block EmptyBlock m st = (m, st)"
| "repair_block (Stmt r b) m st = (let (m', st') = repair r m st in repair_block b m' st')"

definition RepairInvalidUTF8 :: "string \<Rightarrow> msg122 \<Rightarrow> msg122 \<times> bool \<times> string option" where
  "RepairInvalidUTF8 ty m = (case map_of repairers ty of Some r \<Rightarrow> repair r m (False, None) | None \<Rightarrow> (m, False, None))"

section \<open>What is repaired\<close>

text \<open>The texts of a failure and of its causes, and the failures the statements reach in a message.\<close>

fun messages :: "failure122 \<Rightarrow> string list" where
  "messages NilFailure = []"
| "messages (Failure122 msg others cause) = msg # messages cause"

fun places :: "repairer \<Rightarrow> msg122 \<Rightarrow> failure122 list"
  and places_cases :: "repairCases \<Rightarrow> string \<Rightarrow> msg122 \<Rightarrow> failure122 list"
  and places_block :: "repairBlock \<Rightarrow> msg122 \<Rightarrow> failure122 list" where
  "places (Field f r) m = places r (get122 m f)"
| "places (ForEach f r) m = (case get122 m f of MSlice xs \<Rightarrow> concat (map (places r) xs) | _ \<Rightarrow> [])"
| "places (OneofSwitch f cs) m = (case get122 m f of MOneof n v \<Rightarrow> places_cases cs n v | _ \<Rightarrow> [])"
| "places (Block b) m = places_block b m"
| "places RepairFailure m = (case m of MFailure f \<Rightarrow> [f] | _ \<Rightarrow> [])"
| "places_cases NoCase n m = []"
| "places_cases (Case k r cs) n m = (if k = n then places r m else places_cases cs n m)"
| "places_block EmptyBlock m = []"
| "places_block (Stmt r b) m = places r m @ places_block b m"

definition failures_of :: "string \<Rightarrow> msg122 \<Rightarrow> failure122 list" where
  "failures_of ty m = (case map_of repairers ty of Some r \<Rightarrow> places r m | None \<Rightarrow> [])"

text \<open>The repair of one failure as a function: the texts of the first ten failures of the chain are made valid.\<close>

fun fix_chain :: "nat \<Rightarrow> failure122 \<Rightarrow> failure122" where
  "fix_chain n NilFailure = NilFailure"
| "fix_chain 0 f = f"
| "fix_chain (Suc n) (Failure122 msg others cause) = Failure122 (ToValidUTF8 msg replacementCharacter) others (fix_chain n cause)"

abbreviation fixed :: "failure122 \<Rightarrow> failure122" where "fixed \<equiv> fix_chain maxFailureDepth"

definition bad :: "failure122 \<Rightarrow> bool" where
  "bad f \<longleftrightarrow> (\<exists>msg \<in> set (take maxFailureDepth (messages f)). \<not> ValidString msg)"

definition deep :: "failure122 \<Rightarrow> bool" where
  "deep f \<longleftrightarrow> maxFailureDepth < length (messages f)"

lemma replacement_valid: "ValidString replacementCharacter"
proof -
  have "rune_len replacementCharacter = 3"
    by (simp add: rune_len_def replacementCharacter_def first_ranges_def of_char_of continuation_def numeral_2_eq_2)
  then show ?thesis by (simp add: ValidString_rune[of replacementCharacter]) (simp add: replacementCharacter_def)
qed

lemma repair_loop_spec:
  "repair_loop n changed f =
     (fix_chain n f, changed \<or> (\<exists>msg \<in> set (take n (messages f)). \<not> ValidString msg),
      if n < length (messages f) then Some depthError else None)"
  by (induction n changed f rule: repair_loop.induct) (auto simp: ToValidUTF8_id)

lemma repair_failure_spec:
  "repairInvalidUTF8InFailure f = (fixed f, bad f, if deep f then Some depthError else None)"
  by (simp add: repairInvalidUTF8InFailure_def repair_loop_spec bad_def deep_def)

lemma messages_fix_chain:
  "messages (fix_chain n f) = map (\<lambda>m. ToValidUTF8 m replacementCharacter) (take n (messages f)) @ drop n (messages f)"
  by (induction n f rule: fix_chain.induct) auto

lemma deep_fixed [simp]: "deep (fixed f) = deep f"
  by (auto simp: deep_def messages_fix_chain min_def)

lemma bad_fixed [simp]: "\<not> bad (fixed f)"
  by (cases "maxFailureDepth \<le> length (messages f)")
    (auto simp: bad_def messages_fix_chain ToValidUTF8_valid replacement_valid)

lemma fix_chain_id: "\<forall>msg \<in> set (take n (messages f)). ValidString msg \<Longrightarrow> fix_chain n f = f"
  by (induction n f rule: fix_chain.induct) (auto simp: ToValidUTF8_id)

lemma fixed_id: "\<not> bad f \<Longrightarrow> fixed f = f"
  by (simp add: bad_def fix_chain_id)

section \<open>What a repair may change\<close>

text \<open>\<open>repaired m m'\<close>: the message \<open>m'\<close> is \<open>m\<close> but for some failures, which are replaced by their repair.\<close>

inductive repaired :: "msg122 \<Rightarrow> msg122 \<Rightarrow> bool" where
  same: "repaired m m"
| failure: "repaired (MFailure f) (MFailure (fixed f))"
| field: "repaired v v' \<Longrightarrow> repaired (MMsg (xs @ (f, v) # ys)) (MMsg (xs @ (f, v') # ys))"
| item: "repaired v v' \<Longrightarrow> repaired (MSlice (xs @ v # ys)) (MSlice (xs @ v' # ys))"
| oneof: "repaired v v' \<Longrightarrow> repaired (MOneof n v) (MOneof n v')"
| step: "repaired m m' \<Longrightarrow> repaired m' m'' \<Longrightarrow> repaired m m''"

abbreviation or_fixed :: "failure122 list \<Rightarrow> failure122 list \<Rightarrow> bool" where
  "or_fixed \<equiv> list_all2 (\<lambda>x y. y = x \<or> y = fixed x)"

lemma or_fixed_refl [simp]: "or_fixed xs xs"
  by (simp add: list_all2_refl)

lemma or_fixed_trans: "or_fixed xs ys \<Longrightarrow> or_fixed ys zs \<Longrightarrow> or_fixed xs zs"
  by (erule (1) list_all2_trans[rotated]) (auto simp: fixed_id)

lemma get_updated:
  "get122 (MMsg (xs @ (f, v') # ys)) g = (if f = g \<and> map_of xs g = None then v' else get122 (MMsg (xs @ (f, v) # ys)) g)"
  "f = g \<and> map_of xs g = None \<Longrightarrow> get122 (MMsg (xs @ (f, v) # ys)) g = v"
  by (auto simp: get122_def map_add_def split: option.splits)

text \<open>The failures below a field that is a slice or a oneof.\<close>

definition slice_places :: "repairer \<Rightarrow> msg122 \<Rightarrow> failure122 list" where
  "slice_places r v = (case v of MSlice xs \<Rightarrow> concat (map (places r) xs) | _ \<Rightarrow> [])"

definition oneof_places :: "repairCases \<Rightarrow> msg122 \<Rightarrow> failure122 list" where
  "oneof_places cs v = (case v of MOneof n w \<Rightarrow> places_cases cs n w | _ \<Rightarrow> [])"

definition kept :: "msg122 \<Rightarrow> msg122 \<Rightarrow> bool" where
  "kept m m' \<longleftrightarrow> (\<forall>r. or_fixed (places r m) (places r m')) \<and> (\<forall>r. or_fixed (slice_places r m) (slice_places r m')) \<and>
     (\<forall>cs. or_fixed (oneof_places cs m) (oneof_places cs m'))"

lemma kept_refl [simp]: "kept m m"
  by (simp add: kept_def)

lemma kept_fields:
  assumes "\<And>g. kept (get122 m g) (get122 m' g)" "or_fixed (places RepairFailure m) (places RepairFailure m')"
  shows "or_fixed (places r m) (places r m')" "or_fixed (places_cases cs n m) (places_cases cs n m')"
    "or_fixed (places_block b m) (places_block b m')"
  using assms
  by (induction r and cs and b arbitrary: n)
    (auto simp: kept_def slice_places_def[symmetric] oneof_places_def[symmetric] list_all2_appendI)

lemma kept_cases:
  fixes r :: repairer and b :: repairBlock
  assumes "kept m m'"
  shows True "or_fixed (places_cases cs n m) (places_cases cs n m')" True
  using assms by (induction r and cs and b) (auto simp: kept_def)

lemma repaired_kept: "repaired m m' \<Longrightarrow> kept m m'"
proof (induction rule: repaired.induct)
  case (failure f)
  have "or_fixed (places r (MFailure f)) (places r (MFailure (fixed f)))" for r
    by (rule kept_fields(1)) (simp_all add: get122_def)
  then show ?case by (simp add: kept_def slice_places_def oneof_places_def)
next
  case (field v v' xs f ys)
  have "kept (get122 (MMsg (xs @ (f, v) # ys)) g) (get122 (MMsg (xs @ (f, v') # ys)) g)" for g
    using field.IH get_updated(1)[of xs f v' ys g v] get_updated(2)[of f g xs v ys] by (auto split: if_splits)
  then have "or_fixed (places r (MMsg (xs @ (f, v) # ys))) (places r (MMsg (xs @ (f, v') # ys)))" for r
    by (rule kept_fields(1)) simp
  then show ?case by (simp add: kept_def slice_places_def oneof_places_def)
next
  case (item v v' xs ys)
  have "or_fixed (places r (MSlice (xs @ v # ys))) (places r (MSlice (xs @ v' # ys)))" for r
    by (rule kept_fields(1)) (simp_all add: get122_def)
  with item.IH show ?case by (auto simp: kept_def slice_places_def oneof_places_def intro!: list_all2_appendI)
next
  case (oneof v v' n)
  have "or_fixed (places r (MOneof n v)) (places r (MOneof n v'))" for r
    by (rule kept_fields(1)) (simp_all add: get122_def)
  with kept_cases(2)[OF oneof.IH] show ?case by (simp add: kept_def slice_places_def oneof_places_def)
next
  case (step m m' m'')
  have "or_fixed (places r m) (places r m'')" "or_fixed (slice_places r m) (slice_places r m'')"
    "or_fixed (oneof_places cs m) (oneof_places cs m'')" for r cs
    using step.IH or_fixed_trans[of "places r m" "places r m'" "places r m''"]
      or_fixed_trans[of "slice_places r m" "slice_places r m'" "slice_places r m''"]
      or_fixed_trans[of "oneof_places cs m" "oneof_places cs m'" "oneof_places cs m''"]
    unfolding kept_def by blast+
  then show ?case by (simp add: kept_def)
qed simp

lemmas repaired_places = repaired_kept[unfolded kept_def, THEN conjunct1, rule_format]

lemma or_fixed_bad: "or_fixed xs ys \<Longrightarrow> y \<in> set ys \<Longrightarrow> bad y \<Longrightarrow> \<exists>x \<in> set xs. bad x"
  by (induction rule: list_all2_induct) auto

lemma or_fixed_deep: "or_fixed xs ys \<Longrightarrow> (\<exists>y \<in> set ys. deep y) \<longleftrightarrow> (\<exists>x \<in> set xs. deep x)"
  by (induction rule: list_all2_induct) auto

section \<open>The statements repair their places\<close>

text \<open>
  The contract of a statement with the places \<open>P\<close>: it changes nothing but failures, it leaves no bad text
  at its places, it says that something was repaired and reports an error exactly when there was a bad
  text or a chain that is too long, and it does nothing when there was none.
\<close>

definition repairs :: "('m \<Rightarrow> failure122 list) \<Rightarrow> ('m \<Rightarrow> 'm \<Rightarrow> bool) \<Rightarrow> ('m \<Rightarrow> repairState \<Rightarrow> 'm \<times> repairState) \<Rightarrow> bool" where
  "repairs P rel f \<longleftrightarrow> (\<forall>m ret err m' ret' err'. f m (ret, err) = (m', ret', err') \<longrightarrow>
     rel m m' \<and> (ret' \<longleftrightarrow> ret \<or> (\<exists>x \<in> set (P m). bad x)) \<and>
     err' = (if \<exists>x \<in> set (P m). deep x then Some depthError else err) \<and>
     (\<forall>x \<in> set (P m'). \<not> bad x) \<and> ((\<forall>x \<in> set (P m). \<not> bad x) \<longrightarrow> m' = m))"

lemma repairsD:
  assumes "repairs P rel f" "f m st = (m', st')"
  shows "rel m m'" "fst st' \<longleftrightarrow> fst st \<or> (\<exists>x \<in> set (P m). bad x)"
    "snd st' = (if \<exists>x \<in> set (P m). deep x then Some depthError else snd st)"
    "x \<in> set (P m') \<Longrightarrow> \<not> bad x" "\<forall>x \<in> set (P m). \<not> bad x \<Longrightarrow> m' = m"
  using assms by (cases st; cases st'; simp add: repairs_def; metis)+

lemma repairs_seq:
  assumes f: "repairs P repaired f" and g: "repairs Q repaired g"
    and P: "\<And>m m'. repaired m m' \<Longrightarrow> or_fixed (P m) (P m')" and Q: "\<And>m m'. repaired m m' \<Longrightarrow> or_fixed (Q m) (Q m')"
  shows "repairs (\<lambda>m. P m @ Q m) repaired (\<lambda>m st. let (m', st') = f m st in g m' st')"
  unfolding repairs_def
proof (intro allI impI)
  fix m ret err m'' ret'' err''
  assume e: "(let (m', st') = f m (ret, err) in g m' st') = (m'', ret'', err'')"
  obtain m' ret' err' where 1: "f m (ret, err) = (m', ret', err')" by (metis prod_cases3)
  with e have 2: "g m' (ret', err') = (m'', ret'', err'')" by simp
  note F = repairsD[OF f 1, simplified] and G = repairsD[OF g 2, simplified]
  have bad: "\<exists>x \<in> set (Q m). bad x" if "\<exists>x \<in> set (Q m'). bad x" using or_fixed_bad[OF Q[OF F(1)]] that by blast
  have kept: "\<forall>x \<in> set (P m''). \<not> bad x"
    using or_fixed_bad[OF P[OF G(1)]] F(4) by blast
  have deep: "(\<exists>x \<in> set (Q m'). deep x) \<longleftrightarrow> (\<exists>x \<in> set (Q m). deep x)" by (rule or_fixed_deep[OF Q[OF F(1)]])
  have "ret'' \<longleftrightarrow> ret \<or> (\<exists>x \<in> set (P m @ Q m). bad x)"
    using F(2,5) G(2) bad by auto
  moreover have "err'' = (if \<exists>x \<in> set (P m @ Q m). deep x then Some depthError else err)"
    using F(3) G(3) deep by auto
  moreover have "\<forall>x \<in> set (P m @ Q m). \<not> bad x \<Longrightarrow> m'' = m"
    using F(5) G(5) bad by auto
  ultimately show "repaired m m'' \<and> (ret'' \<longleftrightarrow> ret \<or> (\<exists>x \<in> set (P m @ Q m). bad x)) \<and>
      err'' = (if \<exists>x \<in> set (P m @ Q m). deep x then Some depthError else err) \<and>
      (\<forall>x \<in> set (P m'' @ Q m''). \<not> bad x) \<and> ((\<forall>x \<in> set (P m @ Q m). \<not> bad x) \<longrightarrow> m'' = m)"
    using repaired.step[OF F(1) G(1)] kept G(4) by auto
qed

lemma repairs_each_aux:
  assumes "repairs P repaired f" "for_each f xs st = (ys, st')"
  shows "list_all2 repaired xs ys \<and> (fst st' \<longleftrightarrow> fst st \<or> (\<exists>x \<in> set (concat (map P xs)). bad x)) \<and>
      snd st' = (if \<exists>x \<in> set (concat (map P xs)). deep x then Some depthError else snd st) \<and>
      (\<forall>x \<in> set (concat (map P ys)). \<not> bad x) \<and> ((\<forall>x \<in> set (concat (map P xs)). \<not> bad x) \<longrightarrow> ys = xs)"
  using assms(2)
proof (induction xs arbitrary: st ys)
  case (Cons x xs)
  obtain y st1 where 1: "f x st = (y, st1)" by (metis surj_pair)
  obtain ys' where ys: "ys = y # ys'" and 2: "for_each f xs st1 = (ys', st')"
    using Cons.prems 1 by (auto split: prod.splits)
  have split: "(\<exists>z \<in> set (concat (map P (x # xs))). B z) \<longleftrightarrow> (\<exists>z \<in> set (P x). B z) \<or> (\<exists>z \<in> set (concat (map P xs)). B z)"
    "(\<forall>z \<in> set (concat (map P (x # xs))). B z) \<longleftrightarrow> (\<forall>z \<in> set (P x). B z) \<and> (\<forall>z \<in> set (concat (map P xs)). B z)"
    "(\<forall>z \<in> set (concat (map P ys)). B z) \<longleftrightarrow> (\<forall>z \<in> set (P y). B z) \<and> (\<forall>z \<in> set (concat (map P ys')). B z)" for B
    by (auto simp: ys)
  note F = repairsD[OF assms(1) 1] and I = Cons.IH[OF 2]
  have "\<forall>z \<in> set (P y). \<not> bad z" using F(4) by blast
  note I' = I[THEN conjunct1] I[THEN conjunct2, THEN conjunct1] I[THEN conjunct2, THEN conjunct2, THEN conjunct1]
    I[THEN conjunct2, THEN conjunct2, THEN conjunct2, THEN conjunct1]
    I[THEN conjunct2, THEN conjunct2, THEN conjunct2, THEN conjunct2]
  show ?case unfolding split
  proof (intro conjI impI)
    show "list_all2 repaired (x # xs) ys" using F(1) I'(1) by (simp add: ys)
    show "fst st' \<longleftrightarrow> fst st \<or> (\<exists>z \<in> set (P x). bad z) \<or> (\<exists>z \<in> set (concat (map P xs)). bad z)"
      unfolding I'(2) F(2) by blast
    show "snd st' = (if (\<exists>z \<in> set (P x). deep z) \<or> (\<exists>z \<in> set (concat (map P xs)). deep z) then Some depthError else snd st)"
      unfolding I'(3) F(3) by argo
    show "ys = x # xs" if "(\<forall>z \<in> set (P x). \<not> bad z) \<and> (\<forall>z \<in> set (concat (map P xs)). \<not> bad z)"
      using that F(5) I'(5) unfolding ys by blast
  qed (use \<open>\<forall>z \<in> set (P y). \<not> bad z\<close> I'(4) in blast)+
qed simp

lemma repairs_each:
  assumes "repairs P repaired f"
  shows "repairs (\<lambda>xs. concat (map P xs)) (list_all2 repaired) (for_each f)"
  unfolding repairs_def
proof (intro allI impI)
  fix xs ret err ys ret' err'
  assume "for_each f xs (ret, err) = (ys, ret', err')"
  from repairs_each_aux[OF assms this, unfolded fst_conv snd_conv]
  show "list_all2 repaired xs ys \<and> (ret' \<longleftrightarrow> ret \<or> (\<exists>x \<in> set (concat (map P xs)). bad x)) \<and>
      err' = (if \<exists>x \<in> set (concat (map P xs)). deep x then Some depthError else err) \<and>
      (\<forall>x \<in> set (concat (map P ys)). \<not> bad x) \<and> ((\<forall>x \<in> set (concat (map P xs)). \<not> bad x) \<longrightarrow> ys = xs)" .
qed

text \<open>Reading and writing a field.\<close>

lemma set_field_same: "map_of fs f = Some v \<Longrightarrow> set_field122 f v fs = fs"
  by (induction fs) (auto split: if_splits)

lemma set_field_absent: "map_of fs f = None \<Longrightarrow> set_field122 f v fs = fs"
  by (induction fs) (auto split: if_splits)

lemma map_of_set_field122: "map_of fs f = Some w \<Longrightarrow> map_of (set_field122 f v fs) f = Some v"
  by (induction fs) (auto split: if_splits)

lemma set_field_split:
  "map_of fs f = Some w \<Longrightarrow> \<exists>xs ys. fs = xs @ (f, w) # ys \<and> set_field122 f v fs = xs @ (f, v) # ys"
proof (induction fs)
  case (Cons p fs)
  obtain g u where p: "p = (g, u)" by (cases p)
  show ?case
  proof (cases "g = f")
    case True
    with Cons.prems have "u = w" by (simp add: p)
    with True show ?thesis by (intro exI[of _ "[]"] exI[of _ fs]) (simp add: p)
  next
    case False
    with Cons.prems Cons.IH obtain xs ys where "fs = xs @ (f, w) # ys" "set_field122 f v fs = xs @ (f, v) # ys" by (auto simp: p)
    with False show ?thesis by (intro exI[of _ "(g, u) # xs"] exI[of _ ys]) (simp add: p)
  qed
qed simp

lemma put_get: "put122 m f (get122 m f) = m"
  by (auto simp: put122_def get122_def set_field_same set_field_absent split: msg122.splits option.splits)

lemma get122_put122: "get122 m f \<noteq> MNil \<Longrightarrow> get122 (put122 m f v) f = v"
  by (auto simp: put122_def get122_def map_of_set_field122 split: msg122.splits option.splits)

lemma repaired_put:
  assumes "repaired (get122 m f) v" "get122 m f \<noteq> MNil"
  shows "repaired m (put122 m f v)"
proof -
  obtain fs w where m: "m = MMsg fs" "map_of fs f = Some w" "get122 m f = w"
    using assms(2) by (auto simp: get122_def split: msg122.splits option.splits)
  obtain xs ys where "fs = xs @ (f, w) # ys" "set_field122 f v fs = xs @ (f, v) # ys" using set_field_split[OF m(2)] by blast
  moreover have "repaired w v" using assms(1) m(3) by simp
  ultimately show ?thesis using repaired.field[of w v xs f ys] by (simp add: m(1) put122_def)
qed

text \<open>A statement that works on a field does for the message what it does for the field.\<close>

lemma repairs_field:
  assumes r: "repairs P repaired f" and nil: "P MNil = []"
  shows "repairs (\<lambda>m. P (get122 m k)) repaired (\<lambda>m st. let (v, st') = f (get122 m k) st in (put122 m k v, st'))"
  unfolding repairs_def
proof (intro allI impI)
  fix m ret err m' ret' err'
  assume "(let (v, st') = f (get122 m k) (ret, err) in (put122 m k v, st')) = (m', ret', err')"
  then obtain v where 1: "f (get122 m k) (ret, err) = (v, ret', err')" and m': "m' = put122 m k v"
    by (auto split: prod.splits)
  note F = repairsD[OF r 1, simplified]
  show "repaired m m' \<and> (ret' \<longleftrightarrow> ret \<or> (\<exists>x \<in> set (P (get122 m k)). bad x)) \<and>
      err' = (if \<exists>x \<in> set (P (get122 m k)). deep x then Some depthError else err) \<and>
      (\<forall>x \<in> set (P (get122 m' k)). \<not> bad x) \<and> ((\<forall>x \<in> set (P (get122 m k)). \<not> bad x) \<longrightarrow> m' = m)"
  proof (cases "get122 m k = MNil")
    case True
    with F nil have "v = MNil" by simp
    with True have "m' = m" using put_get[of m k] by (simp add: m')
    with F True nil show ?thesis by (simp add: repaired.same)
  next
    case False
    with F repaired_put[of m k v] put_get[of m k] get122_put122[of m k v] show ?thesis unfolding m' by auto
  qed
qed

lemma repaired_items: "list_all2 repaired xs ys \<Longrightarrow> repaired (MSlice (zs @ xs)) (MSlice (zs @ ys))"
proof (induction arbitrary: zs rule: list_all2_induct)
  case (Cons x xs y ys)
  from repaired.item[OF Cons.hyps(1), of zs xs] Cons.IH[of "zs @ [y]"] show ?case by (auto intro: repaired.step)
qed (simp add: repaired.same)

text \<open>The statements on the value of a field that is a slice or a oneof.\<close>

definition on_slice :: "(msg122 \<Rightarrow> repairState \<Rightarrow> msg122 \<times> repairState) \<Rightarrow> msg122 \<Rightarrow> repairState \<Rightarrow> msg122 \<times> repairState" where
  "on_slice f v st = (case v of MSlice xs \<Rightarrow> (let (ys, st') = for_each f xs st in (MSlice ys, st')) | _ \<Rightarrow> (v, st))"

definition on_oneof :: "(string \<Rightarrow> msg122 \<Rightarrow> repairState \<Rightarrow> msg122 \<times> repairState) \<Rightarrow> msg122 \<Rightarrow> repairState \<Rightarrow> msg122 \<times> repairState" where
  "on_oneof f v st = (case v of MOneof n w \<Rightarrow> (let (w', st') = f n w st in (MOneof n w', st')) | _ \<Rightarrow> (v, st))"

lemma repairs_idle: "P m = [] \<Longrightarrow> repaired m m \<and> (ret \<longleftrightarrow> ret \<or> (\<exists>x \<in> set (P m). bad x)) \<and>
     err = (if \<exists>x \<in> set (P m). deep x then Some depthError else err) \<and> (\<forall>x \<in> set (P m). \<not> bad x) \<and>
     ((\<forall>x \<in> set (P m). \<not> bad x) \<longrightarrow> m = m)"
  by (simp add: repaired.same)

lemma repairs_slice:
  assumes "repairs (places r) repaired f"
  shows "repairs (slice_places r) repaired (on_slice f)"
  unfolding repairs_def
proof (intro allI impI)
  fix v ret err v' ret' err'
  assume e: "on_slice f v (ret, err) = (v', ret', err')"
  show "repaired v v' \<and> (ret' \<longleftrightarrow> ret \<or> (\<exists>x \<in> set (slice_places r v). bad x)) \<and>
      err' = (if \<exists>x \<in> set (slice_places r v). deep x then Some depthError else err) \<and>
      (\<forall>x \<in> set (slice_places r v'). \<not> bad x) \<and> ((\<forall>x \<in> set (slice_places r v). \<not> bad x) \<longrightarrow> v' = v)"
  proof (cases "\<exists>xs. v = MSlice xs")
    case True
    then obtain xs where v: "v = MSlice xs" by blast
    with e obtain ys where ys: "for_each f xs (ret, err) = (ys, ret', err')" "v' = MSlice ys"
      by (auto simp: on_slice_def split: prod.splits)
    note F = repairsD[OF repairs_each[OF assms] ys(1), unfolded fst_conv snd_conv]
    have p: "slice_places r v = concat (map (places r) xs)" "slice_places r v' = concat (map (places r) ys)"
      by (simp_all add: v ys(2) slice_places_def)
    have "repaired v v'" using repaired_items[OF F(1), of "[]"] by (simp add: v ys(2))
    moreover have "v' = v" if "\<forall>x \<in> set (concat (map (places r) xs)). \<not> bad x" using F(5)[OF that] by (simp add: v ys(2))
    ultimately show ?thesis unfolding p using F(2-4) by blast
  next
    case False
    with e have "v' = v" "ret' = ret" "err' = err" by (auto simp: on_slice_def split: msg122.splits)
    moreover have "slice_places r v = []" using False by (auto simp: slice_places_def split: msg122.splits)
    ultimately show ?thesis using repairs_idle[of "slice_places r"] by simp
  qed
qed

lemma repairs_oneof:
  assumes "\<And>n. repairs (places_cases cs n) repaired (f n)"
  shows "repairs (oneof_places cs) repaired (on_oneof f)"
  unfolding repairs_def
proof (intro allI impI)
  fix v ret err v' ret' err'
  assume e: "on_oneof f v (ret, err) = (v', ret', err')"
  show "repaired v v' \<and> (ret' \<longleftrightarrow> ret \<or> (\<exists>x \<in> set (oneof_places cs v). bad x)) \<and>
      err' = (if \<exists>x \<in> set (oneof_places cs v). deep x then Some depthError else err) \<and>
      (\<forall>x \<in> set (oneof_places cs v'). \<not> bad x) \<and> ((\<forall>x \<in> set (oneof_places cs v). \<not> bad x) \<longrightarrow> v' = v)"
  proof (cases "\<exists>n w. v = MOneof n w")
    case True
    then obtain n w where v: "v = MOneof n w" by blast
    with e obtain w' where w': "f n w (ret, err) = (w', ret', err')" "v' = MOneof n w'"
      by (auto simp: on_oneof_def split: prod.splits)
    note F = repairsD[OF assms w'(1), unfolded fst_conv snd_conv]
    have p: "oneof_places cs v = places_cases cs n w" "oneof_places cs v' = places_cases cs n w'"
      by (simp_all add: v w'(2) oneof_places_def)
    have "repaired v v'" using repaired.oneof[OF F(1)] by (simp add: v w'(2))
    moreover have "v' = v" if "\<forall>x \<in> set (places_cases cs n w). \<not> bad x" using F(5)[OF that] by (simp add: v w'(2))
    ultimately show ?thesis unfolding p using F(2-4) by blast
  next
    case False
    with e have "v' = v" "ret' = ret" "err' = err" by (auto simp: on_oneof_def split: msg122.splits)
    moreover have "oneof_places cs v = []" using False by (auto simp: oneof_places_def split: msg122.splits)
    ultimately show ?thesis using repairs_idle[of "oneof_places cs"] by simp
  qed
qed

lemma repairs_failure: "repairs (places RepairFailure) repaired (repair RepairFailure)"
  unfolding repairs_def
  by (auto simp: repair_failure_spec fixed_id intro: repaired.same repaired.failure split: msg122.splits if_splits)

lemma places_MNil [simp]:
  "places r MNil = []" "places_cases cs n MNil = []" "places_block b MNil = []"
  by (induction r and cs and b) (simp_all add: get122_def)

lemma repair_each_field:
  "repair (ForEach f r) m st = (let (v, st') = on_slice (repair r) (get122 m f) st in (put122 m f v, st'))"
  using put_get[of m f] by (auto simp: on_slice_def split: msg122.splits prod.splits)

lemma repair_oneof_field:
  "repair (OneofSwitch f cs) m st = (let (v, st') = on_oneof (repair_cases cs) (get122 m f) st in (put122 m f v, st'))"
  using put_get[of m f] by (auto simp: on_oneof_def split: msg122.splits prod.splits)

lemma repair_repairs:
  "repairs (places r) repaired (repair r)" "\<forall>n. repairs (places_cases cs n) repaired (repair_cases cs n)"
  "repairs (places_block b) repaired (repair_block b)"
proof (induction r and cs and b)
  case (Field f r)
  from repairs_field[OF this, of f] show ?case by simp
next
  case (ForEach f r)
  have e: "repair (ForEach f r) = (\<lambda>m st. let (v, st') = on_slice (repair r) (get122 m f) st in (put122 m f v, st'))"
    by (intro ext) (rule repair_each_field)
  have p: "places (ForEach f r) = (\<lambda>m. slice_places r (get122 m f))" by (simp add: slice_places_def fun_eq_iff)
  show ?case unfolding e p by (rule repairs_field[OF repairs_slice[OF ForEach]]) (simp add: slice_places_def)
next
  case (OneofSwitch f cs)
  have e: "repair (OneofSwitch f cs) = (\<lambda>m st. let (v, st') = on_oneof (repair_cases cs) (get122 m f) st in (put122 m f v, st'))"
    by (intro ext) (rule repair_oneof_field)
  have p: "places (OneofSwitch f cs) = (\<lambda>m. oneof_places cs (get122 m f))" by (simp add: oneof_places_def fun_eq_iff)
  show ?case unfolding e p by (rule repairs_field[OF repairs_oneof[OF OneofSwitch[rule_format]]]) (simp add: oneof_places_def)
next
  case (Block b)
  then show ?case by (simp add: repairs_def)
next
  case RepairFailure
  show ?case by (rule repairs_failure)
next
  case NoCase
  show ?case unfolding repairs_def by (simp add: repaired.same)
next
  case (Case k r cs)
  then show ?case by (simp add: repairs_def)
next
  case EmptyBlock
  show ?case unfolding repairs_def by (simp add: repaired.same)
next
  case (Stmt r b)
  have "or_fixed (places_block b m) (places_block b m')" if "repaired m m'" for m m'
    using repaired_places[OF that, of "Block b"] by simp
  from repairs_seq[OF Stmt repaired_places this] show ?case by simp
qed

lemma repair_spec:
  assumes "RepairInvalidUTF8 ty m = (m', changed, err)"
  shows "repaired m m' \<and>
    (\<forall>f \<in> set (failures_of ty m'). \<forall>msg \<in> set (take 10 (messages f)). ValidString msg) \<and>
    (changed \<longleftrightarrow> (\<exists>f \<in> set (failures_of ty m). \<exists>msg \<in> set (take 10 (messages f)). \<not> ValidString msg)) \<and>
    (\<not> changed \<longrightarrow> m' = m) \<and>
    (err \<noteq> None \<longleftrightarrow> (\<exists>f \<in> set (failures_of ty m). 10 < length (messages f))) \<and>
    (err = None \<longrightarrow> (\<forall>f \<in> set (failures_of ty m'). \<forall>msg \<in> set (messages f). ValidString msg))"
proof (cases "map_of repairers ty")
  case None
  with assms show ?thesis by (auto simp: RepairInvalidUTF8_def failures_of_def repaired.same)
next
  case (Some r)
  with assms have 1: "repair r m (False, None) = (m', changed, err)" by (simp add: RepairInvalidUTF8_def)
  note F = repairsD[OF repair_repairs(1) 1, unfolded fst_conv snd_conv]
  have p: "failures_of ty = places r" by (simp add: failures_of_def fun_eq_iff Some)
  have ten: "maxFailureDepth = 10" by (simp add: maxFailureDepth_def)
  have valid: "\<forall>msg \<in> set (take 10 (messages f)). ValidString msg" if "f \<in> set (places r m')" for f
    using F(4)[OF that] by (simp add: bad_def ten)
  have "\<not> (\<exists>f \<in> set (places r m). deep f)" if "err = None" using F(3) that by (auto split: if_splits)
  then have "\<not> (\<exists>f \<in> set (places r m'). deep f)" if "err = None" using or_fixed_deep[OF repaired_places[OF F(1)]] that by blast
  then have "\<forall>f \<in> set (places r m'). take 10 (messages f) = messages f" if "err = None"
    using that by (auto simp: deep_def ten not_less)
  with valid have "\<forall>f \<in> set (places r m'). \<forall>msg \<in> set (messages f). ValidString msg" if "err = None" using that by fastforce
  with F(1,2,3,5) valid show ?thesis unfolding p by (auto simp: bad_def deep_def ten)
qed

section \<open>Properties\<close>


text \<open>A task whose last failure has one byte that is not UTF-8.\<close>

definition exTask122 :: msg122 where
  "exTask122 = MMsg [(''LastFailure'', MFailure (Failure122 [char_of (255::nat)] [] NilFailure))]"

lemma exTask122_failures:
  "failures_of ''serverapireplication.SyncActivityTaskAttributes'' exTask122 = [Failure122 [char_of (255::nat)] [] NilFailure]"
  by (simp add: failures_of_def repairers_def repair_SyncActivityTaskAttributes_def exTask122_def get122_def)

lemma byte_255_invalid: "\<not> ValidString [char_of (255::nat)]"
  by (subst ValidString.simps) (simp add: rune_len_def first_ranges_def of_char_of)


end
