(* ===== verification/Serializer122.thy ===== *)
theory Serializer122
  imports Prelude
begin

text \<open>
  \<^verbatim>\<open>proto/1_22/server/common/persistence/serialization/serializer.go\<close>: the serializer of the 1.22 protocol, with
  which history events are read that the current one refuses. Encoding and decoding of the messages
  themselves is generated code, the arguments \<open>marshal\<close> and \<open>unmarshal\<close>; generated encoders allocate their
  result, so the branch of \<open>serialize\<close> for nil data is not reached and has no counterpart.
\<close>

section \<open>Data blobs\<close>

record dataBlob =
  B_encoding :: nat
  B_data :: string

abbreviation ENCODING_TYPE_PROTO3 :: nat where "ENCODING_TYPE_PROTO3 \<equiv> 1"
abbreviation ENCODING_TYPE_JSON :: nat where "ENCODING_TYPE_JSON \<equiv> 2"

definition EncodingType_String :: "nat \<Rightarrow> string" where
  "EncodingType_String t =
     (if t = 0 then ''Unspecified'' else if t = ENCODING_TYPE_PROTO3 then ''Proto3''
      else if t = ENCODING_TYPE_JSON then ''Json'' else show_nat t)"

fun join_comma :: "string list \<Rightarrow> string" where
  "join_comma [] = []"
| "join_comma [s] = s"
| "join_comma (s # ss) = s @ '','' @ join_comma ss"

definition UnknownEncodingTypeError :: "string \<Rightarrow> nat list \<Rightarrow> string" where
  "UnknownEncodingTypeError enc expected =
     ''unknown or unsupported encoding type '' @ enc @ '', supported types: '' @ join_comma (map EncodingType_String expected)"

definition SerializationError :: "nat \<Rightarrow> string \<Rightarrow> string" where
  "SerializationError enc err = ''error serializing using '' @ EncodingType_String enc @ '' encoding: '' @ err"

definition DeserializationError :: "nat \<Rightarrow> string \<Rightarrow> string" where
  "DeserializationError enc err = ''error deserializing using '' @ EncodingType_String enc @ '' encoding: '' @ err"

section \<open>Events and cluster metadata\<close>

definition serialize :: "('m \<Rightarrow> string + string) \<Rightarrow> 'm option \<Rightarrow> nat \<Rightarrow> string + dataBlob option" where
  "serialize marshal p enc =
     (case p of
        None \<Rightarrow> Inr None
      | Some m \<Rightarrow>
          if enc \<noteq> ENCODING_TYPE_PROTO3 then Inl (UnknownEncodingTypeError (EncodingType_String enc) [ENCODING_TYPE_PROTO3])
          else (case marshal m of
                  Inl err \<Rightarrow> Inl (SerializationError ENCODING_TYPE_PROTO3 err)
                | Inr data \<Rightarrow> Inr (Some \<lparr>B_encoding = enc, B_data = data\<rparr>)))"

definition deserialize :: "(string \<Rightarrow> string + 'm) \<Rightarrow> dataBlob option \<Rightarrow> string + 'm option" where
  "deserialize unmarshal data =
     (case data of
        None \<Rightarrow> Inr None
      | Some blob \<Rightarrow>
          if B_data blob = [] then Inr None
          else if B_encoding blob \<noteq> ENCODING_TYPE_PROTO3
          then Inl (UnknownEncodingTypeError (EncodingType_String (B_encoding blob)) [ENCODING_TYPE_PROTO3])
          else (case unmarshal (B_data blob) of Inl err \<Rightarrow> Inl err | Inr m \<Rightarrow> Inr (Some m)))"

text \<open>The history is its list of events; a nil slice is the empty list.\<close>

definition SerializeEvents122 :: "('e list \<Rightarrow> string + string) \<Rightarrow> 'e list \<Rightarrow> nat \<Rightarrow> string + dataBlob option" where
  "SerializeEvents122 marshal events enc = serialize marshal (Some events) enc"

definition DeserializeEvents122 :: "(string \<Rightarrow> string + 'e list) \<Rightarrow> dataBlob option \<Rightarrow> string + 'e list" where
  "DeserializeEvents122 unmarshal data =
     (case deserialize unmarshal data of Inl err \<Rightarrow> Inl err | Inr None \<Rightarrow> Inr [] | Inr (Some events) \<Rightarrow> Inr events)"

definition SerializeEvent :: "('e \<Rightarrow> string + string) \<Rightarrow> 'e option \<Rightarrow> nat \<Rightarrow> string + dataBlob option" where
  "SerializeEvent marshal event enc = (case event of None \<Rightarrow> Inr None | Some e \<Rightarrow> serialize marshal (Some e) enc)"

definition DeserializeEvent :: "(string \<Rightarrow> string + 'e) \<Rightarrow> dataBlob option \<Rightarrow> string + 'e option" where
  "DeserializeEvent unmarshal data = deserialize unmarshal data"

definition SerializeClusterMetadata :: "('m \<Rightarrow> string + string) \<Rightarrow> 'm \<Rightarrow> 'm option \<Rightarrow> nat \<Rightarrow> string + dataBlob option" where
  "SerializeClusterMetadata marshal blank cm enc =
     serialize marshal (Some (case cm of None \<Rightarrow> blank | Some m \<Rightarrow> m)) enc"

definition DeserializeClusterMetadata :: "(string \<Rightarrow> string + 'm) \<Rightarrow> dataBlob option \<Rightarrow> string + 'm option" where
  "DeserializeClusterMetadata unmarshal data = deserialize unmarshal data"

section \<open>Persisted messages\<close>

definition ProtoEncodeBlob :: "('m \<Rightarrow> string + string) \<Rightarrow> 'm option \<Rightarrow> nat \<Rightarrow> string + dataBlob" where
  "ProtoEncodeBlob marshal m enc =
     (if enc \<noteq> ENCODING_TYPE_PROTO3 then Inl (UnknownEncodingTypeError (EncodingType_String enc) [ENCODING_TYPE_PROTO3])
      else (case m of
              None \<Rightarrow> Inr \<lparr>B_encoding = enc, B_data = []\<rparr>
            | Some x \<Rightarrow>
                (case marshal x of
                   Inl err \<Rightarrow> Inl (SerializationError ENCODING_TYPE_PROTO3 err)
                 | Inr data \<Rightarrow> Inr \<lparr>B_encoding = ENCODING_TYPE_PROTO3, B_data = data\<rparr>)))"

definition ProtoDecodeBlob :: "(string \<Rightarrow> string + 'm) \<Rightarrow> dataBlob option \<Rightarrow> string + 'm" where
  "ProtoDecodeBlob unmarshal data =
     (case data of
        None \<Rightarrow> Inl (DeserializationError 0 ''cannot decode nil'')
      | Some blob \<Rightarrow>
          if B_encoding blob \<noteq> ENCODING_TYPE_PROTO3
          then Inl (UnknownEncodingTypeError (EncodingType_String (B_encoding blob)) [ENCODING_TYPE_PROTO3])
          else (case unmarshal (B_data blob) of Inl err \<Rightarrow> Inl (DeserializationError ENCODING_TYPE_PROTO3 err) | Inr m \<Rightarrow> Inr m))"

text \<open>\<open>flavored\<close> says that the flavor of a checksum is set.\<close>

definition ChecksumToBlob :: "('m \<Rightarrow> string + string) \<Rightarrow> 'm \<Rightarrow> 'm option \<Rightarrow> nat \<Rightarrow> string + dataBlob" where
  "ChecksumToBlob marshal blank checksum enc = ProtoEncodeBlob marshal (Some (case checksum of None \<Rightarrow> blank | Some c \<Rightarrow> c)) enc"

definition ChecksumFromBlob :: "(string \<Rightarrow> string + 'm) \<Rightarrow> ('m \<Rightarrow> bool) \<Rightarrow> dataBlob option \<Rightarrow> string + 'm option" where
  "ChecksumFromBlob unmarshal flavored data =
     (case ProtoDecodeBlob unmarshal data of Inl err \<Rightarrow> Inl err | Inr c \<Rightarrow> Inr (if flavored c then Some c else None))"

text \<open>The shard record: nil maps and slices are replaced by empty ones, on every level.\<close>

record 'x QueueReaderState =
  Scopes :: "'x list option"

record 'x QueueState =
  ReaderStates :: "(int \<times> 'x QueueReaderState) list option"
  readerHighWatermark :: string

record 'x shardInfo122 =
  ReplicationDlqAckLevel :: "(string \<times> int) list option"
  QueueStates :: "(int \<times> 'x QueueState) list option"
  shard_rest :: string

definition fill :: "'a list option \<Rightarrow> 'a list" where
  "fill x = (case x of None \<Rightarrow> [] | Some v \<Rightarrow> v)"

definition fill_reader :: "'x QueueReaderState \<Rightarrow> 'x QueueReaderState" where
  "fill_reader r = r\<lparr>Scopes := Some (fill (Scopes r))\<rparr>"

definition fill_queue :: "'x QueueState \<Rightarrow> 'x QueueState" where
  "fill_queue q = q\<lparr>ReaderStates := Some (map (\<lambda>(k, r). (k, fill_reader r)) (fill (ReaderStates q)))\<rparr>"

definition fill_shard :: "'x shardInfo122 \<Rightarrow> 'x shardInfo122" where
  "fill_shard s = s\<lparr>ReplicationDlqAckLevel := Some (fill (ReplicationDlqAckLevel s)),
     QueueStates := Some (map (\<lambda>(k, q). (k, fill_queue q)) (fill (QueueStates s)))\<rparr>"

definition ShardInfoToBlob :: "('x shardInfo122 \<Rightarrow> string + string) \<Rightarrow> 'x shardInfo122 option \<Rightarrow> nat \<Rightarrow> string + dataBlob" where
  "ShardInfoToBlob marshal info enc = ProtoEncodeBlob marshal info enc"

definition ShardInfoFromBlob :: "(string \<Rightarrow> string + 'x shardInfo122) \<Rightarrow> dataBlob option \<Rightarrow> string + 'x shardInfo122" where
  "ShardInfoFromBlob unmarshal data =
     (case ProtoDecodeBlob unmarshal data of Inl err \<Rightarrow> Inl err | Inr s \<Rightarrow> Inr (fill_shard s))"

section \<open>Reading what was written\<close>

text \<open>The generated code: a message can be encoded and decodes to itself, and no data is an empty message.\<close>

definition documented_proto :: "('m \<Rightarrow> string + string) \<Rightarrow> (string \<Rightarrow> string + 'm) \<Rightarrow> bool" where
  "documented_proto marshal unmarshal \<longleftrightarrow> (\<forall>m. \<exists>data. marshal m = Inr data \<and> unmarshal data = Inr m)"

lemma events_roundtrip:
  assumes "documented_proto marshal unmarshal" "unmarshal [] = Inr []"
  shows "\<exists>b. SerializeEvents122 marshal events ENCODING_TYPE_PROTO3 = Inr (Some b) \<and> B_encoding b = ENCODING_TYPE_PROTO3 \<and>
    DeserializeEvents122 unmarshal (Some b) = Inr events"
proof -
  obtain data where "marshal events = Inr data" "unmarshal data = Inr events"
    using assms(1) by (auto simp: documented_proto_def)
  with assms(2) show ?thesis
    by (cases "data = []") (auto simp: SerializeEvents122_def serialize_def DeserializeEvents122_def deserialize_def)
qed

lemma checksum_roundtrip:
  assumes "documented_proto marshal unmarshal" "\<not> flavored blank" "\<forall>c. checksum = Some c \<longrightarrow> flavored c"
  shows "\<exists>b. ChecksumToBlob marshal blank checksum ENCODING_TYPE_PROTO3 = Inr b \<and> ChecksumFromBlob unmarshal flavored (Some b) = Inr checksum"
proof -
  obtain data where "marshal (case checksum of None \<Rightarrow> blank | Some c \<Rightarrow> c) = Inr data"
    "unmarshal data = Inr (case checksum of None \<Rightarrow> blank | Some c \<Rightarrow> c)"
    using assms(1) by (auto simp: documented_proto_def)
  with assms(2,3) show ?thesis
    by (auto simp: ChecksumToBlob_def ChecksumFromBlob_def ProtoEncodeBlob_def ProtoDecodeBlob_def split: option.splits)
qed

lemma fill_shard_idem: "fill_shard (fill_shard s) = fill_shard s"
  by (simp add: fill_shard_def fill_queue_def fill_reader_def fill_def comp_def case_prod_beta split: option.split)

lemma shard_roundtrip:
  assumes "documented_proto marshal unmarshal"
  shows "\<exists>b. ShardInfoToBlob marshal (Some s) ENCODING_TYPE_PROTO3 = Inr b \<and> ShardInfoFromBlob unmarshal (Some b) = Inr (fill_shard s)"
proof -
  obtain data where "marshal s = Inr data" "unmarshal data = Inr s" using assms by (auto simp: documented_proto_def)
  then show ?thesis by (simp add: ShardInfoToBlob_def ShardInfoFromBlob_def ProtoEncodeBlob_def ProtoDecodeBlob_def)
qed

end
