(* ===== verification/Translation.thy ===== *)
theory Translation
  imports NameMapping RepairUTF8 Serializer122
begin

text \<open>
  \<^verbatim>\<open>interceptor/reflection.go\<close> and the translators of \<^verbatim>\<open>interceptor/translator.go\<close>,
  \<^verbatim>\<open>search_attribute_translator.go\<close> and \<^verbatim>\<open>translation_interceptor.go\<close>: the rewriting of namespace names
  and search attributes in the messages that pass through the proxy.

  A message is a tree of values. The traversal is that of the package \<^verbatim>\<open>visit\<close>, the argument
  \<open>Values\<close>; the serializer of history events and the encoding of a history of the 1.22 protocol are the
  fields of \<open>codec\<close>.
\<close>

section \<open>Messages as trees\<close>

text \<open>
  \<open>VMsg\<close> is a pointer to a struct of the named type with its fields: name, whether it is exported,
  and value. \<open>VList\<close> is a slice of the named element type, \<open>VMap\<close> a map to payloads. Data blobs and
  slices of them are leaves; \<open>VScalar\<close> is every other value.
\<close>

datatype val =
    VNil
  | VStr string
  | VEnum string
  | VScalar
  | VList string "val list"
  | VMap "(string \<times> val) list"
  | VMsg string "(string \<times> bool \<times> val) list"
  | VBlob dataBlob
  | VBlobs "dataBlob option list"

fun depth :: "val \<Rightarrow> nat" where
  "depth (VList t vs) = Suc (Max (insert 0 (set (map depth vs))))"
| "depth (VMap kvs) = Suc (Max (insert 0 (set (map (\<lambda>(k, v). depth v) kvs))))"
| "depth (VMsg t fs) = Suc (Max (insert 0 (set (map (\<lambda>(n, x, v). depth v) fs))))"
| "depth _ = 0"

definition field :: "(string \<times> bool \<times> val) list \<Rightarrow> string \<Rightarrow> val" where
  "field fs n = (case map_of fs n of Some (x, v) \<Rightarrow> v | None \<Rightarrow> VNil)"

definition set_field :: "string \<Rightarrow> val \<Rightarrow> (string \<times> bool \<times> val) list \<Rightarrow> (string \<times> bool \<times> val) list" where
  "set_field n v fs = map (\<lambda>(m, x, w). (m, x, if m = n then v else w)) fs"

definition str_of :: "val \<Rightarrow> string" where
  "str_of v = (case v of VStr s \<Rightarrow> s | _ \<Rightarrow> [])"

definition list_of :: "val \<Rightarrow> val list" where
  "list_of v = (case v of VList t vs \<Rightarrow> vs | _ \<Rightarrow> [])"

definition fields_of :: "val \<Rightarrow> (string \<times> bool \<times> val) list" where
  "fields_of v = (case v of VMsg t fs \<Rightarrow> fs | _ \<Rightarrow> [])"

section \<open>Names the visitors look for\<close>

definition namespaceFieldNames :: "string list" where
  "namespaceFieldNames = [''Namespace'', ''WorkflowNamespace'', ''ParentWorkflowNamespace'']"

definition dataBlobFieldNames :: "string list" where
  "dataBlobFieldNames = [''Events'', ''NewRunEvents'', ''EventBatch'', ''EventBatches'', ''EventsBatches'', ''HistoryBatches'']"

definition searchAttributeFieldNames :: "string list" where
  "searchAttributeFieldNames = [''SearchAttributes'']"

definition namespaceTranslationSkippableHistoryEvents :: "string list" where
  "namespaceTranslationSkippableHistoryEvents =
     [''WORKFLOW_EXECUTION_COMPLETED'', ''WORKFLOW_EXECUTION_FAILED'', ''WORKFLOW_EXECUTION_TIMED_OUT'',
      ''WORKFLOW_TASK_SCHEDULED'', ''WORKFLOW_TASK_STARTED'', ''WORKFLOW_TASK_COMPLETED'', ''WORKFLOW_TASK_TIMED_OUT'',
      ''WORKFLOW_TASK_FAILED'', ''ACTIVITY_TASK_SCHEDULED'', ''ACTIVITY_TASK_STARTED'', ''ACTIVITY_TASK_COMPLETED'',
      ''ACTIVITY_TASK_FAILED'', ''ACTIVITY_TASK_TIMED_OUT'', ''ACTIVITY_TASK_CANCEL_REQUESTED'', ''ACTIVITY_TASK_CANCELED'',
      ''TIMER_STARTED'', ''TIMER_FIRED'', ''TIMER_CANCELED'', ''WORKFLOW_EXECUTION_CANCEL_REQUESTED'',
      ''WORKFLOW_EXECUTION_CANCELED'', ''MARKER_RECORDED'', ''WORKFLOW_EXECUTION_SIGNALED'',
      ''WORKFLOW_EXECUTION_TERMINATED'', ''WORKFLOW_EXECUTION_CONTINUED_AS_NEW'', ''UPSERT_WORKFLOW_SEARCH_ATTRIBUTES'',
      ''WORKFLOW_EXECUTION_UPDATE_ADMITTED'', ''WORKFLOW_EXECUTION_UPDATE_ACCEPTED'', ''WORKFLOW_EXECUTION_UPDATE_REJECTED'',
      ''WORKFLOW_EXECUTION_UPDATE_COMPLETED'', ''WORKFLOW_PROPERTIES_MODIFIED_EXTERNALLY'',
      ''ACTIVITY_PROPERTIES_MODIFIED_EXTERNALLY'', ''WORKFLOW_PROPERTIES_MODIFIED'', ''NEXUS_OPERATION_SCHEDULED'',
      ''NEXUS_OPERATION_STARTED'', ''NEXUS_OPERATION_COMPLETED'', ''NEXUS_OPERATION_FAILED'', ''NEXUS_OPERATION_CANCELED'',
      ''NEXUS_OPERATION_TIMED_OUT'', ''NEXUS_OPERATION_CANCEL_REQUESTED'', ''WORKFLOW_EXECUTION_OPTIONS_UPDATED'',
      ''WORKFLOW_EXECUTION_PAUSED'', ''WORKFLOW_EXECUTION_UNPAUSED'', ''WORKFLOW_EXECUTION_TIME_SKIPPING_TRANSITIONED'']"

text \<open>The namespace of a link to a workflow event; empty for every other link.\<close>

definition link_namespace :: "val \<Rightarrow> string" where
  "link_namespace l =
     str_of (field (fields_of (field (fields_of (field (fields_of l) ''Variant'')) ''WorkflowEvent'')) ''Namespace'')"

definition event_skippable :: "val \<Rightarrow> bool" where
  "event_skippable evt =
     (if \<exists>l \<in> set (list_of (field (fields_of evt) ''Links'')). length (link_namespace l) > 0 then False
      else (case field (fields_of evt) ''EventType'' of
              VEnum t \<Rightarrow> t \<in> set namespaceTranslationSkippableHistoryEvents
            | _ \<Rightarrow> False))"

definition isSkippableForNamespaceTranslation :: "val \<Rightarrow> bool" where
  "isSkippableForNamespaceTranslation v =
     (case v of
        VMsg t fs \<Rightarrow>
          if t = ''ListWorkflowExecutionsResponse'' then True
          else if t = ''HistoryEvent'' then event_skippable v
          else False
      | VList t evts \<Rightarrow> if t = ''HistoryEvent'' then list_all event_skippable evts else False
      | _ \<Rightarrow> False)"

section \<open>Traversal\<close>

datatype visit_error = VisitErr string | VisitFuel

datatype action = ActContinue | ActSkip | ActStop visit_error

text \<open>
  A callback sees the fields of structs: every visitor returns at once for a value whose parent is
  not a struct. It gives the action, the value that is there afterwards and the flag.
\<close>

type_synonym callback = "string \<Rightarrow> bool \<Rightarrow> val \<Rightarrow> bool \<Rightarrow> action \<times> val \<times> bool"
type_synonym visited = "val \<times> bool \<times> visit_error option"
type_synonym walker = "callback \<Rightarrow> val \<Rightarrow> bool \<Rightarrow> visited"

fun walk_list :: "(val \<Rightarrow> bool \<Rightarrow> visited) \<Rightarrow> val list \<Rightarrow> bool \<Rightarrow> val list \<times> bool \<times> visit_error option" where
  "walk_list f [] m = ([], m, None)"
| "walk_list f (v # vs) m =
     (case f v m of
        (v, m, Some e) \<Rightarrow> (v # vs, m, Some e)
      | (v, m, None) \<Rightarrow> let (vs, m, e) = walk_list f vs m in (v # vs, m, e))"

fun walk_fields ::
  "(val \<Rightarrow> bool \<Rightarrow> visited) \<Rightarrow> callback \<Rightarrow> (string \<times> bool \<times> val) list \<Rightarrow> bool \<Rightarrow>
   (string \<times> bool \<times> val) list \<times> bool \<times> visit_error option" where
  "walk_fields f cb [] m = ([], m, None)"
| "walk_fields f cb ((n, x, v) # fs) m =
     (case (case cb n x v m of
              (ActStop e, v, m) \<Rightarrow> (v, m, Some e)
            | (ActSkip, v, m) \<Rightarrow> (v, m, None)
            | (ActContinue, v, m) \<Rightarrow> f v m) of
        (v, m, Some e) \<Rightarrow> ((n, x, v) # fs, m, Some e)
      | (v, m, None) \<Rightarrow> let (fs, m, e) = walk_fields f cb fs m in ((n, x, v) # fs, m, e))"

text \<open>
  The documented behaviour of \<^verbatim>\<open>visit.Values\<close>: a value is visited before its parts, which are not
  visited after \<open>ActSkip\<close>; \<open>ActStop\<close> ends the traversal. The first argument bounds the depth.
\<close>

primrec walk :: "nat \<Rightarrow> walker" where
  "walk 0 cb v m = (v, m, None)"
| "walk (Suc d) cb v m =
     (case v of
        VMsg t fs \<Rightarrow> let (fs, m, e) = walk_fields (walk d cb) cb fs m in (VMsg t fs, m, e)
      | VList t vs \<Rightarrow> let (vs, m, e) = walk_list (walk d cb) vs m in (VList t vs, m, e)
      | VMap kvs \<Rightarrow> let (vs, m, e) = walk_list (walk d cb) (map snd kvs) m in (VMap (zip (map fst kvs) vs), m, e)
      | _ \<Rightarrow> (v, m, None))"

definition documented_walk :: "walker \<Rightarrow> bool" where
  "documented_walk Values \<longleftrightarrow> (\<forall>cb v m. Values cb v m = walk (depth v) cb v m)"

section \<open>Data blobs\<close>

record codec =
  DeserializeEvents :: "dataBlob \<Rightarrow> string + val list"
  SerializeEvents :: "val list \<Rightarrow> string + dataBlob"
  History122_Unmarshal :: "string \<Rightarrow> string + msg122 list"
  History122_Marshal :: "msg122 list \<Rightarrow> string + string"

type_synonym stringMatcher = "string \<Rightarrow> string \<times> bool"

definition to_lower :: "string \<Rightarrow> string" where
  "to_lower s = map (\<lambda>c. if 65 \<le> (of_char c :: nat) \<and> (of_char c :: nat) \<le> 90 then char_of (of_char c + 32 :: nat) else c) s"

fun str_contains :: "string \<Rightarrow> string \<Rightarrow> bool" where
  "str_contains [] sub = (sub = [])"
| "str_contains (c # s) sub = (take (length sub) (c # s) = sub \<or> str_contains s sub)"

definition IsInvalidUTF8Error :: "string \<Rightarrow> bool" where
  "IsInvalidUTF8Error err = str_contains (to_lower err) ''invalid utf-8''"

fun validateAndRepairHistoryEvents :: "msg122 list \<Rightarrow> msg122 list \<times> bool \<times> string option" where
  "validateAndRepairHistoryEvents [] = ([], False, None)"
| "validateAndRepairHistoryEvents (e # es) =
     (case RepairInvalidUTF8 ''apihistory.HistoryEvent'' e of
        (e, ch, Some err) \<Rightarrow> (e # es, ch, Some err)
      | (e, ch, None) \<Rightarrow>
          let (es, ch', err) = validateAndRepairHistoryEvents es in (e # es, ch \<or> ch', err))"

text \<open>The repaired events, whether anything was repaired, and the error.\<close>

definition tryRepairInvalidUTF8InBlob ::
  "'c codec_scheme \<Rightarrow> dataBlob \<Rightarrow> val list \<times> bool \<times> string option" where
  "tryRepairInvalidUTF8InBlob c blob =
     (let encodingType122 = B_encoding blob
      in case DeserializeEvents122 (History122_Unmarshal c) (Some \<lparr>B_encoding = encodingType122, B_data = B_data blob\<rparr>) of
           Inl err \<Rightarrow> ([], False, Some err)
         | Inr events122 \<Rightarrow>
             (case validateAndRepairHistoryEvents events122 of
                (es, changed, Some err) \<Rightarrow> ([], changed, Some err)
              | (es, False, None) \<Rightarrow> ([], False, None)
              | (es, True, None) \<Rightarrow>
                  (case SerializeEvents122 (History122_Marshal c) es encodingType122 of
                     Inl err \<Rightarrow> ([], True, Some err)
                   | Inr repairedEvents \<Rightarrow>
                       (case DeserializeEvents c (blob\<lparr>B_data := (case repairedEvents of Some b \<Rightarrow> B_data b | None \<Rightarrow> [])\<rparr>) of
                          Inl err \<Rightarrow> ([], True, Some err)
                        | Inr events \<Rightarrow> (events, True, None)))))"

text \<open>
  \<open>visitor\<close> is applied to the slice of events. The result is the blob, whether a name matched,
  whether the blob was repaired, and the error.
\<close>

definition translateOneDataBlob ::
  "'c codec_scheme \<Rightarrow> (val \<Rightarrow> visited) \<Rightarrow> dataBlob option \<Rightarrow> dataBlob option \<times> bool \<times> bool \<times> visit_error option" where
  "translateOneDataBlob c visitor blob =
     (case blob of
        None \<Rightarrow> (None, False, False, None)
      | Some b \<Rightarrow>
          if B_data b = [] then (blob, False, False, None)
          else
            let decoded =
                  (case DeserializeEvents c b of
                     Inr events \<Rightarrow> (events, False, None)
                   | Inl err \<Rightarrow>
                       if \<not> IsInvalidUTF8Error err then ([], False, Some err)
                       else tryRepairInvalidUTF8InBlob c b)
            in (case decoded of
                  (_, changed, Some err) \<Rightarrow> (blob, False, changed, Some (VisitErr err))
                | (events, changed, None) \<Rightarrow>
                    (case visitor (VList ''HistoryEvent'' events) of
                       (v, matched, Some err) \<Rightarrow> (blob, matched, changed, Some err)
                     | (v, matched, None) \<Rightarrow>
                         if matched \<or> changed then
                           (case SerializeEvents c (list_of v) of
                              Inr b \<Rightarrow> (Some b, matched, changed, None)
                            | Inl err \<Rightarrow> (None, matched, changed, Some (VisitErr err)))
                         else (blob, matched, changed, None))))"

text \<open>The slice is updated in place: blobs before an error stay translated.\<close>

fun translateDataBlobs ::
  "'c codec_scheme \<Rightarrow> (val \<Rightarrow> visited) \<Rightarrow> dataBlob option list \<Rightarrow>
   dataBlob option list \<times> bool \<times> bool \<times> visit_error option" where
  "translateDataBlobs c visitor [] = ([], False, False, None)"
| "translateDataBlobs c visitor (b # bs) =
     (case translateOneDataBlob c visitor b of
        (b', matched, changed, Some err) \<Rightarrow> (b # bs, matched, changed, Some err)
      | (b', matched, changed, None) \<Rightarrow>
          let (bs', matched', changed', err) = translateDataBlobs c visitor bs
          in (b' # bs', matched \<or> matched', changed \<or> changed', err))"

definition visitDataBlobs :: "'c codec_scheme \<Rightarrow> (val \<Rightarrow> visited) \<Rightarrow> val \<Rightarrow> visited" where
  "visitDataBlobs c visitor v =
     (case v of
        VBlobs bs \<Rightarrow> let (bs, matched, changed, err) = translateDataBlobs c visitor bs in (VBlobs bs, matched, err)
      | VBlob b \<Rightarrow>
          (case translateOneDataBlob c visitor (Some b) of
             (b', matched, changed, Some err) \<Rightarrow> (v, matched, Some err)
           | (b', matched, changed, None) \<Rightarrow>
               if matched \<or> changed then (case b' of Some b \<Rightarrow> VBlob b | None \<Rightarrow> VNil, matched, None)
               else (v, matched, None))
      | _ \<Rightarrow> (v, False, None))"

section \<open>\<^verbatim>\<open>visitNamespace\<close>\<close>

definition is_msg :: "string \<Rightarrow> val \<Rightarrow> bool" where
  "is_msg t v = (case v of VMsg u fs \<Rightarrow> u = t | _ \<Rightarrow> False)"

definition info_name :: "val \<Rightarrow> string" where
  "info_name v = str_of (field (fields_of v) ''Name'')"

definition set_name :: "string \<Rightarrow> val \<Rightarrow> val" where
  "set_name new v =
     (case v of
        VMsg t fs \<Rightarrow> VMsg t (map (\<lambda>(n, x, w). (n, x, if n = ''Name'' then (case w of VStr s \<Rightarrow> VStr new | _ \<Rightarrow> w) else w)) fs)
      | _ \<Rightarrow> v)"

definition set_events :: "val list \<Rightarrow> val \<Rightarrow> val" where
  "set_events evts v =
     (case v of
        VMsg t fs \<Rightarrow> VMsg t (map (\<lambda>(n, x, w). (n, x, if n = ''Events'' then (case w of VList u ws \<Rightarrow> VList u evts | _ \<Rightarrow> w) else w)) fs)
      | _ \<Rightarrow> v)"

text \<open>\<open>self\<close> is the visitor itself, which the callback calls for the events of a history and of a blob.\<close>

definition visit_events :: "(val \<Rightarrow> visited) \<Rightarrow> val list \<Rightarrow> bool \<Rightarrow> val list \<times> bool \<times> visit_error option" where
  "visit_events self evts m = walk_list (\<lambda>v m. let (v, m', e) = self v in (v, m \<or> m', e)) evts m"

definition namespace_callback ::
  "'c codec_scheme \<Rightarrow> stringMatcher \<Rightarrow> (val \<Rightarrow> visited) \<Rightarrow> callback" where
  "namespace_callback c match self name exported v matched =
     (if v = VNil then (ActSkip, v, matched)
      else if \<not> exported then (ActSkip, v, matched)
      else if is_msg ''NamespaceInfo'' v then
        let (newName, ok) = match (info_name v)
        in if \<not> ok then (ActContinue, v, matched) else (ActContinue, set_name newName v, True)
      else if is_msg ''History'' v then
        let (evts, m, err) = visit_events self (list_of (field (fields_of v) ''Events'')) matched
        in (case err of Some e \<Rightarrow> ActStop e | None \<Rightarrow> ActSkip, set_events evts v, m)
      else if name \<in> set dataBlobFieldNames then
        let (v, m, err) = visitDataBlobs c self v
        in (case err of Some e \<Rightarrow> ActStop e | None \<Rightarrow> ActContinue, v, matched \<or> m)
      else if name \<in> set namespaceFieldNames then
        (case v of
           VStr s \<Rightarrow>
             let (newName, ok) = match s
             in if \<not> ok then (ActContinue, v, matched) else (ActContinue, VStr newName, True)
         | _ \<Rightarrow> (ActContinue, v, matched))
      else (ActContinue, v, matched))"

text \<open>The recursion through histories and blobs is bounded by the first argument.\<close>

primrec visitNamespace :: "nat \<Rightarrow> walker \<Rightarrow> 'c codec_scheme \<Rightarrow> stringMatcher \<Rightarrow> val \<Rightarrow> visited" where
  "visitNamespace 0 Values c match v = (v, False, Some VisitFuel)"
| "visitNamespace (Suc n) Values c match v =
     (if isSkippableForNamespaceTranslation v then (v, False, None)
      else Values (namespace_callback c match (visitNamespace n Values c match)) v False)"

section \<open>\<^verbatim>\<open>visitSearchAttributes\<close>\<close>

definition translateIndexedFields :: "stringMatcher \<Rightarrow> (string \<times> val) list \<Rightarrow> (string \<times> val) list \<times> bool" where
  "translateIndexedFields match kvs =
     fold (\<lambda>(key, v) (newIndexed, anyMatched).
        let (newKey, matched) = match key
        in (gput (if matched \<and> key \<noteq> newKey then newKey else key) v newIndexed, anyMatched \<or> matched)) kvs ([], False)"

definition attribute_callback ::
  "'c codec_scheme \<Rightarrow> stringMatcher \<Rightarrow> (val \<Rightarrow> visited) \<Rightarrow> callback" where
  "attribute_callback c match self name exported v matched =
     (if v = VNil then (ActSkip, v, matched)
      else if \<not> exported then (ActSkip, v, matched)
      else if name \<in> set dataBlobFieldNames then
        let (v, m, err) = visitDataBlobs c self v
        in (case err of Some e \<Rightarrow> ActStop e | None \<Rightarrow> ActContinue, v, matched \<or> m)
      else if name \<in> set searchAttributeFieldNames then
        (case v of
           VMsg t fs \<Rightarrow>
             if t = ''SearchAttributes'' then
               (case field fs ''IndexedFields'' of
                  VMap kvs \<Rightarrow>
                    let (kvs, changed) = translateIndexedFields match kvs
                    in (ActContinue, VMsg t (set_field ''IndexedFields'' (VMap kvs) fs), matched \<or> changed)
                | _ \<Rightarrow> (ActContinue, v, matched))
             else (ActStop (VisitErr ''unhandled search attribute type''), v, matched)
         | VMap kvs \<Rightarrow>
             let (kvs', changed) = translateIndexedFields match kvs
             in (ActContinue, if changed then VMap kvs' else v, matched \<or> changed)
         | _ \<Rightarrow> (ActStop (VisitErr ''unhandled search attribute type''), v, matched))
      else (ActContinue, v, matched))"

primrec visitSearchAttributes :: "nat \<Rightarrow> walker \<Rightarrow> 'c codec_scheme \<Rightarrow> stringMatcher \<Rightarrow> val \<Rightarrow> visited" where
  "visitSearchAttributes 0 Values c match v = (v, False, Some VisitFuel)"
| "visitSearchAttributes (Suc n) Values c match v =
     Values (attribute_callback c match (visitSearchAttributes n Values c match)) v False"

section \<open>Translators and the interceptor\<close>

definition createStringMatcher :: "(string, string) gomap \<Rightarrow> stringMatcher" where
  "createStringMatcher mapping name = (case gget mapping name of Some new \<Rightarrow> (new, True) | None \<Rightarrow> ([], False))"

text \<open>A translator: the methods it applies to and what it does to a request and to a response.\<close>

record Translator =
  MatchMethod :: "string \<Rightarrow> bool"
  TranslateRequest :: "val \<Rightarrow> visited"
  TranslateResponse :: "val \<Rightarrow> visited"

definition NewNamespaceNameTranslator ::
  "nat \<Rightarrow> walker \<Rightarrow> 'c codec_scheme \<Rightarrow> (string, string) gomap \<Rightarrow> (string, string) gomap \<Rightarrow> Translator" where
  "NewNamespaceNameTranslator n Values c reqMap respMap =
     \<lparr>MatchMethod = (\<lambda>_. True),
      TranslateRequest = visitNamespace n Values c (createStringMatcher reqMap),
      TranslateResponse = visitNamespace n Values c (createStringMatcher respMap)\<rparr>"

text \<open>Only the first mapping, in the iteration order of the map, is used.\<close>

definition first_matcher :: "(string, (string, string) gomap) gomap \<Rightarrow> stringMatcher" where
  "first_matcher ms = (case ms of (ns, m) # _ \<Rightarrow> createStringMatcher m | [] \<Rightarrow> createStringMatcher [])"

text \<open>The service prefixes belong to the server library.\<close>

record servicePrefixes =
  WorkflowServicePrefix :: string
  AdminServicePrefix :: string
  OperatorServicePrefix :: string

definition has_prefix :: "string \<Rightarrow> string \<Rightarrow> bool" where
  "has_prefix p s = (take (length p) s = p)"

definition NewSearchAttributeTranslator ::
  "servicePrefixes \<Rightarrow> nat \<Rightarrow> walker \<Rightarrow> 'c codec_scheme \<Rightarrow> (string, (string, string) gomap) gomap \<Rightarrow>
   (string, (string, string) gomap) gomap \<Rightarrow> Translator" where
  "NewSearchAttributeTranslator p n Values c reqMap respMap =
     \<lparr>MatchMethod = (\<lambda>m. \<not> has_prefix (WorkflowServicePrefix p) m),
      TranslateRequest = visitSearchAttributes n Values c (first_matcher reqMap),
      TranslateResponse = visitSearchAttributes n Values c (first_matcher respMap)\<rparr>"

text \<open>
  Translation errors are logged and the message goes on as the translators left it. \<open>disabled\<close> is
  the result of \<^verbatim>\<open>IsRequestTranslationDisabled\<close>; \<open>handler\<close> gives the response and the error.
\<close>

definition apply_translators :: "(Translator \<Rightarrow> val \<Rightarrow> visited) \<Rightarrow> string \<Rightarrow> Translator list \<Rightarrow> val \<Rightarrow> val" where
  "apply_translators f method trs v = fold (\<lambda>tr v. if MatchMethod tr method then fst (f tr v) else v) trs v"

definition Intercept ::
  "servicePrefixes \<Rightarrow> bool \<Rightarrow> Translator list \<Rightarrow> string \<Rightarrow> (val \<Rightarrow> val \<times> string option) \<Rightarrow> val \<Rightarrow> val \<times> string option" where
  "Intercept p disabled trs method handler req =
     (if disabled \<or> trs = [] \<or>
         (\<not> has_prefix (WorkflowServicePrefix p) method \<and> \<not> has_prefix (AdminServicePrefix p) method \<and>
          \<not> has_prefix (OperatorServicePrefix p) method)
      then handler req
      else
        let (resp, err) = handler (apply_translators TranslateRequest method trs req)
        in (apply_translators TranslateResponse method trs resp, err))"

text \<open>
  The wrapped stream. \<open>RecvMsg\<close> gets the message object of the caller, which is empty, translates
  it, and only then lets the stream fill it with \<open>received\<close>. \<open>SendMsg\<close> gives what is sent.
\<close>

definition RecvMsg :: "Translator list \<Rightarrow> val \<Rightarrow> string + val \<Rightarrow> string + val" where
  "RecvMsg trs m received =
     (let m = fold (\<lambda>tr v. fst (TranslateRequest tr v)) trs m
      in case received of Inl err \<Rightarrow> Inl err | Inr msg \<Rightarrow> Inr msg)"

definition SendMsg :: "Translator list \<Rightarrow> val \<Rightarrow> val" where
  "SendMsg trs m = fold (\<lambda>tr v. fst (TranslateResponse tr v)) trs m"

end
