(* ===== verification/TranslationSpec.thy ===== *)
theory TranslationSpec
  imports Translation
begin

text \<open>
  A reference for \<^verbatim>\<open>visitNamespace\<close>, without callbacks, state or errors: \<open>namespaces\<close> lists the
  namespace names a message mentions and \<open>subst_namespaces\<close> is the message with the matched names
  replaced. The visitor is shown to compute exactly these, for messages whose blobs decode.
\<close>

section \<open>The reference\<close>

definition hit :: "stringMatcher \<Rightarrow> string list \<Rightarrow> bool" where
  "hit match ns \<longleftrightarrow> (\<exists>n \<in> set ns. snd (match n))"

definition blob_names :: "(val \<Rightarrow> string list) \<Rightarrow> 'c codec_scheme \<Rightarrow> dataBlob option \<Rightarrow> string list" where
  "blob_names sub c b =
     (case b of
        None \<Rightarrow> []
      | Some b \<Rightarrow>
          if B_data b = [] then []
          else (case DeserializeEvents c b of Inr evts \<Rightarrow> sub (VList ''HistoryEvent'' evts) | Inl _ \<Rightarrow> []))"

text \<open>The names at one field, given those found below its value.\<close>

definition field_names ::
  "(val \<Rightarrow> string list) \<Rightarrow> 'c codec_scheme \<Rightarrow> string \<Rightarrow> bool \<Rightarrow> val \<Rightarrow> string list \<Rightarrow> string list" where
  "field_names sub c n x v below =
     (if v = VNil \<or> \<not> x then []
      else if is_msg ''NamespaceInfo'' v then info_name v # below
      else if is_msg ''History'' v then concat (map sub (list_of (field (fields_of v) ''Events'')))
      else if n \<in> set dataBlobFieldNames then
        (case v of
           VBlobs bs \<Rightarrow> concat (map (blob_names sub c) bs)
         | VBlob b \<Rightarrow> blob_names sub c (Some b)
         | _ \<Rightarrow> below)
      else if n \<in> set namespaceFieldNames then (case v of VStr s \<Rightarrow> [s] | _ \<Rightarrow> below)
      else below)"

fun names_in :: "(val \<Rightarrow> string list) \<Rightarrow> 'c codec_scheme \<Rightarrow> val \<Rightarrow> string list" where
  "names_in sub c (VMsg t fs) = concat (map (\<lambda>(n, x, v). field_names sub c n x v (names_in sub c v)) fs)"
| "names_in sub c (VList t vs) = concat (map (names_in sub c) vs)"
| "names_in sub c (VMap kvs) = concat (map (\<lambda>(k, v). names_in sub c v) kvs)"
| "names_in sub c _ = []"

primrec namespaces :: "nat \<Rightarrow> 'c codec_scheme \<Rightarrow> val \<Rightarrow> string list" where
  "namespaces 0 c v = []"
| "namespaces (Suc n) c v = (if isSkippableForNamespaceTranslation v then [] else names_in (namespaces n c) c v)"

definition blob_subst ::
  "stringMatcher \<Rightarrow> (val \<Rightarrow> string list) \<Rightarrow> (val \<Rightarrow> val) \<Rightarrow> 'c codec_scheme \<Rightarrow> dataBlob option \<Rightarrow> dataBlob option" where
  "blob_subst match sub s c b =
     (if \<not> hit match (blob_names sub c b) then b
      else
        (case b of
           None \<Rightarrow> None
         | Some b \<Rightarrow>
             (case DeserializeEvents c b of
                Inl _ \<Rightarrow> Some b
              | Inr evts \<Rightarrow>
                  (case SerializeEvents c (list_of (s (VList ''HistoryEvent'' evts))) of Inr b \<Rightarrow> Some b | Inl _ \<Rightarrow> Some b))))"

definition field_subst ::
  "stringMatcher \<Rightarrow> (val \<Rightarrow> string list) \<Rightarrow> (val \<Rightarrow> val) \<Rightarrow> 'c codec_scheme \<Rightarrow> string \<Rightarrow> bool \<Rightarrow> val \<Rightarrow> val \<Rightarrow> val" where
  "field_subst match sub s c n x v below =
     (if v = VNil \<or> \<not> x then v
      else if is_msg ''NamespaceInfo'' v then
        (if snd (match (info_name v)) then set_name (fst (match (info_name v))) below else below)
      else if is_msg ''History'' v then set_events (map s (list_of (field (fields_of v) ''Events''))) v
      else if n \<in> set dataBlobFieldNames then
        (case v of
           VBlobs bs \<Rightarrow> VBlobs (map (blob_subst match sub s c) bs)
         | VBlob b \<Rightarrow> (case blob_subst match sub s c (Some b) of Some b \<Rightarrow> VBlob b | None \<Rightarrow> VNil)
         | _ \<Rightarrow> below)
      else if n \<in> set namespaceFieldNames then
        (case v of VStr n \<Rightarrow> if snd (match n) then VStr (fst (match n)) else v | _ \<Rightarrow> below)
      else below)"

fun subst_in ::
  "stringMatcher \<Rightarrow> (val \<Rightarrow> string list) \<Rightarrow> (val \<Rightarrow> val) \<Rightarrow> 'c codec_scheme \<Rightarrow> val \<Rightarrow> val" where
  "subst_in match sub s c (VMsg t fs) =
     VMsg t (map (\<lambda>(n, x, v). (n, x, field_subst match sub s c n x v (subst_in match sub s c v))) fs)"
| "subst_in match sub s c (VList t vs) = VList t (map (subst_in match sub s c) vs)"
| "subst_in match sub s c (VMap kvs) = VMap (map (\<lambda>(k, v). (k, subst_in match sub s c v)) kvs)"
| "subst_in match sub s c v = v"

primrec subst_namespaces :: "nat \<Rightarrow> 'c codec_scheme \<Rightarrow> stringMatcher \<Rightarrow> val \<Rightarrow> val" where
  "subst_namespaces 0 c match v = v"
| "subst_namespaces (Suc n) c match v =
     (if isSkippableForNamespaceTranslation v then v
      else subst_in match (namespaces n c) (subst_namespaces n c match) c v)"

text \<open>
  The messages the reference covers: every blob that is reached decodes, and histories and blobs are
  nested at most as deep as the first argument says. The fields of a history have different names, as
  those of a struct have.
\<close>

definition blob_ok :: "(val \<Rightarrow> bool) \<Rightarrow> 'c codec_scheme \<Rightarrow> dataBlob option \<Rightarrow> bool" where
  "blob_ok good c b =
     (case b of
        None \<Rightarrow> True
      | Some b \<Rightarrow>
          B_data b = [] \<or> (case DeserializeEvents c b of Inr evts \<Rightarrow> good (VList ''HistoryEvent'' evts) | Inl _ \<Rightarrow> False))"

definition field_ok :: "(val \<Rightarrow> bool) \<Rightarrow> 'c codec_scheme \<Rightarrow> string \<Rightarrow> bool \<Rightarrow> val \<Rightarrow> bool \<Rightarrow> bool" where
  "field_ok good c n x v below =
     (if v = VNil \<or> \<not> x then True
      else if is_msg ''NamespaceInfo'' v then below
      else if is_msg ''History'' v then
        distinct (map fst (fields_of v)) \<and> list_all good (list_of (field (fields_of v) ''Events''))
      else if n \<in> set dataBlobFieldNames then
        (case v of
           VBlobs bs \<Rightarrow> list_all (blob_ok good c) bs
         | VBlob b \<Rightarrow> blob_ok good c (Some b)
         | _ \<Rightarrow> below)
      else below)"

fun ok_in :: "(val \<Rightarrow> bool) \<Rightarrow> 'c codec_scheme \<Rightarrow> val \<Rightarrow> bool" where
  "ok_in good c (VMsg t fs) \<longleftrightarrow> list_all (\<lambda>(n, x, v). field_ok good c n x v (ok_in good c v)) fs"
| "ok_in good c (VList t vs) \<longleftrightarrow> list_all (ok_in good c) vs"
| "ok_in good c (VMap kvs) \<longleftrightarrow> list_all (\<lambda>(k, v). ok_in good c v) kvs"
| "ok_in good c _ \<longleftrightarrow> True"

primrec visitable :: "nat \<Rightarrow> 'c codec_scheme \<Rightarrow> val \<Rightarrow> bool" where
  "visitable 0 c v \<longleftrightarrow> False"
| "visitable (Suc n) c v \<longleftrightarrow> isSkippableForNamespaceTranslation v \<or> ok_in (visitable n c) c v"

definition serializes :: "'c codec_scheme \<Rightarrow> bool" where
  "serializes c \<longleftrightarrow> (\<forall>evts. \<exists>b. SerializeEvents c evts = Inr b)"


section \<open>One level of the recursion\<close>

lemma hit_simps [simp]:
  "hit match [] = False"
  "hit match (n # ns) = (snd (match n) \<or> hit match ns)"
  "hit match (ns @ ms) = (hit match ns \<or> hit match ms)"
  by (auto simp: hit_def)

lemma walk_list_ref:
  "(\<And>v m. v \<in> set vs \<Longrightarrow> f v m = (s v, m \<or> hit match (N v), None)) \<Longrightarrow>
   walk_list f vs m = (map s vs, m \<or> hit match (concat (map N vs)), None)"
  by (induction vs arbitrary: m) (auto simp: case_prod_beta)

text \<open>What is known of the visitor one level down: the hypotheses of the lemmas of this section.\<close>

definition agrees ::
  "stringMatcher \<Rightarrow> (val \<Rightarrow> visited) \<Rightarrow> (val \<Rightarrow> bool) \<Rightarrow> (val \<Rightarrow> string list) \<Rightarrow> (val \<Rightarrow> val) \<Rightarrow> bool" where
  "agrees match self good sub s \<longleftrightarrow> (\<forall>w. good w \<longrightarrow> self w = (s w, hit match (sub w), None))"

lemma visit_events_ref:
  "agrees match self good sub s \<Longrightarrow> list_all good evts \<Longrightarrow>
   visit_events self evts m = (map s evts, m \<or> hit match (concat (map sub evts)), None)"
  unfolding visit_events_def by (rule walk_list_ref) (auto simp: agrees_def list_all_iff)

lemma translateOne_ref:
  assumes "agrees match self good sub s" "serializes c" "blob_ok good c b"
  shows "translateOneDataBlob c self b = (blob_subst match sub s c b, hit match (blob_names sub c b), False, None)"
proof (cases b)
  case (Some b')
  show ?thesis
  proof (cases "B_data b' = []")
    case False
    then obtain evts where e: "DeserializeEvents c b' = Inr evts" "good (VList ''HistoryEvent'' evts)"
      using assms(3) Some by (auto simp: blob_ok_def split: sum.splits)
    then have "self (VList ''HistoryEvent'' evts) =
        (s (VList ''HistoryEvent'' evts), hit match (sub (VList ''HistoryEvent'' evts)), None)"
      using assms(1) by (simp add: agrees_def)
    moreover obtain b'' where "SerializeEvents c (list_of (s (VList ''HistoryEvent'' evts))) = Inr b''"
      using assms(2) by (auto simp: serializes_def)
    ultimately show ?thesis
      using Some False e by (simp add: translateOneDataBlob_def blob_subst_def blob_names_def)
  qed (simp add: Some translateOneDataBlob_def blob_subst_def blob_names_def)
qed (simp add: translateOneDataBlob_def blob_subst_def blob_names_def)

lemma translateBlobs_ref:
  assumes "agrees match self good sub s" "serializes c"
  shows "list_all (blob_ok good c) bs \<Longrightarrow>
    translateDataBlobs c self bs = (map (blob_subst match sub s c) bs, hit match (concat (map (blob_names sub c) bs)), False, None)"
  by (induction bs) (simp_all add: translateOne_ref[OF assms])

lemma blob_subst_unmatched: "\<not> hit match (blob_names sub c b) \<Longrightarrow> blob_subst match sub s c b = b"
  by (simp add: blob_subst_def)

lemma depth_set_name [simp]: "depth (set_name new v) = depth v"
proof (cases v)
  case (VMsg t fs)
  have "map (\<lambda>(n, x, v). depth v)
      (map (\<lambda>(n, x, w). (n, x, if n = ''Name'' then (case w of VStr s \<Rightarrow> VStr new | _ \<Rightarrow> w) else w)) fs) =
    map (\<lambda>(n, x, v). depth v) fs"
    by (simp add: case_prod_beta split: val.split)
  then show ?thesis unfolding VMsg set_name_def by (simp only: val.case depth.simps)
qed (simp_all add: set_name_def)

lemma name_field_plain:
  "''Name'' \<notin> set dataBlobFieldNames" "''Name'' \<notin> set namespaceFieldNames"
  by (simp_all add: dataBlobFieldNames_def namespaceFieldNames_def)

text \<open>The name of a namespace is a leaf that no other case looks at.\<close>

lemma is_msg_leaf [simp]: "\<not> is_msg t (VStr s)"
  by (simp add: is_msg_def)

lemma set_name_commutes:
  "names_in sub c (set_name new v) = names_in sub c v"
  "ok_in good c (set_name new v) = ok_in good c v"
  "subst_in match sub s c (set_name new v) = set_name new (subst_in match sub s c v)"
proof -
  let ?g = "\<lambda>(n, x, w). (n, x, if n = ''Name'' then (case w of VStr s \<Rightarrow> VStr new | _ \<Rightarrow> w) else w)"
  have f: "field_names sub c ''Name'' x (VStr w) b = b \<or> field_names sub c ''Name'' x (VStr w) b = []"
    "field_subst match sub s c ''Name'' x (VStr w) (VStr w) = VStr w"
    "field_ok good c ''Name'' x (VStr w) True" for w b x
    using name_field_plain by (simp_all add: field_names_def field_subst_def field_ok_def)
  have 1: "(\<lambda>(n, x, v). field_names sub c n x v (names_in sub c v)) (?g p) =
      (\<lambda>(n, x, v). field_names sub c n x v (names_in sub c v)) p" for p
    using name_field_plain by (cases p) (auto simp: field_names_def split: val.split)
  have 2: "(\<lambda>(n, x, v). field_ok good c n x v (ok_in good c v)) (?g p) =
      (\<lambda>(n, x, v). field_ok good c n x v (ok_in good c v)) p" for p
    using name_field_plain by (cases p) (auto simp: field_ok_def split: val.split)
  have 3: "(\<lambda>(n, x, v). (n, x, field_subst match sub s c n x v (subst_in match sub s c v))) (?g p) =
      ?g ((\<lambda>(n, x, v). (n, x, field_subst match sub s c n x v (subst_in match sub s c v))) p)" for p
  proof -
    obtain n x v where p: "p = (n, x, v)" by (metis prod.collapse)
    show ?thesis
    proof (cases "n = ''Name'' \<and> (\<exists>w. v = VStr w)")
      case True
      then show ?thesis using f(2) by (auto simp: p)
    next
      case False
      have keep: "(case w of VStr s \<Rightarrow> VStr new | _ \<Rightarrow> w) = w" if "\<forall>s. w \<noteq> VStr s" for w
        using that by (cases w) auto
      show ?thesis
      proof (cases "n = ''Name''")
        case n: True
        have "\<forall>w. field_subst match sub s c ''Name'' x v (subst_in match sub s c v) \<noteq> VStr w"
          using False n name_field_plain
          by (cases v) (auto simp: field_subst_def set_name_def set_events_def)
        moreover have "\<forall>w. v \<noteq> VStr w" using False n by blast
        ultimately show ?thesis by (simp add: p n keep)
      qed (simp add: p)
    qed
  qed
  show "names_in sub c (set_name new v) = names_in sub c v"
    by (cases v) (simp_all add: set_name_def 1 o_def cong: map_cong)
  show "ok_in good c (set_name new v) = ok_in good c v"
    by (cases v) (simp_all add: set_name_def 2 o_def list_all_iff)
  show "subst_in match sub s c (set_name new v) = set_name new (subst_in match sub s c v)"
    by (cases v) (simp_all add: set_name_def 3 o_def)
qed


text \<open>One field, and then all fields of a struct.\<close>

lemma walk_leaf [simp]:
  "walk d cb VNil m = (VNil, m, None)" "walk d cb (VStr s) m = (VStr s, m, None)"
  "walk d cb (VBlob b) m = (VBlob b, m, None)" "walk d cb (VBlobs bs) m = (VBlobs bs, m, None)"
  by (cases d; simp)+

lemma visitBlobs_ref:
  assumes "agrees match self good sub s" "serializes c"
  shows "list_all (blob_ok good c) bs \<Longrightarrow> visitDataBlobs c self (VBlobs bs) =
      (VBlobs (map (blob_subst match sub s c) bs), hit match (concat (map (blob_names sub c) bs)), None)"
    "blob_ok good c (Some b) \<Longrightarrow> visitDataBlobs c self (VBlob b) =
      (case blob_subst match sub s c (Some b) of Some b \<Rightarrow> VBlob b | None \<Rightarrow> VNil, hit match (blob_names sub c (Some b)), None)"
  using translateBlobs_ref[OF assms, of bs] translateOne_ref[OF assms, of "Some b"]
  by (auto simp: visitDataBlobs_def blob_subst_unmatched)

lemma field_ref:
  assumes "agrees match self good sub s" "serializes c"
    and IH: "\<And>w m. depth w = depth v \<Longrightarrow> ok_in good c w \<Longrightarrow>
      walk d (namespace_callback c match self) w m = (subst_in match sub s c w, m \<or> hit match (names_in sub c w), None)"
    and ok: "field_ok good c n x v (ok_in good c v)"
  shows "(case namespace_callback c match self n x v m of
      (ActStop e, v, m) \<Rightarrow> (v, m, Some e)
    | (ActSkip, v, m) \<Rightarrow> (v, m, None)
    | (ActContinue, v, m) \<Rightarrow> walk d (namespace_callback c match self) v m) =
    (field_subst match sub s c n x v (subst_in match sub s c v), m \<or> hit match (field_names sub c n x v (names_in sub c v)), None)"
proof -
  consider "v = VNil \<or> \<not> x" | "v \<noteq> VNil" x "is_msg ''NamespaceInfo'' v"
    | "v \<noteq> VNil" x "\<not> is_msg ''NamespaceInfo'' v" "is_msg ''History'' v"
    | "v \<noteq> VNil" x "\<not> is_msg ''NamespaceInfo'' v" "\<not> is_msg ''History'' v" "n \<in> set dataBlobFieldNames"
    | "v \<noteq> VNil" x "\<not> is_msg ''NamespaceInfo'' v" "\<not> is_msg ''History'' v" "n \<notin> set dataBlobFieldNames"
    by blast
  then show ?thesis
  proof cases
    case 1
    then show ?thesis by (auto simp: namespace_callback_def field_subst_def field_names_def)
  next
    case 2
    then have "ok_in good c v" using ok by (simp add: field_ok_def)
    then show ?thesis
      using 2 IH[of v] IH[of "set_name (fst (match (info_name v))) v"]
      by (auto simp: namespace_callback_def field_subst_def field_names_def set_name_commutes case_prod_beta)
  next
    case 3
    then have "list_all good (list_of (field (fields_of v) ''Events''))" using ok by (simp add: field_ok_def)
    from visit_events_ref[OF assms(1) this] 3 show ?thesis
      by (simp add: namespace_callback_def field_subst_def field_names_def)
  next
    case 4
    show ?thesis
    proof (cases v)
      case (VBlob b)
      then have "blob_ok good c (Some b)" using ok 4 by (simp add: field_ok_def)
      from visitBlobs_ref(2)[OF assms(1,2) this] 4 VBlob show ?thesis
        by (simp add: namespace_callback_def field_subst_def field_names_def split: option.split)
    next
      case (VBlobs bs)
      then have "list_all (blob_ok good c) bs" using ok 4 by (simp add: field_ok_def)
      from visitBlobs_ref(1)[OF assms(1,2) this] 4 VBlobs show ?thesis
        by (simp add: namespace_callback_def field_subst_def field_names_def)
    qed (use 4 ok IH[of v] in \<open>simp_all add: namespace_callback_def field_subst_def field_names_def field_ok_def visitDataBlobs_def\<close>)
  next
    case 5
    then have o: "ok_in good c v" using ok by (simp add: field_ok_def)
    show ?thesis
    proof (cases v)
      case (VStr w)
      with 5 show ?thesis
        by (simp add: namespace_callback_def field_subst_def field_names_def case_prod_beta)
    qed (use 5 o IH[of v] in \<open>simp_all add: namespace_callback_def field_subst_def field_names_def\<close>)
  qed
qed


lemma fields_ref:
  assumes "\<And>n x v m. (n, x, v) \<in> set fs \<Longrightarrow>
    (case cb n x v m of
       (ActStop e, v, m) \<Rightarrow> (v, m, Some e)
     | (ActSkip, v, m) \<Rightarrow> (v, m, None)
     | (ActContinue, v, m) \<Rightarrow> f v m) = (S n x v, m \<or> hit match (N n x v), None)"
  shows "walk_fields f cb fs m =
    (map (\<lambda>(n, x, v). (n, x, S n x v)) fs, m \<or> hit match (concat (map (\<lambda>(n, x, v). N n x v) fs)), None)"
  using assms
proof (induction fs arbitrary: m)
  case (Cons p fs)
  obtain n x v where p: "p = (n, x, v)" by (metis prod.collapse)
  have h: "(case cb n x v m of
       (ActStop e, v, m) \<Rightarrow> (v, m, Some e)
     | (ActSkip, v, m) \<Rightarrow> (v, m, None)
     | (ActContinue, v, m) \<Rightarrow> f v m) = (S n x v, m \<or> hit match (N n x v), None)"
    using Cons.prems by (simp add: p)
  have t: "walk_fields f cb fs m' = (map (\<lambda>(n, x, v). (n, x, S n x v)) fs, m' \<or> hit match (concat (map (\<lambda>(n, x, v). N n x v) fs)), None)" for m'
    using Cons by simp
  show ?case by (simp add: p h t disj_assoc)
qed simp

lemma depth_parts:
  "v \<in> set vs \<Longrightarrow> depth v < depth (VList t vs)"
  "(k, v) \<in> set kvs \<Longrightarrow> depth v < depth (VMap kvs)"
  "(n, x, v) \<in> set fs \<Longrightarrow> depth v < depth (VMsg t fs)"
  by (auto simp: less_Suc_eq_le intro!: Max_ge image_eqI)

lemma walk_ref:
  assumes "agrees match self good sub s" "serializes c"
  shows "depth v \<le> d \<Longrightarrow> ok_in good c v \<Longrightarrow>
    walk d (namespace_callback c match self) v m = (subst_in match sub s c v, m \<or> hit match (names_in sub c v), None)"
proof (induction d arbitrary: v m)
  case 0
  then show ?case by (cases v) auto
next
  case (Suc d)
  show ?case
  proof (cases v)
    case (VMsg t fs)
    have "walk_fields (walk d (namespace_callback c match self)) (namespace_callback c match self) fs m =
        (map (\<lambda>(n, x, v). (n, x, field_subst match sub s c n x v (subst_in match sub s c v))) fs,
         m \<or> hit match (concat (map (\<lambda>(n, x, v). field_names sub c n x v (names_in sub c v)) fs)), None)"
    proof (rule fields_ref, rule field_ref[OF assms])
      fix n x w u m assume w: "(n, x, w) \<in> set fs"
      show "field_ok good c n x w (ok_in good c w)" using Suc.prems(2) w by (auto simp: VMsg list_all_iff)
      assume u: "depth u = depth w" "ok_in good c u"
      have "depth w < depth v" unfolding VMsg using depth_parts(3)[OF w] .
      then show "walk d (namespace_callback c match self) u m =
          (subst_in match sub s c u, m \<or> hit match (names_in sub c u), None)"
        using Suc u by simp
    qed
    then show ?thesis by (simp add: VMsg)
  next
    case (VList t vs)
    have "walk_list (walk d (namespace_callback c match self)) vs m =
        (map (subst_in match sub s c) vs, m \<or> hit match (concat (map (names_in sub c) vs)), None)"
    proof (rule walk_list_ref)
      fix w m assume w: "w \<in> set vs"
      have "depth w < depth v" unfolding VList using depth_parts(1)[OF w] .
      then show "walk d (namespace_callback c match self) w m =
          (subst_in match sub s c w, m \<or> hit match (names_in sub c w), None)"
        using Suc w by (simp add: VList list_all_iff)
    qed
    then show ?thesis by (simp add: VList)
  next
    case (VMap kvs)
    have "walk_list (walk d (namespace_callback c match self)) (map snd kvs) m =
        (map (subst_in match sub s c) (map snd kvs), m \<or> hit match (concat (map (names_in sub c) (map snd kvs))), None)"
    proof (rule walk_list_ref)
      fix w m assume "w \<in> set (map snd kvs)"
      then obtain k where k: "(k, w) \<in> set kvs" by auto
      have "depth w < depth v" unfolding VMap using depth_parts(2)[OF k] .
      then show "walk d (namespace_callback c match self) w m =
          (subst_in match sub s c w, m \<or> hit match (names_in sub c w), None)"
        using Suc.IH[of w m] Suc.prems k by (fastforce simp: VMap list_all_iff)
    qed
    moreover have "zip (map fst kvs) (map (subst_in match sub s c) (map snd kvs)) =
        map (\<lambda>(k, v). (k, subst_in match sub s c v)) kvs"
      by (induction kvs) auto
    moreover have "map (names_in sub c) (map snd kvs) = map (\<lambda>(k, v). names_in sub c v) kvs" by auto
    ultimately show ?thesis unfolding VMap by (simp only: walk.simps val.case prod.case Let_def subst_in.simps names_in.simps)
  qed auto
qed

lemma visit_agrees:
  assumes "documented_walk Values" "serializes c"
  shows "agrees match (visitNamespace n Values c match) (visitable n c) (namespaces n c) (subst_namespaces n c match)"
proof (induction n)
  case (Suc n)
  show ?case
    unfolding agrees_def
  proof (intro allI impI)
    fix w assume v: "visitable (Suc n) c w"
    have "Values cb w False = walk (depth w) cb w False" for cb
      using assms(1) unfolding documented_walk_def by blast
    with v walk_ref[OF Suc.IH assms(2) order_refl, of w False]
    show "visitNamespace (Suc n) Values c match w =
        (subst_namespaces (Suc n) c match w, hit match (namespaces (Suc n) c w), None)"
      by (cases "isSkippableForNamespaceTranslation w") simp_all
  qed
qed (simp add: agrees_def)



section \<open>Nothing matched, nothing changed\<close>

lemma set_events_same:
  assumes "distinct (map fst (fields_of v))"
  shows "set_events (list_of (field (fields_of v) ''Events'')) v = v"
proof (cases v)
  case (VMsg t fs)
  have "(if n = ''Events'' then (case w of VList u ws \<Rightarrow> VList u (list_of (field fs ''Events'')) | _ \<Rightarrow> w) else w) = w"
    if "(n, x, w) \<in> set fs" for n x w
  proof (cases "n = ''Events''")
    case True
    then have "map_of fs ''Events'' = Some (x, w)" using assms that by (simp add: VMsg fields_of_def)
    with True show ?thesis by (simp add: field_def list_of_def split: val.split)
  qed simp
  then have "map (\<lambda>(n, x, w). (n, x, if n = ''Events'' then (case w of VList u ws \<Rightarrow> VList u (list_of (field fs ''Events'')) | _ \<Rightarrow> w) else w)) fs = fs"
    by (intro map_idI) (auto simp only: case_prod_conv split: prod.split)
  then show ?thesis unfolding VMsg set_events_def fields_of_def val.case by simp
qed (simp_all add: set_events_def)

lemma hit_concat: "hit match (concat (map N vs)) \<longleftrightarrow> (\<exists>v \<in> set vs. hit match (N v))"
  by (induction vs) auto

lemma field_unmatched:
  assumes s: "\<And>w. good w \<Longrightarrow> \<not> hit match (sub w) \<Longrightarrow> s w = w"
    and below: "ok_in good c v \<Longrightarrow> \<not> hit match (names_in sub c v) \<Longrightarrow> subst_in match sub s c v = v"
    and ok: "field_ok good c n x v (ok_in good c v)"
    and un: "\<not> hit match (field_names sub c n x v (names_in sub c v))"
  shows "field_subst match sub s c n x v (subst_in match sub s c v) = v"
proof -
  have h: "map s (list_of (field (fields_of v) ''Events'')) = list_of (field (fields_of v) ''Events'')"
    if "list_all good (list_of (field (fields_of v) ''Events''))"
      "\<not> hit match (concat (map sub (list_of (field (fields_of v) ''Events''))))"
    using that s by (intro map_idI) (auto simp: list_all_iff hit_concat)
  have b: "map (blob_subst match sub s c) bs = bs" if "\<not> hit match (concat (map (blob_names sub c) bs))" for bs
    using that by (intro map_idI) (auto simp: hit_concat blob_subst_unmatched)
  show ?thesis
    using below ok un h b[of "case v of VBlobs bs \<Rightarrow> bs | _ \<Rightarrow> []"]
    by (cases v) (auto simp: field_ok_def field_names_def field_subst_def set_events_same blob_subst_unmatched
        is_msg_def split: if_splits)
qed

lemma subst_in_unmatched:
  assumes s: "\<And>w. good w \<Longrightarrow> \<not> hit match (sub w) \<Longrightarrow> s w = w"
  shows "ok_in good c v \<Longrightarrow> \<not> hit match (names_in sub c v) \<Longrightarrow> subst_in match sub s c v = v"
proof (induction "depth v" arbitrary: v rule: less_induct)
  case less
  show ?case
  proof (cases v)
    case (VMsg t fs)
    have "field_subst match sub s c n x w (subst_in match sub s c w) = w" if w: "(n, x, w) \<in> set fs" for n x w
    proof (rule field_unmatched[where good = good, OF s])
      show "ok_in good c w \<Longrightarrow> \<not> hit match (names_in sub c w) \<Longrightarrow> subst_in match sub s c w = w"
        using less.hyps[of w] depth_parts(3)[OF w] unfolding VMsg by blast
      show "field_ok good c n x w (ok_in good c w)" "\<not> hit match (field_names sub c n x w (names_in sub c w))"
        using less.prems w by (auto simp: VMsg list_all_iff hit_concat)
    qed
    then show ?thesis by (auto simp: VMsg intro!: map_idI)
  next
    case (VList t vs)
    have "subst_in match sub s c w = w" if w: "w \<in> set vs" for w
      using less.hyps[of w] depth_parts(1)[OF w, of t] less.prems w by (simp only: VList) (auto simp: list_all_iff hit_concat)
    then show ?thesis by (simp add: VList map_idI)
  next
    case (VMap kvs)
    have "subst_in match sub s c w = w" if w: "(k, w) \<in> set kvs" for k w
      using less.hyps[of w] depth_parts(2)[OF w] less.prems w
      by (simp only: VMap) (fastforce simp: list_all_iff hit_concat)
    then show ?thesis by (auto simp: VMap intro!: map_idI)
  qed simp_all
qed

lemma subst_unmatched:
  "visitable n c v \<Longrightarrow> \<not> hit match (namespaces n c v) \<Longrightarrow> subst_namespaces n c match v = v"
proof (induction n arbitrary: v)
  case (Suc n)
  then show ?case by (auto intro!: subst_in_unmatched[where good = "visitable n c"])
qed simp


section \<open>Search attribute keys\<close>

definition rename :: "stringMatcher \<Rightarrow> string \<Rightarrow> string" where
  "rename match k = (if snd (match k) then fst (match k) else k)"

lemma gput_fresh: "k \<notin> set (gkeys m) \<Longrightarrow> gput k v m = m @ [(k, v)]"
  by (induction m) auto

lemma translateIndexed_step:
  "translateIndexedFields match (kvs @ [(k, v)]) =
     (gput (rename match k) v (fst (translateIndexedFields match kvs)), snd (translateIndexedFields match kvs) \<or> snd (match k))"
  by (auto simp: translateIndexedFields_def rename_def case_prod_beta Let_def)

lemma translateIndexed_map:
  "distinct (map (rename match) (gkeys kvs)) \<Longrightarrow>
   translateIndexedFields match kvs = (map (\<lambda>(k, v). (rename match k, v)) kvs, hit match (gkeys kvs))"
proof (induction kvs rule: rev_induct)
  case Nil
  then show ?case by (simp add: translateIndexedFields_def)
next
  case (snoc p kvs)
  obtain k v where p: "p = (k, v)" by fastforce
  have "rename match k \<notin> set (gkeys (map (\<lambda>(k, v). (rename match k, v)) kvs))"
    using snoc.prems by (force simp: p)
  with snoc show ?case by (simp add: p translateIndexed_step gput_fresh)
qed


section \<open>A codec and a request for the examples\<close>

text \<open>
  A codec of blobs with one event: the data is the namespace of the event. A blob whose data starts
  with a question mark does not decode.
\<close>

definition exEvent :: "string \<Rightarrow> val" where
  "exEvent ns = VMsg ''HistoryEvent''
     [(''EventType'', True, VEnum ''CHILD_WORKFLOW_EXECUTION_STARTED''),
      (''Attributes'', True, VMsg ''ChildWorkflowExecutionStartedEventAttributes'' [(''Namespace'', True, VStr ns)])]"

definition exCodec :: codec where
  "exCodec =
     \<lparr>DeserializeEvents = (\<lambda>b. if take 1 (B_data b) = ''?'' then Inl ''bad blob'' else Inr [exEvent (B_data b)]),
      SerializeEvents = (\<lambda>evts. Inr \<lparr>B_encoding = 1, B_data =
        concat (map (\<lambda>e. str_of (field (fields_of (field (fields_of e) ''Attributes'')) ''Namespace'')) evts)\<rparr>),
      History122_Unmarshal = (\<lambda>_. Inl ''bad blob''), History122_Marshal = (\<lambda>_. Inl ''bad blob'')\<rparr>"

definition exMatch :: stringMatcher where
  "exMatch = createStringMatcher [(''local'', ''remote'')]"

definition exReq :: val where
  "exReq = VMsg ''Req''
     [(''Namespace'', True, VStr ''local''),
      (''Blob'', True, VMsg ''Batch'' [(''EventBatches'', True,
         VBlobs [Some \<lparr>B_encoding = 1, B_data = ''local''\<rparr>, Some \<lparr>B_encoding = 1, B_data = ''other''\<rparr>])])]"

definition walkValues :: walker where
  "walkValues cb v m = walk (depth v) cb v m"

lemma exCodec_serializes: "serializes exCodec"
  by (simp add: serializes_def exCodec_def)

lemma walkValues_documented: "documented_walk walkValues"
  by (simp add: documented_walk_def walkValues_def)

lemmas ex_simps =
  exReq_def exCodec_def exMatch_def exEvent_def field_ok_def blob_ok_def is_msg_def dataBlobFieldNames_def
  namespaceFieldNames_def isSkippableForNamespaceTranslation_def event_skippable_def field_def fields_of_def
  list_of_def namespaceTranslationSkippableHistoryEvents_def

lemma exReq_visitable: "visitable (Suc (Suc 0)) exCodec exReq"
  by (simp add: ex_simps)


section \<open>Properties\<close>

text \<open>
  C5: The namespace visitor rewrites exactly the namespace names. On a message whose data blobs decode,
  for every matcher and with fuel for the nesting of histories and blobs, it ends without an error, the
  message it leaves is the one with every matched name replaced (in namespace fields, in
  \<^verbatim>\<open>NamespaceInfo\<close>, in the events of histories, and inside the serialized blobs, which are left byte for
  byte as they were when no name in them matched), and it reports a match exactly when some name matched.
\<close>

theorem visitNamespace_equiv:
  assumes "documented_walk Values" "serializes c" "visitable n c v"
  shows "visitNamespace n Values c match v = (subst_namespaces n c match v, hit match (namespaces n c v), None)"
  using visit_agrees[OF assms(1,2), of match n] assms(3) by (simp add: agrees_def)

theorem visitNamespace_equiv_witness:
  "visitNamespace (Suc (Suc 0)) walkValues exCodec exMatch exReq =
     (subst_namespaces (Suc (Suc 0)) exCodec exMatch exReq, hit exMatch (namespaces (Suc (Suc 0)) exCodec exReq), None)"
  by (rule visitNamespace_equiv[OF walkValues_documented exCodec_serializes exReq_visitable])

text \<open>
  The unary interceptor with a namespace translator: the handler is called with the request in
  which the local names are replaced, the caller gets the handler's response in which the remote names
  are replaced, and the error of the handler as it is.
\<close>

lemma intercept_translates:
  assumes "documented_walk Values" "serializes c"
    and "visitable n c req"
    and "\<forall>r. visitable n c (fst (handler r))"
    and "has_prefix (WorkflowServicePrefix p) method"
  shows "Intercept p False [NewNamespaceNameTranslator n Values c reqMap respMap] method handler req =
    (subst_namespaces n c (createStringMatcher respMap)
       (fst (handler (subst_namespaces n c (createStringMatcher reqMap) req))),
     snd (handler (subst_namespaces n c (createStringMatcher reqMap) req)))"
proof -
  have "fst (visitNamespace n Values c match w) = subst_namespaces n c match w" if "visitable n c w" for match w
    using visit_agrees[OF assms(1,2), of match n] that by (simp add: agrees_def)
  with assms(3-5) show ?thesis
    by (simp add: Intercept_def apply_translators_def NewNamespaceNameTranslator_def case_prod_beta)
qed

definition exPrefixes :: servicePrefixes where
  "exPrefixes = \<lparr>WorkflowServicePrefix = ''/w/'', AdminServicePrefix = ''/a/'', OperatorServicePrefix = ''/o/''\<rparr>"

lemma intercept_translates_witness:
  "Intercept exPrefixes False
     [NewNamespaceNameTranslator (Suc (Suc 0)) walkValues exCodec [(''local'', ''remote'')] [(''remote'', ''local'')]]
     ''/w/Poll'' (\<lambda>r. (exReq, Some ''e'')) exReq =
   (subst_namespaces (Suc (Suc 0)) exCodec (createStringMatcher [(''remote'', ''local'')]) exReq, Some ''e'')"
  using intercept_translates[OF walkValues_documented exCodec_serializes exReq_visitable,
      of "\<lambda>r. (exReq, Some ''e'')" exPrefixes "''/w/Poll''" "[(''local'', ''remote'')]" "[(''remote'', ''local'')]"]
    exReq_visitable
  by (simp add: exPrefixes_def has_prefix_def)

text \<open>
  Search attribute keys: when no two keys get the same name, the map after the translation has every
  value under the new name of its key, and nothing else; the flag says whether a key matched.
\<close>

lemma indexed_fields_kept:
  assumes "distinct (map (rename match) (gkeys kvs))"
  shows "translateIndexedFields match kvs = (map (\<lambda>(k, v). (rename match k, v)) kvs, hit match (gkeys kvs))"
  by (rule translateIndexed_map[OF assms])

lemma indexed_fields_kept_witness:
  "translateIndexedFields (createStringMatcher [(''a'', ''b'')]) [(''a'', VScalar), (''c'', VNil)] =
     ([(''b'', VScalar), (''c'', VNil)], True)"
  using indexed_fields_kept[of "createStringMatcher [(''a'', ''b'')]" "[(''a'', VScalar), (''c'', VNil)]"]
  by (simp add: rename_def createStringMatcher_def)

text \<open>
  A key that has no mapping but the name of another key's translation: one of the two values is lost.
\<close>

lemma indexed_fields_collide:
  "translateIndexedFields (createStringMatcher [(''a'', ''b'')]) [(''a'', VScalar), (''b'', VNil)] = ([(''b'', VNil)], True)"
  by (simp add: translateIndexedFields_def createStringMatcher_def)

text \<open>
  The wrapped stream hands to its caller what the underlying stream received: the translators of
  \<open>RecvMsg\<close> run on the message object before it is filled.
\<close>

lemma received_is_untranslated: "RecvMsg trs m (Inr msg) = Inr msg"
  by (simp add: RecvMsg_def)

text \<open>
  A blob that is refused for invalid UTF-8 somewhere else than in the text of a failure: nothing is
  repaired, no error is returned, and the visitor gets no events. The blob passes with the names inside it
  unread.
\<close>

lemma nothing_to_repair:
  assumes "\<forall>e \<in> set events. \<forall>f \<in> set (failures_of ''apihistory.HistoryEvent'' e).
      length (messages f) \<le> 10 \<and> list_all ValidString (messages f)"
  shows "validateAndRepairHistoryEvents events = (events, False, None)"
  using assms
proof (induction events)
  case (Cons e events)
  obtain e' changed err where r: "RepairInvalidUTF8 ''apihistory.HistoryEvent'' e = (e', changed, err)" by (metis prod_cases3)
  have "\<not> changed" using repair_spec[OF r] Cons.prems by (auto simp: list_all_iff dest: in_set_takeD)
  moreover have "err = None" using repair_spec[OF r] Cons.prems by (auto simp: not_less)
  moreover have "e' = e" using repair_spec[OF r] \<open>\<not> changed\<close> by blast
  ultimately show ?case using Cons r by simp
qed simp

lemma unreadable_blob_passes:
  assumes "B_data b \<noteq> []" "DeserializeEvents c b = Inl err" "IsInvalidUTF8Error err"
    and "DeserializeEvents122 (History122_Unmarshal c) (Some b) = Inr events"
    and "\<forall>e \<in> set events. \<forall>f \<in> set (failures_of ''apihistory.HistoryEvent'' e).
      length (messages f) \<le> 10 \<and> list_all ValidString (messages f)"
    and "visitor (VList ''HistoryEvent'' []) = (v, False, None)"
  shows "translateOneDataBlob c visitor (Some b) = (Some b, False, False, None)"
  using assms(1-4,6) nothing_to_repair[OF assms(5)]
  by (cases b) (simp add: translateOneDataBlob_def tryRepairInvalidUTF8InBlob_def)

end
