(* ===== verification/AccessControl.thy ===== *)
theory AccessControl
  imports TranslationSpec
begin

text \<open>
  The package \<^verbatim>\<open>auth\<close>, \<^verbatim>\<open>interceptor/access_control.go\<close> and \<^verbatim>\<open>interceptor/namespace.go\<close>: which calls
  of a peer reach a handler. The names of the services and \<open>MethodName\<close> belong to the server library.
\<close>

section \<open>Package \<^verbatim>\<open>auth\<close>\<close>

record AccessControl =
  allowedMap :: "(string, bool) gomap"

definition NewAccesControl :: "string list \<Rightarrow> AccessControl" where
  "NewAccesControl allowedList = \<lparr>allowedMap = fold (\<lambda>a m. gput a True m) allowedList []\<rparr>"

definition IsAllowed :: "AccessControl \<Rightarrow> string \<Rightarrow> bool" where
  "IsAllowed a name =
     (if length (allowedMap a) = 0 then True
      else (case gget (allowedMap a) name of Some b \<Rightarrow> b | None \<Rightarrow> False))"

definition workflowServiceDisallowedAPIs :: "string list" where
  "workflowServiceDisallowedAPIs = [''DeprecateNamespace'', ''RegisterNamespace'']"

definition IsAllowedWorkflowMigrationAPIs :: "string \<Rightarrow> bool" where
  "IsAllowedWorkflowMigrationAPIs action = (\<not> ListMem action workflowServiceDisallowedAPIs)"

text \<open>A provider is nil, the empty one, or another one with the credentials it gives.\<close>

datatype 'c CredentialProvider = EmptyCredentialProvider | OtherProvider "'c option"

definition CredentialHeaders :: "string list" where
  "CredentialHeaders = [''authorization'', ''authorization-extras'']"

definition credentials_Get :: "'c CredentialProvider \<Rightarrow> 'c option" where
  "credentials_Get p = (case p of EmptyCredentialProvider \<Rightarrow> None | OtherProvider c \<Rightarrow> c)"

definition IsEmptyCredentialProvider :: "'c CredentialProvider option \<Rightarrow> bool" where
  "IsEmptyCredentialProvider provider =
     (case provider of None \<Rightarrow> True | Some EmptyCredentialProvider \<Rightarrow> True | Some (OtherProvider _) \<Rightarrow> False)"


section \<open>The interceptor\<close>

record AccessControlInterceptor =
  adminServiceAccess :: "AccessControl option"
  operatorServiceAccess :: "AccessControl option"
  namespaceAccess :: "AccessControl option"

definition NewAccessControlInterceptor :: "string list \<Rightarrow> string list \<Rightarrow> string list \<Rightarrow> AccessControlInterceptor" where
  "NewAccessControlInterceptor adminMethods operatorMethods allowedNamespaces =
     \<lparr>adminServiceAccess = Some (NewAccesControl adminMethods),
      operatorServiceAccess = Some (NewAccesControl operatorMethods),
      namespaceAccess = Some (NewAccesControl allowedNamespaces)\<rparr>"

text \<open>The matcher matches the names that are refused, and gives the name itself.\<close>

definition createNamespaceAccessControl :: "AccessControl option \<Rightarrow> stringMatcher" where
  "createNamespaceAccessControl access name =
     (name, case access of None \<Rightarrow> False | Some a \<Rightarrow> \<not> IsAllowed a name)"

text \<open>The request as the visitor leaves it, whether access is allowed, and the error.\<close>

definition isNamespaceAccessAllowed ::
  "nat \<Rightarrow> walker \<Rightarrow> 'c codec_scheme \<Rightarrow> val \<Rightarrow> AccessControl option \<Rightarrow> val \<times> bool \<times> visit_error option" where
  "isNamespaceAccessAllowed n Values c obj access =
     (case visitNamespace n Values c (createNamespaceAccessControl access) obj of
        (obj, notAllowed, Some err) \<Rightarrow> (obj, False, Some err)
      | (obj, notAllowed, None) \<Rightarrow> (obj, \<not> notAllowed, None))"

text \<open>A call is denied with the status \<^verbatim>\<open>PermissionDenied\<close> and a message, or the handler's result is returned.\<close>

datatype 'r gate = PermissionDenied string | Handled 'r

definition method_denied :: "string \<Rightarrow> string" where
  "method_denied m = ''Calling method '' @ m @ '' is not allowed.''"

definition namespace_denied :: "string \<Rightarrow> string" where
  "namespace_denied m = ''Calling method '' @ m @ '' is not allowed by namespace access control.''"

definition refuses :: "AccessControl option \<Rightarrow> string \<Rightarrow> bool" where
  "refuses access name = (case access of None \<Rightarrow> False | Some a \<Rightarrow> \<not> IsAllowed a name)"

definition access_Intercept ::
  "(string \<Rightarrow> string) \<Rightarrow> servicePrefixes \<Rightarrow> nat \<Rightarrow> walker \<Rightarrow> 'c codec_scheme \<Rightarrow>
   AccessControlInterceptor \<Rightarrow> string \<Rightarrow> (val \<Rightarrow> 'r) \<Rightarrow> val \<Rightarrow> 'r gate" where
  "access_Intercept MethodName p n Values c i fullMethod handler req =
     (if has_prefix (WorkflowServicePrefix p) fullMethod \<and> \<not> IsAllowedWorkflowMigrationAPIs (MethodName fullMethod)
      then PermissionDenied (method_denied (MethodName fullMethod))
      else if has_prefix (AdminServicePrefix p) fullMethod \<and> refuses (adminServiceAccess i) (MethodName fullMethod)
      then PermissionDenied (method_denied (MethodName fullMethod))
      else if has_prefix (OperatorServicePrefix p) fullMethod \<and> refuses (operatorServiceAccess i) (MethodName fullMethod)
      then PermissionDenied (method_denied (MethodName fullMethod))
      else if namespaceAccess i \<noteq> None \<and>
        (has_prefix (WorkflowServicePrefix p) fullMethod \<or> has_prefix (AdminServicePrefix p) fullMethod \<or>
         has_prefix (OperatorServicePrefix p) fullMethod)
      then
        let (req, allowed, err) = isNamespaceAccessAllowed n Values c req (namespaceAccess i)
        in if \<not> allowed \<or> err \<noteq> None then PermissionDenied (namespace_denied (MethodName fullMethod))
           else Handled (handler req)
      else Handled (handler req))"

definition access_StreamIntercept ::
  "(string \<Rightarrow> string) \<Rightarrow> servicePrefixes \<Rightarrow> AccessControlInterceptor \<Rightarrow> string \<Rightarrow> 'r \<Rightarrow> 'r gate" where
  "access_StreamIntercept MethodName p i fullMethod handler =
     (if has_prefix (AdminServicePrefix p) fullMethod \<and> refuses (adminServiceAccess i) (MethodName fullMethod)
      then PermissionDenied (method_denied (MethodName fullMethod))
      else Handled handler)"

text \<open>
  The context's namespace after \<^verbatim>\<open>StampNamespace\<close>. A message has \<^verbatim>\<open>GetNamespace\<close> when it has a field
  of that name that is a string.
\<close>

definition StampNamespace :: "string option \<Rightarrow> val \<Rightarrow> string option" where
  "StampNamespace ctx req =
     (case field (fields_of req) ''Namespace'' of
        VStr ns \<Rightarrow> if ns \<noteq> [] then Some ns else ctx
      | _ \<Rightarrow> ctx)"


section \<open>What the lists mean\<close>

lemma allowed_lookup:
  "gget (fold (\<lambda>a m. gput a True m) xs m) k = (if k \<in> set xs then Some True else gget m k)"
  by (induction xs arbitrary: m) auto

lemma allowed_empty: "fold (\<lambda>a m. gput a True m) xs m = [] \<longleftrightarrow> xs = [] \<and> m = []"
proof (induction xs arbitrary: m)
  case (Cons x xs)
  have "gput x True m \<noteq> []" by (cases m) auto
  with Cons show ?case by simp
qed simp

lemma IsAllowed_iff [simp]: "IsAllowed (NewAccesControl xs) k \<longleftrightarrow> xs = [] \<or> k \<in> set xs"
  by (simp add: IsAllowed_def NewAccesControl_def allowed_lookup allowed_empty)

lemma refuses_iff [simp]: "refuses (Some (NewAccesControl xs)) k \<longleftrightarrow> xs \<noteq> [] \<and> k \<notin> set xs"
  by (simp add: refuses_def)

lemma matcher_refuses: "createNamespaceAccessControl a k = (k, refuses a k)"
  by (simp add: createNamespaceAccessControl_def refuses_def)

text \<open>The calls the configuration allows, as a specification.\<close>

definition method_allowed :: "servicePrefixes \<Rightarrow> string list \<Rightarrow> string list \<Rightarrow> string \<Rightarrow> string \<Rightarrow> bool" where
  "method_allowed p adminMethods operatorMethods fullMethod m \<longleftrightarrow>
     (has_prefix (WorkflowServicePrefix p) fullMethod \<longrightarrow> m \<noteq> ''DeprecateNamespace'' \<and> m \<noteq> ''RegisterNamespace'') \<and>
     (has_prefix (AdminServicePrefix p) fullMethod \<longrightarrow> adminMethods = [] \<or> m \<in> set adminMethods) \<and>
     (has_prefix (OperatorServicePrefix p) fullMethod \<longrightarrow> operatorMethods = [] \<or> m \<in> set operatorMethods)"

definition a_service :: "servicePrefixes \<Rightarrow> string \<Rightarrow> bool" where
  "a_service p fullMethod \<longleftrightarrow> has_prefix (WorkflowServicePrefix p) fullMethod \<or>
     has_prefix (AdminServicePrefix p) fullMethod \<or> has_prefix (OperatorServicePrefix p) fullMethod"

lemma namespace_check:
  assumes "documented_walk Values" "serializes c" "visitable n c req"
  shows "isNamespaceAccessAllowed n Values c req (Some (NewAccesControl xs)) =
    (if xs = [] \<or> set (namespaces n c req) \<subseteq> set xs then (req, True, None)
     else (subst_namespaces n c (createNamespaceAccessControl (Some (NewAccesControl xs))) req, False, None))"
proof -
  let ?m = "createNamespaceAccessControl (Some (NewAccesControl xs))"
  have "visitNamespace n Values c ?m req = (subst_namespaces n c ?m req, hit ?m (namespaces n c req), None)"
    using visit_agrees[OF assms(1,2), of ?m n] assms(3) by (simp add: agrees_def)
  moreover have "hit ?m (namespaces n c req) \<longleftrightarrow> \<not> (xs = [] \<or> set (namespaces n c req) \<subseteq> set xs)"
    by (auto simp: hit_def matcher_refuses)
  moreover have "\<not> hit ?m (namespaces n c req) \<Longrightarrow> subst_namespaces n c ?m req = req"
    using subst_unmatched[OF assms(3)] .
  ultimately show ?thesis by (auto simp: isNamespaceAccessAllowed_def)
qed

lemma access_exact:
  assumes "documented_walk Values" "serializes c" "visitable n c req" "a_service p fullMethod"
  shows "access_Intercept MethodName p n Values c (NewAccessControlInterceptor adminMethods operatorMethods nss)
      fullMethod handler req =
    (if \<not> method_allowed p adminMethods operatorMethods fullMethod (MethodName fullMethod)
     then PermissionDenied (method_denied (MethodName fullMethod))
     else if nss = [] \<or> set (namespaces n c req) \<subseteq> set nss then Handled (handler req)
     else PermissionDenied (namespace_denied (MethodName fullMethod)))"
  using assms(4) namespace_check[OF assms(1-3), of nss]
  by (auto simp: access_Intercept_def NewAccessControlInterceptor_def method_allowed_def a_service_def
      IsAllowedWorkflowMigrationAPIs_def ListMem_iff workflowServiceDisallowedAPIs_def)

section \<open>Properties\<close>



text \<open>
  Streams are checked only for methods of the admin service, and no namespace of a stream is checked.
\<close>

lemma stream_access:
  "access_StreamIntercept MethodName p (NewAccessControlInterceptor adminMethods operatorMethods nss) fullMethod h =
     (if has_prefix (AdminServicePrefix p) fullMethod \<and> adminMethods \<noteq> [] \<and> MethodName fullMethod \<notin> set adminMethods
      then PermissionDenied (method_denied (MethodName fullMethod)) else Handled h)"
  by (simp add: access_StreamIntercept_def NewAccessControlInterceptor_def)

end
