(* ===== verification/Sealing.thy ===== *)
theory Sealing
  imports Prelude
begin

text \<open>
  \<^verbatim>\<open>interceptor/encryptor.go\<close> and \<^verbatim>\<open>interceptor/failure.go\<close>: the client interceptor that seals the
  payloads of a message on their way to the peer and opens them on the way back, and the encoding of
  failures around it. The vault, the payload codec and the visitors of the API library are arguments:
  \<open>vault\<close>, \<open>codecLib\<close> and \<open>proxyLib\<close>, with their documented behaviour as the predicates of the section
  on the libraries.
\<close>

section \<open>Payloads, failures and the vault\<close>

record payload =
  P_metadata :: "(string, string) gomap"
  P_data :: string

record failure =
  F_message :: string
  F_stackTrace :: string
  F_encodedAttributes :: "payload option"

definition metadata_of :: "payload \<Rightarrow> string \<Rightarrow> string" where
  "metadata_of p k = (case gget (P_metadata p) k of Some v \<Rightarrow> v | None \<Rightarrow> [])"

text \<open>The part of a sealed message the code reads, and the rest of it.\<close>

record cryptoMessage =
  M_Bound :: bool
  M_Namespace :: string
  M_body :: string

text \<open>\<open>Seal\<close> takes the key namespace, the data and the label; \<open>Open\<close> the message and the expected label.\<close>

record vault =
  Seal :: "string \<Rightarrow> string \<Rightarrow> string option \<Rightarrow> string + cryptoMessage"
  Open :: "cryptoMessage \<Rightarrow> string option \<Rightarrow> string + string"

text \<open>The values the interceptors read from a context.\<close>

record callCtx =
  stampedNamespace :: "string option"
  ctxNamespaceID :: "string option"

datatype sealEvent =
    UnboundOpen string
  | NamespaceMismatch string
  | UnresolvedNamespace string string

record binding =
  bind_label :: string
  bind_check :: bool
  bind_ns :: string

type_synonym bindFn = "callCtx \<Rightarrow> string \<Rightarrow> sealEvent list \<times> (string + binding)"

record cipher =
  ciph_ctx :: callCtx
  ciph_ns :: string
  ciph_bind :: "bindFn option"
  ciph_v :: vault
  ciph_obs :: bool

definition cipher_binding :: "cipher \<Rightarrow> sealEvent list \<times> (string + binding)" where
  "cipher_binding c =
     (case ciph_bind c of
        None \<Rightarrow> ([], Inr \<lparr>bind_label = [], bind_check = False, bind_ns = ciph_ns c\<rparr>)
      | Some bind \<Rightarrow> bind (ciph_ctx c) (ciph_ns c))"

definition Encrypt :: "cipher \<Rightarrow> string \<Rightarrow> sealEvent list \<times> (string + cryptoMessage)" where
  "Encrypt c data =
     (case cipher_binding c of
        (evs, Inl err) \<Rightarrow> (evs, Inl err)
      | (evs, Inr b) \<Rightarrow>
          if bind_check b then (evs, Seal (ciph_v c) (ciph_ns c) data (Some (bind_label b)))
          else (evs, Seal (ciph_v c) (ciph_ns c) data None))"

definition Decrypt :: "cipher \<Rightarrow> cryptoMessage \<Rightarrow> sealEvent list \<times> (string + string)" where
  "Decrypt c m =
     (case cipher_binding c of
        (evs, Inl err) \<Rightarrow> (evs, Inl err)
      | (evs, Inr b) \<Rightarrow>
          let evs' = (if \<not> ciph_obs c then []
                      else if \<not> M_Bound m then [UnboundOpen (bind_ns b)]
                      else if bind_check b \<and> M_Namespace m \<noteq> bind_label b then [NamespaceMismatch (bind_ns b)]
                      else [])
          in if bind_check b then (evs @ evs', Open (ciph_v c) m (Some (bind_label b)))
             else (evs @ evs', Open (ciph_v c) m None))"

type_synonym codecOpt = "callCtx \<Rightarrow> string \<Rightarrow> cipher"

definition cipherOpt :: "vault \<Rightarrow> bindFn option \<Rightarrow> bool \<Rightarrow> codecOpt" where
  "cipherOpt v bind obs ctx ns = \<lparr>ciph_ctx = ctx, ciph_ns = ns, ciph_bind = bind, ciph_v = v, ciph_obs = obs\<rparr>"

definition labelBinder :: "(string \<Rightarrow> string) option \<Rightarrow> bindFn option" where
  "labelBinder label =
     (case label of
        None \<Rightarrow> None
      | Some l \<Rightarrow> Some (\<lambda>_ ns. ([], Inr \<lparr>bind_label = l ns, bind_check = True, bind_ns = ns\<rparr>)))"


section \<open>The libraries\<close>

type_synonym payloadVisitor = "callCtx \<Rightarrow> payload list \<Rightarrow> string + payload list"
type_synonym failureVisitor = "failure \<Rightarrow> string + failure"
type_synonym ('m, 'x) invoker = "callCtx \<Rightarrow> 'm \<Rightarrow> 'x + 'm"
type_synonym ('m, 'x) unary = "callCtx \<Rightarrow> ('m, 'x) invoker \<Rightarrow> 'm \<Rightarrow> 'x + 'm"

text \<open>The package \<^verbatim>\<open>codec\<close>. A chain is given by its ciphers; \<open>unmarshalText\<close> is the JSON decoder.\<close>

record codecLib =
  MetadataEncoding :: string
  EncryptionEncoding :: string
  MetadataEncryptionKeyID :: string
  MetadataEncryptionDEK :: string
  ChainEncode :: "cipher list \<Rightarrow> payload list \<Rightarrow> string + payload list"
  ChainDecode :: "cipher list \<Rightarrow> payload list \<Rightarrow> string + payload list"
  EncodeFailure :: "failure \<Rightarrow> string + failure"
  unmarshalText :: "string \<Rightarrow> (string \<times> string) option"

text \<open>The interceptors of the API library: the visitors of the inbound and of the outbound direction.\<close>

record ('m, 'x) proxyLib =
  NewPayloadVisitorInterceptor :: "payloadVisitor option \<Rightarrow> payloadVisitor option \<Rightarrow> string + ('m, 'x) unary"
  NewFailureVisitorInterceptor :: "failureVisitor option \<Rightarrow> failureVisitor option \<Rightarrow> string + ('m, 'x) unary"


section \<open>Which payloads are sealed\<close>

definition isSealed :: "codecLib \<Rightarrow> payload \<Rightarrow> bool" where
  "isSealed K p \<longleftrightarrow>
     metadata_of p (MetadataEncoding K) = EncryptionEncoding K \<and>
     length (metadata_of p (MetadataEncryptionKeyID K)) > 0 \<and>
     length (metadata_of p (MetadataEncryptionDEK K)) > 0"

definition alreadySealed :: "codecLib \<Rightarrow> string list \<Rightarrow> payload \<Rightarrow> bool" where
  "alreadySealed K encodings p \<longleftrightarrow> isSealed K p \<or> ListMem (metadata_of p (MetadataEncoding K)) encodings"

text \<open>The indices and the payloads that are not sealed yet.\<close>

fun unsealed_at :: "(payload \<Rightarrow> bool) \<Rightarrow> nat \<Rightarrow> payload list \<Rightarrow> nat list \<times> payload list" where
  "unsealed_at sealed i [] = ([], [])"
| "unsealed_at sealed i (p # ps) =
     (let (ix, todo) = unsealed_at sealed (Suc i) ps
      in if sealed p then (ix, todo) else (i # ix, p # todo))"

text \<open>Fewer results than payloads end in a panic, which is an error here.\<close>

definition sealUnlessSealed ::
  "codecLib \<Rightarrow> (payload \<Rightarrow> bool) \<Rightarrow> cipher list \<Rightarrow> payload list \<Rightarrow> string + payload list" where
  "sealUnlessSealed K sealed chain payloads =
     (let (ix, todo) = unsealed_at sealed 0 payloads
      in if todo = [] then Inr payloads
         else (case ChainEncode K chain todo of
                 Inl err \<Rightarrow> Inl err
               | Inr done' \<Rightarrow>
                   if length done' < length ix then Inl ''panic: index out of range''
                   else Inr (fold (\<lambda>(i, p) out. out[i := p]) (zip ix done') payloads)))"

text \<open>No visitor at all when there is no codec; the namespace is the empty string when none was stamped.\<close>

definition visitPayloads ::
  "codecOpt list \<Rightarrow> (cipher list \<Rightarrow> payload list \<Rightarrow> string + payload list) \<Rightarrow> payloadVisitor option" where
  "visitPayloads opts fn =
     (if opts = [] then None
      else Some (\<lambda>ctx payloads.
        let ns = (case stampedNamespace ctx of Some ns \<Rightarrow> ns | None \<Rightarrow> [])
        in fn (map (\<lambda>opt. opt ctx ns) opts) payloads))"


section \<open>Failures\<close>

definition encodedFailureMarker :: string where
  "encodedFailureMarker = ''s2s-proxy-encoded-failure''"

text \<open>Writing the marker panics when there are no attributes or no metadata; the library sets both.\<close>

definition encodeFailure :: "codecLib \<Rightarrow> failureVisitor" where
  "encodeFailure K f =
     (if F_encodedAttributes f \<noteq> None then Inr f
      else (case EncodeFailure K f of
              Inl err \<Rightarrow> Inl err
            | Inr f \<Rightarrow>
                (case F_encodedAttributes f of
                   None \<Rightarrow> Inl ''panic: nil pointer''
                 | Some a \<Rightarrow>
                     Inr (f\<lparr>F_encodedAttributes :=
                       Some (a\<lparr>P_metadata := gput encodedFailureMarker ''true'' (P_metadata a)\<rparr>)\<rparr>))))"

definition restoreFailure :: "codecLib \<Rightarrow> failureVisitor" where
  "restoreFailure K f =
     (case F_encodedAttributes f of
        None \<Rightarrow> Inr f
      | Some a \<Rightarrow>
          if length (metadata_of a encodedFailureMarker) = 0 \<or> metadata_of a (MetadataEncoding K) \<noteq> ''json/plain''
          then Inr f
          else (case unmarshalText K (P_data a) of
                  None \<Rightarrow> Inr f
                | Some (msg, stack) \<Rightarrow>
                    Inr (f\<lparr>F_message := msg, F_stackTrace := stack, F_encodedAttributes := None\<rparr>)))"

definition chainUnary :: "('m, 'x) unary \<Rightarrow> ('m, 'x) unary \<Rightarrow> ('m, 'x) unary" where
  "chainUnary outer inner ctx invoker req = outer ctx (\<lambda>ctx. inner ctx invoker) req"


section \<open>The encryptor\<close>

record EncryptorConfig =
  Enabled :: bool
  Vault :: "vault option"
  Reverse :: bool
  AlreadySealedEncodings :: "string list"
  EncodeFailures :: bool
  Label :: "(string \<Rightarrow> string) option"
  Binding :: bool

definition seal_visitor :: "codecLib \<Rightarrow> EncryptorConfig \<Rightarrow> payloadVisitor option" where
  "seal_visitor K cfg =
     visitPayloads
       (case Vault cfg of
          Some v \<Rightarrow> if Enabled cfg then [cipherOpt v (labelBinder (Label cfg)) (Binding cfg)] else []
        | None \<Rightarrow> [])
       (sealUnlessSealed K (alreadySealed K (AlreadySealedEncodings cfg)))"

definition open_visitor :: "codecLib \<Rightarrow> EncryptorConfig \<Rightarrow> payloadVisitor option" where
  "open_visitor K cfg =
     visitPayloads
       (case Vault cfg of
          Some v \<Rightarrow> [cipherOpt v (labelBinder (Label cfg)) (Binding cfg)]
        | None \<Rightarrow> [])
       (ChainDecode K)"

definition NewEncryptor :: "codecLib \<Rightarrow> ('m, 'x) proxyLib \<Rightarrow> EncryptorConfig \<Rightarrow> string + ('m, 'x) unary" where
  "NewEncryptor K L cfg =
     (if Enabled cfg \<and> Vault cfg = None then Inl ''proxy: encryption requires a vault''
      else if EncodeFailures cfg \<and> \<not> Enabled cfg then Inl ''proxy: failure encoding requires encryption''
      else
        (case (if Reverse cfg
               then NewPayloadVisitorInterceptor L (seal_visitor K cfg) (open_visitor K cfg)
               else NewPayloadVisitorInterceptor L (open_visitor K cfg) (seal_visitor K cfg)) of
           Inl err \<Rightarrow> Inl (''failed to create encryption interceptor: '' @ err)
         | Inr unary \<Rightarrow>
             if Vault cfg = None then Inr unary
             else
               let encode = (if EncodeFailures cfg then Some (encodeFailure K) else None);
                   restore = Some (restoreFailure K)
               in (case (if Reverse cfg then NewFailureVisitorInterceptor L encode restore
                         else NewFailureVisitorInterceptor L restore encode) of
                     Inl err \<Rightarrow> Inl (''failed to create failure encryption interceptor: '' @ err)
                   | Inr failures \<Rightarrow>
                       Inr (if Reverse cfg then chainUnary unary failures else chainUnary failures unary))))"


section \<open>Documented behaviour of the libraries\<close>

text \<open>A function applied to every element: all results, or the error of one of them.\<close>

definition each_of :: "('a \<Rightarrow> 'e + 'b) \<Rightarrow> 'a list \<Rightarrow> 'e + 'b list \<Rightarrow> bool" where
  "each_of f xs r \<longleftrightarrow> (case r of Inr ys \<Rightarrow> map f xs = map Inr ys | Inl e \<Rightarrow> \<exists>x \<in> set xs. f x = Inl e)"

text \<open>
  A visitor calls a function on the parts of a message and puts the results in their place. Here the
  parts are the groups of payloads, or the failures.
\<close>

definition traversal ::
  "(('a \<Rightarrow> 'e + 'a) \<Rightarrow> 'm \<Rightarrow> 'e + 'm) \<Rightarrow> ('m \<Rightarrow> 'a list) \<Rightarrow> ('m \<Rightarrow> 'a list \<Rightarrow> 'm) \<Rightarrow> bool" where
  "traversal V parts rebuild \<longleftrightarrow>
     (\<forall>f m. \<exists>r. each_of f (parts m) r \<and> V f m = map_sum id (rebuild m) r) \<and>
     (\<forall>m. rebuild m (parts m) = m) \<and>
     (\<forall>m ys. length ys = length (parts m) \<longrightarrow>
        parts (rebuild m ys) = ys \<and> (\<forall>zs. length zs = length ys \<longrightarrow> rebuild (rebuild m ys) zs = rebuild m zs))"

record 'm msgLib =
  VisitPayloads :: "(payload list \<Rightarrow> string + payload list) \<Rightarrow> 'm \<Rightarrow> string + 'm"
  payloadsOf :: "'m \<Rightarrow> payload list list"
  withPayloads :: "'m \<Rightarrow> payload list list \<Rightarrow> 'm"
  VisitFailures :: "(failure \<Rightarrow> string + failure) \<Rightarrow> 'm \<Rightarrow> string + 'm"
  failuresOf :: "'m \<Rightarrow> failure list"
  withFailures :: "'m \<Rightarrow> failure list \<Rightarrow> 'm"

text \<open>The attributes of a failure are payloads of the message.\<close>

definition documented_messages :: "'m msgLib \<Rightarrow> bool" where
  "documented_messages M \<longleftrightarrow>
     traversal (VisitPayloads M) (payloadsOf M) (withPayloads M) \<and>
     traversal (VisitFailures M) (failuresOf M) (withFailures M) \<and>
     (\<forall>m fs. length fs = length (failuresOf M m) \<longrightarrow>
        set (payloadsOf M (withFailures M m fs)) \<subseteq>
        set (payloadsOf M m) \<union> {[a] | a f. f \<in> set fs \<and> F_encodedAttributes f = Some a})"

text \<open>
  The interceptors: the outbound visitor on the request, the call, the inbound visitor on the reply or
  on the details of the error. A failed visit ends the call.
\<close>

definition opt_visit :: "('v \<Rightarrow> 'm \<Rightarrow> string + 'm) \<Rightarrow> 'v option \<Rightarrow> 'm \<Rightarrow> string + 'm" where
  "opt_visit visit v m = (case v of None \<Rightarrow> Inr m | Some v \<Rightarrow> visit v m)"

definition intercepted ::
  "('m \<Rightarrow> string + 'm) \<Rightarrow> ('m \<Rightarrow> string + 'm) \<Rightarrow> (string \<Rightarrow> 'x) \<Rightarrow> ('x \<Rightarrow> 'x) \<Rightarrow> ('m \<Rightarrow> 'x + 'm) \<Rightarrow> 'm \<Rightarrow> 'x + 'm" where
  "intercepted out inb fail details invoke req =
     (case out req of
        Inl e \<Rightarrow> Inl (fail e)
      | Inr r \<Rightarrow>
          (case invoke r of
             Inl e \<Rightarrow> Inl (details e)
           | Inr reply \<Rightarrow> (case inb reply of Inl e \<Rightarrow> Inl (fail e) | Inr m \<Rightarrow> Inr m)))"

definition documented_interceptor ::
  "(callCtx \<Rightarrow> 'v \<Rightarrow> 'm \<Rightarrow> string + 'm) \<Rightarrow> ('v option \<Rightarrow> 'v option \<Rightarrow> string + ('m, 'x) unary) \<Rightarrow> bool" where
  "documented_interceptor visit I \<longleftrightarrow>
     (\<forall>inb out. \<exists>u fail details. I inb out = Inr u \<and>
        (\<forall>ctx invoke req. u ctx invoke req =
           intercepted (opt_visit (visit ctx) out) (opt_visit (visit ctx) inb) fail (details ctx) (invoke ctx) req))"

definition documented_proxy :: "'m msgLib \<Rightarrow> ('m, 'x) proxyLib \<Rightarrow> bool" where
  "documented_proxy M L \<longleftrightarrow>
     documented_interceptor (\<lambda>ctx v. VisitPayloads M (v ctx)) (NewPayloadVisitorInterceptor L) \<and>
     documented_interceptor (\<lambda>ctx v. VisitFailures M v) (NewFailureVisitorInterceptor L)"

text \<open>The codec encrypts the marshalled payload and packs the message; it opens what is sealed and keeps the rest.\<close>

record packing =
  marshal :: "payload \<Rightarrow> string"
  unmarshal :: "string \<Rightarrow> string + payload"
  pack :: "cryptoMessage \<Rightarrow> payload"
  unpack :: "payload \<Rightarrow> cryptoMessage"

definition encode_one :: "packing \<Rightarrow> cipher \<Rightarrow> payload \<Rightarrow> string + payload" where
  "encode_one R c p = map_sum id (pack R) (snd (Encrypt c (marshal R p)))"

definition decode_one :: "codecLib \<Rightarrow> packing \<Rightarrow> cipher \<Rightarrow> payload \<Rightarrow> string + payload" where
  "decode_one K R c p =
     (if isSealed K p then (case snd (Decrypt c (unpack R p)) of Inl e \<Rightarrow> Inl e | Inr d \<Rightarrow> unmarshal R d) else Inr p)"

definition documented_codec :: "packing \<Rightarrow> codecLib \<Rightarrow> bool" where
  "documented_codec R K \<longleftrightarrow>
     (\<forall>c ps. each_of (encode_one R c) ps (ChainEncode K [c] ps)) \<and>
     (\<forall>c ps. each_of (decode_one K R c) ps (ChainDecode K [c] ps)) \<and>
     (\<forall>m. isSealed K (pack R m) \<and> unpack R (pack R m) = m) \<and>
     (\<forall>p. unmarshal R (marshal R p) = Inr p)"

text \<open>\<^verbatim>\<open>EncodeFailure\<close> puts the text of a failure into attributes with the encoding \<^verbatim>\<open>json/plain\<close>.\<close>

definition documented_failures :: "codecLib \<Rightarrow> bool" where
  "documented_failures K \<longleftrightarrow>
     EncryptionEncoding K \<noteq> ''json/plain'' \<and> MetadataEncoding K \<noteq> encodedFailureMarker \<and>
     (\<forall>f. F_encodedAttributes f = None \<longrightarrow>
        (\<exists>f' a. EncodeFailure K f = Inr f' \<and> F_encodedAttributes f' = Some a \<and>
           metadata_of a (MetadataEncoding K) = ''json/plain'' \<and>
           unmarshalText K (P_data a) = Some (F_message f, F_stackTrace f)))"

text \<open>A vault that can seal, and one with the same keys that opens what was sealed when the same label is expected.\<close>

definition vault_opens :: "vault \<Rightarrow> vault \<Rightarrow> bool" where
  "vault_opens v v' \<longleftrightarrow> (\<forall>ns d l. \<exists>m. Seal v ns d l = Inr m \<and> Open v' m l = Inr d)"


section \<open>Sealing a group of payloads\<close>

lemma each_of_Inr: "each_of f xs (Inr ys) \<longleftrightarrow> map f xs = map Inr ys"
  by (simp add: each_of_def)

lemma each_of_total:
  assumes "each_of f xs r" "\<forall>x \<in> set xs. f x = Inr (g x)"
  shows "r = Inr (map g xs)"
proof (cases r)
  case (Inr ys)
  have "map (projr \<circ> f) xs = map g xs" using assms(2) by simp
  moreover have "map projr (map f xs) = map projr (map Inr ys)" using assms(1) unfolding Inr each_of_Inr by simp
  ultimately show ?thesis unfolding Inr by (auto simp: o_def)
qed (use assms in \<open>auto simp: each_of_def\<close>)

lemma each_of_inverse:
  assumes "each_of h (map g xs) r" "\<forall>x \<in> set xs. h (g x) = Inr x"
  shows "r = Inr xs"
proof -
  have "each_of (h \<circ> g) xs r" using assms(1) by (simp add: each_of_def split: sum.splits)
  from each_of_total[OF this, of "\<lambda>x. x"] assms(2) show ?thesis by simp
qed

text \<open>The loop over the indices puts the results where the unsealed payloads were.\<close>

fun merge :: "(payload \<Rightarrow> bool) \<Rightarrow> payload list \<Rightarrow> payload list \<Rightarrow> payload list" where
  "merge sealed [] ds = []"
| "merge sealed (p # ps) ds =
     (if sealed p then p # merge sealed ps ds
      else (case ds of [] \<Rightarrow> p # ps | d # ds \<Rightarrow> d # merge sealed ps ds))"

lemma unsealed_todo: "snd (unsealed_at sealed i ps) = filter (\<lambda>p. \<not> sealed p) ps"
  by (induction ps arbitrary: i) (auto simp: case_prod_beta Let_def)

lemma unsealed_length: "length (fst (unsealed_at sealed i ps)) = length (filter (\<lambda>p. \<not> sealed p) ps)"
  by (induction ps arbitrary: i) (auto simp: case_prod_beta Let_def)

lemma fold_merge:
  "length ds \<ge> length (filter (\<lambda>p. \<not> sealed p) ps) \<Longrightarrow>
   fold (\<lambda>(i, p) out. out[i := p]) (zip (fst (unsealed_at sealed (length pre) ps)) ds) (pre @ ps) = pre @ merge sealed ps ds"
proof (induction ps arbitrary: pre ds)
  case (Cons p ps)
  show ?case
  proof (cases "sealed p")
    case True
    then show ?thesis using Cons.IH[of ds "pre @ [p]"] Cons.prems by (simp add: case_prod_beta Let_def)
  next
    case False
    then obtain d ds' where ds: "ds = d # ds'" using Cons.prems by (cases ds) auto
    then show ?thesis using Cons.IH[of ds' "pre @ [d]"] Cons.prems False
      by (simp add: case_prod_beta Let_def list_update_append)
  qed
qed simp

lemma merge_pointwise:
  "map f (filter (\<lambda>p. \<not> sealed p) ps) = map Inr ds \<Longrightarrow>
   map (\<lambda>p. if sealed p then Inr p else f p) ps = map Inr (merge sealed ps ds)"
proof (induction ps arbitrary: ds)
  case (Cons p ps)
  then show ?case by (cases ds) auto
qed simp

lemma seal_pointwise:
  assumes "each_of f (filter (\<lambda>p. \<not> sealed p) ps) (ChainEncode K chain (filter (\<lambda>p. \<not> sealed p) ps))"
  shows "each_of (\<lambda>p. if sealed p then Inr p else f p) ps (sealUnlessSealed K sealed chain ps)"
proof (cases "filter (\<lambda>p. \<not> sealed p) ps = []")
  case True
  then have "map (\<lambda>p. if sealed p then Inr p else f p) ps = map Inr ps" by (auto simp: filter_empty_conv)
  with True show ?thesis
    by (simp add: sealUnlessSealed_def case_prod_beta Let_def unsealed_todo each_of_def)
next
  case False
  show ?thesis
  proof (cases "ChainEncode K chain (filter (\<lambda>p. \<not> sealed p) ps)")
    case (Inl e)
    then have "\<exists>x \<in> set ps. \<not> sealed x \<and> f x = Inl e" using assms by (auto simp: each_of_def)
    then have "each_of (\<lambda>p. if sealed p then Inr p else f p) ps (Inl e)" by (auto simp: each_of_def)
    with Inl False show ?thesis by (simp add: sealUnlessSealed_def case_prod_beta Let_def unsealed_todo)
  next
    case (Inr ds)
    then have m: "map f (filter (\<lambda>p. \<not> sealed p) ps) = map Inr ds" using assms by (simp add: each_of_def)
    then have l: "length ds = length (filter (\<lambda>p. \<not> sealed p) ps)" by (metis length_map)
    have "sealUnlessSealed K sealed chain ps = Inr (merge sealed ps ds)"
      using False Inr fold_merge[of sealed ps ds "[]"] l
      by (simp add: sealUnlessSealed_def case_prod_beta Let_def unsealed_todo unsealed_length)
    with merge_pointwise[OF m] show ?thesis by (simp add: each_of_def)
  qed
qed



section \<open>Visiting a message\<close>

lemma traversal_post:
  assumes "traversal V parts rebuild" "V f m = Inr m'"
  shows "\<forall>y \<in> set (parts m'). \<exists>x \<in> set (parts m). f x = Inr y"
proof -
  obtain r where r: "each_of f (parts m) r" "V f m = map_sum id (rebuild m) r"
    using assms(1) unfolding traversal_def by blast
  then obtain ys where y: "r = Inr ys" "m' = rebuild m ys" using assms(2) by (cases r) auto
  then have e: "map f (parts m) = map Inr ys" using r by (simp add: each_of_Inr)
  then have "length ys = length (parts m)" by (metis length_map)
  then have "parts m' = ys" using assms(1) y unfolding traversal_def by blast
  moreover have "Inr ` set ys = f ` set (parts m)" using e by (metis set_map)
  ultimately show ?thesis by (metis image_iff)
qed

lemma traversal_total:
  assumes "traversal V parts rebuild" "\<forall>x \<in> set (parts m). f x = Inr (g x)"
  shows "V f m = Inr (rebuild m (map g (parts m)))" "parts (rebuild m (map g (parts m))) = map g (parts m)"
proof -
  obtain r where r: "each_of f (parts m) r" "V f m = map_sum id (rebuild m) r"
    using assms(1) unfolding traversal_def by blast
  then show "V f m = Inr (rebuild m (map g (parts m)))" using each_of_total[OF r(1) assms(2)] by simp
  show "parts (rebuild m (map g (parts m))) = map g (parts m)"
    using assms(1) unfolding traversal_def by simp
qed

lemma traversal_roundtrip:
  assumes t: "traversal V parts rebuild"
    and inv: "\<forall>x \<in> set (parts m). \<exists>y. f x = Inr y \<and> h y = Inr x"
  shows "\<exists>m'. V f m = Inr m' \<and> m' = rebuild m (map (projr \<circ> f) (parts m)) \<and> V h m' = Inr m"
proof -
  let ?g = "projr \<circ> f"
  let ?m = "rebuild m (map ?g (parts m))"
  have f: "\<forall>x \<in> set (parts m). f x = Inr (?g x)" using inv by force
  note vf = traversal_total[OF t f]
  obtain r where r: "each_of h (parts ?m) r" "V h ?m = map_sum id (rebuild ?m) r"
    using t unfolding traversal_def by blast
  have "\<forall>x \<in> set (parts m). h (?g x) = Inr x" using inv by force
  then have "r = Inr (parts m)" using each_of_inverse[of h ?g "parts m" r] r(1) unfolding vf(2) by blast
  then have "V h ?m = Inr (rebuild ?m (parts m))" using r(2) by simp
  also have "rebuild ?m (parts m) = rebuild m (parts m)" using t unfolding traversal_def by simp
  also have "\<dots> = m" using t unfolding traversal_def by blast
  finally show ?thesis using vf(1) by blast
qed

lemma traversal_id:
  "traversal V parts rebuild \<Longrightarrow> \<forall>x \<in> set (parts m). f x = Inr x \<Longrightarrow> V f m = Inr m"
  using traversal_total[of V parts rebuild m f "\<lambda>x. x"] by (simp add: traversal_def)


section \<open>Round trips\<close>

text \<open>Two ciphers that bind to the same label.\<close>

definition same_binding :: "cipher \<Rightarrow> cipher \<Rightarrow> bool" where
  "same_binding c c' \<longleftrightarrow>
     (\<exists>b b'. snd (cipher_binding c) = Inr b \<and> snd (cipher_binding c') = Inr b' \<and>
        bind_check b' = bind_check b \<and> bind_label b' = bind_label b)"

lemma same_binding_sym: "same_binding c c' \<Longrightarrow> same_binding c' c"
  by (auto simp: same_binding_def)

lemma open_seal:
  assumes "vault_opens (ciph_v c) (ciph_v c')" "same_binding c c'"
  shows "\<exists>m. snd (Encrypt c d) = Inr m \<and> snd (Decrypt c' m) = Inr d"
proof -
  obtain b b' evs evs' where b: "cipher_binding c = (evs, Inr b)" "cipher_binding c' = (evs', Inr b')"
    "bind_check b' = bind_check b" "bind_label b' = bind_label b"
    using assms(2) unfolding same_binding_def by (metis prod.collapse)
  let ?l = "if bind_check b then Some (bind_label b) else None"
  obtain m where "Seal (ciph_v c) (ciph_ns c) d ?l = Inr m" "Open (ciph_v c') m ?l = Inr d"
    using assms(1) unfolding vault_opens_def by blast
  with b show ?thesis by (auto simp: Encrypt_def Decrypt_def Let_def)
qed

text \<open>The cipher of a visit, and what it does to a single payload.\<close>

definition visit_cipher :: "vault \<Rightarrow> EncryptorConfig \<Rightarrow> callCtx \<Rightarrow> cipher" where
  "visit_cipher v cfg ctx =
     cipherOpt v (labelBinder (Label cfg)) (Binding cfg) ctx (case stampedNamespace ctx of Some ns \<Rightarrow> ns | None \<Rightarrow> [])"

definition visit_label :: "EncryptorConfig \<Rightarrow> callCtx \<Rightarrow> string option" where
  "visit_label cfg ctx = map_option (\<lambda>l. l (case stampedNamespace ctx of Some ns \<Rightarrow> ns | None \<Rightarrow> [])) (Label cfg)"

lemma visit_cipher_binding: "visit_label cfg ctx = visit_label cfg' ctx' \<Longrightarrow> same_binding (visit_cipher v cfg ctx) (visit_cipher v' cfg' ctx')"
  by (auto simp: same_binding_def visit_label_def visit_cipher_def cipherOpt_def cipher_binding_def labelBinder_def split: option.splits)

lemma visit_cipher_vault [simp]: "ciph_v (visit_cipher v cfg ctx) = v"
  by (simp add: visit_cipher_def cipherOpt_def)

lemma seal_visitor_Some:
  "Vault cfg = Some v \<Longrightarrow> Enabled cfg \<Longrightarrow> seal_visitor K cfg =
     Some (\<lambda>ctx. sealUnlessSealed K (alreadySealed K (AlreadySealedEncodings cfg)) [visit_cipher v cfg ctx])"
  by (auto simp: seal_visitor_def visitPayloads_def visit_cipher_def Let_def)

lemma seal_visitor_None: "\<not> Enabled cfg \<Longrightarrow> seal_visitor K cfg = None"
  by (auto simp: seal_visitor_def visitPayloads_def split: option.split)

lemma open_visitor_Some:
  "Vault cfg = Some v \<Longrightarrow> open_visitor K cfg = Some (\<lambda>ctx. ChainDecode K [visit_cipher v cfg ctx])"
  by (auto simp: open_visitor_def visitPayloads_def visit_cipher_def Let_def)

lemma seal_each:
  "documented_codec R K \<Longrightarrow>
   each_of (\<lambda>p. if sealed p then Inr p else encode_one R c p) ps (sealUnlessSealed K sealed [c] ps)"
  by (rule seal_pointwise) (simp add: documented_codec_def)

lemma seal_group:
  assumes d: "documented_codec R K" and s: "sealUnlessSealed K (alreadySealed K encodings) [c] ps = Inr qs" and q: "q \<in> set qs"
  shows "alreadySealed K encodings q"
proof -
  let ?s = "alreadySealed K encodings"
  have "map (\<lambda>p. if ?s p then Inr p else encode_one R c p) ps = map Inr qs"
    using seal_each[OF d, of ?s c ps] s by (simp add: each_of_def)
  then have "Inr q \<in> (\<lambda>p. if ?s p then Inr p else encode_one R c p) ` set ps"
    using q by (metis image_eqI set_map)
  then obtain p where p: "(if ?s p then Inr p else encode_one R c p) = Inr q" by force
  show ?thesis
  proof (cases "?s p")
    case False
    then obtain m where "q = pack R m" using p by (cases "snd (Encrypt c (marshal R p))") (auto simp: encode_one_def)
    then show ?thesis using d by (simp add: documented_codec_def alreadySealed_def)
  qed (use p in simp)
qed

lemma group_roundtrip:
  assumes d: "documented_codec R K" and v: "vault_opens (ciph_v c) (ciph_v c')"
    and b: "same_binding c c'" and fresh: "\<forall>p \<in> set ps. \<not> isSealed K p"
  shows "\<exists>qs. sealUnlessSealed K sealed [c] ps = Inr qs \<and>
    ChainDecode K [c'] qs = Inr ps"
proof -
  let ?f = "\<lambda>p. if sealed p then Inr p else encode_one R c p"
  have one: "\<exists>q. ?f p = Inr q \<and> decode_one K R c' q = Inr p" if "p \<in> set ps" for p
  proof (cases "sealed p")
    case True
    then show ?thesis using fresh that by (simp add: decode_one_def)
  next
    case False
    obtain m where m: "snd (Encrypt c (marshal R p)) = Inr m" "snd (Decrypt c' m) = Inr (marshal R p)"
      using open_seal[of c c' "marshal R p"] v b by auto
    moreover have "isSealed K (pack R m)" "unpack R (pack R m) = m" "unmarshal R (marshal R p) = Inr p"
      using d by (simp_all add: documented_codec_def)
    ultimately show ?thesis using False by (simp add: encode_one_def decode_one_def)
  qed
  let ?g = "\<lambda>p. projr (?f p)"
  have s: "sealUnlessSealed K sealed [c] ps = Inr (map ?g ps)"
    using each_of_total[OF seal_each[OF d, of sealed c ps], of ?g] one by force
  have dec: "\<forall>p \<in> set ps. decode_one K R c' (?g p) = Inr p" using one by force
  have "each_of (decode_one K R c') (map ?g ps) (ChainDecode K [c'] (map ?g ps))"
    using d by (simp add: documented_codec_def)
  from each_of_inverse[OF this dec] have "ChainDecode K [c'] (map ?g ps) = Inr ps" .
  with s show ?thesis by blast
qed


text \<open>A failure that does not carry the marker of this proxy.\<close>

definition unmarked :: "codecLib \<Rightarrow> failure \<Rightarrow> bool" where
  "unmarked K f \<longleftrightarrow> (case F_encodedAttributes f of None \<Rightarrow> True
     | Some a \<Rightarrow> metadata_of a encodedFailureMarker = [] \<or> metadata_of a (MetadataEncoding K) \<noteq> ''json/plain'')"

lemma restore_unmarked: "unmarked K f \<Longrightarrow> restoreFailure K f = Inr f"
  by (auto simp: unmarked_def restoreFailure_def split: option.splits)

lemma restore_encode:
  assumes d: "documented_failures K" and u: "unmarked K f"
  shows "\<exists>f'. encodeFailure K f = Inr f' \<and> restoreFailure K f' = Inr f \<and>
    (\<forall>a. F_encodedAttributes f' = Some a \<longrightarrow> f' = f \<or> \<not> isSealed K a)"
proof (cases "F_encodedAttributes f")
  case None
  then obtain f' a where e: "EncodeFailure K f = Inr f'" "F_encodedAttributes f' = Some a"
    "metadata_of a (MetadataEncoding K) = ''json/plain''" "unmarshalText K (P_data a) = Some (F_message f, F_stackTrace f)"
    using d unfolding documented_failures_def by blast
  let ?a = "a\<lparr>P_metadata := gput encodedFailureMarker ''true'' (P_metadata a)\<rparr>"
  have n: "MetadataEncoding K \<noteq> encodedFailureMarker" "EncryptionEncoding K \<noteq> ''json/plain''"
    using d by (simp_all add: documented_failures_def)
  have m: "metadata_of ?a (MetadataEncoding K) = ''json/plain''" "metadata_of ?a encodedFailureMarker = ''true''"
    using e(3) n by (simp_all add: metadata_of_def)
  have "restoreFailure K (f'\<lparr>F_encodedAttributes := Some ?a\<rparr>) = Inr f"
    using m e(4) None by (simp add: restoreFailure_def)
  moreover have "\<not> isSealed K ?a" using m n by (simp add: isSealed_def)
  ultimately show ?thesis using None e by (simp add: encodeFailure_def)
next
  case (Some a)
  then show ?thesis using restore_unmarked[OF u] by (auto simp: encodeFailure_def)
qed

text \<open>A message with nothing in it that this proxy has already sealed or encoded.\<close>

definition fresh :: "codecLib \<Rightarrow> 'm msgLib \<Rightarrow> 'm \<Rightarrow> bool" where
  "fresh K M m \<longleftrightarrow>
     (\<forall>ps \<in> set (payloadsOf M m). \<forall>p \<in> set ps. \<not> isSealed K p) \<and>
     (\<forall>f \<in> set (failuresOf M m). unmarked K f \<and> (\<forall>a. F_encodedAttributes f = Some a \<longrightarrow> \<not> isSealed K a))"

definition encoder :: "codecLib \<Rightarrow> EncryptorConfig \<Rightarrow> failureVisitor option" where
  "encoder K cfg = (if EncodeFailures cfg then Some (encodeFailure K) else None)"

lemma failures_roundtrip:
  assumes "documented_messages M" "documented_failures K" "fresh K M m"
  shows "\<exists>m1. opt_visit (VisitFailures M) (encoder K cfg) m = Inr m1 \<and> VisitFailures M (restoreFailure K) m1 = Inr m \<and>
    (\<forall>ps \<in> set (payloadsOf M m1). \<forall>p \<in> set ps. \<not> isSealed K p)"
proof (cases "EncodeFailures cfg")
  case True
  have t: "traversal (VisitFailures M) (failuresOf M) (withFailures M)"
    using assms(1) by (simp add: documented_messages_def)
  have u: "\<forall>f \<in> set (failuresOf M m). unmarked K f" using assms(3) by (simp add: fresh_def)
  then have "\<forall>f \<in> set (failuresOf M m). \<exists>f'. encodeFailure K f = Inr f' \<and> restoreFailure K f' = Inr f"
    using restore_encode[OF assms(2)] by blast
  from traversal_roundtrip[OF t this]
  obtain m1 where m1: "VisitFailures M (encodeFailure K) m = Inr m1" "VisitFailures M (restoreFailure K) m1 = Inr m"
    "m1 = withFailures M m (map (projr \<circ> encodeFailure K) (failuresOf M m))" by blast
  have "\<not> isSealed K a" if "f \<in> set (failuresOf M m)" "F_encodedAttributes (projr (encodeFailure K f)) = Some a" for f a
    using restore_encode[OF assms(2), of f] u that assms(3) by (force simp: fresh_def)
  moreover have "set (payloadsOf M (withFailures M m fs)) \<subseteq> set (payloadsOf M m) \<union> {[a] | a f. f \<in> set fs \<and> F_encodedAttributes f = Some a}"
    if "length fs = length (failuresOf M m)" for fs
    using assms(1) that unfolding documented_messages_def by blast
  from this[of "map (projr \<circ> encodeFailure K) (failuresOf M m)"]
  have "ps \<in> set (payloadsOf M m) \<or> (\<exists>a f. ps = [a] \<and> f \<in> set (failuresOf M m) \<and>
      F_encodedAttributes (projr (encodeFailure K f)) = Some a)" if "ps \<in> set (payloadsOf M m1)" for ps
    using that by (auto simp: m1(3))
  ultimately have "\<forall>ps \<in> set (payloadsOf M m1). \<forall>p \<in> set ps. \<not> isSealed K p"
    using assms(3) unfolding fresh_def by (metis empty_iff empty_set set_ConsD)
  with m1 True show ?thesis by (auto simp: opt_visit_def encoder_def)
next
  case False
  have "VisitFailures M (restoreFailure K) m = Inr m"
    by (rule traversal_id[of _ "failuresOf M" "withFailures M"])
      (use assms in \<open>auto simp: documented_messages_def fresh_def intro: restore_unmarked\<close>)
  with False assms(3) show ?thesis by (simp add: opt_visit_def encoder_def fresh_def)
qed

lemma sealing_roundtrip:
  assumes "documented_messages M" "documented_codec R K" "vault_opens (ciph_v c) (ciph_v c')" "same_binding c c'"
    and "\<forall>ps \<in> set (payloadsOf M m). \<forall>p \<in> set ps. \<not> isSealed K p"
  shows "\<exists>m2. VisitPayloads M (sealUnlessSealed K sealed [c]) m = Inr m2 \<and> VisitPayloads M (ChainDecode K [c']) m2 = Inr m"
    "VisitPayloads M (ChainDecode K [c']) m = Inr m"
proof -
  have t: "traversal (VisitPayloads M) (payloadsOf M) (withPayloads M)"
    using assms(1) by (simp add: documented_messages_def)
  have g: "\<forall>ps \<in> set (payloadsOf M m). \<exists>qs. sealUnlessSealed K s [c] ps = Inr qs \<and> ChainDecode K [c'] qs = Inr ps" for s
    using group_roundtrip[OF assms(2-4)] assms(5) by blast
  show "\<exists>m2. VisitPayloads M (sealUnlessSealed K sealed [c]) m = Inr m2 \<and> VisitPayloads M (ChainDecode K [c']) m2 = Inr m"
    using traversal_roundtrip[OF t g[of sealed]] by blast
  have "unsealed_at (\<lambda>_. True) i ps = ([], [])" for i ps by (induction ps arbitrary: i) auto
  then have "sealUnlessSealed K (\<lambda>_. True) [c] ps = Inr ps" for ps by (simp add: sealUnlessSealed_def)
  with g[of "\<lambda>_. True"] show "VisitPayloads M (ChainDecode K [c']) m = Inr m"
    by (intro traversal_id[OF t]) auto
qed

section \<open>The interceptors put together\<close>

definition seal_msg :: "codecLib \<Rightarrow> 'm msgLib \<Rightarrow> EncryptorConfig \<Rightarrow> vault \<Rightarrow> callCtx \<Rightarrow> 'm \<Rightarrow> string + 'm" where
  "seal_msg K M cfg v ctx =
     (if Enabled cfg then VisitPayloads M (sealUnlessSealed K (alreadySealed K (AlreadySealedEncodings cfg)) [visit_cipher v cfg ctx])
      else Inr)"

definition open_msg :: "codecLib \<Rightarrow> 'm msgLib \<Rightarrow> EncryptorConfig \<Rightarrow> vault \<Rightarrow> callCtx \<Rightarrow> 'm \<Rightarrow> string + 'm" where
  "open_msg K M cfg v ctx = VisitPayloads M (ChainDecode K [visit_cipher v cfg ctx])"

definition encode_msg :: "codecLib \<Rightarrow> 'm msgLib \<Rightarrow> EncryptorConfig \<Rightarrow> 'm \<Rightarrow> string + 'm" where
  "encode_msg K M cfg = opt_visit (VisitFailures M) (encoder K cfg)"

definition restore_msg :: "codecLib \<Rightarrow> 'm msgLib \<Rightarrow> 'm \<Rightarrow> string + 'm" where
  "restore_msg K M = VisitFailures M (restoreFailure K)"

lemma payload_interceptor:
  assumes L: "documented_proxy M L" and v: "Vault cfg = Some v"
  shows "\<exists>u fail details. NewPayloadVisitorInterceptor L (open_visitor K cfg) (seal_visitor K cfg) = Inr u \<and>
      (\<forall>ctx invoke req. u ctx invoke req =
         intercepted (seal_msg K M cfg v ctx) (open_msg K M cfg v ctx) fail (details ctx) (invoke ctx) req)"
    "\<exists>u fail details. NewPayloadVisitorInterceptor L (seal_visitor K cfg) (open_visitor K cfg) = Inr u \<and>
      (\<forall>ctx invoke req. u ctx invoke req =
         intercepted (open_msg K M cfg v ctx) (seal_msg K M cfg v ctx) fail (details ctx) (invoke ctx) req)"
proof -
  have o: "opt_visit (\<lambda>w. VisitPayloads M (w ctx)) (seal_visitor K cfg) = seal_msg K M cfg v ctx"
    "opt_visit (\<lambda>w. VisitPayloads M (w ctx)) (open_visitor K cfg) = open_msg K M cfg v ctx" for ctx
    using v by (auto simp: seal_visitor_Some seal_visitor_None open_visitor_Some opt_visit_def seal_msg_def open_msg_def fun_eq_iff)
  have P: "documented_interceptor (\<lambda>ctx w. VisitPayloads M (w ctx)) (NewPayloadVisitorInterceptor L)"
    using L by (simp add: documented_proxy_def)
  show "\<exists>u fail details. NewPayloadVisitorInterceptor L (open_visitor K cfg) (seal_visitor K cfg) = Inr u \<and>
      (\<forall>ctx invoke req. u ctx invoke req =
         intercepted (seal_msg K M cfg v ctx) (open_msg K M cfg v ctx) fail (details ctx) (invoke ctx) req)"
    using P[unfolded documented_interceptor_def, rule_format, of "open_visitor K cfg" "seal_visitor K cfg"]
    by (simp only: o)
  show "\<exists>u fail details. NewPayloadVisitorInterceptor L (seal_visitor K cfg) (open_visitor K cfg) = Inr u \<and>
      (\<forall>ctx invoke req. u ctx invoke req =
         intercepted (open_msg K M cfg v ctx) (seal_msg K M cfg v ctx) fail (details ctx) (invoke ctx) req)"
    using P[unfolded documented_interceptor_def, rule_format, of "seal_visitor K cfg" "open_visitor K cfg"]
    by (simp only: o)
qed

lemma failure_interceptor:
  assumes L: "documented_proxy M L"
  shows "\<exists>u fail details. NewFailureVisitorInterceptor L (Some (restoreFailure K)) (encoder K cfg) = Inr u \<and>
      (\<forall>ctx invoke req. u ctx invoke req =
         intercepted (encode_msg K M cfg) (restore_msg K M) fail (details ctx) (invoke ctx) req)"
    "\<exists>u fail details. NewFailureVisitorInterceptor L (encoder K cfg) (Some (restoreFailure K)) = Inr u \<and>
      (\<forall>ctx invoke req. u ctx invoke req =
         intercepted (restore_msg K M) (encode_msg K M cfg) fail (details ctx) (invoke ctx) req)"
proof -
  have o: "opt_visit (VisitFailures M) (encoder K cfg) = encode_msg K M cfg"
    "opt_visit (VisitFailures M) (Some (restoreFailure K)) = restore_msg K M"
    by (auto simp: encode_msg_def restore_msg_def opt_visit_def fun_eq_iff)
  have P: "documented_interceptor (\<lambda>ctx w. VisitFailures M w) (NewFailureVisitorInterceptor L)"
    using L by (simp add: documented_proxy_def)
  show "\<exists>u fail details. NewFailureVisitorInterceptor L (Some (restoreFailure K)) (encoder K cfg) = Inr u \<and>
      (\<forall>ctx invoke req. u ctx invoke req =
         intercepted (encode_msg K M cfg) (restore_msg K M) fail (details ctx) (invoke ctx) req)"
    using P[unfolded documented_interceptor_def, rule_format, of "Some (restoreFailure K)" "encoder K cfg"]
    by (simp only: o eta_contract_eq)
  show "\<exists>u fail details. NewFailureVisitorInterceptor L (encoder K cfg) (Some (restoreFailure K)) = Inr u \<and>
      (\<forall>ctx invoke req. u ctx invoke req =
         intercepted (restore_msg K M) (encode_msg K M cfg) fail (details ctx) (invoke ctx) req)"
    using P[unfolded documented_interceptor_def, rule_format, of "encoder K cfg" "Some (restoreFailure K)"]
    by (simp only: o eta_contract_eq)
qed

lemma message_roundtrip:
  assumes "documented_messages M" "documented_failures K" "documented_codec R K" "vault_opens v v'"
    and "visit_label cfg ctx = visit_label cfg' ctx'" "fresh K M m"
  shows "\<exists>m1 m2. encode_msg K M cfg m = Inr m1 \<and> seal_msg K M cfg v ctx m1 = Inr m2 \<and>
    open_msg K M cfg' v' ctx' m2 = Inr m1 \<and> restore_msg K M m1 = Inr m"
proof -
  obtain m1 where m1: "encode_msg K M cfg m = Inr m1" "restore_msg K M m1 = Inr m"
    "\<forall>ps \<in> set (payloadsOf M m1). \<forall>p \<in> set ps. \<not> isSealed K p"
    using failures_roundtrip[OF assms(1,2,6), of cfg] unfolding encode_msg_def restore_msg_def by blast
  note r = sealing_roundtrip[OF assms(1,3) _ visit_cipher_binding[OF assms(5)] m1(3), of v v']
  have "\<exists>m2. seal_msg K M cfg v ctx m1 = Inr m2 \<and> open_msg K M cfg' v' ctx' m2 = Inr m1"
    using r(1)[of "alreadySealed K (AlreadySealedEncodings cfg)"] r(2) assms(4) by (auto simp: seal_msg_def open_msg_def)
  with m1 show ?thesis by blast
qed

text \<open>The encryptor of the outgoing and that of the incoming side, as functions of the call.\<close>

lemma encryptor_forward:
  assumes "documented_proxy M L" and v: "Vault cfg = Some v" "EncodeFailures cfg \<longrightarrow> Enabled cfg" "\<not> Reverse cfg"
  shows "\<exists>e fail fail' details details'. NewEncryptor K L cfg = Inr e \<and> (\<forall>ctx invoke req. e ctx invoke req =
    intercepted (encode_msg K M cfg) (restore_msg K M) fail' (details' ctx)
      (intercepted (seal_msg K M cfg v ctx) (open_msg K M cfg v ctx) fail (details ctx) (invoke ctx)) req)"
proof -
  obtain u fail details where u: "NewPayloadVisitorInterceptor L (open_visitor K cfg) (seal_visitor K cfg) = Inr u"
    "\<And>ctx invoke req. u ctx invoke req =
       intercepted (seal_msg K M cfg v ctx) (open_msg K M cfg v ctx) fail (details ctx) (invoke ctx) req"
    using payload_interceptor(1)[OF assms(1,2), of K] by blast
  obtain w fail' details' where w: "NewFailureVisitorInterceptor L (Some (restoreFailure K)) (encoder K cfg) = Inr w"
    "\<And>ctx invoke req. w ctx invoke req =
       intercepted (encode_msg K M cfg) (restore_msg K M) fail' (details' ctx) (invoke ctx) req"
    using failure_interceptor(1)[OF assms(1), of K cfg] by blast
  have "NewEncryptor K L cfg = Inr (chainUnary w u)"
    using u(1) w(1) v by (simp add: NewEncryptor_def Let_def flip: encoder_def)
  moreover have "u ctx invoke = intercepted (seal_msg K M cfg v ctx) (open_msg K M cfg v ctx) fail (details ctx) (invoke ctx)" for ctx invoke
    using u(2) by (simp add: fun_eq_iff)
  ultimately show ?thesis
    by (intro exI[of _ "chainUnary w u"] exI[of _ fail] exI[of _ fail'] exI[of _ details] exI[of _ details'])
      (simp add: chainUnary_def w(2))
qed

lemma encryptor_reverse:
  assumes "documented_proxy M L" and v: "Vault cfg = Some v" "EncodeFailures cfg \<longrightarrow> Enabled cfg" "Reverse cfg"
  shows "\<exists>e fail fail' details details'. NewEncryptor K L cfg = Inr e \<and> (\<forall>ctx invoke req. e ctx invoke req =
    intercepted (open_msg K M cfg v ctx) (seal_msg K M cfg v ctx) fail (details ctx)
      (intercepted (restore_msg K M) (encode_msg K M cfg) fail' (details' ctx) (invoke ctx)) req)"
proof -
  obtain u fail details where u: "NewPayloadVisitorInterceptor L (seal_visitor K cfg) (open_visitor K cfg) = Inr u"
    "\<And>ctx invoke req. u ctx invoke req =
       intercepted (open_msg K M cfg v ctx) (seal_msg K M cfg v ctx) fail (details ctx) (invoke ctx) req"
    using payload_interceptor(2)[OF assms(1,2), of K] by blast
  obtain w fail' details' where w: "NewFailureVisitorInterceptor L (encoder K cfg) (Some (restoreFailure K)) = Inr w"
    "\<And>ctx invoke req. w ctx invoke req =
       intercepted (restore_msg K M) (encode_msg K M cfg) fail' (details' ctx) (invoke ctx) req"
    using failure_interceptor(2)[OF assms(1), of K cfg] by blast
  have "NewEncryptor K L cfg = Inr (chainUnary u w)"
    using u(1) w(1) v by (simp add: NewEncryptor_def Let_def flip: encoder_def)
  moreover have "w ctx invoke = intercepted (restore_msg K M) (encode_msg K M cfg) fail' (details' ctx) (invoke ctx)" for ctx invoke
    using w(2) by (simp add: fun_eq_iff)
  ultimately show ?thesis
    by (intro exI[of _ "chainUnary u w"] exI[of _ fail] exI[of _ fail'] exI[of _ details] exI[of _ details'])
      (simp add: chainUnary_def u(2))
qed

end
