(* ===== verification/SealingProps.thy ===== *)
theory SealingProps
  imports Sealing
begin

text \<open>
  The properties of the encryptor: what leaves for the peer is sealed, two encryptors back to back are
  transparent, and a strict vault opens a payload only for the namespace it was sealed for. The first
  section instantiates the libraries for the examples.
\<close>

section \<open>Libraries for the examples\<close>

fun collect :: "('a \<Rightarrow> 'e + 'b) \<Rightarrow> 'a list \<Rightarrow> 'e + 'b list" where
  "collect f [] = Inr []"
| "collect f (x # xs) =
     (case f x of Inl e \<Rightarrow> Inl e | Inr y \<Rightarrow> (case collect f xs of Inl e \<Rightarrow> Inl e | Inr ys \<Rightarrow> Inr (y # ys)))"

lemma collect_each: "each_of f xs (collect f xs)"
  by (induction xs) (auto simp: each_of_def split: sum.splits)

text \<open>Strings with an end mark, so that they can be put one after another.\<close>

fun put_str :: "string \<Rightarrow> string" where
  "put_str [] = ''.''"
| "put_str (c # s) = CHR ''x'' # c # put_str s"

fun get_str :: "string \<Rightarrow> string \<times> string" where
  "get_str (x # c # r) = (if x = CHR ''x'' then (let (s, r) = get_str r in (c # s, r)) else ([], c # r))"
| "get_str [x] = ([], [])"
| "get_str [] = ([], [])"

lemma get_put [simp]: "get_str (put_str s @ r) = (s, r)"
proof (induction s)
  case Nil
  then show ?case by (cases r) auto
qed simp

fun put_pairs :: "(string \<times> string) list \<Rightarrow> string" where
  "put_pairs [] = ''.''"
| "put_pairs ((k, v) # m) = CHR ''p'' # put_str k @ put_str v @ put_pairs m"

function get_pairs :: "string \<Rightarrow> (string \<times> string) list \<times> string" where
  "get_pairs [] = ([], [])"
| "get_pairs (x # r) =
     (if x \<noteq> CHR ''p'' then ([], r)
      else let (k, r1) = get_str r; (v, r2) = get_str r1
           in if length r2 \<le> length r then (let (m, r3) = get_pairs r2 in ((k, v) # m, r3)) else ([], []))"
  by pat_completeness auto
termination by (relation "measure length") auto

lemma get_put_pairs [simp]: "get_pairs (put_pairs m @ r) = (m, r)"
  by (induction m rule: put_pairs.induct) (auto simp: Let_def)

definition exPacking :: packing where
  "exPacking =
     \<lparr>marshal = (\<lambda>p. put_pairs (P_metadata p) @ P_data p),
      unmarshal = (\<lambda>s. let (m, d) = get_pairs s in Inr \<lparr>P_metadata = m, P_data = d\<rparr>),
      pack = (\<lambda>m. \<lparr>P_metadata = [(''encoding'', ''sealed''), (''key'', ''k''), (''dek'', (if M_Bound m then CHR ''b'' else CHR ''u'') # M_Namespace m)],
                  P_data = M_body m\<rparr>),
      unpack = (\<lambda>p. \<lparr>M_Bound = (metadata_of p ''dek'' ! 0 = CHR ''b''), M_Namespace = tl (metadata_of p ''dek''), M_body = P_data p\<rparr>)\<rparr>"

definition exNames :: codecLib where
  "exNames = \<lparr>MetadataEncoding = ''encoding'', EncryptionEncoding = ''sealed'', MetadataEncryptionKeyID = ''key'', MetadataEncryptionDEK = ''dek'',
     ChainEncode = (\<lambda>_ ps. Inr ps), ChainDecode = (\<lambda>_ ps. Inr ps), EncodeFailure = Inr, unmarshalText = (\<lambda>_. None)\<rparr>"

definition exCodecLib :: codecLib where
  "exCodecLib = exNames\<lparr>
     ChainEncode := (\<lambda>cs ps. case cs of [c] \<Rightarrow> collect (encode_one exPacking c) ps | _ \<Rightarrow> Inr ps),
     ChainDecode := (\<lambda>cs ps. case cs of [c] \<Rightarrow> collect (decode_one exNames exPacking c) ps | _ \<Rightarrow> Inr ps),
     EncodeFailure := (\<lambda>f. Inr \<lparr>F_message = ''Encoded failure'', F_stackTrace = [], F_encodedAttributes =
       Some \<lparr>P_metadata = [(''encoding'', ''json/plain'')], P_data = put_str (F_message f) @ put_str (F_stackTrace f)\<rparr>\<rparr>),
     unmarshalText := (\<lambda>s. let (m, r) = get_str s; (t, r) = get_str r in Some (m, t))\<rparr>"

text \<open>A vault with strict binding.\<close>

definition exVault :: vault where
  "exVault =
     \<lparr>Seal = (\<lambda>ns d l. Inr \<lparr>M_Bound = (l \<noteq> None), M_Namespace = (case l of Some l \<Rightarrow> l | None \<Rightarrow> ns), M_body = rev d\<rparr>),
      Open = (\<lambda>m l. if l = None \<or> M_Bound m \<and> l = Some (M_Namespace m) then Inr (rev (M_body m)) else Inl ''refused'')\<rparr>"

type_synonym exMsg = "payload list list \<times> failure list"

definition exMessages :: "exMsg msgLib" where
  "exMessages =
     \<lparr>VisitPayloads = (\<lambda>f m. map_sum id (\<lambda>ps. (ps, snd m)) (collect f (fst m))), payloadsOf = fst, withPayloads = (\<lambda>m ps. (ps, snd m)),
      VisitFailures = (\<lambda>f m. map_sum id (\<lambda>fs. (fst m, fs)) (collect f (snd m))), failuresOf = snd, withFailures = (\<lambda>m fs. (fst m, fs))\<rparr>"

definition exProxyLib :: "(exMsg, string) proxyLib" where
  "exProxyLib =
     \<lparr>NewPayloadVisitorInterceptor = (\<lambda>inb out. Inr (\<lambda>ctx invoke req.
        intercepted (opt_visit (\<lambda>w. VisitPayloads exMessages (w ctx)) out) (opt_visit (\<lambda>w. VisitPayloads exMessages (w ctx)) inb)
          (\<lambda>e. e) (\<lambda>e. e) (invoke ctx) req)),
      NewFailureVisitorInterceptor = (\<lambda>inb out. Inr (\<lambda>ctx invoke req.
        intercepted (opt_visit (VisitFailures exMessages) out) (opt_visit (VisitFailures exMessages) inb)
          (\<lambda>e. e) (\<lambda>e. e) (invoke ctx) req))\<rparr>"

lemma exMessages_documented: "documented_messages exMessages"
proof -
  have "traversal (VisitPayloads exMessages) (payloadsOf exMessages) (withPayloads exMessages)"
    unfolding traversal_def by (auto simp: exMessages_def intro!: exI collect_each)
  moreover have "traversal (VisitFailures exMessages) (failuresOf exMessages) (withFailures exMessages)"
    unfolding traversal_def by (auto simp: exMessages_def intro!: exI collect_each)
  ultimately show ?thesis unfolding documented_messages_def by (auto simp: exMessages_def)
qed

lemma exProxyLib_documented: "documented_proxy exMessages exProxyLib"
  by (auto simp: documented_proxy_def documented_interceptor_def exProxyLib_def)

lemma isSealed_exCodecLib: "isSealed exCodecLib = isSealed exNames"
  by (simp add: fun_eq_iff isSealed_def exCodecLib_def)

lemma exCodecLib_documented: "documented_codec exPacking exCodecLib"
proof -
  have d: "decode_one exCodecLib = decode_one exNames"
    by (simp add: fun_eq_iff decode_one_def isSealed_exCodecLib)
  show ?thesis
    unfolding documented_codec_def d
    by (auto simp: exCodecLib_def collect_each exNames_def isSealed_def metadata_of_def exPacking_def)
qed

lemma exCodecLib_failures: "documented_failures exCodecLib"
  using get_put[of _ "[]"]
  by (auto simp: documented_failures_def exCodecLib_def exNames_def encodedFailureMarker_def metadata_of_def)

lemma exVault_opens: "vault_opens exVault exVault"
  by (auto simp: vault_opens_def exVault_def)


text \<open>A configuration that seals payloads and failures, and a message with one of each.\<close>

definition exEncConfig :: EncryptorConfig where
  "exEncConfig = \<lparr>Enabled = True, Vault = Some exVault, Reverse = False, AlreadySealedEncodings = [''zip''],
     EncodeFailures = True, Label = Some (\<lambda>ns. ''r-'' @ ns), Binding = True\<rparr>"

definition exCtx :: "string \<Rightarrow> callCtx" where
  "exCtx ns = \<lparr>stampedNamespace = Some ns, ctxNamespaceID = None\<rparr>"

definition exMessage :: exMsg where
  "exMessage = ([[\<lparr>P_metadata = [(''encoding'', ''json/plain'')], P_data = ''secret''\<rparr>, \<lparr>P_metadata = [(''encoding'', ''zip'')], P_data = ''z''\<rparr>]],
     [\<lparr>F_message = ''boom'', F_stackTrace = ''at line 1'', F_encodedAttributes = None\<rparr>])"

lemma exMessage_fresh: "fresh exCodecLib exMessages exMessage"
  by (simp add: fresh_def exMessages_def exMessage_def isSealed_exCodecLib isSealed_def exNames_def metadata_of_def unmarked_def)


section \<open>Properties\<close>

definition protected :: "codecLib \<Rightarrow> string list \<Rightarrow> 'm msgLib \<Rightarrow> 'm \<Rightarrow> bool" where
  "protected K encodings M m \<longleftrightarrow>
     (\<forall>ps \<in> set (payloadsOf M m). \<forall>p \<in> set ps. alreadySealed K encodings p)"

lemma seal_protects:
  assumes "documented_messages M" "documented_codec R K" "seal_msg K M cfg v ctx m = Inr m'" "Enabled cfg"
  shows "protected K (AlreadySealedEncodings cfg) M m'"
  unfolding protected_def
proof (intro ballI)
  fix qs q assume q: "qs \<in> set (payloadsOf M m')" "q \<in> set qs"
  let ?s = "alreadySealed K (AlreadySealedEncodings cfg)" and ?c = "visit_cipher v cfg ctx"
  have "traversal (VisitPayloads M) (payloadsOf M) (withPayloads M)" using assms(1) by (simp add: documented_messages_def)
  from traversal_post[OF this, of _ m m'] assms(3,4) q(1)
  obtain ps where "sealUnlessSealed K ?s [?c] ps = Inr qs" unfolding seal_msg_def by auto
  from seal_group[OF assms(2) this q(2)] show "?s q" .
qed

text \<open>
  Only sealed payloads leave. With encryption on, the encryptor of the outgoing side lets a request
  out only when every payload in it is sealed or has an encoding the configuration lists as already
  encrypted: the outcome of a call does not depend on what the peer does with any other request. The
  reply that the encryptor of the incoming side returns to the peer is sealed in the same way.
\<close>

lemma only_sealed_leaves:
  assumes "documented_messages M" "documented_proxy M L" "documented_codec R K"
    and "Vault cfg = Some v" "Enabled cfg" "NewEncryptor K L cfg = Inr e"
  shows "(\<not> Reverse cfg \<longrightarrow> (\<forall>ctx req call call'.
      (\<forall>r. protected K (AlreadySealedEncodings cfg) M r \<longrightarrow> call ctx r = call' ctx r) \<longrightarrow> e ctx call req = e ctx call' req)) \<and>
    (Reverse cfg \<longrightarrow> (\<forall>ctx req call reply. e ctx call req = Inr reply \<longrightarrow> protected K (AlreadySealedEncodings cfg) M reply))"
proof (cases "Reverse cfg")
  case False
  obtain fail fail' details details' where e: "\<And>ctx invoke req. e ctx invoke req =
      intercepted (encode_msg K M cfg) (restore_msg K M) fail' (details' ctx)
        (intercepted (seal_msg K M cfg v ctx) (open_msg K M cfg v ctx) fail (details ctx) (invoke ctx)) req"
    using encryptor_forward[OF assms(2,4) _ False, of K] assms(5,6) by auto
  have "intercepted (seal_msg K M cfg v ctx) (open_msg K M cfg v ctx) fail (details ctx) (call ctx) =
      intercepted (seal_msg K M cfg v ctx) (open_msg K M cfg v ctx) fail (details ctx) (call' ctx)"
    if "\<forall>r. protected K (AlreadySealedEncodings cfg) M r \<longrightarrow> call ctx r = call' ctx r" for ctx call call'
    using that seal_protects[OF assms(1,3) _ assms(5)] by (auto simp: intercepted_def fun_eq_iff split: sum.split)
  then have "e ctx call req = e ctx call' req" if "\<forall>r. protected K (AlreadySealedEncodings cfg) M r \<longrightarrow> call ctx r = call' ctx r" for ctx req call call'
    using that unfolding e by metis
  with False show ?thesis by blast
next
  case True
  obtain fail fail' details details' where e: "\<And>ctx invoke req. e ctx invoke req =
      intercepted (open_msg K M cfg v ctx) (seal_msg K M cfg v ctx) fail (details ctx)
        (intercepted (restore_msg K M) (encode_msg K M cfg) fail' (details' ctx) (invoke ctx)) req"
    using encryptor_reverse[OF assms(2,4) _ True, of K] assms(5,6) by auto
  have "protected K (AlreadySealedEncodings cfg) M reply" if "e ctx call req = Inr reply" for ctx call req reply
    using that seal_protects[OF assms(1,3) _ assms(5)] unfolding e intercepted_def[of "open_msg K M cfg v ctx"]
    by (auto split: sum.splits)
  with True show ?thesis by blast
qed

text \<open>
  Sealing is transparent: a call that passes the encryptor of one side and that of the other side, with
  the same keys and the same label, gives the handler the request as the caller sent it and the caller
  the reply as the handler gave it, the text of failures included.
\<close>

lemma sealed_link_transparent:
  assumes "documented_messages M" "documented_proxy M L" "documented_codec R K" "documented_failures K"
    and "vault_opens v v'" "vault_opens v' v" "Vault cfg = Some v" "\<not> Reverse cfg" "Vault cfg' = Some v'" "Reverse cfg'"
    and "NewEncryptor K L cfg = Inr a" "NewEncryptor K L cfg' = Inr b" "visit_label cfg ctx = visit_label cfg' ctx'"
    and "fresh K M req" "call ctx' req = Inr reply" "fresh K M reply"
  shows "a ctx (\<lambda>_. b ctx' call) req = Inr reply"
proof -
  have on: "EncodeFailures cfg \<longrightarrow> Enabled cfg" "EncodeFailures cfg' \<longrightarrow> Enabled cfg'"
    using assms(11,12) by (auto simp: NewEncryptor_def split: if_splits)
  obtain fail fail' details details' where a: "\<And>ctx invoke req. a ctx invoke req =
      intercepted (encode_msg K M cfg) (restore_msg K M) fail' (details' ctx)
        (intercepted (seal_msg K M cfg v ctx) (open_msg K M cfg v ctx) fail (details ctx) (invoke ctx)) req"
    using encryptor_forward[OF assms(2,7) on(1) assms(8), of K] assms(11) by auto
  obtain gail gail' dets dets' where b: "\<And>ctx invoke req. b ctx invoke req =
      intercepted (open_msg K M cfg' v' ctx) (seal_msg K M cfg' v' ctx) gail (dets ctx)
        (intercepted (restore_msg K M) (encode_msg K M cfg') gail' (dets' ctx) (invoke ctx)) req"
    using encryptor_reverse[OF assms(2,9) on(2) assms(10), of K] assms(12) by auto
  obtain m1 m2 where m: "encode_msg K M cfg req = Inr m1" "seal_msg K M cfg v ctx m1 = Inr m2"
    "open_msg K M cfg' v' ctx' m2 = Inr m1" "restore_msg K M m1 = Inr req"
    using message_roundtrip[OF assms(1,4,3,5,13,14)] by blast
  obtain r1 r2 where r: "encode_msg K M cfg' reply = Inr r1" "seal_msg K M cfg' v' ctx' r1 = Inr r2"
    "open_msg K M cfg v ctx r2 = Inr r1" "restore_msg K M r1 = Inr reply"
    using message_roundtrip[OF assms(1,4,3,6) assms(13)[symmetric] assms(16)] by blast
  have "b ctx' call m2 = Inr r2" by (simp add: b intercepted_def m r assms(15))
  then show ?thesis by (simp add: a intercepted_def m r)
qed

text \<open>
  A vault with strict binding: what it seals with a label is bound to it, and with an expected label it
  opens only messages bound to that label.
\<close>

definition strict_vault :: "vault \<Rightarrow> bool" where
  "strict_vault v \<longleftrightarrow>
     (\<forall>ns d l m. Seal v ns d (Some l) = Inr m \<longrightarrow> M_Bound m \<and> M_Namespace m = l) \<and>
     (\<forall>m l d. Open v m (Some l) = Inr d \<longrightarrow> M_Bound m \<and> M_Namespace m = l)"

text \<open>
  C12: Binding. With a strict vault and a label function, data sealed while one namespace was stamped on
  the call is not opened while another namespace with another label is stamped, and the observer is
  told of the mismatch.
\<close>

theorem sealed_data_stays_in_namespace:
  assumes "strict_vault v" "Label cfg = Some label" "Binding cfg"
    and "stampedNamespace ctx = Some ns" "stampedNamespace ctx' = Some ns'" "label ns \<noteq> label ns'"
    and "snd (Encrypt (visit_cipher v cfg ctx) d) = Inr m"
  shows "\<exists>err. Decrypt (visit_cipher v cfg ctx') m = ([NamespaceMismatch ns'], Inl err)"
proof -
  have "M_Bound m \<and> M_Namespace m = label ns"
    using assms(1,2,4,7)
    by (simp add: strict_vault_def Encrypt_def visit_cipher_def cipherOpt_def cipher_binding_def labelBinder_def)
  moreover have "\<exists>err. Open v m (Some (label ns')) = Inl err"
    using assms(1,6) calculation unfolding strict_vault_def by (metis sum.exhaust)
  ultimately show ?thesis
    using assms(2,3,5,6)
    by (auto simp: Decrypt_def visit_cipher_def cipherOpt_def cipher_binding_def labelBinder_def)
qed

theorem sealed_data_stays_in_namespace_witness:
  "\<exists>m err. snd (Encrypt (visit_cipher exVault exEncConfig (exCtx ''a'')) ''secret'') = Inr m \<and>
     Decrypt (visit_cipher exVault exEncConfig (exCtx ''b'')) m = ([NamespaceMismatch ''b''], Inl err)"
proof -
  have "strict_vault exVault" by (auto simp: strict_vault_def exVault_def split: if_splits)
  moreover have "Label exEncConfig = Some (\<lambda>ns. ''r-'' @ ns)" "Binding exEncConfig"
    "stampedNamespace (exCtx ''a'') = Some ''a''" "stampedNamespace (exCtx ''b'') = Some ''b''"
    "(''r-'' @ ''a'' :: string) \<noteq> ''r-'' @ ''b''"
    by (simp_all add: exEncConfig_def exCtx_def)
  moreover obtain m where "snd (Encrypt (visit_cipher exVault exEncConfig (exCtx ''a'')) ''secret'') = Inr m"
    by (simp add: Encrypt_def visit_cipher_def cipherOpt_def cipher_binding_def labelBinder_def exEncConfig_def exVault_def)
  ultimately show ?thesis
    using sealed_data_stays_in_namespace[of exVault exEncConfig "\<lambda>ns. ''r-'' @ ns" "exCtx ''a''" "''a''" "exCtx ''b''" "''b''"]
    by blast
qed

end
