(* ===== verification/AdminVisitors.thy ===== *)
theory AdminVisitors
  imports Prelude
begin

text \<open>
  The visitors of \<^verbatim>\<open>interceptor/admin_payloads_gen.go\<close>: which parts of an admin message are visited, in
  which order and under which path. The file is one switch over the type of the message, and each case
  is a sequence of a few forms of statements; \<open>visitor\<close> has a constructor for each form, and there is one
  definition for each case of the switch and for each message type that several cases walk in the same
  way. What the statements do is defined in \<open>AdminPayloads\<close>.
\<close>

section \<open>The statements\<close>

text \<open>
  \<^item> \<open>Get\<close>: \<^verbatim>\<open>y := x.GetF()\<close> and what is done with \<^verbatim>\<open>y\<close>;
  \<^item> \<open>Each\<close>: \<^verbatim>\<open>for _, item := range x.GetF()\<close>, over a slice or over the values of a map;
  \<^item> \<open>WithNs\<close>: \<^verbatim>\<open>ctx := withNamespaceID(ctx, x.GetA().GetB())\<close> in a block of its own;
  \<^item> \<open>Switch\<close>: \<^verbatim>\<open>switch oneof := x.GetF().(type)\<close>, with the name of the field of each case;
  \<^item> \<open>UnlessSkip\<close>: \<^verbatim>\<open>if !opts.PayloadOptions.SkipSearchAttributes\<close>;
  \<^item> the others: the calls of the visitors of \<^verbatim>\<open>admin_payloads.go\<close>, with the path where they take one.
\<close>

datatype visitor =
    Get string visitor
  | Each string visitor
  | WithNs "string list" visitor
  | Switch string alternatives
  | UnlessSkip visitor
  | Stmts visitors
  | VisitMessage
  | VisitPayload
  | VisitEventBlob
  | VisitOpaque string
  | VisitNode string
  | VisitTask string
and alternatives = NoAlt | Alt string visitor alternatives
and visitors = Done | Then visitor visitors

fun stmts :: "visitor list \<Rightarrow> visitors" where
  "stmts [] = Done"
| "stmts (v # vs) = Then v (stmts vs)"

fun alts :: "(string \<times> visitor) list \<Rightarrow> alternatives" where
  "alts [] = NoAlt"
| "alts ((n, v) # vs) = Alt n v (alts vs)"

section \<open>Message types that several cases walk\<close>

definition visit_ActivityInfo :: visitor where
  "visit_ActivityInfo = Stmts (stmts [Get ''LastHeartbeatDetails'' VisitMessage, Get ''RetryLastFailure'' VisitMessage])"

definition visit_ChasmNode :: "string \<Rightarrow> visitor" where
  "visit_ChasmNode p = Stmts (stmts
     [Get ''Data'' (Get ''Data'' (VisitOpaque (p @ ''/Data''))),
      Get ''Metadata'' (Switch ''Attributes'' (alts
        [(''ComponentAttributes'', Stmts (stmts
           [Each ''PureTasks'' (Get ''Data'' (Get ''Data'' (VisitOpaque
              (p @ ''/Metadata/ChasmNodeMetadata/Attributes/ComponentAttributes/ChasmComponentAttributes/PureTasks/ChasmComponentAttributes_Task/Data'')))),
            Each ''SideEffectTasks'' (Get ''Data'' (Get ''Data'' (VisitOpaque
              (p @ ''/Metadata/ChasmNodeMetadata/Attributes/ComponentAttributes/ChasmComponentAttributes/SideEffectTasks/ChasmComponentAttributes_Task/Data'')))),
            Get ''UserMetadata'' VisitMessage]))]))])"

definition visit_ExecutionInfo :: "string \<Rightarrow> visitor" where
  "visit_ExecutionInfo p = WithNs [''NamespaceId''] (Stmts (stmts
     [Each ''Memo'' VisitPayload,
      Each ''SearchAttributes'' (UnlessSkip VisitPayload),
      Each ''StateMachineTimers'' (Each ''Infos'' (Get ''Data'' (VisitOpaque
        (p @ ''/StateMachineTimers/StateMachineTimerGroup/Infos/StateMachineTaskInfo/Data'')))),
      Each ''SubStateMachinesByType'' (Each ''MachinesById'' (VisitNode
        (p @ ''/SubStateMachinesByType/StateMachineMap/MachinesById/StateMachineNode'')))]))"

definition visit_MutableState :: "string \<Rightarrow> visitor" where
  "visit_MutableState p = WithNs [''ExecutionInfo'', ''NamespaceId''] (Stmts (stmts
     [Each ''ActivityInfos'' visit_ActivityInfo,
      Each ''BufferedEvents'' VisitMessage,
      Each ''ChasmNodes'' (visit_ChasmNode (p @ ''/ChasmNodes/ChasmNode'')),
      Get ''ExecutionInfo'' (visit_ExecutionInfo (p @ ''/ExecutionInfo/WorkflowExecutionInfo''))]))"

definition visit_MutableStateMutation :: "string \<Rightarrow> visitor" where
  "visit_MutableStateMutation p = WithNs [''ExecutionInfo'', ''NamespaceId''] (Stmts (stmts
     [Get ''ExecutionInfo'' (visit_ExecutionInfo (p @ ''/ExecutionInfo/WorkflowExecutionInfo'')),
      Each ''UpdatedActivityInfos'' visit_ActivityInfo,
      Each ''UpdatedChasmNodes'' (visit_ChasmNode (p @ ''/UpdatedChasmNodes/ChasmNode'')),
      Each ''UpdatedSubStateMachines'' (Get ''Data'' (VisitOpaque
        (p @ ''/UpdatedSubStateMachines/WorkflowMutableStateMutation_StateMachineNodeMutation/Data'')))]))"

definition visit_Artifact :: "string \<Rightarrow> visitor" where
  "visit_Artifact p = Stmts (stmts
     [Each ''EventBatches'' VisitEventBlob,
      Get ''NewRunInfo'' (Get ''EventBatch'' VisitEventBlob),
      Switch ''StateAttributes'' (alts
        [(''SyncWorkflowStateMutationAttributes'', Get ''StateMutation'' (visit_MutableStateMutation
           (p @ ''/StateAttributes/SyncWorkflowStateMutationAttributes/SyncWorkflowStateMutationAttributes/StateMutation/WorkflowMutableStateMutation''))),
         (''SyncWorkflowStateSnapshotAttributes'', Get ''State'' (visit_MutableState
           (p @ ''/StateAttributes/SyncWorkflowStateSnapshotAttributes/SyncWorkflowStateSnapshotAttributes/State/WorkflowMutableState'')))])])"

definition visit_ReplicationTask :: "string \<Rightarrow> visitor" where
  "visit_ReplicationTask p = Stmts (stmts
     [Switch ''Attributes'' (alts
        [(''BackfillHistoryTaskAttributes'', WithNs [''NamespaceId''] (Stmts (stmts
           [Each ''EventBatches'' VisitEventBlob, Get ''NewRunInfo'' (Get ''EventBatch'' VisitEventBlob)]))),
         (''HistoryTaskAttributes'', WithNs [''NamespaceId''] (Stmts (stmts
           [Get ''Events'' VisitEventBlob, Each ''EventsBatches'' VisitEventBlob, Get ''NewRunEvents'' VisitEventBlob]))),
         (''SyncActivityTaskAttributes'', WithNs [''NamespaceId''] (Stmts (stmts
           [Get ''Details'' VisitMessage, Get ''LastFailure'' VisitMessage]))),
         (''SyncHsmAttributes'', WithNs [''NamespaceId''] (Get ''StateMachineNode'' (VisitNode
           (p @ ''/Attributes/SyncHsmAttributes/SyncHSMAttributes/StateMachineNode/StateMachineNode'')))),
         (''SyncVersionedTransitionTaskAttributes'', WithNs [''NamespaceId''] (Get ''VersionedTransitionArtifact'' (visit_Artifact
           (p @ ''/Attributes/SyncVersionedTransitionTaskAttributes/SyncVersionedTransitionTaskAttributes/VersionedTransitionArtifact/VersionedTransitionArtifact'')))),
         (''SyncWorkflowStateTaskAttributes'', Get ''WorkflowState'' (visit_MutableState
           (p @ ''/Attributes/SyncWorkflowStateTaskAttributes/SyncWorkflowStateTaskAttributes/WorkflowState/WorkflowMutableState'')))]),
      Get ''Data'' (Get ''Data'' (VisitOpaque (p @ ''/Data'')))])"

definition visit_ChasmTaskInfo :: "string \<Rightarrow> visitor" where
  "visit_ChasmTaskInfo p = Get ''Data'' (Get ''Data'' (VisitOpaque (p @ ''/TaskDetails/ChasmTaskInfo/ChasmTaskInfo/Data'')))"

section \<open>The cases of the switch\<close>

definition visit_AddTasksRequest :: visitor where
  "visit_AddTasksRequest = Each ''Tasks'' (VisitTask ''AddTasksRequest/Tasks/AddTasksRequest_Task'')"

definition visit_AddTasksRequest_Task :: visitor where
  "visit_AddTasksRequest_Task = VisitTask ''AddTasksRequest_Task''"

definition visit_DescribeMutableStateResponse :: visitor where
  "visit_DescribeMutableStateResponse = Stmts (stmts
     [Get ''CacheMutableState'' (visit_MutableState ''DescribeMutableStateResponse/CacheMutableState/WorkflowMutableState''),
      Get ''DatabaseMutableState'' (visit_MutableState ''DescribeMutableStateResponse/DatabaseMutableState/WorkflowMutableState'')])"

definition visit_GetDLQMessagesResponse :: visitor where
  "visit_GetDLQMessagesResponse =
     Each ''ReplicationTasks'' (visit_ReplicationTask ''GetDLQMessagesResponse/ReplicationTasks/ReplicationTask'')"

definition visit_GetDLQReplicationMessagesResponse :: visitor where
  "visit_GetDLQReplicationMessagesResponse =
     Each ''ReplicationTasks'' (visit_ReplicationTask ''GetDLQReplicationMessagesResponse/ReplicationTasks/ReplicationTask'')"

definition visit_GetDLQTasksResponse :: visitor where
  "visit_GetDLQTasksResponse =
     Each ''DlqTasks'' (Get ''Payload'' (Get ''Blob'' (Get ''Data''
       (VisitOpaque ''GetDLQTasksResponse/DlqTasks/HistoryDLQTask/Payload/HistoryTask/Blob''))))"

definition visit_GetNamespaceReplicationMessagesResponse :: visitor where
  "visit_GetNamespaceReplicationMessagesResponse =
     Get ''Messages'' (Each ''ReplicationTasks'' (visit_ReplicationTask
       ''GetNamespaceReplicationMessagesResponse/Messages/ReplicationMessages/ReplicationTasks/ReplicationTask''))"

definition visit_GetReplicationMessagesResponse :: visitor where
  "visit_GetReplicationMessagesResponse =
     Each ''ShardMessages'' (Each ''ReplicationTasks'' (visit_ReplicationTask
       ''GetReplicationMessagesResponse/ShardMessages/ReplicationMessages/ReplicationTasks/ReplicationTask''))"

definition visit_GetSearchAttributesResponse :: visitor where
  "visit_GetSearchAttributesResponse = Get ''AddWorkflowExecutionInfo'' VisitMessage"

definition visit_GetWorkflowExecutionRawHistoryResponse :: visitor where
  "visit_GetWorkflowExecutionRawHistoryResponse = Each ''HistoryBatches'' VisitEventBlob"

definition visit_GetWorkflowExecutionRawHistoryV2Response :: visitor where
  "visit_GetWorkflowExecutionRawHistoryV2Response = Each ''HistoryBatches'' VisitEventBlob"

definition visit_ImportWorkflowExecutionRequest :: visitor where
  "visit_ImportWorkflowExecutionRequest = Stmts (stmts
     [Each ''HistoryBatches'' VisitEventBlob, Get ''Token'' (VisitOpaque ''ImportWorkflowExecutionRequest/Token'')])"

definition visit_ImportWorkflowExecutionResponse :: visitor where
  "visit_ImportWorkflowExecutionResponse = Get ''Token'' (VisitOpaque ''ImportWorkflowExecutionResponse/Token'')"

definition visit_ReapplyEventsRequest :: visitor where
  "visit_ReapplyEventsRequest = WithNs [''NamespaceId''] (Get ''Events'' VisitEventBlob)"

definition visit_StreamWorkflowReplicationMessagesResponse :: visitor where
  "visit_StreamWorkflowReplicationMessagesResponse =
     Switch ''Attributes'' (alts [(''Messages'', Each ''ReplicationTasks'' (visit_ReplicationTask
       ''StreamWorkflowReplicationMessagesResponse/Attributes/Messages/WorkflowReplicationMessages/ReplicationTasks/ReplicationTask''))])"

definition visit_SyncWorkflowStateResponse :: visitor where
  "visit_SyncWorkflowStateResponse =
     Get ''VersionedTransitionArtifact'' (visit_Artifact ''SyncWorkflowStateResponse/VersionedTransitionArtifact/VersionedTransitionArtifact'')"

definition visit_OutboundTaskInfo :: visitor where
  "visit_OutboundTaskInfo = Switch ''TaskDetails'' (alts
     [(''ChasmTaskInfo'', visit_ChasmTaskInfo ''OutboundTaskInfo''),
      (''StateMachineInfo'', Get ''Data'' (VisitOpaque ''OutboundTaskInfo/TaskDetails/StateMachineInfo/StateMachineTaskInfo/Data''))])"

definition visit_TimerTaskInfo :: visitor where
  "visit_TimerTaskInfo = Switch ''TaskDetails'' (alts [(''ChasmTaskInfo'', visit_ChasmTaskInfo ''TimerTaskInfo'')])"

definition visit_TransferTaskInfo :: visitor where
  "visit_TransferTaskInfo = Switch ''TaskDetails'' (alts [(''ChasmTaskInfo'', visit_ChasmTaskInfo ''TransferTaskInfo'')])"

definition visit_VisibilityTaskInfo :: visitor where
  "visit_VisibilityTaskInfo = Switch ''TaskDetails'' (alts [(''ChasmTaskInfo'', visit_ChasmTaskInfo ''VisibilityTaskInfo'')])"

text \<open>The switch: the type of the message and its case. A message of another type is left alone.\<close>

definition adminVisitors :: "(string \<times> visitor) list" where
  "adminVisitors =
     [(''AddTasksRequest'', visit_AddTasksRequest),
      (''AddTasksRequest_Task'', visit_AddTasksRequest_Task),
      (''DescribeMutableStateResponse'', visit_DescribeMutableStateResponse),
      (''GetDLQMessagesResponse'', visit_GetDLQMessagesResponse),
      (''GetDLQReplicationMessagesResponse'', visit_GetDLQReplicationMessagesResponse),
      (''GetDLQTasksResponse'', visit_GetDLQTasksResponse),
      (''GetNamespaceReplicationMessagesResponse'', visit_GetNamespaceReplicationMessagesResponse),
      (''GetReplicationMessagesResponse'', visit_GetReplicationMessagesResponse),
      (''GetSearchAttributesResponse'', visit_GetSearchAttributesResponse),
      (''GetWorkflowExecutionRawHistoryResponse'', visit_GetWorkflowExecutionRawHistoryResponse),
      (''GetWorkflowExecutionRawHistoryV2Response'', visit_GetWorkflowExecutionRawHistoryV2Response),
      (''ImportWorkflowExecutionRequest'', visit_ImportWorkflowExecutionRequest),
      (''ImportWorkflowExecutionResponse'', visit_ImportWorkflowExecutionResponse),
      (''ReapplyEventsRequest'', visit_ReapplyEventsRequest),
      (''StreamWorkflowReplicationMessagesResponse'', visit_StreamWorkflowReplicationMessagesResponse),
      (''SyncWorkflowStateResponse'', visit_SyncWorkflowStateResponse),
      (''OutboundTaskInfo'', visit_OutboundTaskInfo),
      (''TimerTaskInfo'', visit_TimerTaskInfo),
      (''TransferTaskInfo'', visit_TransferTaskInfo),
      (''VisibilityTaskInfo'', visit_VisibilityTaskInfo)]"

end
