(* ===== verification/AdminPayloads.thy ===== *)
theory AdminPayloads
  imports AdminVisitors Sealing Translation
begin

text \<open>
  \<^verbatim>\<open>interceptor/admin_payloads.go\<close>, \<^verbatim>\<open>interceptor/admin_opaque.go\<close> and \<^verbatim>\<open>interceptor/admin_encryptor.go\<close>:
  sealing and opening the payloads of admin messages. An admin message is a tree; the messages of the
  public API in it are the values of \<open>Translation\<close>, which the API library visits (\<open>pubLib\<close>).
\<close>

section \<open>Errors\<close>

text \<open>
  A status, an error that wraps another one, a \<^verbatim>\<open>VisitError\<close> with its cause, or another error.
\<close>

datatype goErr = PlainErr string | StatusErr string string | WrapErr string goErr | VisitError goErr

text \<open>\<^verbatim>\<open>errors.As\<close> follows the chain of wrapped errors.\<close>

fun asVisitError :: "goErr \<Rightarrow> goErr option" where
  "asVisitError (VisitError e) = Some (VisitError e)"
| "asVisitError (WrapErr s e) = asVisitError e"
| "asVisitError _ = None"

definition surface :: "goErr \<Rightarrow> goErr" where
  "surface err = (case asVisitError err of Some visitErr \<Rightarrow> visitErr | None \<Rightarrow> err)"

definition markVisitError :: "goErr \<Rightarrow> goErr" where
  "markVisitError err = (case asVisitError err of Some _ \<Rightarrow> err | None \<Rightarrow> VisitError err)"

text \<open>The status a \<^verbatim>\<open>VisitError\<close> has: code and message.\<close>

definition GRPCStatus :: "goErr \<Rightarrow> string \<times> string" where
  "GRPCStatus err = (''Internal'', ''s2s-proxy could not seal or open a replication message; see its logs'')"

section \<open>Opaque data\<close>

datatype adminEvent =
    OpaquePassed string string
  | OpaqueRejected string string
  | VisitFailed string goErr
  | StreamVisitFailed string goErr

definition has_suffix :: "string \<Rightarrow> string \<Rightarrow> bool" where
  "has_suffix s suf \<longleftrightarrow> length suf \<le> length s \<and> drop (length s - length suf) s = suf"

definition OpaqueKind :: "string \<Rightarrow> string" where
  "OpaqueKind path =
     (if str_contains path ''Chasm'' then ''chasm''
      else if str_contains path ''StateMachine'' then ''hsm''
      else if has_suffix path ''/Blob'' \<or> has_suffix path ''ReplicationTask/Data'' then ''task''
      else ''other'')"

type_synonym opaqueHandler = "string \<Rightarrow> string \<Rightarrow> adminEvent list \<times> goErr option"

definition sealOpaque :: "bool \<Rightarrow> bool \<Rightarrow> opaqueHandler" where
  "sealOpaque allow obs path data =
     (let kind = OpaqueKind path
      in if allow then (if obs then [OpaquePassed kind path] else [], None)
         else (if obs then [OpaqueRejected kind path] else [],
               Some (StatusErr ''FailedPrecondition''
                 (''cannot seal opaque '' @ kind @ '' data at '' @ path @ ''; set encryption.allowOpaquePlaintext to send it unsealed''))))"

definition openOpaque :: opaqueHandler where
  "openOpaque path data = ([], None)"

definition markOpaque :: "opaqueHandler \<Rightarrow> opaqueHandler" where
  "markOpaque opaque path data = (let (evs, err) = opaque path data in (evs, map_option markVisitError err))"

section \<open>Admin messages\<close>

text \<open>
  The node of a tree of state machines; the children of all types are listed one after another, each
  with its type and ID.
\<close>

datatype smNode = SMNil | SMNode string smChildren
and smChildren = NoChild | Child string string smNode smChildren

text \<open>
  \<open>AMsg\<close> is a struct of the server's own messages with its fields, \<open>AList\<close> a slice or the values of a
  map, \<open>AOneof\<close> the set case of a oneof.
\<close>

datatype adm =
    ANil
  | AMsg "(string \<times> adm) list"
  | AList "adm list"
  | AOneof string adm
  | APub val
  | APayload payload
  | ABytes string
  | AStr string
  | AInt int
  | ABlob dataBlob
  | ANode smNode

definition field_of :: "adm \<Rightarrow> string \<Rightarrow> adm" where
  "field_of t f =
     (case t of
        AMsg fs \<Rightarrow> (case map_of fs f of Some v \<Rightarrow> v | None \<Rightarrow> ANil)
      | ABlob b \<Rightarrow> if f = ''Data'' then ABytes (B_data b) else ANil
      | _ \<Rightarrow> ANil)"

definition put_field :: "adm \<Rightarrow> string \<Rightarrow> adm \<Rightarrow> adm" where
  "put_field t f v = (case t of AMsg fs \<Rightarrow> AMsg (map (\<lambda>(g, w). (g, if g = f then v else w)) fs) | _ \<Rightarrow> t)"

definition string_at :: "adm \<Rightarrow> string list \<Rightarrow> string" where
  "string_at t path = (case foldl field_of t path of AStr s \<Rightarrow> s | _ \<Rightarrow> [])"

section \<open>The libraries and the options\<close>

datatype taskCategory =
    CategoryTransfer | CategoryTimer | CategoryReplication | CategoryVisibility | CategoryArchival | CategoryOutbound

text \<open>
  The visitors of the API library for public messages and for the details of an error, and the
  serialization of history tasks. \<open>categoryOf\<close> are the category IDs of the server.
\<close>

record pubLib =
  PubPayloads :: "(payload list \<Rightarrow> goErr + payload list) \<Rightarrow> val \<Rightarrow> goErr + val"
  PubFailures :: "(failure \<Rightarrow> goErr + failure) \<Rightarrow> val \<Rightarrow> goErr + val"
  NewDetailPayloads :: "(callCtx \<Rightarrow> payload list \<Rightarrow> goErr + payload list) option \<Rightarrow> string + (callCtx \<Rightarrow> goErr \<Rightarrow> goErr)"
  NewDetailFailures :: "(failure \<Rightarrow> goErr + failure) \<Rightarrow> string + (callCtx \<Rightarrow> goErr \<Rightarrow> goErr)"
  categoryOf :: "int \<Rightarrow> taskCategory option"
  DecodeTask :: "string \<Rightarrow> dataBlob \<Rightarrow> string + adm"
  EncodeTask :: "adm \<Rightarrow> string + dataBlob"

record AdminVisitOptions =
  ao_payloads :: "(callCtx \<Rightarrow> payload list \<Rightarrow> goErr + payload list) option"
  ao_skipSearchAttributes :: bool
  ao_opaque :: "opaqueHandler option"
  ao_failures :: "(failure \<Rightarrow> goErr + failure) option"
  ao_failuresAfter :: bool

type_synonym 'a res = "adminEvent list \<times> (goErr + 'a)"

definition bindR :: "'a res \<Rightarrow> ('a \<Rightarrow> 'b res) \<Rightarrow> 'b res" where
  "bindR r f = (case r of (evs, Inl e) \<Rightarrow> (evs, Inl e) | (evs, Inr x) \<Rightarrow> (let (evs', y) = f x in (evs @ evs', y)))"

definition withNamespaceID :: "callCtx \<Rightarrow> string \<Rightarrow> callCtx" where
  "withNamespaceID ctx i = ctx\<lparr>ctxNamespaceID := Some i\<rparr>"

definition namespaceIDFrom :: "callCtx \<Rightarrow> string \<times> bool" where
  "namespaceIDFrom ctx = (case ctxNamespaceID ctx of Some i \<Rightarrow> (i, True) | None \<Rightarrow> ([], False))"

section \<open>The visitors of \<^verbatim>\<open>admin_payloads.go\<close>\<close>

definition visitPayloadInPlace :: "AdminVisitOptions \<Rightarrow> callCtx \<Rightarrow> adm \<Rightarrow> adm res" where
  "visitPayloadInPlace opts ctx t =
     (case t of
        APayload p \<Rightarrow>
          (case (case ao_payloads opts of Some visitor \<Rightarrow> visitor ctx [p] | None \<Rightarrow> Inr [p]) of
             Inl err \<Rightarrow> ([], Inl err)
           | Inr [q] \<Rightarrow> ([], Inr (APayload q))
           | Inr out \<Rightarrow> ([], Inl (PlainErr ''payload visitor returned several payloads for a single payload, want 1'')))
      | _ \<Rightarrow> ([], Inr t))"

definition visitPublic :: "pubLib \<Rightarrow> AdminVisitOptions \<Rightarrow> callCtx \<Rightarrow> val \<Rightarrow> goErr + val" where
  "visitPublic L opts ctx m =
     (let payloads = (case ao_payloads opts of Some visitor \<Rightarrow> PubPayloads L (visitor ctx) | None \<Rightarrow> Inr)
      in case ao_failures opts of
           None \<Rightarrow> payloads m
         | Some visitor \<Rightarrow>
             let failures = PubFailures L visitor;
                 first' = (if ao_failuresAfter opts then payloads else failures);
                 second' = (if ao_failuresAfter opts then failures else payloads)
             in (case first' m of Inl err \<Rightarrow> Inl err | Inr m \<Rightarrow> second' m))"

definition visitMessage :: "pubLib \<Rightarrow> AdminVisitOptions \<Rightarrow> callCtx \<Rightarrow> adm \<Rightarrow> adm res" where
  "visitMessage L opts ctx t =
     (case t of
        APub m \<Rightarrow> (case visitPublic L opts ctx m of Inl err \<Rightarrow> ([], Inl err) | Inr m \<Rightarrow> ([], Inr (APub m)))
      | _ \<Rightarrow> ([], Inr t))"

definition history :: "val list \<Rightarrow> val" where
  "history events = VMsg ''History'' [(''Events'', True, VList ''HistoryEvent'' events)]"

text \<open>The events of a blob; those of a blob with invalid UTF-8 after the repair. A nil slice is the empty list.\<close>

definition blob_events :: "'c codec_scheme \<Rightarrow> dataBlob \<Rightarrow> goErr + val list" where
  "blob_events c blob =
     (case DeserializeEvents c blob of
        Inr events \<Rightarrow> Inr events
      | Inl err \<Rightarrow>
          if \<not> IsInvalidUTF8Error err then Inl (WrapErr ''failed to deserialize history events'' (PlainErr err))
          else (case tryRepairInvalidUTF8InBlob c blob of
                  (_, _, Some rerr) \<Rightarrow> Inl (WrapErr ''failed to repair invalid utf-8 in history events'' (PlainErr rerr))
                | (events, changed, None) \<Rightarrow>
                    if \<not> changed \<or> events = [] then Inl (WrapErr ''failed to deserialize history events'' (PlainErr err))
                    else Inr events))"

definition visitEventBlob :: "pubLib \<Rightarrow> 'c codec_scheme \<Rightarrow> AdminVisitOptions \<Rightarrow> callCtx \<Rightarrow> adm \<Rightarrow> adm res" where
  "visitEventBlob L c opts ctx t =
     (case t of
        ABlob blob \<Rightarrow>
          if B_data blob = [] then ([], Inr t)
          else (case blob_events c blob of
                  Inl err \<Rightarrow> ([], Inl err)
                | Inr events \<Rightarrow>
                    (case visitPublic L opts ctx (history events) of
                       Inl err \<Rightarrow> ([], Inl err)
                     | Inr h \<Rightarrow>
                         (case SerializeEvents c (list_of (field (fields_of h) ''Events'')) of
                            Inl err \<Rightarrow> ([], Inl (WrapErr ''failed to serialize history events'' (PlainErr err)))
                          | Inr out \<Rightarrow> ([], Inr (ABlob (blob\<lparr>B_encoding := B_encoding out, B_data := B_data out\<rparr>))))))
      | _ \<Rightarrow> ([], Inr t))"

definition visitOpaque :: "AdminVisitOptions \<Rightarrow> string \<Rightarrow> string \<Rightarrow> unit res" where
  "visitOpaque opts path data =
     (if length data = 0 then ([], Inr ())
      else (case ao_opaque opts of
              None \<Rightarrow> ([], Inr ())
            | Some opaque \<Rightarrow> (case opaque path data of (evs, None) \<Rightarrow> (evs, Inr ()) | (evs, Some err) \<Rightarrow> (evs, Inl err))))"

fun visitStateMachineNode :: "AdminVisitOptions \<Rightarrow> string \<Rightarrow> smNode \<Rightarrow> unit res"
  and visitChildren :: "AdminVisitOptions \<Rightarrow> string \<Rightarrow> smChildren \<Rightarrow> unit res" where
  "visitStateMachineNode opts path SMNil = ([], Inr ())"
| "visitStateMachineNode opts path (SMNode data children) =
     bindR (visitOpaque opts (path @ ''/Data'') data) (\<lambda>_. visitChildren opts path children)"
| "visitChildren opts path NoChild = ([], Inr ())"
| "visitChildren opts path (Child ty i child rest) =
     bindR (visitStateMachineNode opts (path @ ''/Children['' @ ty @ '']/'' @ i) child)
       (\<lambda>_. visitChildren opts path rest)"

definition taskInfoByCategory :: "taskCategory \<Rightarrow> string" where
  "taskInfoByCategory c =
     (case c of
        CategoryTransfer \<Rightarrow> ''TransferTaskInfo''
      | CategoryTimer \<Rightarrow> ''TimerTaskInfo''
      | CategoryReplication \<Rightarrow> ''ReplicationTaskInfo''
      | CategoryVisibility \<Rightarrow> ''VisibilityTaskInfo''
      | CategoryArchival \<Rightarrow> ''ArchivalTaskInfo''
      | CategoryOutbound \<Rightarrow> ''OutboundTaskInfo'')"

text \<open>\<open>visit\<close> is \<^verbatim>\<open>visitAdminPayloads\<close>, called for the decoded task.\<close>

definition visitAddTasksRequestTask ::
  "pubLib \<Rightarrow> AdminVisitOptions \<Rightarrow> (callCtx \<Rightarrow> string \<Rightarrow> adm \<Rightarrow> adm res) \<Rightarrow> callCtx \<Rightarrow> string \<Rightarrow> adm \<Rightarrow> adm res" where
  "visitAddTasksRequestTask L opts visit ctx path t =
     (case field_of t ''Blob'' of
        ABlob blob \<Rightarrow>
          if length (B_data blob) = 0 then ([], Inr t)
          else
            let opaque = bindR (visitOpaque opts (path @ ''/Blob'') (B_data blob)) (\<lambda>_. ([], Inr t))
            in (case categoryOf L (case field_of t ''CategoryId'' of AInt i \<Rightarrow> i | _ \<Rightarrow> 0) of
                  None \<Rightarrow> opaque
                | Some cat \<Rightarrow>
                    (case DecodeTask L (taskInfoByCategory cat) blob of
                       Inl err \<Rightarrow> opaque
                     | Inr info \<Rightarrow>
                         bindR (visit ctx (taskInfoByCategory cat) info) (\<lambda>info.
                           case EncodeTask L info of
                             Inl err \<Rightarrow> ([], Inl (WrapErr (path @ '': failed to serialize history task'') (PlainErr err)))
                           | Inr out \<Rightarrow> ([], Inr (put_field t ''Blob'' (ABlob (blob\<lparr>B_encoding := B_encoding out, B_data := B_data out\<rparr>)))))))
      | _ \<Rightarrow> ([], Inr t))"

section \<open>Running a visitor\<close>

fun visit_each :: "(adm \<Rightarrow> adm res) \<Rightarrow> adm list \<Rightarrow> adm list res" where
  "visit_each f [] = ([], Inr [])"
| "visit_each f (x # xs) = bindR (f x) (\<lambda>y. bindR (visit_each f xs) (\<lambda>ys. ([], Inr (y # ys))))"

text \<open>\<open>task\<close> is \<^verbatim>\<open>visitAddTasksRequestTask\<close>.\<close>

fun run ::
    "pubLib \<Rightarrow> 'c codec_scheme \<Rightarrow> AdminVisitOptions \<Rightarrow> (callCtx \<Rightarrow> string \<Rightarrow> adm \<Rightarrow> adm res) \<Rightarrow>
     visitor \<Rightarrow> callCtx \<Rightarrow> adm \<Rightarrow> adm res"
  and run_alt ::
    "pubLib \<Rightarrow> 'c codec_scheme \<Rightarrow> AdminVisitOptions \<Rightarrow> (callCtx \<Rightarrow> string \<Rightarrow> adm \<Rightarrow> adm res) \<Rightarrow>
     alternatives \<Rightarrow> callCtx \<Rightarrow> string \<Rightarrow> adm \<Rightarrow> adm res"
  and run_all ::
    "pubLib \<Rightarrow> 'c codec_scheme \<Rightarrow> AdminVisitOptions \<Rightarrow> (callCtx \<Rightarrow> string \<Rightarrow> adm \<Rightarrow> adm res) \<Rightarrow>
     visitors \<Rightarrow> callCtx \<Rightarrow> adm \<Rightarrow> adm res" where
  "run L c opts task (Get f v) ctx t = bindR (run L c opts task v ctx (field_of t f)) (\<lambda>w. ([], Inr (put_field t f w)))"
| "run L c opts task (Each f v) ctx t =
     (case field_of t f of
        AList xs \<Rightarrow> bindR (visit_each (run L c opts task v ctx) xs) (\<lambda>ys. ([], Inr (put_field t f (AList ys))))
      | _ \<Rightarrow> ([], Inr t))"
| "run L c opts task (WithNs path v) ctx t = run L c opts task v (withNamespaceID ctx (string_at t path)) t"
| "run L c opts task (Switch f as) ctx t =
     (case field_of t f of
        AOneof n w \<Rightarrow> bindR (run_alt L c opts task as ctx n w) (\<lambda>w. ([], Inr (put_field t f (AOneof n w))))
      | _ \<Rightarrow> ([], Inr t))"
| "run L c opts task (UnlessSkip v) ctx t =
     (if \<not> ao_skipSearchAttributes opts then run L c opts task v ctx t else ([], Inr t))"
| "run L c opts task (Stmts vs) ctx t = run_all L c opts task vs ctx t"
| "run L c opts task VisitMessage ctx t = visitMessage L opts ctx t"
| "run L c opts task VisitPayload ctx t = visitPayloadInPlace opts ctx t"
| "run L c opts task VisitEventBlob ctx t = visitEventBlob L c opts ctx t"
| "run L c opts task (VisitOpaque path) ctx t =
     bindR (visitOpaque opts path (case t of ABytes d \<Rightarrow> d | _ \<Rightarrow> [])) (\<lambda>_. ([], Inr t))"
| "run L c opts task (VisitNode path) ctx t =
     bindR (visitStateMachineNode opts path (case t of ANode n \<Rightarrow> n | _ \<Rightarrow> SMNil)) (\<lambda>_. ([], Inr t))"
| "run L c opts task (VisitTask path) ctx t = task ctx path t"
| "run_alt L c opts task NoAlt ctx n t = ([], Inr t)"
| "run_alt L c opts task (Alt m v as) ctx n t =
     (if n = m then run L c opts task v ctx t else run_alt L c opts task as ctx n t)"
| "run_all L c opts task Done ctx t = ([], Inr t)"
| "run_all L c opts task (Then v vs) ctx t = bindR (run L c opts task v ctx t) (run_all L c opts task vs ctx)"

text \<open>
  The switch. The first argument bounds how deep tasks are nested in messages: a task holds a message
  without tasks, so two are enough (\<open>admin_depth\<close>).
\<close>

primrec visitAdminPayloads ::
  "nat \<Rightarrow> pubLib \<Rightarrow> 'c codec_scheme \<Rightarrow> AdminVisitOptions \<Rightarrow> callCtx \<Rightarrow> string \<Rightarrow> adm \<Rightarrow> adm res" where
  "visitAdminPayloads 0 L c opts ctx ty t = ([], Inl (PlainErr ''too deep''))"
| "visitAdminPayloads (Suc n) L c opts ctx ty t =
     (case map_of adminVisitors ty of
        None \<Rightarrow> ([], Inr t)
      | Some v \<Rightarrow> run L c opts (visitAddTasksRequestTask L opts (visitAdminPayloads n L c opts)) v ctx t)"

definition VisitAdminPayloads ::
  "pubLib \<Rightarrow> 'c codec_scheme \<Rightarrow> callCtx \<Rightarrow> string \<times> adm \<Rightarrow> AdminVisitOptions \<Rightarrow> (string \<times> adm) res" where
  "VisitAdminPayloads L c ctx msg opts =
     (if ao_payloads opts = None then ([], Inl (PlainErr ''visiting admin payloads requires a payload visitor''))
      else if ao_opaque opts = None then ([], Inl (PlainErr ''visiting admin payloads requires an opaque data handler''))
      else bindR (visitAdminPayloads 2 L c opts ctx (fst msg) (snd msg)) (\<lambda>t. ([], Inr (fst msg, t))))"

end
