(* ===== verification/AdminCoverage.thy ===== *)
theory AdminCoverage
  imports AdminPayloads
begin

text \<open>
  What a visitor leaves behind. \<open>clean\<close> says of a message that every place a visitor looks at satisfies
  the conditions of a \<open>coverage\<close>: on the payloads, the public messages, the blobs of events and the
  tasks, and that there is no opaque data. A run that succeeds leaves a clean message (\<open>run_clean\<close>),
  for every visitor whose statements look at different fields, as those of the switch do.
\<close>

section \<open>Clean messages\<close>

record coverage =
  cov_payload :: "payload \<Rightarrow> bool"
  cov_pub :: "val \<Rightarrow> bool"
  cov_blob :: "dataBlob \<Rightarrow> bool"
  cov_task :: "adm \<Rightarrow> bool"
  cov_skip :: bool

fun node_empty :: "smNode \<Rightarrow> bool" and children_empty :: "smChildren \<Rightarrow> bool" where
  "node_empty SMNil \<longleftrightarrow> True"
| "node_empty (SMNode d cs) \<longleftrightarrow> d = [] \<and> children_empty cs"
| "children_empty NoChild \<longleftrightarrow> True"
| "children_empty (Child ty i n cs) \<longleftrightarrow> node_empty n \<and> children_empty cs"

fun clean :: "coverage \<Rightarrow> visitor \<Rightarrow> adm \<Rightarrow> bool"
  and clean_alt :: "coverage \<Rightarrow> alternatives \<Rightarrow> string \<Rightarrow> adm \<Rightarrow> bool"
  and clean_all :: "coverage \<Rightarrow> visitors \<Rightarrow> adm \<Rightarrow> bool" where
  "clean C (Get f v) t \<longleftrightarrow> clean C v (field_of t f)"
| "clean C (Each f v) t \<longleftrightarrow> (case field_of t f of AList xs \<Rightarrow> \<forall>x \<in> set xs. clean C v x | _ \<Rightarrow> True)"
| "clean C (WithNs path v) t \<longleftrightarrow> clean C v t"
| "clean C (Switch f as) t \<longleftrightarrow> (case field_of t f of AOneof n w \<Rightarrow> clean_alt C as n w | _ \<Rightarrow> True)"
| "clean C (UnlessSkip v) t \<longleftrightarrow> cov_skip C \<or> clean C v t"
| "clean C (Stmts vs) t \<longleftrightarrow> clean_all C vs t"
| "clean C VisitMessage t \<longleftrightarrow> (case t of APub m \<Rightarrow> cov_pub C m | _ \<Rightarrow> True)"
| "clean C VisitPayload t \<longleftrightarrow> (case t of APayload p \<Rightarrow> cov_payload C p | _ \<Rightarrow> True)"
| "clean C VisitEventBlob t \<longleftrightarrow> (case t of ABlob b \<Rightarrow> cov_blob C b | _ \<Rightarrow> True)"
| "clean C (VisitOpaque path) t \<longleftrightarrow> (case t of ABytes d \<Rightarrow> d = [] | _ \<Rightarrow> True)"
| "clean C (VisitNode path) t \<longleftrightarrow> (case t of ANode n \<Rightarrow> node_empty n | _ \<Rightarrow> True)"
| "clean C (VisitTask path) t \<longleftrightarrow> cov_task C t"
| "clean_alt C NoAlt n t \<longleftrightarrow> True"
| "clean_alt C (Alt m v as) n t \<longleftrightarrow> (if n = m then clean C v t else clean_alt C as n t)"
| "clean_all C Done t \<longleftrightarrow> True"
| "clean_all C (Then v vs) t \<longleftrightarrow> clean C v t \<and> clean_all C vs t"

section \<open>Visitors whose statements look at different fields\<close>

fun leafless :: "visitor \<Rightarrow> bool" and leafless_all :: "visitors \<Rightarrow> bool" where
  "leafless (Get f v) \<longleftrightarrow> True"
| "leafless (Each f v) \<longleftrightarrow> True"
| "leafless (Switch f as) \<longleftrightarrow> True"
| "leafless (WithNs path v) \<longleftrightarrow> leafless v"
| "leafless (UnlessSkip v) \<longleftrightarrow> leafless v"
| "leafless (Stmts vs) \<longleftrightarrow> leafless_all vs"
| "leafless _ \<longleftrightarrow> False"
| "leafless_all Done \<longleftrightarrow> True"
| "leafless_all (Then v vs) \<longleftrightarrow> leafless v \<and> leafless_all vs"

fun touches :: "visitor \<Rightarrow> string list" and touches_all :: "visitors \<Rightarrow> string list" where
  "touches (Get f v) = [f]"
| "touches (Each f v) = [f]"
| "touches (Switch f as) = [f]"
| "touches (WithNs path v) = touches v"
| "touches (UnlessSkip v) = touches v"
| "touches (Stmts vs) = touches_all vs"
| "touches _ = []"
| "touches_all Done = []"
| "touches_all (Then v vs) = touches v @ touches_all vs"

fun wf_visitor :: "visitor \<Rightarrow> bool" and wf_alt :: "alternatives \<Rightarrow> bool" and wf_all :: "visitors \<Rightarrow> bool" where
  "wf_visitor (Get f v) \<longleftrightarrow> wf_visitor v"
| "wf_visitor (Each f v) \<longleftrightarrow> wf_visitor v"
| "wf_visitor (WithNs path v) \<longleftrightarrow> wf_visitor v"
| "wf_visitor (Switch f as) \<longleftrightarrow> wf_alt as"
| "wf_visitor (UnlessSkip v) \<longleftrightarrow> wf_visitor v"
| "wf_visitor (Stmts vs) \<longleftrightarrow> wf_all vs"
| "wf_visitor _ \<longleftrightarrow> True"
| "wf_alt NoAlt \<longleftrightarrow> True"
| "wf_alt (Alt m v as) \<longleftrightarrow> wf_visitor v \<and> wf_alt as"
| "wf_all Done \<longleftrightarrow> True"
| "wf_all (Then v vs) \<longleftrightarrow>
     leafless v \<and> leafless_all vs \<and> list_all (\<lambda>f. f \<notin> set (touches_all vs)) (touches v) \<and> wf_visitor v \<and> wf_all vs"

lemmas visitor_defs =
  visit_ActivityInfo_def visit_ChasmNode_def visit_ExecutionInfo_def visit_MutableState_def visit_MutableStateMutation_def
  visit_Artifact_def visit_ReplicationTask_def visit_ChasmTaskInfo_def visit_AddTasksRequest_def visit_AddTasksRequest_Task_def
  visit_DescribeMutableStateResponse_def visit_GetDLQMessagesResponse_def visit_GetDLQReplicationMessagesResponse_def
  visit_GetDLQTasksResponse_def visit_GetNamespaceReplicationMessagesResponse_def visit_GetReplicationMessagesResponse_def
  visit_GetSearchAttributesResponse_def visit_GetWorkflowExecutionRawHistoryResponse_def
  visit_GetWorkflowExecutionRawHistoryV2Response_def visit_ImportWorkflowExecutionRequest_def
  visit_ImportWorkflowExecutionResponse_def visit_ReapplyEventsRequest_def visit_StreamWorkflowReplicationMessagesResponse_def
  visit_SyncWorkflowStateResponse_def visit_OutboundTaskInfo_def visit_TimerTaskInfo_def visit_TransferTaskInfo_def
  visit_VisibilityTaskInfo_def

lemma wf_parts:
  "wf_visitor visit_ActivityInfo" "wf_visitor (visit_ChasmNode p)" "wf_visitor (visit_ExecutionInfo p)"
  by (simp_all add: visit_ActivityInfo_def visit_ChasmNode_def visit_ExecutionInfo_def)

lemma wf_states: "wf_visitor (visit_MutableState p)" "wf_visitor (visit_MutableStateMutation p)"
  by (simp_all add: visit_MutableState_def visit_MutableStateMutation_def wf_parts)

lemma wf_Artifact: "wf_visitor (visit_Artifact p)"
  by (simp add: visit_Artifact_def wf_states)

lemma wf_ReplicationTask: "wf_visitor (visit_ReplicationTask p)"
  by (simp add: visit_ReplicationTask_def wf_states wf_Artifact)

lemma wf_ChasmTaskInfo: "wf_visitor (visit_ChasmTaskInfo p)"
  by (simp add: visit_ChasmTaskInfo_def)

lemma wf_adminVisitors: "list_all (\<lambda>(ty, v). wf_visitor v) adminVisitors"
  by (simp add: adminVisitors_def visit_AddTasksRequest_def visit_AddTasksRequest_Task_def
  visit_DescribeMutableStateResponse_def visit_GetDLQMessagesResponse_def visit_GetDLQReplicationMessagesResponse_def
  visit_GetDLQTasksResponse_def visit_GetNamespaceReplicationMessagesResponse_def visit_GetReplicationMessagesResponse_def
  visit_GetSearchAttributesResponse_def visit_GetWorkflowExecutionRawHistoryResponse_def
  visit_GetWorkflowExecutionRawHistoryV2Response_def visit_ImportWorkflowExecutionRequest_def
  visit_ImportWorkflowExecutionResponse_def visit_ReapplyEventsRequest_def visit_StreamWorkflowReplicationMessagesResponse_def
  visit_SyncWorkflowStateResponse_def visit_OutboundTaskInfo_def visit_TimerTaskInfo_def visit_TransferTaskInfo_def
  visit_VisibilityTaskInfo_def wf_states wf_Artifact wf_ReplicationTask wf_ChasmTaskInfo)



section \<open>Fields\<close>

lemma bindR_Inr [simp]: "snd (bindR r f) = Inr y \<longleftrightarrow> (\<exists>x. snd r = Inr x \<and> snd (f x) = Inr y)"
  by (auto simp: bindR_def case_prod_beta split: sum.splits prod.splits)

lemma map_of_put: "map_of (map (\<lambda>(g, w). (g, if g = f then v else w)) fs) h =
    (case map_of fs h of None \<Rightarrow> None | Some w \<Rightarrow> Some (if h = f then v else w))"
  by (induction fs) auto

lemma field_put_other [simp]: "g \<noteq> f \<Longrightarrow> field_of (put_field t f v) g = field_of t g"
  by (auto simp: field_of_def put_field_def map_of_put split: adm.split option.split)

text \<open>A value that is not in a field cannot be changed by a visitor.\<close>

definition rigid :: "adm \<Rightarrow> bool" where
  "rigid t \<longleftrightarrow> t = ANil \<or> (\<exists>d. t = ABytes d)"

lemma rigid_field: "rigid t \<Longrightarrow> field_of t f = ANil"
  by (auto simp: rigid_def field_of_def)

lemma rigid_put: "rigid t \<Longrightarrow> put_field t f v = t"
  by (auto simp: rigid_def put_field_def)

lemma field_put_same:
  assumes "rigid (field_of t f) \<longrightarrow> v = field_of t f"
  shows "field_of (put_field t f v) f = v"
proof (cases t)
  case (AMsg fs)
  show ?thesis
  proof (cases "map_of fs f")
    case None
    then have "field_of t f = ANil" by (simp add: AMsg field_of_def)
    then show ?thesis using assms None by (simp add: AMsg rigid_def put_field_def field_of_def map_of_put)
  qed (simp add: AMsg put_field_def field_of_def map_of_put)
qed (use assms in \<open>auto simp: field_of_def put_field_def rigid_def split: if_splits\<close>)

lemma run_rigid:
  assumes task: "\<And>ctx path t t'. rigid t \<Longrightarrow> snd (task ctx path t) = Inr t' \<Longrightarrow> t' = t"
  shows "snd (run L c opts task v ctx t) = Inr t' \<Longrightarrow> rigid t \<Longrightarrow> t' = t"
    and "snd (run_alt L c opts task as ctx n t) = Inr t' \<Longrightarrow> rigid t \<Longrightarrow> t' = t"
    and "snd (run_all L c opts task vs ctx t) = Inr t' \<Longrightarrow> rigid t \<Longrightarrow> t' = t"
proof (induction v and as and vs arbitrary: ctx t t' and ctx n t t' and ctx t t' rule: visitor.induct alternatives.induct visitors.induct)
  case (Get f v)
  then show ?case by (auto simp: rigid_put)
next
  case (Each f v)
  then show ?case by (auto simp: rigid_field)
next
  case (Switch f as)
  then show ?case by (auto simp: rigid_field)
next
  case (VisitTask path)
  then show ?case using task by simp
next
  case (Then v vs)
  then show ?case by fastforce
qed (auto simp: visitMessage_def visitPayloadInPlace_def visitEventBlob_def rigid_def split: if_splits)

text \<open>A statement changes only the fields it looks at, and being clean depends only on them.\<close>

lemma run_keeps:
  "snd (run L c opts task v ctx t) = Inr t' \<Longrightarrow> leafless v \<Longrightarrow> g \<notin> set (touches v) \<Longrightarrow> field_of t' g = field_of t g"
  "snd (run_all L c opts task vs ctx t) = Inr t' \<Longrightarrow> leafless_all vs \<Longrightarrow> g \<notin> set (touches_all vs) \<Longrightarrow> field_of t' g = field_of t g"
proof (induction v and vs arbitrary: ctx t t' and ctx t t' rule: leafless_leafless_all.induct)
qed (auto 4 4 split: adm.splits if_splits)

lemma clean_cong:
  "leafless v \<Longrightarrow> \<forall>f \<in> set (touches v). field_of t f = field_of t' f \<Longrightarrow> clean C v t = clean C v t'"
  "leafless_all vs \<Longrightarrow> \<forall>f \<in> set (touches_all vs). field_of t f = field_of t' f \<Longrightarrow> clean_all C vs t = clean_all C vs t'"
  by (induction v and vs rule: leafless_leafless_all.induct) auto



section \<open>A run that succeeds leaves a clean message\<close>

text \<open>The options establish the coverage, and opaque data is refused.\<close>

definition covers ::
  "coverage \<Rightarrow> pubLib \<Rightarrow> 'c codec_scheme \<Rightarrow> AdminVisitOptions \<Rightarrow> (callCtx \<Rightarrow> string \<Rightarrow> adm \<Rightarrow> adm res) \<Rightarrow> bool" where
  "covers C L c opts task \<longleftrightarrow>
     (\<exists>vis. ao_payloads opts = Some vis \<and> (\<forall>ctx ps qs. vis ctx ps = Inr qs \<longrightarrow> (\<forall>q \<in> set qs. cov_payload C q))) \<and>
     (\<forall>ctx m m'. visitPublic L opts ctx m = Inr m' \<longrightarrow> cov_pub C m') \<and>
     (\<forall>ctx b t'. snd (visitEventBlob L c opts ctx (ABlob b)) = Inr t' \<longrightarrow> (\<exists>b'. t' = ABlob b' \<and> cov_blob C b')) \<and>
     (\<exists>h. ao_opaque opts = Some h \<and> (\<forall>path d. snd (h path d) \<noteq> None)) \<and>
     (\<forall>ctx path t t'. snd (task ctx path t) = Inr t' \<longrightarrow> cov_task C t' \<and> (rigid t \<longrightarrow> t' = t)) \<and>
     (ao_skipSearchAttributes opts \<longrightarrow> cov_skip C)"

lemma opaque_refused:
  assumes "covers C L c opts task" "snd (visitOpaque opts path d) = Inr x"
  shows "d = []"
proof (rule ccontr)
  assume "d \<noteq> []"
  moreover obtain h where h: "ao_opaque opts = Some h" "snd (h path d) \<noteq> None"
    using assms(1) unfolding covers_def by blast
  moreover obtain evs e where "h path d = (evs, Some e)" using h(2) by (metis option.exhaust prod.collapse)
  ultimately show False using assms(2) by (simp add: visitOpaque_def)
qed

lemma node_refused:
  assumes "covers C L c opts task"
  shows "snd (visitStateMachineNode opts path n) = Inr x \<Longrightarrow> node_empty n"
    and "snd (visitChildren opts path cs) = Inr x \<Longrightarrow> children_empty cs"
proof (induction n and cs arbitrary: path x and path x rule: smNode.induct smChildren.induct)
  case (SMNode d cs)
  then show ?case using opaque_refused[OF assms] by fastforce
next
  case (Child ty i n cs)
  then show ?case by fastforce
qed simp_all

lemma visit_each_clean:
  "snd (visit_each f xs) = Inr ys \<Longrightarrow> (\<And>x y. x \<in> set xs \<Longrightarrow> snd (f x) = Inr y \<Longrightarrow> P y) \<Longrightarrow> \<forall>y \<in> set ys. P y"
proof (induction xs arbitrary: ys)
  case (Cons x xs)
  then obtain y ys' where "snd (f x) = Inr y" "snd (visit_each f xs) = Inr ys'" "ys = y # ys'" by auto
  with Cons show ?case by (metis list.set_intros set_ConsD)
qed simp

lemma run_clean:
  assumes C: "covers C L c opts task"
  shows "snd (run L c opts task v ctx t) = Inr t' \<Longrightarrow> wf_visitor v \<Longrightarrow> clean C v t'"
    and "snd (run_alt L c opts task as ctx n t) = Inr t' \<Longrightarrow> wf_alt as \<Longrightarrow> clean_alt C as n t'"
    and "snd (run_all L c opts task vs ctx t) = Inr t' \<Longrightarrow> wf_all vs \<Longrightarrow> clean_all C vs t'"
proof (induction v and as and vs arbitrary: ctx t t' and ctx n t t' and ctx t t' rule: visitor.induct alternatives.induct visitors.induct)
  case (Get f v)
  then obtain w where w: "snd (run L c opts task v ctx (field_of t f)) = Inr w" "t' = put_field t f w" by auto
  have "rigid (field_of t f) \<longrightarrow> w = field_of t f"
    using run_rigid(1)[of task L c opts v ctx "field_of t f" w] C w(1) by (auto simp: covers_def)
  then show ?case using Get.IH[OF w(1)] Get.prems(2) by (simp add: w(2) field_put_same)
next
  case (Each f v)
  show ?case
  proof (cases "field_of t f")
    case (AList xs)
    then obtain ys where ys: "snd (visit_each (run L c opts task v ctx) xs) = Inr ys" "t' = put_field t f (AList ys)"
      using Each.prems(1) by auto
    have "\<forall>y \<in> set ys. clean C v y" by (rule visit_each_clean[OF ys(1)]) (use Each in auto)
    moreover have "field_of t' f = AList ys" unfolding ys(2) by (rule field_put_same) (simp add: AList rigid_def)
    ultimately show ?thesis by simp
  qed (use Each.prems in auto)
next
  case (Switch f as)
  show ?case
  proof (cases "field_of t f")
    case (AOneof n w)
    then obtain w' where w: "snd (run_alt L c opts task as ctx n w) = Inr w'" "t' = put_field t f (AOneof n w')"
      using Switch.prems(1) by auto
    have "field_of t' f = AOneof n w'" unfolding w(2) by (rule field_put_same) (simp add: AOneof rigid_def)
    then show ?thesis using Switch.IH[OF w(1)] Switch.prems(2) by simp
  qed (use Switch.prems in auto)
next
  case (Then v vs)
  then obtain t1 where t1: "snd (run L c opts task v ctx t) = Inr t1" "snd (run_all L c opts task vs ctx t1) = Inr t'" by auto
  have "\<forall>f \<in> set (touches v). field_of t' f = field_of t1 f"
    using run_keeps(2)[OF t1(2)] Then.prems(2) by (auto simp: list_all_iff)
  then have "clean C v t' = clean C v t1" using Then.prems(2) by (intro clean_cong(1)) auto
  then show ?case using Then.IH(1)[OF t1(1)] Then.IH(2)[OF t1(2)] Then.prems(2) by simp
next
  case (VisitOpaque path)
  then show ?case using opaque_refused[OF C] by (auto split: adm.splits)
next
  case (VisitNode path)
  then show ?case using node_refused(1)[OF C] by (auto split: adm.splits)
next
  case VisitPayload
  then show ?case using C by (auto simp: covers_def visitPayloadInPlace_def split: adm.splits sum.splits list.splits)
next
  case VisitMessage
  then show ?case using C by (auto simp: covers_def visitMessage_def split: adm.splits sum.splits)
next
  case VisitEventBlob
  show ?case
  proof (cases t)
    case (ABlob b)
    then show ?thesis using C VisitEventBlob.prems by (fastforce simp: covers_def)
  qed (use VisitEventBlob.prems in \<open>auto simp: visitEventBlob_def\<close>)
next
  case (VisitTask path)
  then show ?case using C by (auto simp: covers_def)
next
  case (UnlessSkip v)
  then show ?case using C by (auto simp: covers_def split: if_splits)
qed auto

end
