(* ===== verification/TLSConfig.thy ===== *)
theory TLSConfig
  imports Prelude
begin

text \<open>
  \<^verbatim>\<open>encryption/tls.go\<close> and \<^verbatim>\<open>encryption/certificate.go\<close>: the TLS settings of the proxy's clients and servers.
  Files, HTTP, PEM blocks, certificates, certificate pools and the server library's empty configuration are the fields of \<open>certLib\<close>; the callbacks of
  the server configuration only log and are left out, except that \<^verbatim>\<open>VerifyPeerCertificate\<close> accepts what the
  TLS library has verified.
\<close>

section \<open>Settings\<close>

record TLSConfig =
  CertificatePath :: string
  KeyPath :: string
  RemoteCAPath :: string
  CAServerName :: string
  SkipCAVerification :: bool

definition tls_IsEnabled :: "TLSConfig \<Rightarrow> bool" where
  "tls_IsEnabled t \<longleftrightarrow> CertificatePath t \<noteq> [] \<and> KeyPath t \<noteq> [] \<or> CAServerName t \<noteq> []"

datatype ClientAuth = NoClientCert | RequireAndVerifyClientCert

text \<open>The fields of \<^verbatim>\<open>tls.Config\<close> the code sets.\<close>

record ('p, 'k) tlsConfig =
  tc_ClientAuth :: ClientAuth
  ClientCAs :: "'p option"
  RootCAs :: "'p option"
  Certificates :: "'k list"
  InsecureSkipVerify :: bool
  ServerName :: string

text \<open>\<open>'x\<close> are parsed certificates, \<open>'p\<close> pools and \<open>'k\<close> key pairs. A PEM block is its type and its bytes.\<close>

record ('x, 'p, 'k) certLib =
  ReadFile :: "string \<Rightarrow> string + string"
  HttpGet :: "string \<Rightarrow> string + string"
  pem_Decode :: "string \<Rightarrow> ((string \<times> string) \<times> string) option"
  ParseCertificate :: "string \<Rightarrow> string + 'x"
  IsCA :: "'x \<Rightarrow> bool"
  AppendCertsFromPEM :: "string \<Rightarrow> 'p option"
  LoadX509KeyPair :: "string \<Rightarrow> string \<Rightarrow> string + 'k"
  NewEmptyTLSConfig :: "('p, 'k) tlsConfig"

section \<open>Certificate bundles\<close>

text \<open>The loop over the blocks; \<open>None\<close> when it has not ended within \<open>n\<close> rounds.\<close>

fun pem_loop :: "('x, 'p, 'k) certLib \<Rightarrow> nat \<Rightarrow> 'x list \<Rightarrow> string \<Rightarrow> (string + 'x list) option" where
  "pem_loop L 0 certs rest = None"
| "pem_loop L (Suc n) certs rest =
     (case pem_Decode L rest of
        None \<Rightarrow> Some (Inr certs)
      | Some ((ty, bytes), rest') \<Rightarrow>
          if ty \<noteq> ''CERTIFICATE'' then pem_loop L n certs rest'
          else (case ParseCertificate L bytes of
                  Inl err \<Rightarrow> Some (Inl err)
                | Inr cert \<Rightarrow> pem_loop L n (certs @ [cert]) rest'))"

text \<open>A block takes at least one byte, so as many rounds as there are bytes, and one, are enough.\<close>

definition certificatesFromPEM :: "('x, 'p, 'k) certLib \<Rightarrow> string \<Rightarrow> (string + 'x list) option" where
  "certificatesFromPEM L pemBytes = pem_loop L (Suc (length pemBytes)) [] pemBytes"

definition errNoCACertificates :: string where
  "errNoCACertificates = ''no usable CA certificates found in bundle''"

definition validateHasCA :: "('x, 'p, 'k) certLib \<Rightarrow> 'x list \<Rightarrow> string \<Rightarrow> string option" where
  "validateHasCA L certs source =
     (if \<not> list_ex (IsCA L) certs then Some (''ca file \"'' @ source @ ''\": '' @ errNoCACertificates) else None)"

definition prefix_of :: "string \<Rightarrow> string \<Rightarrow> bool" where
  "prefix_of p s \<longleftrightarrow> take (length p) s = p"

definition read_ca :: "('x, 'p, 'k) certLib \<Rightarrow> string \<Rightarrow> string + string" where
  "read_ca L pathOrUrl =
     (if prefix_of ''http://'' pathOrUrl then Inl ''HTTP is not supported for CA cert URLs. Provide HTTPS URL''
      else if prefix_of ''https://'' pathOrUrl then HttpGet L pathOrUrl
      else ReadFile L pathOrUrl)"

definition fetchCACert :: "('x, 'p, 'k) certLib \<Rightarrow> string \<Rightarrow> string + 'p" where
  "fetchCACert L pathOrUrl =
     (case read_ca L pathOrUrl of
        Inl err \<Rightarrow> Inl err
      | Inr caBytes \<Rightarrow>
          (case certificatesFromPEM L caBytes of
             None \<Rightarrow> Inl ''endless bundle''
           | Some (Inl err) \<Rightarrow> Inl (''cannot parse ca file \"'' @ pathOrUrl @ ''\": '' @ err)
           | Some (Inr certs) \<Rightarrow>
               (case validateHasCA L certs pathOrUrl of
                  Some err \<Rightarrow> Inl err
                | None \<Rightarrow>
                    (case AppendCertsFromPEM L caBytes of
                       None \<Rightarrow> Inl (''ca file \"'' @ pathOrUrl @ ''\": failed to build cert pool'')
                     | Some caPool \<Rightarrow> Inr caPool))))"

section \<open>Client and server configurations\<close>

definition load_pair ::
  "('x, 'p, 'k) certLib \<Rightarrow> string \<Rightarrow> TLSConfig \<Rightarrow> ('p, 'k) tlsConfig \<Rightarrow> string + ('p, 'k) tlsConfig option" where
  "load_pair L what t c =
     (if CertificatePath t \<noteq> [] then
        (case LoadX509KeyPair L (CertificatePath t) (KeyPath t) of
           Inl err \<Rightarrow> Inl (what @ '': '' @ err)
         | Inr pair \<Rightarrow> Inr (Some (c\<lparr>Certificates := [pair]\<rparr>)))
      else Inr (Some c))"

definition server_pair :: "('x, 'p, 'k) certLib \<Rightarrow> TLSConfig \<Rightarrow> ('p, 'k) tlsConfig \<Rightarrow> string + ('p, 'k) tlsConfig option" where
  "server_pair L t c = load_pair L (''failed to load cert-key pair ('' @ CertificatePath t @ '', '' @ KeyPath t @ '')'') t c"

definition client_pair :: "('x, 'p, 'k) certLib \<Rightarrow> TLSConfig \<Rightarrow> ('p, 'k) tlsConfig \<Rightarrow> string + ('p, 'k) tlsConfig option" where
  "client_pair L t c = load_pair L (''failed to load cert-key pair from path '' @ CertificatePath t) t c"

text \<open>\<open>Inr None\<close> is the nil configuration: no TLS.\<close>

definition GetServerTLSConfig :: "('x, 'p, 'k) certLib \<Rightarrow> TLSConfig \<Rightarrow> string + ('p, 'k) tlsConfig option" where
  "GetServerTLSConfig L t =
     (if \<not> tls_IsEnabled t then Inr None
      else if \<not> SkipCAVerification t then
        (case fetchCACert L (RemoteCAPath t) of
           Inl err \<Rightarrow> Inl (''failed to read CACert from '' @ RemoteCAPath t @ '': '' @ err)
         | Inr pool \<Rightarrow> server_pair L t ((NewEmptyTLSConfig L)\<lparr>tc_ClientAuth := RequireAndVerifyClientCert, ClientCAs := Some pool\<rparr>))
      else server_pair L t ((NewEmptyTLSConfig L)\<lparr>tc_ClientAuth := NoClientCert\<rparr>))"

definition client_roots ::
  "('x, 'p, 'k) certLib \<Rightarrow> TLSConfig \<Rightarrow> ('p, 'k) tlsConfig \<Rightarrow> string + ('p, 'k) tlsConfig option" where
  "client_roots L t c =
     (if RemoteCAPath t \<noteq> [] then
        (case fetchCACert L (RemoteCAPath t) of
           Inl err \<Rightarrow> Inl (''failed to load CA cert: '' @ err)
         | Inr pool \<Rightarrow> client_pair L t (c\<lparr>RootCAs := Some pool\<rparr>))
      else client_pair L t c)"

definition GetClientTLSConfig :: "('x, 'p, 'k) certLib \<Rightarrow> TLSConfig \<Rightarrow> string + ('p, 'k) tlsConfig option" where
  "GetClientTLSConfig L t =
     (if \<not> tls_IsEnabled t then Inr None
      else if \<not> SkipCAVerification t then
        (if CAServerName t = [] then Inl ''CAServerName must be set when SkipCAVerification is false''
         else client_roots L t ((NewEmptyTLSConfig L)\<lparr>InsecureSkipVerify := False, ServerName := CAServerName t\<rparr>))
      else client_roots L t ((NewEmptyTLSConfig L)\<lparr>InsecureSkipVerify := True\<rparr>))"

section \<open>What a bundle holds\<close>

text \<open>A PEM decoder: a decoded block is cut off the text, of which less is left.\<close>

definition documented_pem :: "('x, 'p, 'k) certLib \<Rightarrow> bool" where
  "documented_pem L \<longleftrightarrow> (\<forall>s b rest. pem_Decode L s = Some (b, rest) \<longrightarrow> length rest < length s)"

inductive in_bundle :: "('x, 'p, 'k) certLib \<Rightarrow> string \<Rightarrow> 'x \<Rightarrow> bool" for L where
  here: "pem_Decode L s = Some ((''CERTIFICATE'', bytes), rest) \<Longrightarrow> ParseCertificate L bytes = Inr cert \<Longrightarrow> in_bundle L s cert"
| later: "pem_Decode L s = Some (b, rest) \<Longrightarrow> in_bundle L rest cert \<Longrightarrow> in_bundle L s cert"

inductive_cases in_bundleE: "in_bundle L s cert"

lemma pem_loop_returns:
  assumes "documented_pem L"
  shows "length rest < n \<Longrightarrow> \<exists>r. pem_loop L n certs rest = Some r"
proof (induction n arbitrary: certs rest)
  case (Suc n)
  have "length rest' < n" if "pem_Decode L rest = Some (b, rest')" for b rest'
    using assms that Suc.prems unfolding documented_pem_def by fastforce
  with Suc.IH show ?case by (auto split: option.split sum.split)
qed simp

lemma pem_loop_certs: "pem_loop L n certs rest = Some (Inr out) \<Longrightarrow> set out = set certs \<union> {c. in_bundle L rest c}"
proof (induction n arbitrary: certs rest)
  case (Suc n)
  show ?case
  proof (cases "pem_Decode L rest")
    case None
    then have "\<not> in_bundle L rest c" for c by (auto elim: in_bundleE)
    with None Suc.prems show ?thesis by simp
  next
    case (Some p)
    obtain ty bytes rest' where p: "p = ((ty, bytes), rest')" by (metis prod.exhaust)
    have "in_bundle L rest c \<longleftrightarrow> ty = ''CERTIFICATE'' \<and> ParseCertificate L bytes = Inr c \<or> in_bundle L rest' c" for c
      using Some unfolding p by (auto elim: in_bundleE intro: in_bundle.intros)
    with Suc Some p show ?thesis by (auto split: if_splits sum.splits)
  qed
qed simp

lemma fetchCACert_ok:
  assumes "documented_pem L"
  shows "fetchCACert L path = Inr pool \<longrightarrow>
    \<not> prefix_of ''http://'' path \<and> (\<exists>bytes cert. read_ca L path = Inr bytes \<and> in_bundle L bytes cert \<and> IsCA L cert \<and> AppendCertsFromPEM L bytes = Some pool)"
proof
  assume f: "fetchCACert L path = Inr pool"
  then obtain bytes certs where b: "read_ca L path = Inr bytes" "certificatesFromPEM L bytes = Some (Inr certs)"
    "list_ex (IsCA L) certs" "AppendCertsFromPEM L bytes = Some pool"
    by (auto simp: fetchCACert_def validateHasCA_def split: sum.splits option.splits if_splits)
  from b(2) have "set certs = {c. in_bundle L bytes c}"
    using pem_loop_certs[of L _ "[]"] unfolding certificatesFromPEM_def by fastforce
  with b show "\<not> prefix_of ''http://'' path \<and> (\<exists>bytes cert. read_ca L path = Inr bytes \<and> in_bundle L bytes cert \<and> IsCA L cert \<and> AppendCertsFromPEM L bytes = Some pool)"
    by (auto simp: read_ca_def list_ex_iff split: if_splits)
qed

section \<open>Properties\<close>

text \<open>The pool holds what the bundle at a path holds, and the bundle has a certificate of an authority.\<close>

definition pool_from :: "('x, 'p, 'k) certLib \<Rightarrow> string \<Rightarrow> 'p \<Rightarrow> bool" where
  "pool_from L path pool \<longleftrightarrow>
     (\<exists>bytes cert. read_ca L path = Inr bytes \<and> in_bundle L bytes cert \<and> IsCA L cert \<and> AppendCertsFromPEM L bytes = Some pool)"

lemma load_pair_ok:
  assumes "load_pair L what t c = Inr (Some c')"
  obtains ks where "c' = c\<lparr>Certificates := ks\<rparr>"
proof (cases "CertificatePath t = []")
  case True
  with assms have "c' = c\<lparr>Certificates := Certificates c\<rparr>" by (simp add: load_pair_def)
  then show ?thesis by (rule that)
next
  case False
  with assms obtain k where "c' = c\<lparr>Certificates := [k]\<rparr>" by (auto simp: load_pair_def split: sum.splits)
  then show ?thesis by (rule that)
qed

lemma fetched_pool:
  assumes "documented_pem L" "fetchCACert L path = Inr pool"
  shows "pool_from L path pool"
  using fetchCACert_ok[OF assms(1), of path pool] assms(2) unfolding pool_from_def by simp

lemma client_roots_ok:
  assumes "documented_pem L" "client_roots L t c = Inr (Some c')"
  shows "InsecureSkipVerify c' = InsecureSkipVerify c \<and> ServerName c' = ServerName c \<and>
    (if RemoteCAPath t = [] then RootCAs c' = RootCAs c else \<exists>pool. RootCAs c' = Some pool \<and> pool_from L (RemoteCAPath t) pool)"
proof (cases "RemoteCAPath t = []")
  case True
  with assms(2) obtain ks where "c' = c\<lparr>Certificates := ks\<rparr>"
    unfolding client_roots_def client_pair_def by (auto elim: load_pair_ok)
  with True show ?thesis by simp
next
  case False
  with assms(2) obtain pool where p: "fetchCACert L (RemoteCAPath t) = Inr pool" "client_pair L t (c\<lparr>RootCAs := Some pool\<rparr>) = Inr (Some c')"
    unfolding client_roots_def by (auto split: sum.splits)
  from p(2) obtain ks where "c' = c\<lparr>RootCAs := Some pool, Certificates := ks\<rparr>"
    unfolding client_pair_def by (auto elim: load_pair_ok)
  with False fetched_pool[OF assms(1) p(1)] show ?thesis by simp
qed

lemma server_checks:
  assumes "documented_pem L" "GetServerTLSConfig L t = Inr (Some c)" "\<not> SkipCAVerification t"
  shows "tc_ClientAuth c = RequireAndVerifyClientCert \<and> (\<exists>pool. ClientCAs c = Some pool \<and> pool_from L (RemoteCAPath t) pool) \<and>
    \<not> prefix_of ''http://'' (RemoteCAPath t)"
proof -
  from assms(2,3) obtain pool where p: "fetchCACert L (RemoteCAPath t) = Inr pool"
    "server_pair L t ((NewEmptyTLSConfig L)\<lparr>tc_ClientAuth := RequireAndVerifyClientCert, ClientCAs := Some pool\<rparr>) = Inr (Some c)"
    unfolding GetServerTLSConfig_def by (auto split: sum.splits if_splits)
  from p(2) obtain ks where "c = (NewEmptyTLSConfig L)\<lparr>tc_ClientAuth := RequireAndVerifyClientCert, ClientCAs := Some pool, Certificates := ks\<rparr>"
    unfolding server_pair_def by (auto elim: load_pair_ok)
  with fetched_pool[OF assms(1) p(1)] fetchCACert_ok[OF assms(1)] p(1) show ?thesis by simp
qed

lemma server_skips:
  assumes "GetServerTLSConfig L t = Inr (Some c)" "SkipCAVerification t"
  shows "tc_ClientAuth c = NoClientCert"
proof -
  from assms have "server_pair L t ((NewEmptyTLSConfig L)\<lparr>tc_ClientAuth := NoClientCert\<rparr>) = Inr (Some c)"
    unfolding GetServerTLSConfig_def by (simp split: if_splits)
  then obtain ks where "c = (NewEmptyTLSConfig L)\<lparr>tc_ClientAuth := NoClientCert, Certificates := ks\<rparr>"
    unfolding server_pair_def by (auto elim: load_pair_ok)
  then show ?thesis by simp
qed

lemma nil_config:
  "GetServerTLSConfig L t = Inr None \<longleftrightarrow> \<not> tls_IsEnabled t" "GetClientTLSConfig L t = Inr None \<longleftrightarrow> \<not> tls_IsEnabled t"
proof -
  have *: "load_pair L what t c \<noteq> Inr None" for what c by (simp add: load_pair_def split: sum.split)
  then show "GetServerTLSConfig L t = Inr None \<longleftrightarrow> \<not> tls_IsEnabled t"
    by (auto simp: GetServerTLSConfig_def server_pair_def split: sum.split)
  from * show "GetClientTLSConfig L t = Inr None \<longleftrightarrow> \<not> tls_IsEnabled t"
    by (auto simp: GetClientTLSConfig_def client_roots_def client_pair_def split: sum.split)
qed


text \<open>A bundle whose bytes are certificates of one byte; \<open>A\<close> is an authority.\<close>

definition exCerts :: "(char, string, string) certLib" where
  "exCerts = \<lparr>ReadFile = (\<lambda>p. if p = ''ca'' then Inr ''xA'' else Inl ''no such file''), HttpGet = (\<lambda>_. Inl ''offline''),
     pem_Decode = (\<lambda>s. case s of [] \<Rightarrow> None | c # cs \<Rightarrow> Some ((''CERTIFICATE'', [c]), cs)),
     ParseCertificate = (\<lambda>b. Inr (hd b)), IsCA = (\<lambda>c. c = CHR ''A''), AppendCertsFromPEM = Some,
     LoadX509KeyPair = (\<lambda>c k. Inr (c @ k)),
     NewEmptyTLSConfig = \<lparr>tc_ClientAuth = NoClientCert, ClientCAs = None, RootCAs = None, Certificates = [],
       InsecureSkipVerify = False, ServerName = []\<rparr>\<rparr>"

definition exTLS :: TLSConfig where
  "exTLS = \<lparr>CertificatePath = ''c'', KeyPath = ''k'', RemoteCAPath = ''ca'', CAServerName = ''peer'', SkipCAVerification = False\<rparr>"


lemma exTLS_client: "\<exists>t. GetClientTLSConfig exCerts exTLS = Inr (Some t)"
  by (simp add: GetClientTLSConfig_def tls_IsEnabled_def exTLS_def client_roots_def fetchCACert_def read_ca_def prefix_of_def
      certificatesFromPEM_def validateHasCA_def client_pair_def load_pair_def exCerts_def)

end
