(* ===== verification/EncryptionConfig.thy ===== *)
theory EncryptionConfig
  imports Translation TLSConfig "HOL-Library.List_Lexorder" "HOL-Library.Char_ord"
begin

text \<open>
  \<^verbatim>\<open>config/encryption.go\<close> and \<^verbatim>\<open>config/extensions.go\<close>: the configuration of payload encryption and of the
  extension servers, and the rules it is validated by. The rules are those of the validation library; the
  model has the list of rules as the code builds it, and what the library does with the list is the
  argument \<open>V\<close>. The URL parser is the argument \<open>url\<close>, with the scheme and the host of a URI.
\<close>

section \<open>The configuration\<close>

record KeyPolicy =
  URI :: string
  DecryptURIs :: "string list"
  Duration :: int
  RenewBefore :: int

record EncryptionConfig =
  ec_Enabled :: bool
  Failures :: bool
  NamespaceBinding :: string
  CacheSize :: int
  Default :: "KeyPolicy option"
  Overrides :: "(string, KeyPolicy) gomap"
  Replication :: "KeyPolicy option"
  ec_AllowOpaquePlaintext :: bool
  ec_AlreadySealedEncodings :: "string list"

definition ExtensionKeyScheme :: string where
  "ExtensionKeyScheme = ''extension''"

definition ReplicationKeyNamespace :: string where
  "ReplicationKeyNamespace = ''$replication''"

definition namespaceBindings :: "string list" where
  "namespaceBindings = [''off'', ''permissive'', ''strict'']"

fun strings_Join :: "string list \<Rightarrow> string \<Rightarrow> string" where
  "strings_Join [] sep = []"
| "strings_Join [s] sep = s"
| "strings_Join (s # ss) sep = s @ sep @ strings_Join ss sep"

definition joinBindings :: string where
  "joinBindings = strings_Join namespaceBindings '',''"

text \<open>\<^verbatim>\<open>strings.EqualFold\<close> on strings of ASCII characters, which the schemes are.\<close>

definition EqualFold :: "string \<Rightarrow> string \<Rightarrow> bool" where
  "EqualFold s t \<longleftrightarrow> to_lower s = to_lower t"

definition sorted_keys :: "(string, 'v) gomap \<Rightarrow> string list" where
  "sorted_keys m = sort (gkeys m)"

section \<open>Rules\<close>

text \<open>
  A check returns its error. \<open>FieldRule\<close> is \<^verbatim>\<open>validation.Field\<close> with what its checks return, \<open>NestedRule\<close>
  is \<^verbatim>\<open>validation.Nested\<close> or \<^verbatim>\<open>WhenNested\<close> with what the nested \<^verbatim>\<open>Validate\<close> returns, \<open>ChildrenRule\<close> is
  \<^verbatim>\<open>validation.Children\<close> with what the check of each child returns.
\<close>

datatype rule =
    FieldRule string "string option list"
  | NestedRule string "string option"
  | ChildrenRule string "string option list"
  | RefRule string string "string option"

text \<open>The checks of the library that the rules use.\<close>

record checks =
  RequiredString :: "string \<Rightarrow> string option"
  RequiredPolicy :: "KeyPolicy option \<Rightarrow> string option"
  GT :: "int \<Rightarrow> int \<Rightarrow> string option"
  GTE :: "int \<Rightarrow> int \<Rightarrow> string option"
  LT :: "int \<Rightarrow> int \<Rightarrow> string option"
  Unique :: "string list \<Rightarrow> string option"
  IsHostPort :: "string \<Rightarrow> string option"

record validation =
  checks_of :: checks
  Validate_rules :: "rule list \<Rightarrow> string option"
  DefaultSchemes :: "string list"

text \<open>The scheme and the host of a URI, or the error of the parser.\<close>

type_synonym urlParser = "string \<Rightarrow> string + string \<times> string"

definition validKeyURI :: "validation \<Rightarrow> urlParser \<Rightarrow> string \<Rightarrow> string option" where
  "validKeyURI V url raw =
     (case url raw of
        Inl err \<Rightarrow> Some (''is not a valid URI: '' @ err)
      | Inr (scheme, host) \<Rightarrow>
          if \<not> list_ex (\<lambda>s. EqualFold s scheme) (DefaultSchemes V @ [ExtensionKeyScheme])
          then Some (''invalid key URI: '' @ raw @ '', valid schemes: ['' @ strings_Join (DefaultSchemes V @ [ExtensionKeyScheme]) '','' @ '']'')
          else if EqualFold scheme ExtensionKeyScheme \<and> host = []
          then Some (''extension key URI must name an extension server: '' @ raw)
          else None)"

definition validKeyURIRef :: "validation \<Rightarrow> urlParser \<Rightarrow> string \<Rightarrow> string option" where
  "validKeyURIRef V url raw = validKeyURI V url raw"

definition notReservedNamespace :: "string \<Rightarrow> string option" where
  "notReservedNamespace ns =
     (if ns = ReplicationKeyNamespace then Some ''is reserved for the replication key policy; set encryption.replication instead''
      else None)"

definition KeyPolicy_Validate :: "validation \<Rightarrow> urlParser \<Rightarrow> KeyPolicy \<Rightarrow> string option" where
  "KeyPolicy_Validate V url p =
     Validate_rules V
       [FieldRule ''uri'' [validKeyURI V url (URI p)],
        ChildrenRule ''decryptURIs'' (map (validKeyURIRef V url) (DecryptURIs p)),
        FieldRule ''duration'' [GT (checks_of V) 0 (Duration p)],
        FieldRule ''renewBefore'' [GTE (checks_of V) 0 (RenewBefore p), LT (checks_of V) (Duration p) (RenewBefore p)]]"

definition check_failures :: "EncryptionConfig \<Rightarrow> string option" where
  "check_failures e =
     (if Failures e \<and> \<not> ec_Enabled e then Some ''requires encryption to be enabled''
      else if Failures e \<and> ''json/plain'' \<in> set (ec_AlreadySealedEncodings e)
      then Some ''cannot be used with \"json/plain\" in alreadySealedEncodings, which would send encoded failures unsealed''
      else None)"

definition check_binding :: "EncryptionConfig \<Rightarrow> string option" where
  "check_binding e =
     (if NamespaceBinding e = [] \<and> Default e \<noteq> None then Some ''is required when keys are configured: set \"off\", \"permissive\", or \"strict\"; start with \"off\" and follow the rollout steps in the namespaceBinding docs''
      else if NamespaceBinding e \<noteq> [] \<and> NamespaceBinding e \<notin> set namespaceBindings
      then Some (''unknown value \"'' @ NamespaceBinding e @ ''\", valid values: ['' @ joinBindings @ '']'')
      else None)"

definition override_rules :: "validation \<Rightarrow> urlParser \<Rightarrow> EncryptionConfig \<Rightarrow> string \<Rightarrow> rule list" where
  "override_rules V url e ns =
     (let subject = ''overrides['' @ ns @ '']''
      in [FieldRule subject [RequiredString (checks_of V) ns], FieldRule subject [notReservedNamespace ns],
          NestedRule subject (case gget (Overrides e) ns of Some p \<Rightarrow> KeyPolicy_Validate V url p | None \<Rightarrow> None)])"

definition when_policy :: "validation \<Rightarrow> urlParser \<Rightarrow> string \<Rightarrow> KeyPolicy option \<Rightarrow> rule list" where
  "when_policy V url subject p = (case p of Some q \<Rightarrow> [NestedRule subject (KeyPolicy_Validate V url q)] | None \<Rightarrow> [])"

definition encryption_Validate :: "validation \<Rightarrow> urlParser \<Rightarrow> EncryptionConfig \<Rightarrow> string option" where
  "encryption_Validate V url e =
     Validate_rules V
       ([FieldRule ''cacheSize'' [GTE (checks_of V) 0 (CacheSize e)],
         FieldRule ''failures'' [check_failures e],
         FieldRule ''namespaceBinding'' [check_binding e]] @
        (if ec_Enabled e then [FieldRule ''default'' [RequiredPolicy (checks_of V) (Default e)]] else []) @
        when_policy V url ''default'' (Default e) @ when_policy V url ''replication'' (Replication e) @
        concat (map (override_rules V url e) (sorted_keys (Overrides e))) @
        map (\<lambda>i. FieldRule (''alreadySealedEncodings['' @ show_nat i @ '']'')
               [RequiredString (checks_of V) (ec_AlreadySealedEncodings e ! i)]) [0..<length (ec_AlreadySealedEncodings e)])"

text \<open>The values of \<^verbatim>\<open>crypto.BindingMode\<close>.\<close>

datatype bindingMode = BindingOff | BindingPermissive | BindingStrict

definition Mode :: "string \<Rightarrow> string + bindingMode" where
  "Mode b =
     (if b = ''off'' then Inr BindingOff
      else if b = ''permissive'' then Inr BindingPermissive
      else if b = ''strict'' then Inr BindingStrict
      else Inl (''unknown namespace binding \"'' @ b @ ''\", valid values: ['' @ joinBindings @ '']''))"

section \<open>Extension servers\<close>

record ExtensionServer =
  Name :: string
  Address :: string
  es_TLSConfig :: TLSConfig

definition extension_Validate :: "validation \<Rightarrow> ExtensionServer \<Rightarrow> string option" where
  "extension_Validate V s =
     Validate_rules V
       [FieldRule ''name'' [RequiredString (checks_of V) (Name s)], FieldRule ''address'' [IsHostPort (checks_of V) (Address s)]]"

definition extensions_Validate :: "validation \<Rightarrow> ExtensionServer list \<Rightarrow> string option" where
  "extensions_Validate V sl =
     Validate_rules V
       [FieldRule ''[name]'' [Unique (checks_of V) (map Name sl)], FieldRule ''[address]'' [Unique (checks_of V) (map Address sl)],
        ChildrenRule [] (map (extension_Validate V) sl)]"

definition extension_names :: "ExtensionServer list \<Rightarrow> string list" where
  "extension_names sl = remdups (map Name sl)"

definition extensionRef :: "urlParser \<Rightarrow> string \<Rightarrow> string \<Rightarrow> string \<Rightarrow> string list \<Rightarrow> rule" where
  "extensionRef url subject fld raw known =
     RefRule subject fld
       (case url raw of
          Inl err \<Rightarrow> None
        | Inr (scheme, host) \<Rightarrow>
            if \<not> EqualFold scheme ExtensionKeyScheme \<or> host = [] \<or> host \<in> set known then None
            else Some (''unknown extension server: '' @ host))"

definition policy_refs :: "urlParser \<Rightarrow> string list \<Rightarrow> string \<Rightarrow> KeyPolicy \<Rightarrow> rule list" where
  "policy_refs url known subject p =
     extensionRef url subject ''uri'' (URI p) known #
     map (\<lambda>i. extensionRef url subject (''decryptURIs['' @ show_nat i @ '']'') (DecryptURIs p ! i) known) [0..<length (DecryptURIs p)]"

definition referentialRules :: "urlParser \<Rightarrow> EncryptionConfig \<Rightarrow> string \<Rightarrow> string list \<Rightarrow> rule list" where
  "referentialRules url e prefix known =
     (case Default e of Some p \<Rightarrow> policy_refs url known (prefix @ ''.default'') p | None \<Rightarrow> []) @
     (case Replication e of Some p \<Rightarrow> policy_refs url known (prefix @ ''.replication'') p | None \<Rightarrow> []) @
     concat (map (\<lambda>ns. case gget (Overrides e) ns of
         Some p \<Rightarrow> policy_refs url known (prefix @ ''.overrides['' @ ns @ '']'') p | None \<Rightarrow> []) (sorted_keys (Overrides e)))"

section \<open>What a valid configuration has\<close>

text \<open>The documented behaviour of the validation library.\<close>

fun passes :: "rule \<Rightarrow> bool" where
  "passes (FieldRule f errs) = list_all (\<lambda>e. e = None) errs"
| "passes (NestedRule f err) = (err = None)"
| "passes (ChildrenRule f errs) = list_all (\<lambda>e. e = None) errs"
| "passes (RefRule s f err) = (err = None)"

definition documented_validation :: "validation \<Rightarrow> bool" where
  "documented_validation V \<longleftrightarrow>
     (\<forall>rules. Validate_rules V rules = None \<longleftrightarrow> list_all passes rules) \<and>
     (\<forall>s. RequiredString (checks_of V) s = None \<longleftrightarrow> s \<noteq> []) \<and>
     (\<forall>p. RequiredPolicy (checks_of V) p = None \<longleftrightarrow> p \<noteq> None) \<and>
     (\<forall>b x. (GT (checks_of V) b x = None \<longleftrightarrow> b < x) \<and> (GTE (checks_of V) b x = None \<longleftrightarrow> b \<le> x) \<and>
        (LT (checks_of V) b x = None \<longleftrightarrow> x < b)) \<and>
     (\<forall>xs. Unique (checks_of V) xs = None \<longleftrightarrow> distinct xs)"

definition policy_ok :: "validation \<Rightarrow> urlParser \<Rightarrow> KeyPolicy \<Rightarrow> bool" where
  "policy_ok V url p \<longleftrightarrow>
     (\<forall>u \<in> set (URI p # DecryptURIs p). validKeyURI V url u = None) \<and> 0 \<le> RenewBefore p \<and> RenewBefore p < Duration p"

lemma policy_valid:
  "documented_validation V \<Longrightarrow> KeyPolicy_Validate V url p = None \<longleftrightarrow> policy_ok V url p"
  by (auto simp: documented_validation_def KeyPolicy_Validate_def policy_ok_def list_all_iff validKeyURIRef_def)

lemma sorted_keys_set [simp]: "set (sorted_keys m) = set (gkeys m)" "distinct (sorted_keys m) = distinct (gkeys m)"
  by (simp_all add: sorted_keys_def)

lemma encryption_valid:
  assumes "documented_validation V"
  shows "encryption_Validate V url e = None \<longleftrightarrow>
    0 \<le> CacheSize e \<and> check_failures e = None \<and> check_binding e = None \<and> (ec_Enabled e \<longrightarrow> Default e \<noteq> None) \<and>
    (\<forall>p. Default e = Some p \<longrightarrow> policy_ok V url p) \<and> (\<forall>p. Replication e = Some p \<longrightarrow> policy_ok V url p) \<and>
    (\<forall>ns \<in> set (gkeys (Overrides e)). ns \<noteq> [] \<and> ns \<noteq> ReplicationKeyNamespace) \<and>
    (\<forall>ns p. gget (Overrides e) ns = Some p \<longrightarrow> policy_ok V url p) \<and> [] \<notin> set (ec_AlreadySealedEncodings e)"
proof -
  have w: "list_all passes (when_policy V url s p) \<longleftrightarrow> (\<forall>q. p = Some q \<longrightarrow> policy_ok V url q)" for s p
    by (simp add: when_policy_def policy_valid[OF assms] split: option.split)
  have o: "list_all passes (override_rules V url e ns) \<longleftrightarrow>
      ns \<noteq> [] \<and> ns \<noteq> ReplicationKeyNamespace \<and> (\<forall>p. gget (Overrides e) ns = Some p \<longrightarrow> policy_ok V url p)" for ns
    using assms by (auto simp: override_rules_def Let_def documented_validation_def notReservedNamespace_def policy_valid[OF assms] split: option.splits)
  have a: "list_all (\<lambda>i. RequiredString (checks_of V) (xs ! i) = None) [0..<length xs] \<longleftrightarrow> [] \<notin> set xs" for xs
    using assms by (auto simp: documented_validation_def list_all_iff in_set_conv_nth)
  have c: "list_all passes (concat (map f xs)) \<longleftrightarrow> (\<forall>x \<in> set xs. list_all passes (f x))" for f :: "string \<Rightarrow> rule list" and xs
    by (auto simp: list_all_iff)
  have in_keys: "ns \<in> set (gkeys (Overrides e))" if "gget (Overrides e) ns = Some p" for ns p
    using that by (force dest: map_of_SomeD)
  have k: "(\<forall>ns \<in> set (gkeys (Overrides e)). ns \<noteq> [] \<and> ns \<noteq> ReplicationKeyNamespace \<and> (\<forall>p. gget (Overrides e) ns = Some p \<longrightarrow> policy_ok V url p)) \<longleftrightarrow>
     (\<forall>ns \<in> set (gkeys (Overrides e)). ns \<noteq> [] \<and> ns \<noteq> ReplicationKeyNamespace) \<and> (\<forall>ns p. gget (Overrides e) ns = Some p \<longrightarrow> policy_ok V url p)"
    using in_keys by metis
  have v: "Validate_rules V rules = None \<longleftrightarrow> list_all passes rules" "GTE (checks_of V) b x = None \<longleftrightarrow> b \<le> x"
    "RequiredPolicy (checks_of V) q = None \<longleftrightarrow> q \<noteq> None" for rules b x q
    using assms by (simp_all add: documented_validation_def)
  show ?thesis
    unfolding encryption_Validate_def v(1) list_all_append w c o sorted_keys_set k list.pred_map comp_def
    by (auto simp: v a)
qed

text \<open>The binding mode of a valid configuration with keys is defined.\<close>

lemma Mode_defined: "Default e \<noteq> None \<Longrightarrow> check_binding e = None \<Longrightarrow> \<exists>m. Mode (NamespaceBinding e) = Inr m"
  by (auto simp: check_binding_def Mode_def namespaceBindings_def split: if_splits)

end
