(* ===== verification/AdminEncryptor.thy ===== *)
theory AdminEncryptor
  imports AdminCoverage SealingProps EncryptionConfig
begin

text \<open>
  \<^verbatim>\<open>interceptor/admin_encryptor.go\<close>: the interceptors that seal and open the payloads of admin calls and
  replication streams, and what they guarantee: nothing that was not sealed leaves for the peer, and a
  message that could not be sealed is not sent.
\<close>

section \<open>Which namespace a payload is bound to\<close>

definition replicationKey :: "codecOpt \<Rightarrow> codecOpt" where
  "replicationKey opt ctx ns = opt ctx ReplicationKeyNamespace"

text \<open>\<open>names\<close> is the resolver of namespace IDs.\<close>

definition namespaceBinder ::
  "(string \<Rightarrow> string + string) option \<Rightarrow> (string \<Rightarrow> string) option \<Rightarrow> bool \<Rightarrow> bool \<Rightarrow> bindFn option" where
  "namespaceBinder names label strict obs =
     (case names of
        None \<Rightarrow> None
      | Some LocalName \<Rightarrow>
          let bound = (\<lambda>local. case label of
                None \<Rightarrow> \<lparr>bind_label = local, bind_check = True, bind_ns = local\<rparr>
              | Some l \<Rightarrow> \<lparr>bind_label = l local, bind_check = True, bind_ns = local\<rparr>)
          in Some (\<lambda>ctx ns.
               case namespaceIDFrom ctx of (i, ok) \<Rightarrow>
                 if \<not> ok \<or> i = [] then
                   (case stampedNamespace ctx of
                      Some stamped \<Rightarrow>
                        if stamped \<noteq> [] then ([], Inr (bound stamped))
                        else ([], Inr \<lparr>bind_label = [], bind_check = False, bind_ns = ns\<rparr>)
                    | None \<Rightarrow> ([], Inr \<lparr>bind_label = [], bind_check = False, bind_ns = ns\<rparr>))
                 else
                   (case LocalName i of
                      Inl err \<Rightarrow>
                        let evs = (if obs then [UnresolvedNamespace i err] else [])
                        in if strict then (evs, Inl (''failed to resolve namespace ID '' @ i @ '': '' @ err))
                           else (evs, Inr \<lparr>bind_label = [], bind_check = False, bind_ns = ns\<rparr>)
                    | Inr local \<Rightarrow> ([], Inr (bound local)))))"


section \<open>One direction\<close>

record adminVisit =
  av_payloads :: "(callCtx \<Rightarrow> payload list \<Rightarrow> goErr + payload list) option"
  av_opaque :: opaqueHandler
  av_details :: "callCtx \<Rightarrow> goErr \<Rightarrow> goErr"
  av_failures :: "(failure \<Rightarrow> goErr + failure) option"
  av_failuresAfter :: bool
  av_failureDetails :: "(callCtx \<Rightarrow> goErr \<Rightarrow> goErr) option"

definition markPayloads :: "payloadVisitor option \<Rightarrow> (callCtx \<Rightarrow> payload list \<Rightarrow> goErr + payload list) option" where
  "markPayloads opts =
     map_option (\<lambda>visitor ctx ps. map_sum (\<lambda>e. markVisitError (PlainErr e)) (\<lambda>x. x) (visitor ctx ps)) opts"

definition markFailures :: "failureVisitor option \<Rightarrow> (failure \<Rightarrow> goErr + failure) option" where
  "markFailures opts =
     map_option (\<lambda>visitor f. map_sum (\<lambda>e. markVisitError (PlainErr e)) (\<lambda>x. x) (visitor f)) opts"

definition newAdminVisit ::
  "pubLib \<Rightarrow> payloadVisitor option \<Rightarrow> failureVisitor option \<Rightarrow> bool \<Rightarrow> opaqueHandler \<Rightarrow> string + adminVisit" where
  "newAdminVisit L payloads failures failuresAfter opaque =
     (let payloads = markPayloads payloads; failures = markFailures failures; opaque = markOpaque opaque
      in case NewDetailPayloads L payloads of
           Inl err \<Rightarrow> Inl (''failed to create admin encryption interceptor: '' @ err)
         | Inr details \<Rightarrow>
             (case failures of
                None \<Rightarrow> Inr \<lparr>av_payloads = payloads, av_opaque = opaque, av_details = details, av_failures = None,
                            av_failuresAfter = failuresAfter, av_failureDetails = None\<rparr>
              | Some f \<Rightarrow>
                  (case NewDetailFailures L f of
                     Inl err \<Rightarrow> Inl (''failed to create admin failure encryption interceptor: '' @ err)
                   | Inr fd \<Rightarrow> Inr \<lparr>av_payloads = payloads, av_opaque = opaque, av_details = details, av_failures = Some f,
                                  av_failuresAfter = failuresAfter, av_failureDetails = Some fd\<rparr>)))"

text \<open>\<^verbatim>\<open>visitPayloads\<close> always asks to skip search attributes.\<close>

definition adminVisit_visit ::
  "pubLib \<Rightarrow> 'c codec_scheme \<Rightarrow> adminVisit option \<Rightarrow> callCtx \<Rightarrow> string \<times> adm \<Rightarrow> (string \<times> adm) res" where
  "adminVisit_visit L c v ctx m =
     (case v of
        None \<Rightarrow> ([], Inr m)
      | Some v \<Rightarrow>
          VisitAdminPayloads L c ctx m
            \<lparr>ao_payloads = av_payloads v, ao_skipSearchAttributes = True, ao_opaque = Some (av_opaque v),
             ao_failures = av_failures v, ao_failuresAfter = av_failuresAfter v\<rparr>)"

definition visitError :: "adminVisit option \<Rightarrow> callCtx \<Rightarrow> goErr \<Rightarrow> goErr" where
  "visitError v ctx err =
     (case v of
        None \<Rightarrow> err
      | Some v \<Rightarrow>
          let run1 = (\<lambda>i err. case i of
                None \<Rightarrow> err
              | Some i \<Rightarrow> if asVisitError err \<noteq> None then err else i ctx err)
          in if av_failuresAfter v then run1 (av_failureDetails v) (run1 (Some (av_details v)) err)
             else run1 (Some (av_details v)) (run1 (av_failureDetails v) err))"


section \<open>The encryptor\<close>

record AdminEncryptorConfig = EncryptorConfig +
  AllowOpaquePlaintext :: bool
  Observer :: bool
  Namespaces :: "(string \<Rightarrow> string + string) option"
  StrictNamespaces :: bool
  NsObserver :: bool
  VisitErrors :: bool

text \<open>The visits of the two directions of a call, and whether there is an observer of failed visits.\<close>

record AdminEncryptor =
  ae_req :: "adminVisit option"
  ae_resp :: "adminVisit option"
  ae_obs :: bool

definition admin_enc :: "AdminEncryptorConfig \<Rightarrow> vault \<Rightarrow> codecOpt list" where
  "admin_enc cfg v =
     [replicationKey (cipherOpt v
        (namespaceBinder (Namespaces cfg) (Label cfg) (StrictNamespaces cfg) (NsObserver cfg)) (Binding cfg))]"

definition NewAdminEncryptor :: "codecLib \<Rightarrow> pubLib \<Rightarrow> AdminEncryptorConfig \<Rightarrow> string + AdminEncryptor" where
  "NewAdminEncryptor K L cfg =
     (if Enabled cfg \<and> Vault cfg = None then Inl ''proxy: encryption requires a vault''
      else if EncodeFailures cfg \<and> \<not> Enabled cfg then Inl ''proxy: failure encoding requires encryption''
      else
        let result = (\<lambda>seal open'.
              Inr \<lparr>ae_req = (if Reverse cfg then open' else seal), ae_resp = (if Reverse cfg then seal else open'),
                  ae_obs = VisitErrors cfg\<rparr>)
        in case Vault cfg of
             None \<Rightarrow> result None None
           | Some v \<Rightarrow>
               (case newAdminVisit L (visitPayloads (admin_enc cfg v) (ChainDecode K)) (Some (restoreFailure K)) True openOpaque of
                  Inl err \<Rightarrow> Inl err
                | Inr open' \<Rightarrow>
                    if \<not> Enabled cfg then result None (Some open')
                    else
                      (case newAdminVisit L
                              (visitPayloads (admin_enc cfg v) (sealUnlessSealed K (alreadySealed K (AlreadySealedEncodings cfg))))
                              (if EncodeFailures cfg then Some (encodeFailure K) else None) False
                              (sealOpaque (AllowOpaquePlaintext cfg) (Observer cfg)) of
                         Inl err \<Rightarrow> Inl err
                       | Inr seal \<Rightarrow> result (Some seal) (Some open'))))"

definition unary_failed :: "bool \<Rightarrow> string \<Rightarrow> goErr \<Rightarrow> adminEvent list \<times> goErr" where
  "unary_failed obs mth err =
     (case asVisitError err of
        None \<Rightarrow> ([], err)
      | Some visitErr \<Rightarrow> (if obs then [VisitFailed mth err] else [], visitErr))"

definition fail_with :: "adminEvent list \<Rightarrow> adminEvent list \<times> goErr \<Rightarrow> 'a res" where
  "fail_with evs r = (evs @ fst r, Inl (snd r))"

definition adminUnary ::
  "pubLib \<Rightarrow> 'c codec_scheme \<Rightarrow> AdminEncryptor \<Rightarrow> string \<Rightarrow> callCtx \<Rightarrow>
   (callCtx \<Rightarrow> string \<times> adm \<Rightarrow> goErr + string \<times> adm) \<Rightarrow> string \<times> adm \<Rightarrow> (string \<times> adm) res" where
  "adminUnary L c e mth ctx invoker request =
     (let ctx = (case field_of (snd request) ''NamespaceId'' of
                   AStr i \<Rightarrow> if i \<noteq> [] then withNamespaceID ctx i else ctx
                 | _ \<Rightarrow> ctx)
      in case adminVisit_visit L c (ae_req e) ctx request of
           (evs, Inl err) \<Rightarrow> fail_with evs (unary_failed (ae_obs e) mth err)
         | (evs, Inr request) \<Rightarrow>
             (case invoker ctx request of
                Inl err \<Rightarrow> fail_with evs (unary_failed (ae_obs e) mth (visitError (ae_resp e) ctx err))
              | Inr reply \<Rightarrow>
                  (case adminVisit_visit L c (ae_resp e) ctx reply of
                     (evs', Inl err) \<Rightarrow> fail_with (evs @ evs') (unary_failed (ae_obs e) mth err)
                   | (evs', Inr reply) \<Rightarrow> (evs @ evs', Inr reply))))"

definition stream_failed :: "bool \<Rightarrow> string \<Rightarrow> goErr \<Rightarrow> adminEvent list \<times> goErr" where
  "stream_failed obs mth err = (if asVisitError err \<noteq> None \<and> obs then [StreamVisitFailed mth err] else [], err)"

text \<open>Opening a stream: the error of the streamer, or the stream.\<close>

definition adminStream :: "AdminEncryptor \<Rightarrow> string \<Rightarrow> callCtx \<Rightarrow> goErr option \<Rightarrow> unit res" where
  "adminStream e mth ctx err =
     (case err of
        Some err \<Rightarrow> fail_with [] (stream_failed (ae_obs e) mth (visitError (ae_resp e) ctx err))
      | None \<Rightarrow> ([], Inr ()))"

text \<open>The stream's own \<open>send\<close> gives the error, if any, and \<open>received\<close> what it received.\<close>

definition stream_SendMsg ::
  "pubLib \<Rightarrow> 'c codec_scheme \<Rightarrow> AdminEncryptor \<Rightarrow> string \<Rightarrow> callCtx \<Rightarrow> (string \<times> adm \<Rightarrow> goErr option) \<Rightarrow>
   string \<times> adm \<Rightarrow> unit res" where
  "stream_SendMsg L c e mth ctx send m =
     (case adminVisit_visit L c (ae_req e) ctx m of
        (evs, Inl err) \<Rightarrow> fail_with evs (stream_failed (ae_obs e) mth (surface err))
      | (evs, Inr m) \<Rightarrow> (case send m of Some err \<Rightarrow> (evs, Inl err) | None \<Rightarrow> (evs, Inr ())))"

definition stream_RecvMsg ::
  "pubLib \<Rightarrow> 'c codec_scheme \<Rightarrow> AdminEncryptor \<Rightarrow> string \<Rightarrow> callCtx \<Rightarrow> goErr + string \<times> adm \<Rightarrow> (string \<times> adm) res" where
  "stream_RecvMsg L c e mth ctx received =
     (case received of
        Inl err \<Rightarrow> fail_with [] (stream_failed (ae_obs e) mth (surface (visitError (ae_resp e) ctx err)))
      | Inr m \<Rightarrow>
          (case adminVisit_visit L c (ae_resp e) ctx m of
             (evs, Inl err) \<Rightarrow> fail_with evs (stream_failed (ae_obs e) mth (surface err))
           | (evs, Inr m) \<Rightarrow> (evs, Inr m)))"



section \<open>Sealed admin messages\<close>

text \<open>
  Documented behaviour of the libraries: the visitor of public messages puts results in place of the
  payloads and keeps a history a history; blobs and tasks that were serialized can be read back.
\<close>

definition documented_pub ::
  "pubLib \<Rightarrow> 'c codec_scheme \<Rightarrow> (val \<Rightarrow> payload list list) \<Rightarrow> (val \<Rightarrow> payload list list \<Rightarrow> val) \<Rightarrow> bool" where
  "documented_pub L c parts rebuild \<longleftrightarrow>
     traversal (PubPayloads L) parts rebuild \<and>
     (\<forall>f evs h. PubPayloads L f (history evs) = Inr h \<longrightarrow> (\<exists>evs'. h = history evs')) \<and>
     (\<forall>f evs h. PubFailures L f (history evs) = Inr h \<longrightarrow> (\<exists>evs'. h = history evs')) \<and>
     (\<forall>evs out. SerializeEvents c evs = Inr out \<longrightarrow> DeserializeEvents c out = Inr evs) \<and>
     (\<forall>ty b info info' out. DecodeTask L ty b = Inr info \<longrightarrow> EncodeTask L info' = Inr out \<longrightarrow> DecodeTask L ty out = Inr info')"

definition pub_sealed :: "codecLib \<Rightarrow> string list \<Rightarrow> (val \<Rightarrow> payload list list) \<Rightarrow> val \<Rightarrow> bool" where
  "pub_sealed K encodings parts m \<longleftrightarrow> (\<forall>ps \<in> set (parts m). \<forall>p \<in> set ps. alreadySealed K encodings p)"

text \<open>
  Every payload is sealed, in messages, in serialized events and in serialized tasks, and there is no
  opaque data, at every place the switch looks at.
\<close>

definition seal_coverage ::
  "codecLib \<Rightarrow> string list \<Rightarrow> pubLib \<Rightarrow> 'c codec_scheme \<Rightarrow> (val \<Rightarrow> payload list list) \<Rightarrow> (string \<Rightarrow> adm \<Rightarrow> bool) \<Rightarrow> coverage" where
  "seal_coverage K encodings L c parts below =
     \<lparr>cov_payload = alreadySealed K encodings,
      cov_pub = pub_sealed K encodings parts,
      cov_blob = (\<lambda>b. B_data b = [] \<or> (\<exists>evs. DeserializeEvents c b = Inr evs \<and> pub_sealed K encodings parts (history evs))),
      cov_task = (\<lambda>t. case field_of t ''Blob'' of
         ABlob b \<Rightarrow> B_data b = [] \<or> (\<exists>cat info. DecodeTask L (taskInfoByCategory cat) b = Inr info \<and> below (taskInfoByCategory cat) info)
       | _ \<Rightarrow> True),
      cov_skip = True\<rparr>"

primrec sealed_admin ::
  "nat \<Rightarrow> codecLib \<Rightarrow> string list \<Rightarrow> pubLib \<Rightarrow> 'c codec_scheme \<Rightarrow> (val \<Rightarrow> payload list list) \<Rightarrow> string \<Rightarrow> adm \<Rightarrow> bool" where
  "sealed_admin 0 K encodings L c parts ty t \<longleftrightarrow> False"
| "sealed_admin (Suc n) K encodings L c parts ty t \<longleftrightarrow>
     (case map_of adminVisitors ty of
        None \<Rightarrow> True
      | Some v \<Rightarrow> clean (seal_coverage K encodings L c parts (sealed_admin n K encodings L c parts)) v t)"

text \<open>The options of the sealing direction.\<close>

definition seals ::
  "codecLib \<Rightarrow> string list \<Rightarrow> AdminVisitOptions \<Rightarrow> bool" where
  "seals K encodings opts \<longleftrightarrow>
     (\<exists>vis. ao_payloads opts = Some vis \<and> (\<forall>ctx ps qs. vis ctx ps = Inr qs \<longrightarrow> (\<forall>q \<in> set qs. alreadySealed K encodings q))) \<and>
     (\<exists>h. ao_opaque opts = Some h \<and> (\<forall>path d. snd (h path d) \<noteq> None)) \<and>
     (ao_failures opts = None \<or> \<not> ao_failuresAfter opts)"

lemma public_sealed:
  assumes L: "documented_pub L c parts rebuild" and s: "seals K encodings opts" and m: "visitPublic L opts ctx m = Inr m'"
  shows "pub_sealed K encodings parts m'"
proof -
  obtain vis where vis: "ao_payloads opts = Some vis" "\<And>ctx ps qs. vis ctx ps = Inr qs \<Longrightarrow> \<forall>q \<in> set qs. alreadySealed K encodings q"
    using s unfolding seals_def by blast
  have "\<exists>m0. PubPayloads L (vis ctx) m0 = Inr m'"
    using s m unfolding seals_def by (auto simp: visitPublic_def vis(1) Let_def split: option.splits sum.splits if_splits)
  then obtain m0 where "PubPayloads L (vis ctx) m0 = Inr m'" by blast
  moreover have "traversal (PubPayloads L) parts rebuild" using L by (simp add: documented_pub_def)
  ultimately have "\<forall>qs \<in> set (parts m'). \<exists>ps. vis ctx ps = Inr qs" using traversal_post by metis
  then show ?thesis using vis(2) unfolding pub_sealed_def by blast
qed

lemma public_history:
  assumes "documented_pub L c parts rebuild" "visitPublic L opts ctx (history evs) = Inr h"
  shows "\<exists>evs'. h = history evs'"
  using assms unfolding documented_pub_def visitPublic_def
  by (auto simp: Let_def split: option.splits sum.splits if_splits) blast+

lemma history_events [simp]: "list_of (field (fields_of (history evs)) ''Events'') = evs"
  by (simp add: history_def field_def fields_of_def list_of_def)

lemma blob_sealed:
  assumes L: "documented_pub L c parts rebuild" and s: "seals K encodings opts"
    and b: "snd (visitEventBlob L c opts ctx (ABlob b)) = Inr t'"
  shows "\<exists>b'. t' = ABlob b' \<and> (B_data b' = [] \<or> (\<exists>evs. DeserializeEvents c b' = Inr evs \<and> pub_sealed K encodings parts (history evs)))"
proof (cases "B_data b = []")
  case False
  then obtain evs h out where e: "visitPublic L opts ctx (history evs) = Inr h"
    "SerializeEvents c (list_of (field (fields_of h) ''Events'')) = Inr out"
    "t' = ABlob (b\<lparr>B_encoding := B_encoding out, B_data := B_data out\<rparr>)"
    using b by (auto simp: visitEventBlob_def split: sum.splits)
  obtain evs' where h: "h = history evs'" using public_history[OF L e(1)] by blast
  have "t' = ABlob out" unfolding e(3) by simp
  moreover have "DeserializeEvents c out = Inr evs'" using L e(2) h by (simp add: documented_pub_def)
  moreover have "pub_sealed K encodings parts (history evs')" using public_sealed[OF L s e(1)] h by simp
  ultimately show ?thesis by blast
qed (use b in \<open>auto simp: visitEventBlob_def\<close>)

lemma task_field: "field_of t ''Blob'' = ABlob b \<Longrightarrow> field_of (put_field t ''Blob'' (ABlob b')) ''Blob'' = ABlob b'"
  by (rule field_put_same) (simp add: rigid_def)

lemma task_sealed:
  assumes L: "documented_pub L c parts rebuild" and s: "seals K encodings opts"
    and below: "\<And>ctx ty t t'. snd (visit ctx ty t) = Inr t' \<Longrightarrow> below ty t'"
    and t: "snd (visitAddTasksRequestTask L opts visit ctx path t) = Inr t'"
  shows "cov_task (seal_coverage K encodings L c parts below) t'" "rigid t \<Longrightarrow> t' = t"
proof -
  show "rigid t \<Longrightarrow> t' = t" using t by (auto simp: visitAddTasksRequestTask_def rigid_field)
  show "cov_task (seal_coverage K encodings L c parts below) t'"
  proof (cases "field_of t ''Blob''")
    case (ABlob b)
    obtain h where h: "ao_opaque opts = Some h" "\<And>path d. snd (h path d) \<noteq> None" using s unfolding seals_def by blast
    have op: "snd (visitOpaque opts p (B_data b)) \<noteq> Inr ()" if "B_data b \<noteq> []" for p
      using that h(2)[of p "B_data b"] by (cases "h p (B_data b)") (auto simp: visitOpaque_def h(1))
    show ?thesis
    proof (cases "B_data b = []")
      case True
      then have "t' = t" using t by (simp add: visitAddTasksRequestTask_def ABlob)
      then show ?thesis using ABlob True by (simp add: seal_coverage_def)
    next
      case False
      then have b': "length (B_data b) \<noteq> 0" by simp
      note n = op[OF False]
      obtain cat where c: "categoryOf L (case field_of t ''CategoryId'' of AInt i \<Rightarrow> i | _ \<Rightarrow> 0) = Some cat"
        using t n b' by (cases "categoryOf L (case field_of t ''CategoryId'' of AInt i \<Rightarrow> i | _ \<Rightarrow> 0)")
          (simp_all add: visitAddTasksRequestTask_def ABlob Let_def)
      obtain info where d: "DecodeTask L (taskInfoByCategory cat) b = Inr info"
        using t n b' c by (cases "DecodeTask L (taskInfoByCategory cat) b") (simp_all add: visitAddTasksRequestTask_def ABlob Let_def)
      obtain info' where v: "snd (visit ctx (taskInfoByCategory cat) info) = Inr info'"
        "snd (case EncodeTask L info' of Inl err \<Rightarrow> ([] :: adminEvent list, Inl (WrapErr (path @ '': failed to serialize history task'') (PlainErr err)))
           | Inr out \<Rightarrow> ([], Inr (put_field t ''Blob'' (ABlob (b\<lparr>B_encoding := B_encoding out, B_data := B_data out\<rparr>))))) = Inr t'"
        using t b' c d by (auto simp: visitAddTasksRequestTask_def ABlob Let_def)
      obtain out where i: "DecodeTask L (taskInfoByCategory cat) b = Inr info"
        "snd (visit ctx (taskInfoByCategory cat) info) = Inr info'" "EncodeTask L info' = Inr out"
        "t' = put_field t ''Blob'' (ABlob (b\<lparr>B_encoding := B_encoding out, B_data := B_data out\<rparr>))"
        using v d by (cases "EncodeTask L info'") auto
      have "DecodeTask L (taskInfoByCategory cat) out = Inr info'"
        using L i(1,3) unfolding documented_pub_def by blast
      moreover have "field_of t' ''Blob'' = ABlob out" using task_field[OF ABlob] i(4) by simp
      ultimately show ?thesis using below[OF i(2)] by (auto simp: seal_coverage_def)
    qed
  qed (use t in \<open>auto simp: visitAddTasksRequestTask_def seal_coverage_def\<close>)
qed

lemma admin_sealed:
  assumes L: "documented_pub L c parts rebuild" and s: "seals K encodings opts"
  shows "snd (visitAdminPayloads n L c opts ctx ty t) = Inr t' \<Longrightarrow> sealed_admin n K encodings L c parts ty t'"
proof (induction n arbitrary: ctx ty t t')
  case (Suc n)
  let ?C = "seal_coverage K encodings L c parts (sealed_admin n K encodings L c parts)"
  let ?task = "visitAddTasksRequestTask L opts (visitAdminPayloads n L c opts)"
  have "covers ?C L c opts ?task"
    unfolding covers_def
  proof (intro conjI allI impI)
    show "\<exists>vis. ao_payloads opts = Some vis \<and> (\<forall>ctx ps qs. vis ctx ps = Inr qs \<longrightarrow> (\<forall>q \<in> set qs. cov_payload ?C q))"
      using s by (simp add: seals_def seal_coverage_def)
    show "\<exists>h. ao_opaque opts = Some h \<and> (\<forall>path d. snd (h path d) \<noteq> None)" using s unfolding seals_def by blast
    show "cov_pub ?C m'" if "visitPublic L opts ctx m = Inr m'" for ctx m m'
      using public_sealed[OF L s that] by (simp add: seal_coverage_def)
    show "\<exists>b'. t' = ABlob b' \<and> cov_blob ?C b'" if "snd (visitEventBlob L c opts ctx (ABlob b)) = Inr t'" for ctx b t'
      using blob_sealed[OF L s that] by (simp add: seal_coverage_def)
    show "cov_task ?C t'" "rigid t \<Longrightarrow> t' = t" if "snd (?task ctx path t) = Inr t'" for ctx path t t'
      using task_sealed[OF L s _ that, of "sealed_admin n K encodings L c parts"] Suc.IH by blast+
  qed (simp add: seal_coverage_def)
  note C = run_clean(1)[OF this]
  show ?case
  proof (cases "map_of adminVisitors ty")
    case (Some v)
    then have "wf_visitor v" using wf_adminVisitors map_of_SomeD[OF Some] by (auto simp: list_all_iff)
    then show ?thesis using C Suc.prems Some by simp
  qed simp
qed simp



section \<open>Two levels are enough\<close>

fun taskless :: "visitor \<Rightarrow> bool" and taskless_alt :: "alternatives \<Rightarrow> bool" and taskless_all :: "visitors \<Rightarrow> bool" where
  "taskless (Get f v) \<longleftrightarrow> taskless v"
| "taskless (Each f v) \<longleftrightarrow> taskless v"
| "taskless (WithNs path v) \<longleftrightarrow> taskless v"
| "taskless (Switch f as) \<longleftrightarrow> taskless_alt as"
| "taskless (UnlessSkip v) \<longleftrightarrow> taskless v"
| "taskless (Stmts vs) \<longleftrightarrow> taskless_all vs"
| "taskless (VisitTask path) \<longleftrightarrow> False"
| "taskless _ \<longleftrightarrow> True"
| "taskless_alt NoAlt \<longleftrightarrow> True"
| "taskless_alt (Alt m v as) \<longleftrightarrow> taskless v \<and> taskless_alt as"
| "taskless_all Done \<longleftrightarrow> True"
| "taskless_all (Then v vs) \<longleftrightarrow> taskless v \<and> taskless_all vs"

lemma run_taskless:
  "taskless v \<Longrightarrow> run L c opts task v ctx t = run L c opts task' v ctx t"
  "taskless_alt as \<Longrightarrow> run_alt L c opts task as ctx n t = run_alt L c opts task' as ctx n t"
  "taskless_all vs \<Longrightarrow> run_all L c opts task vs ctx t = run_all L c opts task' vs ctx t"
proof (induction v and as and vs arbitrary: ctx t and ctx n t and ctx t rule: visitor.induct alternatives.induct visitors.induct)
  case (Each f v)
  then have "run L c opts task v ctx = run L c opts task' v ctx" by (simp add: fun_eq_iff)
  then show ?case by (simp split: adm.split)
next
  case (Then v vs)
  then have "run_all L c opts task vs ctx = run_all L c opts task' vs ctx" by (simp add: fun_eq_iff)
  with Then show ?case by simp
qed (simp_all split: adm.split)

lemma taskInfo_taskless: "map_of adminVisitors (taskInfoByCategory cat) = Some v \<Longrightarrow> taskless v"
  by (cases cat) (auto simp: taskInfoByCategory_def adminVisitors_def visit_OutboundTaskInfo_def visit_TimerTaskInfo_def
      visit_TransferTaskInfo_def visit_VisibilityTaskInfo_def visit_ChasmTaskInfo_def)

lemma taskInfo_depth:
  "visitAdminPayloads (Suc n) L c opts ctx (taskInfoByCategory cat) t = visitAdminPayloads (Suc 0) L c opts ctx (taskInfoByCategory cat) t"
  by (auto split: option.split intro: run_taskless(1)[OF taskInfo_taskless])

lemma admin_depth: "visitAdminPayloads (Suc (Suc n)) L c opts = visitAdminPayloads 2 L c opts"
proof -
  have eq: "visitAddTasksRequestTask L opts (visitAdminPayloads (Suc n) L c opts) =
      visitAddTasksRequestTask L opts (visitAdminPayloads (Suc 0) L c opts)"
    unfolding fun_eq_iff visitAddTasksRequestTask_def taskInfo_depth[of n] by blast
  show ?thesis by (intro ext) (simp only: numeral_2_eq_2 visitAdminPayloads.simps(2)[of "Suc n"] visitAdminPayloads.simps(2)[of "Suc 0"] eq)
qed


section \<open>The directions of an encryptor\<close>

definition opts_of :: "adminVisit \<Rightarrow> AdminVisitOptions" where
  "opts_of v = \<lparr>ao_payloads = av_payloads v, ao_skipSearchAttributes = True, ao_opaque = Some (av_opaque v),
     ao_failures = av_failures v, ao_failuresAfter = av_failuresAfter v\<rparr>"

lemma newAdminVisit_Inr:
  "newAdminVisit L payloads failures after opaque = Inr v \<Longrightarrow>
   av_payloads v = markPayloads payloads \<and> av_opaque v = markOpaque opaque \<and> av_failures v = markFailures failures \<and>
   av_failuresAfter v = after"
  by (auto simp: newAdminVisit_def Let_def split: sum.splits option.splits)

lemma encryptor_directions:
  assumes "NewAdminEncryptor K L cfg = Inr e" "Vault cfg = Some v" "Enabled cfg"
  obtains sv ov where
    "newAdminVisit L (visitPayloads (admin_enc cfg v) (sealUnlessSealed K (alreadySealed K (AlreadySealedEncodings cfg))))
       (if EncodeFailures cfg then Some (encodeFailure K) else None) False
       (sealOpaque (AllowOpaquePlaintext cfg) (Observer cfg)) = Inr sv"
    "ae_req e = Some (if Reverse cfg then ov else sv)" "ae_resp e = Some (if Reverse cfg then sv else ov)" "ae_obs e = VisitErrors cfg"
  using assms by (auto simp: NewAdminEncryptor_def Let_def split: sum.splits if_splits)

lemma seal_direction:
  assumes d: "documented_codec R K" and o: "\<not> allow"
    and sv: "newAdminVisit L (visitPayloads (admin_enc cfg v) (sealUnlessSealed K (alreadySealed K encodings)))
      failures False (sealOpaque allow obs) = Inr sv"
  shows "seals K encodings (opts_of sv)"
proof -
  let ?c = "\<lambda>ctx. replicationKey (cipherOpt v
    (namespaceBinder (Namespaces cfg) (Label cfg) (StrictNamespaces cfg) (NsObserver cfg)) (Binding cfg)) ctx
    (case stampedNamespace ctx of Some ns \<Rightarrow> ns | None \<Rightarrow> [])"
  note n = newAdminVisit_Inr[OF sv]
  have "av_payloads sv = Some (\<lambda>ctx ps. map_sum (\<lambda>e. markVisitError (PlainErr e)) (\<lambda>x. x)
      (sealUnlessSealed K (alreadySealed K encodings) [?c ctx] ps))"
    using n by (simp add: markPayloads_def visitPayloads_def admin_enc_def Let_def)
  moreover have "\<forall>q \<in> set qs. alreadySealed K encodings q"
    if "map_sum (\<lambda>e. markVisitError (PlainErr e)) (\<lambda>x. x) (sealUnlessSealed K (alreadySealed K encodings) [?c ctx] ps) = Inr qs"
    for ctx ps qs
    using that seal_group[OF d, of encodings "?c ctx" ps]
    by (cases "sealUnlessSealed K (alreadySealed K encodings) [?c ctx] ps") auto
  moreover have "\<forall>path d. snd (markOpaque (sealOpaque allow obs) path d) \<noteq> None"
    using o by (simp add: markOpaque_def sealOpaque_def Let_def)
  ultimately show ?thesis using n by (simp add: seals_def opts_of_def)
qed

definition sealed_msg ::
  "codecLib \<Rightarrow> string list \<Rightarrow> pubLib \<Rightarrow> 'c codec_scheme \<Rightarrow> (val \<Rightarrow> payload list list) \<Rightarrow> string \<times> adm \<Rightarrow> bool" where
  "sealed_msg K encodings L c parts m \<longleftrightarrow> sealed_admin 2 K encodings L c parts (fst m) (snd m)"

lemma visit_sealed:
  assumes "documented_pub L c parts rebuild" "seals K encodings (opts_of sv)"
    and "adminVisit_visit L c (Some sv) ctx m = (evs, Inr m')"
  shows "sealed_msg K encodings L c parts m'"
proof -
  have "snd (VisitAdminPayloads L c ctx m (opts_of sv)) = Inr m'"
    using assms(3) by (simp add: adminVisit_visit_def opts_of_def)
  then obtain t where "snd (visitAdminPayloads 2 L c (opts_of sv) ctx (fst m) (snd m)) = Inr t" "m' = (fst m, t)"
    by (auto simp: VisitAdminPayloads_def split: if_splits)
  then show ?thesis using admin_sealed[OF assms(1,2)] by (simp add: sealed_msg_def)
qed

section \<open>Properties\<close>

text \<open>
  No payload and no opaque data leaves unsealed in admin traffic. With encryption on and opaque
  plaintext off, the encryptor of the outgoing side lets out, as the request of a call or as a message
  of a stream, only messages in which every payload at every place the generated switch knows is sealed
  (inside serialized history events and serialized tasks too) and every opaque field is empty: the
  outcome does not depend on what the peer does with any other message. The reply of a call and the
  messages of a stream that the encryptor of the incoming side returns are sealed in the same way.
\<close>

lemma admin_traffic_sealed:
  assumes "documented_pub L c parts rebuild" "documented_codec R K"
    and "NewAdminEncryptor K L cfg = Inr e" "Vault cfg = Some v" "Enabled cfg" "\<not> AllowOpaquePlaintext cfg"
  defines "ok \<equiv> sealed_msg K (AlreadySealedEncodings cfg) L c parts"
  shows "(\<not> Reverse cfg \<longrightarrow>
      (\<forall>mth ctx req call call'. (\<forall>ctx r. ok r \<longrightarrow> call ctx r = call' ctx r) \<longrightarrow>
         adminUnary L c e mth ctx call req = adminUnary L c e mth ctx call' req) \<and>
      (\<forall>mth ctx m send send'. (\<forall>r. ok r \<longrightarrow> send r = send' r) \<longrightarrow>
         stream_SendMsg L c e mth ctx send m = stream_SendMsg L c e mth ctx send' m)) \<and>
    (Reverse cfg \<longrightarrow>
      (\<forall>mth ctx req call evs reply. adminUnary L c e mth ctx call req = (evs, Inr reply) \<longrightarrow> ok reply) \<and>
      (\<forall>mth ctx received evs m. stream_RecvMsg L c e mth ctx received = (evs, Inr m) \<longrightarrow> ok m))"
proof -
  obtain sv ov where d: "ae_req e = Some (if Reverse cfg then ov else sv)" "ae_resp e = Some (if Reverse cfg then sv else ov)"
    and sv: "newAdminVisit L (visitPayloads (admin_enc cfg v) (sealUnlessSealed K (alreadySealed K (AlreadySealedEncodings cfg))))
       (if EncodeFailures cfg then Some (encodeFailure K) else None) False
       (sealOpaque (AllowOpaquePlaintext cfg) (Observer cfg)) = Inr sv"
    using encryptor_directions[OF assms(3-5)] by metis
  have s: "ok m'" if "adminVisit_visit L c (Some sv) ctx m = (evs, Inr m')" for ctx m evs m'
    unfolding ok_def by (rule visit_sealed[OF assms(1) seal_direction[OF assms(2,6) sv] that])
  have A: "adminUnary L c e mth ctx call req = adminUnary L c e mth ctx call' req"
    if "\<not> Reverse cfg" "\<forall>ctx r. ok r \<longrightarrow> call ctx r = call' ctx r" for mth ctx req call call'
    using that s by (auto simp: adminUnary_def d Let_def split: prod.split sum.split)
  have B: "stream_SendMsg L c e mth ctx send m = stream_SendMsg L c e mth ctx send' m"
    if "\<not> Reverse cfg" "\<forall>r. ok r \<longrightarrow> send r = send' r" for mth ctx m send send'
    using that s by (auto simp: stream_SendMsg_def d split: prod.split sum.split)
  have C: "ok reply" if "Reverse cfg" "adminUnary L c e mth ctx call req = (evs, Inr reply)" for mth ctx call req evs reply
    using that s by (auto simp: adminUnary_def d Let_def fail_with_def split: prod.splits sum.splits)
  have D: "ok m" if "Reverse cfg" "stream_RecvMsg L c e mth ctx received = (evs, Inr m)" for mth ctx received evs m
    using that s by (auto simp: stream_RecvMsg_def d fail_with_def split: prod.splits sum.splits)
  show ?thesis
    by (intro conjI impI allI)
      ((rule A; assumption) | (rule B; assumption) | (rule C; assumption) | (rule D; assumption))+
qed


text \<open>Libraries for the examples: public messages without payloads, and no known task category.\<close>

definition exPubLib :: pubLib where
  "exPubLib = \<lparr>PubPayloads = (\<lambda>f m. Inr m), PubFailures = (\<lambda>f m. Inr m), NewDetailPayloads = (\<lambda>v. Inr (\<lambda>ctx e. e)),
     NewDetailFailures = (\<lambda>v. Inr (\<lambda>ctx e. e)), categoryOf = (\<lambda>i. None), DecodeTask = (\<lambda>ty b. Inl ''unknown''),
     EncodeTask = (\<lambda>t. Inl ''unknown'')\<rparr>"

definition exEvents :: codec where
  "exEvents = \<lparr>DeserializeEvents = (\<lambda>b. if B_data b = ''?'' then Inl ''bad blob'' else Inr (replicate (length (B_data b)) VScalar)),
     SerializeEvents = (\<lambda>evs. if list_all (\<lambda>e. e = VScalar) evs then Inr \<lparr>B_encoding = 1, B_data = replicate (length evs) (CHR ''e'')\<rparr> else Inl ''bad event''),
     History122_Unmarshal = (\<lambda>_. Inl ''bad blob''), History122_Marshal = (\<lambda>_. Inl ''bad blob'')\<rparr>"

definition exAdminConfig :: AdminEncryptorConfig where
  "exAdminConfig = \<lparr>Enabled = True, Vault = Some exVault, Reverse = False, AlreadySealedEncodings = [''zip''], EncodeFailures = True,
     Label = None, Binding = True, AllowOpaquePlaintext = False, Observer = True, Namespaces = None, StrictNamespaces = False,
     NsObserver = True, VisitErrors = True\<rparr>"

lemma exPubLib_documented: "documented_pub exPubLib exEvents (\<lambda>m. []) (\<lambda>m ps. m)"
proof -
  have "traversal (PubPayloads exPubLib) (\<lambda>m. []) (\<lambda>m ps. m)"
    unfolding traversal_def each_of_def by (auto simp: exPubLib_def intro!: exI[of _ "Inr []"])
  moreover have "DeserializeEvents exEvents out = Inr evs" if "SerializeEvents exEvents evs = Inr out" for evs out
  proof -
    have a: "list_all (\<lambda>e. e = VScalar) evs" and o: "out = \<lparr>B_encoding = 1, B_data = replicate (length evs) (CHR ''e'')\<rparr>"
      using that by (auto simp: exEvents_def split: if_splits)
    have "replicate (length evs) VScalar = evs" using a by (induction evs) auto
    moreover have "replicate (length evs) (CHR ''e'') \<noteq> ''?''" by (cases evs) auto
    ultimately show ?thesis by (simp add: o exEvents_def)
  qed
  ultimately show ?thesis unfolding documented_pub_def by (auto simp: exPubLib_def)
qed

lemma exAdminEncryptor: "\<exists>e. NewAdminEncryptor exCodecLib exPubLib exAdminConfig = Inr e"
  by (simp add: NewAdminEncryptor_def exAdminConfig_def newAdminVisit_def exPubLib_def markFailures_def Let_def)



text \<open>
  A blob of events that does not decode fails with an error that is not marked: the caller gets it as it
  is and the observer does not hear of it.
\<close>

lemma undecodable_blob_is_not_marked:
  assumes "NewAdminEncryptor K L cfg = Inr e" "Vault cfg = Some v" "Enabled cfg" "\<not> Reverse cfg"
    and "B_data b \<noteq> []" "DeserializeEvents c b = Inl err" "\<not> IsInvalidUTF8Error err"
  shows "adminUnary L c e mth ctx call (''ImportWorkflowExecutionRequest'', AMsg [(''HistoryBatches'', AList [ABlob b])]) =
    ([], Inl (WrapErr ''failed to deserialize history events'' (PlainErr err)))"
proof -
  obtain sv ov where d: "ae_req e = Some sv"
    and sv: "newAdminVisit L (visitPayloads (admin_enc cfg v) (sealUnlessSealed K (alreadySealed K (AlreadySealedEncodings cfg))))
       (if EncodeFailures cfg then Some (encodeFailure K) else None) False
       (sealOpaque (AllowOpaquePlaintext cfg) (Observer cfg)) = Inr sv"
    using encryptor_directions[OF assms(1-3)] assms(4) by metis
  have p: "av_payloads sv \<noteq> None"
    using newAdminVisit_Inr[OF sv] by (simp add: markPayloads_def visitPayloads_def admin_enc_def)
  have "adminVisit_visit L c (Some sv) ctx (''ImportWorkflowExecutionRequest'', AMsg [(''HistoryBatches'', AList [ABlob b])]) =
      ([], Inl (WrapErr ''failed to deserialize history events'' (PlainErr err)))" for ctx
    using p assms(5-7)
    by (simp add: adminVisit_visit_def VisitAdminPayloads_def numeral_2_eq_2 adminVisitors_def
        visit_ImportWorkflowExecutionRequest_def field_of_def bindR_def visitEventBlob_def blob_events_def)
  then show ?thesis by (simp add: adminUnary_def d Let_def fail_with_def unary_failed_def field_of_def)
qed

end
