(* ===== verification/RepairCodec.thy ===== *)
theory RepairCodec
  imports Translation
begin

text \<open>
  The codec of \<^verbatim>\<open>proto/compat/codec.go\<close>, which repairs a message whose decoding fails with an invalid UTF-8
  error: \<^verbatim>\<open>convertAndRepairInvalidUTF8\<close> of \<^verbatim>\<open>proto/compat/repair_utf8.go\<close> decodes it with the old protocol,
  repairs it, encodes it and decodes it again.
\<close>

section \<open>The codec\<close>

text \<open>A message type of the current protocol: the package of the service and the name.\<close>

type_synonym goType = "string \<times> string"

definition adminConvertTo122 :: "goType \<Rightarrow> string option" where
  "adminConvertTo122 ty = (if fst ty = ''adminservice'' \<and> snd ty \<in> set admin122 then Some (''serverapiadminservice.'' @ snd ty) else None)"

definition frontendConvertTo122 :: "goType \<Rightarrow> string option" where
  "frontendConvertTo122 ty =
     (if fst ty = ''workflowservice'' \<and> snd ty \<in> set frontend122 then Some (''apiworkflowservice.'' @ snd ty) else None)"

text \<open>
  The protocol buffer libraries: the default codec, the message's own \<^verbatim>\<open>Unmarshal\<close> where it has one, and the
  decoder and encoder of the old protocol.
\<close>

record 'v compatLib =
  delegate_Unmarshal :: "goType \<Rightarrow> string \<Rightarrow> string + 'v"
  delegate_Marshal :: "'v \<Rightarrow> string + string"
  v_Unmarshal :: "(goType \<Rightarrow> string \<Rightarrow> string + 'v) option"
  Unmarshal122 :: "string \<Rightarrow> string \<Rightarrow> string + msg122"
  Marshal122 :: "string \<Rightarrow> msg122 \<Rightarrow> string + string"

definition convertAndRepairInvalidUTF8 :: "'v compatLib \<Rightarrow> goType \<Rightarrow> string \<Rightarrow> string + 'v" where
  "convertAndRepairInvalidUTF8 L ty data =
     (case v_Unmarshal L of
        None \<Rightarrow> Inl ''could not cast as a marshaler''
      | Some unmarshal \<Rightarrow>
          (case (case adminConvertTo122 ty of Some t \<Rightarrow> Some t | None \<Rightarrow> frontendConvertTo122 ty) of
             None \<Rightarrow> Inl ''could not convert to gogo-based protobuf type''
           | Some t \<Rightarrow>
               (case Unmarshal122 L t data of
                  Inl err \<Rightarrow> Inl (''could not unmarshal data: '' @ err)
                | Inr m \<Rightarrow>
                    (case RepairInvalidUTF8 t m of
                       (m', changed, Some err) \<Rightarrow> Inl err
                     | (m', changed, None) \<Rightarrow>
                         if \<not> changed then Inl ''nothing was repaired''
                         else (case Marshal122 L t m' of
                                 Inl err \<Rightarrow> Inl (''failed to re-marshal message after repair: '' @ err)
                               | Inr data' \<Rightarrow>
                                   (case unmarshal ty data' of
                                      Inl err \<Rightarrow> Inl (''failed to re-unmarshal message after repair: '' @ err)
                                    | Inr v \<Rightarrow> Inr v))))))"

text \<open>What the codec logs and counts.\<close>

datatype codecEvent = RepairError string | Repaired goType | MarshalError string

definition codec_Unmarshal :: "'v compatLib \<Rightarrow> goType \<Rightarrow> string \<Rightarrow> codecEvent list \<times> (string + 'v)" where
  "codec_Unmarshal L ty data =
     (case delegate_Unmarshal L ty data of
        Inr v \<Rightarrow> ([], Inr v)
      | Inl err \<Rightarrow>
          if IsInvalidUTF8Error err
          then (case convertAndRepairInvalidUTF8 L ty data of
                  Inl err' \<Rightarrow> ([RepairError err'], Inl err)
                | Inr v \<Rightarrow> ([Repaired ty], Inr v))
          else ([], Inl err))"

definition codec_Marshal :: "'v compatLib \<Rightarrow> 'v \<Rightarrow> codecEvent list \<times> (string + string)" where
  "codec_Marshal L v =
     (case delegate_Marshal L v of
        Inr out \<Rightarrow> ([], Inr out)
      | Inl err \<Rightarrow> (if IsInvalidUTF8Error err then [MarshalError err] else [], Inl err))"

section \<open>Properties\<close>

text \<open>
  The documented behaviour of the libraries: a message of the old protocol can be encoded, and the
  current decoder accepts the encoding exactly when every string in it is valid UTF-8; what it decodes
  then is the same message in the current protocol.
\<close>

fun chain_strings :: "failure122 \<Rightarrow> string list" where
  "chain_strings NilFailure = []"
| "chain_strings (Failure122 msg others cause) = msg # others @ chain_strings cause"

fun strings :: "msg122 \<Rightarrow> string list" where
  "strings (MMsg fs) = concat (map (\<lambda>(k, v). strings v) fs)"
| "strings (MSlice vs) = concat (map strings vs)"
| "strings (MOneof n v) = strings v"
| "strings (MFailure f) = chain_strings f"
| "strings (MString s) = [s]"
| "strings (MData d) = []"
| "strings MNil = []"

definition documented_compat :: "(goType \<Rightarrow> msg122 \<Rightarrow> 'v) \<Rightarrow> 'v compatLib \<Rightarrow> bool" where
  "documented_compat current L \<longleftrightarrow>
     (\<exists>unmarshal. v_Unmarshal L = Some unmarshal \<and>
        (\<forall>ty t m. \<exists>data. Marshal122 L t m = Inr data \<and>
           (if list_all ValidString (strings m) then unmarshal ty data = Inr (current ty m)
            else \<exists>err. unmarshal ty data = Inl err)))"

definition counterpart :: "goType \<Rightarrow> string option" where
  "counterpart ty = (case adminConvertTo122 ty of Some t \<Rightarrow> Some t | None \<Rightarrow> frontendConvertTo122 ty)"


text \<open>Libraries for an example: a message is encoded as its strings after a mark that says whether they are valid.\<close>

definition exCompat :: "string compatLib" where
  "exCompat = \<lparr>delegate_Unmarshal = (\<lambda>ty d. Inl ''string field contains invalid utf-8''), delegate_Marshal = (\<lambda>v. Inr v),
     v_Unmarshal = Some (\<lambda>ty d. case d of c # s \<Rightarrow> if c = CHR ''+'' then Inr s else Inl ''invalid UTF-8'' | [] \<Rightarrow> Inl ''no data''),
     Unmarshal122 = (\<lambda>t d. Inr (MMsg [(''Failure'', MFailure (Failure122 d [] NilFailure))])),
     Marshal122 = (\<lambda>t m. Inr ((if list_all ValidString (strings m) then CHR ''+'' else CHR ''-'') # concat (strings m)))\<rparr>"


end
