(* ===== verification/KeyVault.thy ===== *)
theory KeyVault
  imports EncryptionConfig "HOL-Library.Multiset"
begin

text \<open>
  \<^verbatim>\<open>encryption/vault\<close>: opening the keys that a configuration names, and giving them back when something
  fails. A key is known by its number in the order of opening. What the crypto library does is the argument
  \<open>L\<close>: opening the n-th key, closing a key, and building the registry and the vault.
\<close>

section \<open>Keys\<close>

definition testingKeyScheme :: string where
  "testingKeyScheme = ''testing://''"

definition cryptoProviders :: "(string, string) gomap" where
  "cryptoProviders = [(''awskms'', ''aws''), (''gcpkms'', ''gcp''), (''azurekeyvault'', ''azure''),
     (''base64key'', ''testing''), (''testing'', ''testing'')]"

definition providerFor :: "string \<Rightarrow> string" where
  "providerFor uri =
     (let provider = to_lower (takeWhile (\<lambda>c. c \<noteq> CHR '':'') uri)
      in case gget cryptoProviders provider of Some p \<Rightarrow> p | None \<Rightarrow> provider)"

definition resultLabel :: "string option \<Rightarrow> string" where
  "resultLabel err = (if err \<noteq> None then ''error'' else ''success'')"

definition safeKeyString :: "string \<Rightarrow> string" where
  "safeKeyString uri =
     (if length uri < length testingKeyScheme \<or> \<not> EqualFold (take (length testingKeyScheme) uri) testingKeyScheme then uri
      else testingKeyScheme @ ''<redacted>'')"

record kek =
  serial :: nat
  kek_uri :: string
  provider :: string

datatype KEKRegistryOption = WithDefaultKey kek | WithKeyForNamespace string kek | WithDecryptOnlyKey kek

datatype VaultOption =
    WithDefaultKeyConfig int int
  | WithCacheSize int
  | WithObserver
  | WithBindingMode bindingMode
  | WithKeyConfig string int int

datatype vaultEvent = Registering string string | Opened kek | Closed kek | CloseFailed kek string

record cryptoLib =
  crypto_Create :: "nat \<Rightarrow> string \<Rightarrow> string option"
  key_Close :: "kek \<Rightarrow> string option"
  NewKEKRegistry :: "KEKRegistryOption list \<Rightarrow> string option"
  registry_Close :: "KEKRegistryOption list \<Rightarrow> kek list \<times> string option"
  NewVault :: "KEKRegistryOption list \<Rightarrow> VaultOption list \<Rightarrow> string option"

text \<open>\<^verbatim>\<open>KeyFactory.Create\<close>: the n-th key, wrapped with the provider label of its scheme.\<close>

definition factory_Create :: "cryptoLib \<Rightarrow> nat \<Rightarrow> string \<Rightarrow> string + kek" where
  "factory_Create L n uri =
     (case crypto_Create L n uri of
        Some err \<Rightarrow> Inl (''error creating KEK: '' @ err)
      | None \<Rightarrow> Inr \<lparr>serial = n, kek_uri = uri, provider = providerFor uri\<rparr>)"

text \<open>A wrapped key reports each operation with its provider, the operation and the result.\<close>

definition key_Encrypt :: "kek \<Rightarrow> (string \<Rightarrow> string \<Rightarrow> string + string) \<Rightarrow> string \<Rightarrow> string \<Rightarrow> (string \<times> string \<times> string) \<times> (string + string)" where
  "key_Encrypt k enc ns b =
     (let r = enc ns b in ((provider k, ''wrap'', resultLabel (case r of Inl err \<Rightarrow> Some err | Inr _ \<Rightarrow> None)), r))"

definition key_Decrypt :: "kek \<Rightarrow> (string \<Rightarrow> string + string) \<Rightarrow> string \<Rightarrow> (string \<times> string \<times> string) \<times> (string + string)" where
  "key_Decrypt k dec b =
     (let r = dec b in ((provider k, ''unwrap'', resultLabel (case r of Inl err \<Rightarrow> Some err | Inr _ \<Rightarrow> None)), r))"

section \<open>The registry\<close>

text \<open>The builder: every key opened so far, and what was logged and done.\<close>

record registryBuilder =
  opened :: "kek list"
  events :: "vaultEvent list"

definition mkKey :: "cryptoLib \<Rightarrow> string \<Rightarrow> string \<Rightarrow> registryBuilder \<Rightarrow> registryBuilder \<times> (string + kek)" where
  "mkKey L ns uri b =
     (let b = b\<lparr>events := events b @ [Registering ns (safeKeyString uri)]\<rparr>
      in case factory_Create L (length (opened b)) uri of
           Inl err \<Rightarrow> (b, Inl err)
         | Inr k \<Rightarrow> (b\<lparr>opened := opened b @ [k], events := events b @ [Opened k]\<rparr>, Inr k))"

fun mkKeys :: "cryptoLib \<Rightarrow> string \<Rightarrow> string list \<Rightarrow> registryBuilder \<Rightarrow> registryBuilder \<times> (string + kek list)" where
  "mkKeys L ns [] b = (b, Inr [])"
| "mkKeys L ns (uri # uris) b =
     (case mkKey L ns uri b of
        (b, Inl err) \<Rightarrow> (b, Inl err)
      | (b, Inr k) \<Rightarrow>
          (case mkKeys L ns uris b of
             (b, Inl err) \<Rightarrow> (b, Inl err)
           | (b, Inr ks) \<Rightarrow> (b, Inr (k # ks))))"

definition createKEKs :: "cryptoLib \<Rightarrow> string \<Rightarrow> KeyPolicy \<Rightarrow> registryBuilder \<Rightarrow> registryBuilder \<times> (string + kek list)" where
  "createKEKs L ns p b = mkKeys L ns (URI p # DecryptURIs p) b"

text \<open>\<open>isDefault\<close> says that the policy is the default one, which the code decides by the pointer.\<close>

definition nsOptions ::
  "cryptoLib \<Rightarrow> string \<Rightarrow> bool \<Rightarrow> KeyPolicy \<Rightarrow> registryBuilder \<Rightarrow> registryBuilder \<times> (string + KEKRegistryOption list)" where
  "nsOptions L ns isDefault p b =
     (case createKEKs L ns p b of
        (b, Inl err) \<Rightarrow> (b, Inl err)
      | (b, Inr ks) \<Rightarrow>
          (b, Inr ((if isDefault then WithDefaultKey (hd ks) else WithKeyForNamespace ns (hd ks)) # map WithDecryptOnlyKey (tl ks))))"

fun policies_options ::
  "cryptoLib \<Rightarrow> (string \<times> bool \<times> KeyPolicy) list \<Rightarrow> registryBuilder \<Rightarrow> registryBuilder \<times> (string + KEKRegistryOption list)" where
  "policies_options L [] b = (b, Inr [])"
| "policies_options L ((ns, isDefault, p) # ps) b =
     (case nsOptions L ns isDefault p b of
        (b, Inl err) \<Rightarrow> (b, Inl err)
      | (b, Inr opts) \<Rightarrow>
          (case policies_options L ps b of
             (b, Inl err) \<Rightarrow> (b, Inl err)
           | (b, Inr opts') \<Rightarrow> (b, Inr (opts @ opts'))))"

text \<open>The policies in the order the keys are opened: the default, replication, and the overrides by name.\<close>

definition override_policies :: "EncryptionConfig \<Rightarrow> (string \<times> bool \<times> KeyPolicy) list" where
  "override_policies e = map (\<lambda>ns. (ns, False, the (gget (Overrides e) ns))) (sorted_keys (Overrides e))"

definition toOptions :: "cryptoLib \<Rightarrow> EncryptionConfig \<Rightarrow> registryBuilder \<Rightarrow> registryBuilder \<times> (string + KEKRegistryOption list)" where
  "toOptions L e b =
     policies_options L
       ((''default'', True, the (Default e)) #
        (case Replication e of Some p \<Rightarrow> [(ReplicationKeyNamespace, False, p)] | None \<Rightarrow> []) @ override_policies e) b"

definition close_event :: "cryptoLib \<Rightarrow> kek \<Rightarrow> vaultEvent list" where
  "close_event L k = Closed k # (case key_Close L k of Some err \<Rightarrow> [CloseFailed k err] | None \<Rightarrow> [])"

definition closeOpened :: "cryptoLib \<Rightarrow> registryBuilder \<Rightarrow> registryBuilder" where
  "closeOpened L b = b\<lparr>events := events b @ concat (map (close_event L) (opened b))\<rparr>"

definition createRegistry :: "cryptoLib \<Rightarrow> EncryptionConfig \<Rightarrow> vaultEvent list \<times> (string + KEKRegistryOption list)" where
  "createRegistry L e =
     (case toOptions L e \<lparr>opened = [], events = []\<rparr> of
        (b, Inl err) \<Rightarrow> (events (closeOpened L b), Inl err)
      | (b, Inr kopts) \<Rightarrow>
          (case NewKEKRegistry L kopts of
             Some err \<Rightarrow> (events (closeOpened L b), Inl (''failed to create KEK registry: '' @ err))
           | None \<Rightarrow> (events b, Inr kopts)))"

section \<open>The vault\<close>

definition vault_options :: "EncryptionConfig \<Rightarrow> bindingMode \<Rightarrow> VaultOption list" where
  "vault_options e mode =
     [WithDefaultKeyConfig (Duration (the (Default e))) (RenewBefore (the (Default e))), WithCacheSize (CacheSize e),
      WithObserver, WithBindingMode mode] @
     (case Replication e of Some p \<Rightarrow> [WithKeyConfig ReplicationKeyNamespace (Duration p) (RenewBefore p)] | None \<Rightarrow> []) @
     map (\<lambda>ns. let p = the (gget (Overrides e) ns) in WithKeyConfig ns (Duration p) (RenewBefore p)) (sorted_keys (Overrides e))"

definition errors_Join :: "string \<Rightarrow> string option \<Rightarrow> string" where
  "errors_Join err err' = (case err' of Some e \<Rightarrow> err @ [CHR 0x0A] @ e | None \<Rightarrow> err)"

text \<open>The vault is the registry it owns and its options; \<^verbatim>\<open>Close\<close> closes the registry.\<close>

definition vault_New ::
  "validation \<Rightarrow> urlParser \<Rightarrow> cryptoLib \<Rightarrow> EncryptionConfig \<Rightarrow> vaultEvent list \<times> (string + KEKRegistryOption list \<times> VaultOption list)" where
  "vault_New V url L e =
     (case encryption_Validate V url e of
        Some err \<Rightarrow> ([], Inl (''invalid encryption config: '' @ err))
      | None \<Rightarrow>
          if Default e = None then ([], Inl ''no default key policy: a vault needs keys to seal or open with'')
          else (case Mode (NamespaceBinding e) of
                  Inl err \<Rightarrow> ([], Inl (''invalid encryption config: '' @ err))
                | Inr mode \<Rightarrow>
                    (case createRegistry L e of
                       (evs, Inl err) \<Rightarrow> (evs, Inl err)
                     | (evs, Inr r) \<Rightarrow>
                         (case NewVault L r (vault_options e mode) of
                            Some err \<Rightarrow>
                              (evs @ map Closed (fst (registry_Close L r)),
                               Inl (errors_Join (''failed to create crypto vault: '' @ err) (snd (registry_Close L r))))
                          | None \<Rightarrow> (evs, Inr (r, vault_options e mode))))))"

definition vault_Close :: "cryptoLib \<Rightarrow> KEKRegistryOption list \<times> VaultOption list \<Rightarrow> kek list \<times> string option" where
  "vault_Close L v = registry_Close L (fst v)"

section \<open>Keys opened and closed\<close>

definition opens :: "vaultEvent list \<Rightarrow> kek list" where
  "opens evs = concat (map (\<lambda>e. case e of Opened k \<Rightarrow> [k] | _ \<Rightarrow> []) evs)"

definition closes :: "vaultEvent list \<Rightarrow> kek list" where
  "closes evs = concat (map (\<lambda>e. case e of Closed k \<Rightarrow> [k] | _ \<Rightarrow> []) evs)"

definition logged :: "vaultEvent list \<Rightarrow> string list" where
  "logged evs = concat (map (\<lambda>e. case e of Registering ns u \<Rightarrow> [u] | _ \<Rightarrow> []) evs)"

fun key_of :: "KEKRegistryOption \<Rightarrow> kek" where
  "key_of (WithDefaultKey k) = k"
| "key_of (WithKeyForNamespace ns k) = k"
| "key_of (WithDecryptOnlyKey k) = k"

text \<open>The namespaces with a key of their own, and the URI of that key.\<close>

definition ns_keys :: "KEKRegistryOption list \<Rightarrow> (string \<times> string) list" where
  "ns_keys opts = concat (map (\<lambda>o'. case o' of WithKeyForNamespace ns k \<Rightarrow> [(ns, kek_uri k)] | _ \<Rightarrow> []) opts)"

definition default_keys :: "KEKRegistryOption list \<Rightarrow> string list" where
  "default_keys opts = concat (map (\<lambda>o'. case o' of WithDefaultKey k \<Rightarrow> [kek_uri k] | _ \<Rightarrow> []) opts)"

lemmas event_lists = opens_def closes_def logged_def
lemmas option_lists = ns_keys_def default_keys_def

lemma event_lists_append [simp]:
  "opens (xs @ ys) = opens xs @ opens ys" "closes (xs @ ys) = closes xs @ closes ys" "logged (xs @ ys) = logged xs @ logged ys"
  by (simp_all add: event_lists)

lemma event_lists_Cons [simp]:
  "opens (e # evs) = (case e of Opened k \<Rightarrow> [k] | _ \<Rightarrow> []) @ opens evs"
  "closes (e # evs) = (case e of Closed k \<Rightarrow> [k] | _ \<Rightarrow> []) @ closes evs"
  "logged (e # evs) = (case e of Registering ns u \<Rightarrow> [u] | _ \<Rightarrow> []) @ logged evs"
  "opens [] = []" "closes [] = []" "logged [] = []"
  by (simp_all add: event_lists)

lemma option_lists_append [simp]:
  "ns_keys (xs @ ys) = ns_keys xs @ ns_keys ys" "default_keys (xs @ ys) = default_keys xs @ default_keys ys"
  by (simp_all add: option_lists)

lemma option_lists_decrypt [simp]: "ns_keys (map WithDecryptOnlyKey ks) = []" "default_keys (map WithDecryptOnlyKey ks) = []"
  by (induction ks) (simp_all add: option_lists)

text \<open>What opening keys does to a builder: it opens the keys \<open>ks\<close>, closes none, and logs safe strings.\<close>

definition grown :: "registryBuilder \<Rightarrow> registryBuilder \<Rightarrow> kek list \<Rightarrow> bool" where
  "grown b b' ks \<longleftrightarrow> opened b' = opened b @ ks \<and> opens (events b') = opens (events b) @ ks \<and>
     closes (events b') = closes (events b) \<and> map serial ks = [length (opened b)..<length (opened b) + length ks] \<and>
     set (logged (events b')) \<subseteq> set (logged (events b)) \<union> range safeKeyString"

lemma grown_refl [simp]: "grown b b []"
  by (simp add: grown_def)

lemma upt_split: "i \<le> j \<Longrightarrow> j \<le> k \<Longrightarrow> [i..<j] @ [j..<k] = [i..<k]"
  using upt_add_eq_append[of i j "k - j"] by simp

lemma grown_trans:
  assumes "grown b b' ks" "grown b' b'' ks'"
  shows "grown b b'' (ks @ ks')"
  using assms upt_split[of "length (opened b)" "length (opened b) + length ks" "length (opened b) + length ks + length ks'"]
  unfolding grown_def by (auto simp: add.assoc)

lemma mkKey_grows:
  assumes "mkKey L ns uri b = (b', r)"
  shows "(\<exists>err. r = Inl err \<and> grown b b' []) \<or> (\<exists>k. r = Inr k \<and> grown b b' [k] \<and> kek_uri k = uri)"
  using assms
  by (auto simp: mkKey_def factory_Create_def grown_def Let_def split: option.splits)

lemma mkKeys_grow:
  "mkKeys L ns uris b = (b', r) \<Longrightarrow> \<exists>ks. grown b b' ks \<and> (\<forall>ks'. r = Inr ks' \<longrightarrow> ks' = ks \<and> map kek_uri ks = uris)"
proof (induction uris arbitrary: b r)
  case (Cons uri uris)
  obtain b1 r1 where 1: "mkKey L ns uri b = (b1, r1)" by (metis surj_pair)
  show ?case
  proof (cases r1)
    case (Inl err)
    with 1 Cons.prems mkKey_grows[OF 1] show ?thesis by auto
  next
    case (Inr k)
    with mkKey_grows[OF 1] have k: "grown b b1 [k]" "kek_uri k = uri" by auto
    obtain r2 where 2: "mkKeys L ns uris b1 = (b', r2)" and r: "r = (case r2 of Inl err \<Rightarrow> Inl err | Inr ks \<Rightarrow> Inr (k # ks))"
      using Cons.prems 1 Inr by (auto split: prod.splits sum.splits)
    from Cons.IH[OF 2] obtain ks where "grown b1 b' ks" "\<forall>ks'. r2 = Inr ks' \<longrightarrow> ks' = ks \<and> map kek_uri ks = uris" by blast
    with grown_trans[OF k(1)] k(2) r show ?thesis by (intro exI[of _ "k # ks"]) (auto split: sum.splits)
  qed
qed auto

text \<open>The entries of a list of policies that are not the default one.\<close>

definition own_uris :: "(string \<times> bool \<times> KeyPolicy) list \<Rightarrow> (string \<times> string) list" where
  "own_uris ps = concat (map (\<lambda>(ns, isDefault, p). if isDefault then [] else [(ns, URI p)]) ps)"

definition default_uris :: "(string \<times> bool \<times> KeyPolicy) list \<Rightarrow> string list" where
  "default_uris ps = concat (map (\<lambda>(ns, isDefault, p). if isDefault then [URI p] else []) ps)"

lemma policies_grow:
  "policies_options L ps b = (b', r) \<Longrightarrow>
     \<exists>ks. grown b b' ks \<and> (\<forall>opts. r = Inr opts \<longrightarrow> map key_of opts = ks \<and> ns_keys opts = own_uris ps \<and> default_keys opts = default_uris ps)"
proof (induction ps arbitrary: b r)
  case (Cons q ps)
  obtain ns d p where q: "q = (ns, d, p)" by (cases q)
  obtain b1 r1 where 1: "mkKeys L ns (URI p # DecryptURIs p) b = (b1, r1)" by (metis surj_pair)
  from mkKeys_grow[OF 1] obtain ks where ks: "grown b b1 ks" "\<forall>ks'. r1 = Inr ks' \<longrightarrow> ks' = ks \<and> map kek_uri ks = URI p # DecryptURIs p"
    by blast
  show ?case
  proof (cases r1)
    case (Inl err)
    with 1 Cons.prems ks show ?thesis by (auto simp: q nsOptions_def createKEKs_def simp del: mkKeys.simps)
  next
    case (Inr ks')
    with ks(2) obtain k tks where k: "ks = k # tks" "kek_uri k = URI p" "ks' = ks" by (cases ks) auto
    let ?opts = "(if d then WithDefaultKey k else WithKeyForNamespace ns k) # map WithDecryptOnlyKey tks"
    obtain r2 where 2: "policies_options L ps b1 = (b', r2)" and r: "r = (case r2 of Inl err \<Rightarrow> Inl err | Inr opts' \<Rightarrow> Inr (?opts @ opts'))"
      using Cons.prems 1 Inr k by (auto simp: q nsOptions_def createKEKs_def split: prod.splits sum.splits simp del: mkKeys.simps)
    from Cons.IH[OF 2] obtain ks2 where ks2: "grown b1 b' ks2"
      "\<forall>opts. r2 = Inr opts \<longrightarrow> map key_of opts = ks2 \<and> ns_keys opts = own_uris ps \<and> default_keys opts = default_uris ps" by blast
    have "map key_of ?opts = ks" by (simp add: k(1) comp_def)
    moreover have "ns_keys ?opts = (if d then [] else [(ns, URI p)])" "default_keys ?opts = (if d then [URI p] else [])"
      using k(2) option_lists_append[of "[WithDefaultKey k]" "map WithDecryptOnlyKey tks"]
        option_lists_append[of "[WithKeyForNamespace ns k]" "map WithDecryptOnlyKey tks"]
      by (auto simp: option_lists)
    ultimately have "map key_of (?opts @ opts) = ks @ ks2 \<and> ns_keys (?opts @ opts) = own_uris (q # ps) \<and> default_keys (?opts @ opts) = default_uris (q # ps)"
      if "r2 = Inr opts" for opts
      using ks2(2) that unfolding map_append option_lists_append by (simp add: q own_uris_def default_uris_def)
    with grown_trans[OF ks(1) ks2(1)] r show ?thesis by (intro exI[of _ "ks @ ks2"]) (auto split: sum.splits)
  qed
qed (auto simp: own_uris_def default_uris_def option_lists)

lemma closes_closeOpened: "closes (events (closeOpened L b)) = closes (events b) @ opened b"
  "opens (events (closeOpened L b)) = opens (events b)" "logged (events (closeOpened L b)) = logged (events b)"
proof -
  have "closes (concat (map (close_event L) ks)) = ks" "opens (concat (map (close_event L) ks)) = []"
    "logged (concat (map (close_event L) ks)) = []" for ks
    by (induction ks) (auto simp: close_event_def split: option.splits)
  then show "closes (events (closeOpened L b)) = closes (events b) @ opened b"
    "opens (events (closeOpened L b)) = opens (events b)" "logged (events (closeOpened L b)) = logged (events b)"
    by (simp_all add: closeOpened_def)
qed

definition registry_uris :: "EncryptionConfig \<Rightarrow> (string \<times> string) list" where
  "registry_uris e =
     (case Replication e of Some p \<Rightarrow> [(ReplicationKeyNamespace, URI p)] | None \<Rightarrow> []) @
     map (\<lambda>ns. (ns, URI (the (gget (Overrides e) ns)))) (sorted_keys (Overrides e))"

lemma registry_accounts:
  assumes "createRegistry L e = (evs, r)"
  shows "set (logged evs) \<subseteq> range safeKeyString \<and> distinct (opens evs) \<and> (\<forall>err. r = Inl err \<longrightarrow> closes evs = opens evs) \<and>
    (\<forall>opts. r = Inr opts \<longrightarrow> closes evs = [] \<and> map key_of opts = opens evs \<and> ns_keys opts = registry_uris e \<and>
       default_keys opts = [URI (the (Default e))])"
proof -
  obtain b r1 where 1: "toOptions L e \<lparr>opened = [], events = []\<rparr> = (b, r1)" by (metis surj_pair)
  from policies_grow[OF 1[unfolded toOptions_def]]
  obtain ks where g: "grown \<lparr>opened = [], events = []\<rparr> b ks"
    and k: "\<And>opts. r1 = Inr opts \<Longrightarrow> map key_of opts = ks \<and> ns_keys opts = registry_uris e \<and> default_keys opts = [URI (the (Default e))]"
    by (auto simp: own_uris_def default_uris_def registry_uris_def override_policies_def comp_def split: option.splits)
  have b: "opened b = ks" "opens (events b) = ks" "closes (events b) = []" "set (logged (events b)) \<subseteq> range safeKeyString"
    "map serial ks = [0..<length ks]"
    using g by (auto simp: grown_def)
  have "distinct ks" using b(5) by (metis distinct_map distinct_upt)
  with assms 1 b k show ?thesis
    by (auto simp: createRegistry_def closes_closeOpened split: sum.splits option.splits)
qed

lemma EqualFold_length: "EqualFold s t \<Longrightarrow> length s = length t"
  by (auto simp: EqualFold_def to_lower_def dest: map_eq_imp_length_eq)

lemma safeKeyString_redacts:
  assumes "EqualFold (take 10 (safeKeyString uri)) testingKeyScheme"
  shows "safeKeyString uri = testingKeyScheme @ ''<redacted>''"
proof (cases "length uri < 10 \<or> \<not> EqualFold (take 10 uri) testingKeyScheme")
  case True
  have ten: "length testingKeyScheme = 10" by (simp add: testingKeyScheme_def)
  with True have "safeKeyString uri = uri" by (simp add: safeKeyString_def)
  with assms True EqualFold_length[of "take 10 uri" testingKeyScheme] ten show ?thesis by auto
next
  case False
  have "length testingKeyScheme = 10" by (simp add: testingKeyScheme_def)
  with False show ?thesis by (simp add: safeKeyString_def)
qed

text \<open>The ways the construction of a vault can end.\<close>

lemma vault_New_cases:
  assumes "vault_New V url L e = (evs, r)"
  obtains (invalid) err where "evs = []" "r = Inl err"
  | (keys) err where "createRegistry L e = (evs, Inl err)" "r = Inl err"
  | (vault) evs' reg err where "createRegistry L e = (evs', Inr reg)"
      "evs = evs' @ map Closed (fst (registry_Close L reg))" "r = Inl err"
  | (built) reg mode where "encryption_Validate V url e = None" "Default e \<noteq> None" "createRegistry L e = (evs, Inr reg)"
      "r = Inr (reg, vault_options e mode)"
proof (cases "encryption_Validate V url e = None \<and> Default e \<noteq> None \<and> (\<exists>mode. Mode (NamespaceBinding e) = Inr mode)")
  case False
  with assms show ?thesis by (auto simp: vault_New_def split: option.splits sum.splits if_splits intro: invalid)
next
  case True
  then obtain mode where m: "Mode (NamespaceBinding e) = Inr mode" by blast
  obtain evs1 r1 where c: "createRegistry L e = (evs1, r1)" by (metis surj_pair)
  show ?thesis
  proof (cases r1)
    case (Inl err)
    with assms True m c show ?thesis by (intro keys[of err]) (auto simp: vault_New_def)
  next
    case (Inr reg)
    show ?thesis
    proof (cases "NewVault L reg (vault_options e mode)")
      case None
      with assms True m c Inr show ?thesis by (intro built[of reg mode]) (auto simp: vault_New_def)
    next
      case (Some err)
      with assms True m c Inr show ?thesis by (intro vault[of evs1 reg]) (auto simp: vault_New_def)
    qed
  qed
qed

section \<open>Properties\<close>

text \<open>The registry closes the keys it was given, which is what its documentation promises.\<close>

definition documented_registry :: "cryptoLib \<Rightarrow> bool" where
  "documented_registry L \<longleftrightarrow> (\<forall>opts. mset (fst (registry_Close L opts)) = mset (map key_of opts))"

text \<open>
  No key is lost and no key material is logged. Whatever fails on the way (a key that cannot be
  opened, the registry, the vault), every key that was opened has been closed once when an error comes
  back. When a vault comes back no key has been closed, and closing the vault closes every key that was
  opened. A logged URI of a testing key is always the redacted one.
\<close>

lemma vault_accounts_for_keys:
  assumes "documented_registry L" "vault_New V url L e = (evs, r)"
  shows "(\<forall>err. r = Inl err \<longrightarrow> mset (closes evs) = mset (opens evs)) \<and>
    (\<forall>v. r = Inr v \<longrightarrow> closes evs = [] \<and> mset (fst (vault_Close L v)) = mset (opens evs)) \<and> distinct (opens evs) \<and>
    (\<forall>u \<in> set (logged evs). EqualFold (take 10 u) testingKeyScheme \<longrightarrow> u = ''testing://<redacted>'')"
proof -
  have c: "opens (map Closed ks) = []" "closes (map Closed ks) = ks" "logged (map Closed ks) = []" for ks
    by (induction ks) simp_all
  have d: "mset (fst (registry_Close L opts)) = mset (map key_of opts)" for opts
    using assms(1) by (simp add: documented_registry_def)
  from assms(2) have "(\<forall>err. r = Inl err \<longrightarrow> mset (closes evs) = mset (opens evs)) \<and>
      (\<forall>v. r = Inr v \<longrightarrow> closes evs = [] \<and> mset (fst (vault_Close L v)) = mset (opens evs)) \<and> distinct (opens evs) \<and>
      set (logged evs) \<subseteq> range safeKeyString"
  proof (cases rule: vault_New_cases)
    case (vault evs' reg err)
    from registry_accounts[OF vault(1)] have "closes evs' = []" "map key_of reg = opens evs'" "distinct (opens evs')"
      "set (logged evs') \<subseteq> range safeKeyString" by auto
    with vault(2,3) c d[of reg] show ?thesis by (auto simp del: mset_map)
  next
    case (built reg mode)
    from registry_accounts[OF built(3)] have "closes evs = []" "map key_of reg = opens evs" "distinct (opens evs)"
      "set (logged evs) \<subseteq> range safeKeyString" by auto
    with built(4) d[of reg] show ?thesis by (auto simp: vault_Close_def simp del: mset_map)
  qed (auto dest: registry_accounts)
  then show ?thesis using safeKeyString_redacts by (auto simp: testingKeyScheme_def)
qed

text \<open>The policy that names a key of its own for a vault namespace.\<close>

definition policy_for :: "EncryptionConfig \<Rightarrow> string \<Rightarrow> KeyPolicy option" where
  "policy_for e ns = (if ns = ReplicationKeyNamespace then Replication e else gget (Overrides e) ns)"

text \<open>
  C38: A vault has the keys its configuration names. The default key is the default policy's. Each
  override, and the replication policy under its reserved name, gives exactly one key of its own, the one
  its URI names, and its own rotation schedule, in which a key is renewed after at least no time and
  before it expires. No other namespace has a key of its own.
\<close>

theorem vault_follows_config:
  assumes "documented_validation V" "gmap_ok (Overrides e)" "vault_New V url L e = (evs, Inr (reg, opts))"
  shows "default_keys reg = [URI (the (Default e))] \<and> distinct (map fst (ns_keys reg)) \<and>
    map_of (ns_keys reg) ns = map_option URI (policy_for e ns) \<and>
    (\<forall>p. policy_for e ns = Some p \<longrightarrow>
       WithKeyConfig ns (Duration p) (RenewBefore p) \<in> set opts \<and> 0 \<le> RenewBefore p \<and> RenewBefore p < Duration p)"
proof -
  from assms(3) obtain mode where v: "encryption_Validate V url e = None" "createRegistry L e = (evs, Inr reg)" "opts = vault_options e mode"
    by (cases rule: vault_New_cases) auto
  have keys: "default_keys reg = [URI (the (Default e))]" "ns_keys reg = registry_uris e" using registry_accounts[OF v(2)] by simp_all
  note valid = v(1)[unfolded encryption_valid[OF assms(1)]]
  have R: "ReplicationKeyNamespace \<notin> set (sorted_keys (Overrides e))" using valid by auto
  have m: "map_of (map (\<lambda>n. (n, f n)) ks) x = (if x \<in> set ks then Some (f x) else None)" for f :: "string \<Rightarrow> string" and ks x
    by (induction ks) auto
  have k: "ns \<in> set (sorted_keys (Overrides e)) \<longleftrightarrow> gget (Overrides e) ns \<noteq> None"
    by (simp add: map_of_eq_None_iff)
  have "map_of (registry_uris e) ns = map_option URI (policy_for e ns)"
    using R k by (auto simp: registry_uris_def policy_for_def m map_add_def split: option.splits)
  moreover have "distinct (map fst (registry_uris e))"
    using R assms(2) by (simp add: registry_uris_def comp_def split: option.split)
  moreover have "WithKeyConfig ns (Duration p) (RenewBefore p) \<in> set opts \<and> policy_ok V url p" if "policy_for e ns = Some p" for p
  proof (cases "ns = ReplicationKeyNamespace")
    case True
    with that valid show ?thesis by (simp add: policy_for_def v(3) vault_options_def)
  next
    case False
    with that have g: "gget (Overrides e) ns = Some p" by (simp add: policy_for_def)
    with k valid show ?thesis by (auto simp: v(3) vault_options_def Let_def intro!: image_eqI[of _ _ ns])
  qed
  ultimately show ?thesis using keys by (simp add: policy_ok_def)
qed

text \<open>An example: libraries that do what is documented, with a third key that cannot be opened.\<close>

definition exValidation :: validation where
  "exValidation = \<lparr>checks_of = \<lparr>RequiredString = (\<lambda>s. if s \<noteq> [] then None else Some ''required''),
       RequiredPolicy = (\<lambda>p. if p \<noteq> None then None else Some ''required''),
       GT = (\<lambda>b x. if b < x then None else Some ''gt''), GTE = (\<lambda>b x. if b \<le> x then None else Some ''gte''),
       LT = (\<lambda>b x. if x < b then None else Some ''lt''), Unique = (\<lambda>xs. if distinct xs then None else Some ''unique''),
       IsHostPort = (\<lambda>s. None)\<rparr>,
     Validate_rules = (\<lambda>rules. if list_all passes rules then None else Some ''invalid''),
     DefaultSchemes = [''awskms'', ''testing'']\<rparr>"

definition exUrl :: urlParser where
  "exUrl u = Inr (takeWhile (\<lambda>c. c \<noteq> CHR '':'') u, ''h'')"

definition exCrypto :: "nat \<Rightarrow> cryptoLib" where
  "exCrypto n = \<lparr>crypto_Create = (\<lambda>i u. if i < n then None else Some ''denied''), key_Close = (\<lambda>k. None), NewKEKRegistry = (\<lambda>opts. None),
     registry_Close = (\<lambda>opts. (map key_of opts, None)), NewVault = (\<lambda>r opts. None)\<rparr>"

definition exEncryption :: EncryptionConfig where
  "exEncryption = \<lparr>ec_Enabled = True, Failures = False, NamespaceBinding = ''strict'', CacheSize = 10,
     Default = Some \<lparr>URI = ''testing://secret'', DecryptURIs = [''awskms://old''], Duration = 100, RenewBefore = 10\<rparr>,
     Overrides = [(''orders'', \<lparr>URI = ''awskms://orders'', DecryptURIs = [], Duration = 50, RenewBefore = 0\<rparr>)],
     Replication = None, ec_AllowOpaquePlaintext = False, ec_AlreadySealedEncodings = []\<rparr>"

lemma exValidation_documented: "documented_validation exValidation"
  by (auto simp: documented_validation_def exValidation_def)

lemma exEncryption_valid: "encryption_Validate exValidation exUrl exEncryption = None"
proof -
  have "validKeyURI exValidation exUrl u = None" if "u \<in> {''testing://secret'', ''awskms://old'', ''awskms://orders''}" for u
    using that by (auto simp: validKeyURI_def exUrl_def exValidation_def EqualFold_def to_lower_def ExtensionKeyScheme_def)
  then show ?thesis
    unfolding encryption_valid[OF exValidation_documented]
    by (simp add: exEncryption_def policy_ok_def check_failures_def check_binding_def namespaceBindings_def ReplicationKeyNamespace_def)
qed

lemma exEncryption_parts:
  "gmap_ok (Overrides exEncryption)" "Mode (NamespaceBinding exEncryption) = Inr BindingStrict" "Default exEncryption \<noteq> None"
  by (simp_all add: exEncryption_def Mode_def)

lemma vault_accounts_for_keys_witness:
  "\<exists>evs err. vault_New exValidation exUrl (exCrypto 2) exEncryption = (evs, Inl err) \<and> length (opens evs) = 2 \<and>
     mset (closes evs) = mset (opens evs)"
proof -
  obtain evs r where n: "vault_New exValidation exUrl (exCrypto 2) exEncryption = (evs, r)" by (metis surj_pair)
  have "documented_registry (exCrypto 2)" by (simp add: documented_registry_def exCrypto_def)
  note T = vault_accounts_for_keys[OF this n]
  have "createRegistry (exCrypto 2) exEncryption = (evs, r') \<Longrightarrow> (\<exists>err. r' = Inl err) \<and> length (opens evs) = 2" for r' evs
    by (auto simp: createRegistry_def toOptions_def exEncryption_def override_policies_def sorted_keys_def nsOptions_def
        createKEKs_def mkKey_def factory_Create_def exCrypto_def Let_def closeOpened_def close_event_def)
  moreover obtain evs' r' where "createRegistry (exCrypto 2) exEncryption = (evs', r')" by (metis surj_pair)
  ultimately have "(\<exists>err. r = Inl err) \<and> length (opens evs) = 2"
    using n exEncryption_parts exEncryption_valid by (auto simp: vault_New_def)
  with n T show ?thesis by blast
qed

theorem vault_follows_config_witness:
  "\<exists>evs reg opts. vault_New exValidation exUrl (exCrypto 9) exEncryption = (evs, Inr (reg, opts)) \<and>
     map_of (ns_keys reg) ''orders'' = Some ''awskms://orders'' \<and> WithKeyConfig ''orders'' 50 0 \<in> set opts"
proof -
  have "\<exists>evs reg. createRegistry (exCrypto 9) exEncryption = (evs, Inr reg)"
    by (simp add: createRegistry_def toOptions_def exEncryption_def override_policies_def sorted_keys_def nsOptions_def
        createKEKs_def mkKey_def factory_Create_def exCrypto_def Let_def)
  then obtain evs reg opts where n: "vault_New exValidation exUrl (exCrypto 9) exEncryption = (evs, Inr (reg, opts))"
    using exEncryption_parts exEncryption_valid by (auto simp: vault_New_def exCrypto_def)
  have "policy_for exEncryption ''orders'' = Some \<lparr>URI = ''awskms://orders'', DecryptURIs = [], Duration = 50, RenewBefore = 0\<rparr>"
    by (simp add: policy_for_def exEncryption_def ReplicationKeyNamespace_def)
  with n vault_follows_config[OF exValidation_documented exEncryption_parts(1) n, of "''orders''"] show ?thesis by auto
qed

text \<open>
  The other local scheme carries its key in the URI too, and it is not redacted.
\<close>

lemma base64key_is_logged:
  "providerFor ''base64key://c2VjcmV0'' = ''testing'' \<and> safeKeyString ''base64key://c2VjcmV0'' = ''base64key://c2VjcmV0''"
  by (simp add: providerFor_def cryptoProviders_def to_lower_def safeKeyString_def testingKeyScheme_def EqualFold_def)

end
