(* ===== verification/KeyExtensions.thy ===== *)
theory KeyExtensions
  imports KeyVault
begin

text \<open>
  \<^verbatim>\<open>encryption/extension\<close>: connecting to the extension servers and opening the keys they serve. A connection
  is a value of the type parameter; \<^verbatim>\<open>grpc.NewClient\<close> with the options for an extension server is the argument \<open>new\<close>.
\<close>

section \<open>Connections\<close>

text \<open>\<^verbatim>\<open>Dial\<close>: the connections that were closed again, and the table of connections by name or the error.\<close>

fun dial_loop ::
  "(ExtensionServer \<Rightarrow> string + 'c) \<Rightarrow> ExtensionServer list \<Rightarrow> (string, 'c) gomap \<Rightarrow> 'c list \<Rightarrow> 'c list \<times> (string + (string, 'c) gomap)" where
  "dial_loop dial [] conns ccs = ([], Inr conns)"
| "dial_loop dial (s # servers) conns ccs =
     (if gget conns (Name s) \<noteq> None then (ccs, Inl (''duplicate extension server name: '' @ Name s))
      else (case dial s of
              Inl err \<Rightarrow> (ccs, Inl err)
            | Inr cc \<Rightarrow> dial_loop dial servers (gput (Name s) cc conns) (ccs @ [cc])))"

definition dialOne ::
  "('x, 'p, 'k) certLib \<Rightarrow> (string \<Rightarrow> ('p, 'k) tlsConfig option \<Rightarrow> string + 'c) \<Rightarrow> ExtensionServer \<Rightarrow> string + 'c" where
  "dialOne C new s =
     (case GetClientTLSConfig C (es_TLSConfig s) of
        Inl err \<Rightarrow> Inl (''invalid TLS config for extension server \"'' @ Name s @ ''\": '' @ err)
      | Inr tls \<Rightarrow>
          (case new (Address s) tls of
             Inl err \<Rightarrow> Inl (''failed to dial extension server \"'' @ Name s @ ''\" at '' @ Address s @ '': '' @ err)
           | Inr cc \<Rightarrow> Inr cc))"

definition Dial ::
  "('x, 'p, 'k) certLib \<Rightarrow> (string \<Rightarrow> ('p, 'k) tlsConfig option \<Rightarrow> string + 'c) \<Rightarrow> ExtensionServer list \<Rightarrow>
   'c list \<times> (string + (string, 'c) gomap)" where
  "Dial C new servers = dial_loop (dialOne C new) servers [] []"

text \<open>A key of an extension server: its identity, which is the parsed URI as a string, and its connection.\<close>

definition NewKeyFunc :: "urlParser \<Rightarrow> (string \<Rightarrow> string) \<Rightarrow> (string, 'c) gomap \<Rightarrow> string \<Rightarrow> string + string \<times> 'c" where
  "NewKeyFunc url url_String conns uri =
     (case url uri of
        Inl err \<Rightarrow> Inl (''failed to parse key URI: '' @ uri @ '', '' @ err)
      | Inr (scheme, host) \<Rightarrow>
          if host = [] then Inl (''extension key URI must name an extension server: '' @ uri)
          else (case gget conns host of
                  None \<Rightarrow> Inl (''unknown extension server \"'' @ host @ ''\" in key URI: '' @ uri)
                | Some conn \<Rightarrow> Inr (url_String uri, conn)))"

section \<open>The calls\<close>

definition kms_Encrypt :: "(string \<Rightarrow> string \<Rightarrow> string + string) \<Rightarrow> string \<Rightarrow> string \<Rightarrow> string \<Rightarrow> string + string" where
  "kms_Encrypt call kid ns pt =
     (case call ns pt of Inl err \<Rightarrow> Inl (''failed to encrypt DEK, id: '' @ kid @ '', err: '' @ err) | Inr ct \<Rightarrow> Inr ct)"

definition kms_Decrypt :: "(string \<Rightarrow> string + string) \<Rightarrow> string \<Rightarrow> string \<Rightarrow> string + string" where
  "kms_Decrypt call kid ct =
     (case call ct of Inl err \<Rightarrow> Inl (''failed to decrypt DEK, id: '' @ kid @ '', err: '' @ err) | Inr pt \<Rightarrow> Inr pt)"

section \<open>Dialing\<close>

lemma dial_loop_ok:
  assumes "dial_loop dial servers conns ccs = (closed, Inr conns')"
  shows "closed = [] \<and> set (gkeys conns') = set (gkeys conns) \<union> Name ` set servers"
  using assms
proof (induction servers arbitrary: conns ccs)
  case (Cons s servers)
  then obtain cc where "dial s = Inr cc" "dial_loop dial servers (gput (Name s) cc conns) (ccs @ [cc]) = (closed, Inr conns')"
    by (auto split: if_splits sum.splits)
  from Cons.IH[OF this(2)] show ?case by auto
qed auto

lemma dial_loop_error:
  assumes "distinct (map Name servers)" "set (map Name servers) \<inter> set (gkeys conns) = {}"
    and "dial_loop dial servers conns ccs = (closed, Inl err)"
  shows "\<exists>pre s post new. servers = pre @ s # post \<and> map dial pre = map Inr new \<and> closed = ccs @ new \<and> dial s = Inl err"
  using assms
proof (induction servers arbitrary: conns ccs)
  case (Cons s servers)
  have n: "gget conns (Name s) = None" using Cons.prems(2) by (simp add: gget_None_iff)
  show ?case
  proof (cases "dial s")
    case (Inl e)
    with Cons.prems(3) n show ?thesis by (intro exI[of _ "[]"] exI[of _ s] exI[of _ servers]) simp
  next
    case (Inr cc)
    have "set (map Name servers) \<inter> set (gkeys (gput (Name s) cc conns)) = {}" using Cons.prems(1,2) by auto
    with Cons.IH[of "gput (Name s) cc conns" "ccs @ [cc]"] Cons.prems Inr n
    obtain pre t post new where "servers = pre @ t # post" "map dial pre = map Inr new" "closed = ccs @ cc # new" "dial t = Inl err"
      by auto
    with Inr show ?thesis by (intro exI[of _ "s # pre"] exI[of _ t] exI[of _ post] exI[of _ "cc # new"]) simp
  qed
qed simp

section \<open>Properties\<close>

text \<open>Every key URI of a configuration.\<close>

definition policy_uris :: "KeyPolicy \<Rightarrow> string list" where
  "policy_uris p = URI p # DecryptURIs p"

definition key_uris :: "EncryptionConfig \<Rightarrow> string set" where
  "key_uris e = {u. \<exists>p. (Default e = Some p \<or> Replication e = Some p \<or> p \<in> snd ` set (Overrides e)) \<and> u \<in> set (policy_uris p)}"

lemma refs_resolve:
  assumes "list_all passes (policy_refs url known subject p)" "u \<in> set (policy_uris p)" "url u = Inr (scheme, host)"
    "EqualFold scheme ExtensionKeyScheme" "host \<noteq> []"
  shows "host \<in> set known"
proof -
  have *: "passes (extensionRef url subject f u known) \<Longrightarrow> host \<in> set known" for f
    using assms(3-5) by (auto simp: extensionRef_def split: if_splits)
  have "\<exists>f. passes (extensionRef url subject f u known)"
    using assms(1,2) by (auto simp: policy_refs_def policy_uris_def list_all_iff in_set_conv_nth)
  with * show ?thesis by blast
qed

lemma policy_refs_checked:
  assumes "list_all passes (referentialRules url e prefix known)" "gmap_ok (Overrides e)"
    and "Default e = Some p \<or> Replication e = Some p \<or> p \<in> snd ` set (Overrides e)"
  shows "\<exists>subject. list_all passes (policy_refs url known subject p)"
proof -
  have "\<exists>ns. gget (Overrides e) ns = Some p" if "p \<in> snd ` set (Overrides e)"
    using that assms(2) by (force simp: gget_Some_iff)
  then consider "Default e = Some p" | "Replication e = Some p" | ns where "gget (Overrides e) ns = Some p" "ns \<in> set (sorted_keys (Overrides e))"
    using assms(3) by (metis gget_None_iff option.distinct(1) sorted_keys_set(1))
  then show ?thesis
  proof cases
    case (3 ns)
    have "list_all passes (policy_refs url known (prefix @ ''.overrides['' @ ns @ '']'') p)"
      using assms(1) 3 unfolding referentialRules_def by (force simp: list_all_iff)
    then show ?thesis by blast
  qed (use assms(1) in \<open>auto simp: referentialRules_def\<close>)
qed

text \<open>
  C37: A configuration that passes validation has no dangling key. When the extension servers are valid
  and every one of them can be dialed, \<^verbatim>\<open>Dial\<close> succeeds and closes nothing; then each extension key URI
  that the encryption configuration names opens a key. When \<^verbatim>\<open>Dial\<close> fails it is because a server could not
  be dialed, and every connection it had opened is closed.
\<close>

theorem extension_keys_resolve:
  assumes "documented_validation V" "extensions_Validate V servers = None" "encryption_Validate V url e = None"
    and "Validate_rules V (referentialRules url e prefix (extension_names servers)) = None" "gmap_ok (Overrides e)"
    and "Dial C new servers = (closed, r)"
  shows "(\<forall>err. r = Inl err \<longrightarrow>
      (\<exists>pre s post. servers = pre @ s # post \<and> dialOne C new s = Inl err \<and> map (dialOne C new) pre = map Inr closed)) \<and>
    (\<forall>conns. r = Inr conns \<longrightarrow> closed = [] \<and>
       (\<forall>u \<in> key_uris e. \<forall>scheme host. url u = Inr (scheme, host) \<and> EqualFold scheme ExtensionKeyScheme \<longrightarrow>
          (\<exists>k. NewKeyFunc url url_String conns u = Inr k)))"
proof -
  have dist: "distinct (map Name servers)" using assms(1,2) by (simp add: extensions_Validate_def documented_validation_def)
  have refs: "list_all passes (referentialRules url e prefix (extension_names servers))"
    using assms(1,4) by (simp add: documented_validation_def)
  have "\<exists>k. NewKeyFunc url url_String conns u = Inr k"
    if r: "r = Inr conns" and u: "u \<in> key_uris e" "url u = Inr (scheme, host)" "EqualFold scheme ExtensionKeyScheme" for conns u scheme host
  proof -
    obtain p where p: "u \<in> set (policy_uris p)" "Default e = Some p \<or> Replication e = Some p \<or> p \<in> snd ` set (Overrides e)"
      using u(1) by (auto simp: key_uris_def)
    have "p \<in> snd ` set (Overrides e) \<Longrightarrow> \<exists>ns. gget (Overrides e) ns = Some p" using assms(5) by (force simp: gget_Some_iff)
    then have "policy_ok V url p" using assms(3) p(2) unfolding encryption_valid[OF assms(1)] by blast
    then have "validKeyURI V url u = None" using p(1) by (auto simp: policy_ok_def policy_uris_def)
    then have "host \<noteq> []" using u(2,3) by (auto simp: validKeyURI_def split: if_splits)
    moreover from policy_refs_checked[OF refs assms(5) p(2)] obtain subject
      where "list_all passes (policy_refs url (extension_names servers) subject p)" by blast
    from refs_resolve[OF this p(1) u(2,3) \<open>host \<noteq> []\<close>] have "host \<in> set (extension_names servers)" .
    then have "host \<in> set (gkeys conns)"
      using dial_loop_ok[OF assms(6)[unfolded Dial_def r]] by (simp add: extension_names_def)
    then have "gget conns host \<noteq> None" using gget_None_iff by metis
    ultimately show ?thesis using u(2) by (auto simp: NewKeyFunc_def)
  qed
  moreover have "\<exists>pre s post. servers = pre @ s # post \<and> dialOne C new s = Inl err \<and> map (dialOne C new) pre = map Inr closed" if "r = Inl err" for err
    using dial_loop_error[OF dist, of "[]"] assms(6) that by (fastforce simp: Dial_def)
  moreover have "closed = []" if "r = Inr conns" for conns
    using dial_loop_ok assms(6) that unfolding Dial_def by blast
  ultimately show ?thesis by blast
qed

definition exExtension :: EncryptionConfig where
  "exExtension = exEncryption\<lparr>Overrides := [(''orders'', \<lparr>URI = ''extension://h/k'', DecryptURIs = [], Duration = 50, RenewBefore = 0\<rparr>)]\<rparr>"

theorem extension_keys_resolve_witness:
  "\<exists>conns. Dial exCerts (\<lambda>a t. Inr (a, t)) [\<lparr>Name = ''h'', Address = ''kms:443'', es_TLSConfig = exTLS\<rparr>] = ([], Inr conns) \<and>
     (\<exists>k. NewKeyFunc exUrl (\<lambda>u. u) conns ''extension://h/k'' = Inr k)"
proof -
  let ?servers = "[\<lparr>Name = ''h'', Address = ''kms:443'', es_TLSConfig = exTLS\<rparr>] :: ExtensionServer list"
  have servers: "extensions_Validate exValidation ?servers = None"
    by (simp add: extensions_Validate_def extension_Validate_def exValidation_def)
  have "validKeyURI exValidation exUrl u = None" if "u \<in> {''testing://secret'', ''awskms://old'', ''extension://h/k''}" for u
    using that by (auto simp: validKeyURI_def exUrl_def exValidation_def EqualFold_def to_lower_def ExtensionKeyScheme_def)
  then have valid: "encryption_Validate exValidation exUrl exExtension = None"
    unfolding encryption_valid[OF exValidation_documented]
    by (simp add: exExtension_def exEncryption_def policy_ok_def check_failures_def check_binding_def namespaceBindings_def ReplicationKeyNamespace_def)
  have refs: "Validate_rules exValidation (referentialRules exUrl exExtension ''encryption'' (extension_names ?servers)) = None"
    by (simp add: exValidation_def referentialRules_def policy_refs_def extensionRef_def exUrl_def extension_names_def
        exExtension_def exEncryption_def sorted_keys_def)
  have ok: "gmap_ok (Overrides exExtension)" by (simp add: exExtension_def)
  obtain conns where dial: "Dial exCerts (\<lambda>a t. Inr (a, t)) ?servers = ([], Inr conns)" using exTLS_client by (auto simp: Dial_def dialOne_def)
  have "''extension://h/k'' \<in> key_uris exExtension" by (simp add: key_uris_def policy_uris_def exExtension_def) force
  moreover have "exUrl ''extension://h/k'' = Inr (''extension'', ''h'')" by (simp add: exUrl_def)
  moreover have "EqualFold ''extension'' ExtensionKeyScheme" by (simp add: EqualFold_def ExtensionKeyScheme_def)
  ultimately show ?thesis
    using extension_keys_resolve[OF exValidation_documented servers valid refs ok dial] dial by blast
qed

end
