(* ===== verification/NamespaceNames.thy ===== *)
theory NamespaceNames
  imports Prelude
begin

text \<open>
  \<^verbatim>\<open>proxy/namespace_names.go\<close>: the names of namespaces by ID, asked of the local cluster and remembered for
  five minutes. Times are in nanoseconds. Concurrent lookups of one ID share a call; here each lookup is one
  step, with the time of the cache lookup, the time when the answer is stored, and what the cluster answers
  if it is asked.
\<close>

section \<open>The cache\<close>

definition namespaceNameTTL :: int where
  "namespaceNameTTL = 5 * 60 * 1000000000"

record cachedName =
  cn_name :: string
  expires :: int

type_synonym namespaceNames = "(string, cachedName) gomap"

definition newNamespaceNames :: namespaceNames where
  "newNamespaceNames = []"

definition cached :: "int \<Rightarrow> namespaceNames \<Rightarrow> string \<Rightarrow> string \<times> bool" where
  "cached now n nid =
     (case gget n nid of
        None \<Rightarrow> ([], False)
      | Some c \<Rightarrow> if now < expires c then (cn_name c, True) else ([], False))"

text \<open>\<open>answer\<close> is the name in the response of \<^verbatim>\<open>DescribeNamespace\<close>, empty when it has none, or its error.\<close>

definition describe :: "int \<Rightarrow> string + string \<Rightarrow> string \<Rightarrow> namespaceNames \<Rightarrow> namespaceNames \<times> (string + string)" where
  "describe now answer nid n =
     (case answer of
        Inl err \<Rightarrow> (n, Inl (''failed to describe namespace \"'' @ nid @ ''\": '' @ err))
      | Inr name \<Rightarrow>
          if name = [] then (n, Inl (''namespace '' @ nid @ '' described with no name''))
          else (gput nid \<lparr>cn_name = name, expires = now + namespaceNameTTL\<rparr> n, Inr name))"

record lookup =
  asked_at :: int
  stored_at :: int
  lk_id :: string
  answer :: "string + string"

definition LocalName :: "lookup \<Rightarrow> namespaceNames \<Rightarrow> namespaceNames \<times> (string + string)" where
  "LocalName c n =
     (case cached (asked_at c) n (lk_id c) of
        (name, True) \<Rightarrow> (n, Inr name)
      | (_, False) \<Rightarrow> describe (stored_at c) (answer c) (lk_id c) n)"

fun lookups :: "lookup list \<Rightarrow> namespaceNames \<Rightarrow> (string + string) list" where
  "lookups [] n = []"
| "lookups (c # cs) n = (let (n', r) = LocalName c n in r # lookups cs n')"

section \<open>Properties\<close>

text \<open>Every entry is an answer of the cluster, with its time.\<close>

definition names_from :: "lookup list \<Rightarrow> namespaceNames \<Rightarrow> bool" where
  "names_from past n \<longleftrightarrow> (\<forall>nid e. gget n nid = Some e \<longrightarrow> cn_name e \<noteq> [] \<and>
     (\<exists>p \<in> set past. lk_id p = nid \<and> answer p = Inr (cn_name e) \<and> expires e = stored_at p + namespaceNameTTL))"

lemma names_from_LocalName:
  assumes "names_from past n" "LocalName c n = (n', r)"
  shows "names_from (past @ [c]) n'"
  using assms
  by (force simp: names_from_def LocalName_def cached_def describe_def split: option.splits if_splits sum.splits prod.splits)

lemma LocalName_result:
  assumes "names_from past n" "LocalName c n = (n', r)" "asked_at c \<le> stored_at c"
  shows "(\<forall>name. r = Inr name \<longrightarrow> name \<noteq> [] \<and>
      (\<exists>p \<in> set (past @ [c]). lk_id p = lk_id c \<and> answer p = Inr name \<and> asked_at c < stored_at p + namespaceNameTTL)) \<and>
    (\<forall>err. r = Inl err \<longrightarrow> answer c = Inr [] \<or> (\<exists>e. answer c = Inl e))"
proof (cases "cached (asked_at c) n (lk_id c)")
  case (Pair name ok)
  have "0 < namespaceNameTTL" by (simp add: namespaceNameTTL_def)
  with Pair assms show ?thesis
    by (cases ok)
      (fastforce simp: names_from_def LocalName_def cached_def describe_def split: option.splits if_splits sum.splits)+
qed



end
