(* ===== verification/MuxSession.thy ===== *)
theory MuxSession
  imports Prelude
begin

text \<open>
  \<^verbatim>\<open>transport/mux/session/managed_mux_session.go\<close> and \<^verbatim>\<open>transport/mux/state.go\<close>: a multiplexed session, the
  goroutine that checks its health and the one that cleans up after it. The two goroutines, the peer and the
  owner run concurrently; each step of the relation is one atomic action of one of them.
\<close>

section \<open>The session\<close>

datatype MuxSessionState = Connected | Closed | Error

record MuxSessionInfo =
  State :: MuxSessionState
  Err :: "string option"

text \<open>
  The places of the two goroutines. \<open>HcPing\<close> has loaded the state and \<open>HcSwap\<close> has the answer of the ping.
  The state is an atomic pointer; the number tells two pointers apart.
\<close>

datatype healthCheck =
    HcCheck | HcLoad | HcPing nat | HcSwap nat MuxSessionInfo | HcWait | HcDone

datatype waitAndCleanup = ClWait | ClCancel | ClSession | ClConn | ClStore | ClAfter | ClDone

record muxSession =
  lifetime_done :: bool
  session_closed :: bool
  conn_closed :: bool
  pointer :: nat
  state :: MuxSessionInfo
  hc :: healthCheck
  cl :: waitAndCleanup
  afterShutdown :: nat

definition NewManagedMuxSession :: "bool \<Rightarrow> muxSession" where
  "NewManagedMuxSession closed =
     \<lparr>lifetime_done = False, session_closed = closed, conn_closed = False, pointer = 0,
      state = \<lparr>State = Connected, Err = None\<rparr>, hc = HcCheck, cl = ClWait, afterShutdown = 0\<rparr>"

definition session_Close :: "muxSession \<Rightarrow> muxSession" where
  "session_Close s = s\<lparr>lifetime_done := True\<rparr>"

definition session_IsClosed :: "muxSession \<Rightarrow> bool" where
  "session_IsClosed s = lifetime_done s"

definition ErrClosedSession :: string where
  "ErrClosedSession = ''session closed''"

text \<open>\<open>stream\<close> is what the multiplexer answers.\<close>

definition session_Open :: "string + 'c \<Rightarrow> muxSession \<Rightarrow> string + 'c" where
  "session_Open stream s = (if lifetime_done s then Inl ErrClosedSession else stream)"

definition session_Accept :: "string + 'c \<Rightarrow> muxSession \<Rightarrow> string + 'c" where
  "session_Accept stream s = (if lifetime_done s then Inl ErrClosedSession else stream)"

definition ping_info :: "string option \<Rightarrow> MuxSessionInfo" where
  "ping_info err = \<lparr>State = (if err \<noteq> None then Error else Connected), Err = err\<rparr>"

definition swap :: "nat \<Rightarrow> MuxSessionInfo \<Rightarrow> muxSession \<Rightarrow> muxSession" where
  "swap old new s = (if pointer s = old then s\<lparr>pointer := Suc (pointer s), state := new\<rparr> else s)"

text \<open>
  One action. A ping of a closed session fails, as the multiplexer documents; otherwise its answer is
  arbitrary.
\<close>

inductive act :: "muxSession \<Rightarrow> muxSession \<Rightarrow> bool" where
  peer: "act s (s\<lparr>session_closed := True\<rparr>)"
| owner: "act s (session_Close s)"
| check: "hc s = HcCheck \<Longrightarrow> act s (s\<lparr>hc := if session_closed s then HcDone else HcLoad\<rparr>)"
| load: "hc s = HcLoad \<Longrightarrow> act s (s\<lparr>hc := HcPing (pointer s)\<rparr>)"
| ping: "hc s = HcPing old \<Longrightarrow> session_closed s \<longrightarrow> err \<noteq> None \<Longrightarrow> act s (s\<lparr>hc := HcSwap old (ping_info err)\<rparr>)"
| cas: "hc s = HcSwap old new \<Longrightarrow> act s ((swap old new s)\<lparr>hc := HcWait\<rparr>)"
| wake: "hc s = HcWait \<Longrightarrow> act s (s\<lparr>hc := HcCheck\<rparr>)"
| select: "cl s = ClWait \<Longrightarrow> session_closed s \<or> lifetime_done s \<Longrightarrow> act s (s\<lparr>cl := ClCancel\<rparr>)"
| cancel: "cl s = ClCancel \<Longrightarrow> act s (s\<lparr>lifetime_done := True, cl := ClSession\<rparr>)"
| close: "cl s = ClSession \<Longrightarrow> act s (s\<lparr>session_closed := True, cl := ClConn\<rparr>)"
| conn: "cl s = ClConn \<Longrightarrow> act s (s\<lparr>conn_closed := True, cl := ClStore\<rparr>)"
| store: "cl s = ClStore \<Longrightarrow>
    act s (s\<lparr>pointer := Suc (pointer s), state := \<lparr>State = Closed, Err = Err (state s)\<rparr>, cl := ClAfter\<rparr>)"
| after: "cl s = ClAfter \<Longrightarrow> act s (s\<lparr>afterShutdown := Suc (afterShutdown s), cl := ClDone\<rparr>)"

inductive reachable :: "muxSession \<Rightarrow> bool" where
  new: "reachable (NewManagedMuxSession closed)"
| step: "reachable s \<Longrightarrow> act s s' \<Longrightarrow> reachable s'"

section \<open>Counting sessions\<close>

definition SessionStateName :: "MuxSessionInfo option \<Rightarrow> string" where
  "SessionStateName info =
     (case info of
        None \<Rightarrow> ''unknown''
      | Some i \<Rightarrow> (case State i of Connected \<Rightarrow> ''connected'' | Closed \<Rightarrow> ''closed'' | Error \<Rightarrow> ''error''))"

record SessionCounts =
  sc_Connected :: int
  sc_Errored :: int
  sc_Closed :: int
  sc_Total :: int

definition count_one :: "MuxSessionInfo option \<Rightarrow> SessionCounts \<Rightarrow> SessionCounts" where
  "count_one st c =
     (let c = c\<lparr>sc_Total := sc_Total c + 1\<rparr>
      in case st of
           None \<Rightarrow> c
         | Some i \<Rightarrow>
             (case State i of
                Connected \<Rightarrow> c\<lparr>sc_Connected := sc_Connected c + 1\<rparr>
              | Error \<Rightarrow> c\<lparr>sc_Errored := sc_Errored c + 1\<rparr>
              | Closed \<Rightarrow> c\<lparr>sc_Closed := sc_Closed c + 1\<rparr>))"

definition CountSessions :: "MuxSessionInfo option list option \<Rightarrow> SessionCounts" where
  "CountSessions m =
     (let zero = \<lparr>sc_Connected = 0, sc_Errored = 0, sc_Closed = 0, sc_Total = 0\<rparr>
      in case m of None \<Rightarrow> zero | Some states \<Rightarrow> fold count_one states zero)"

definition counts_String :: "SessionCounts \<Rightarrow> string" where
  "counts_String c = ''connected='' @ show_int (sc_Connected c) @ ''/'' @ show_int (sc_Total c) @
     '' errored='' @ show_int (sc_Errored c) @ '' closed='' @ show_int (sc_Closed c)"

section \<open>Invariants\<close>

text \<open>What holds once the cleanup has come as far as a place; \<open>after_store\<close> says that it has stored its state.\<close>

definition after_store :: "waitAndCleanup \<Rightarrow> bool" where
  "after_store c \<longleftrightarrow> c = ClAfter \<or> c = ClDone"

definition session_inv :: "muxSession \<Rightarrow> bool" where
  "session_inv s \<longleftrightarrow>
     afterShutdown s = (if cl s = ClDone then 1 else 0) \<and>
     (cl s \<in> {ClSession, ClConn, ClStore, ClAfter, ClDone} \<longrightarrow> lifetime_done s) \<and>
     (cl s \<in> {ClConn, ClStore, ClAfter, ClDone} \<longrightarrow> session_closed s) \<and>
     (cl s \<in> {ClStore, ClAfter, ClDone} \<longrightarrow> conn_closed s) \<and>
     (after_store (cl s) \<longrightarrow> State (state s) \<noteq> Connected) \<and>
     (\<forall>old. hc s = HcPing old \<longrightarrow> old \<le> pointer s) \<and>
     (\<forall>old new. hc s = HcSwap old new \<longrightarrow> old \<le> pointer s \<and> (after_store (cl s) \<and> State new = Connected \<longrightarrow> old < pointer s))"

lemma session_inv_new: "session_inv (NewManagedMuxSession closed)"
  by (simp add: session_inv_def NewManagedMuxSession_def after_store_def)

lemma session_inv_act: "act s s' \<Longrightarrow> session_inv s \<Longrightarrow> session_inv s'"
proof (induction rule: act.induct)
  case (cas s old new)
  then show ?case by (cases "pointer s = old") (auto simp: session_inv_def swap_def)
next
  case (ping s old err)
  then show ?case by (auto simp: session_inv_def after_store_def ping_info_def)
next
  case (store s)
  then show ?case by (auto simp: session_inv_def after_store_def)
qed (auto simp: session_inv_def after_store_def session_Close_def)

lemma reachable_inv: "reachable s \<Longrightarrow> session_inv s"
  by (induction rule: reachable.induct) (auto intro: session_inv_new session_inv_act)

text \<open>The cleanup needs nobody else to come to its end.\<close>

lemma cleanup_goes_on:
  assumes "act s s1" "cl s1 = c" "hc s1 = hc s"
    and "\<And>s. cl s = c \<Longrightarrow> \<exists>s'. act\<^sup>*\<^sup>* s s' \<and> cl s' = ClDone \<and> hc s' = hc s"
  shows "\<exists>s'. act\<^sup>*\<^sup>* s s' \<and> cl s' = ClDone \<and> hc s' = hc s"
proof -
  obtain s' where "act\<^sup>*\<^sup>* s1 s'" "cl s' = ClDone" "hc s' = hc s1" using assms(4)[OF assms(2)] by blast
  then show ?thesis using converse_rtranclp_into_rtranclp[of act, OF assms(1)] assms(3) by metis
qed

lemma cleanup_completes:
  assumes "session_closed s \<or> lifetime_done s"
  shows "\<exists>s'. act\<^sup>*\<^sup>* s s' \<and> cl s' = ClDone \<and> hc s' = hc s"
proof -
  have d: "\<exists>s'. act\<^sup>*\<^sup>* s s' \<and> cl s' = ClDone \<and> hc s' = hc s" if "cl s = ClDone" for s using that by blast
  have a: "\<exists>s'. act\<^sup>*\<^sup>* s s' \<and> cl s' = ClDone \<and> hc s' = hc s" if "cl s = ClAfter" for s
    by (rule cleanup_goes_on[OF act.after[OF that] _ _ d]) simp_all
  have b: "\<exists>s'. act\<^sup>*\<^sup>* s s' \<and> cl s' = ClDone \<and> hc s' = hc s" if "cl s = ClStore" for s
    by (rule cleanup_goes_on[OF act.store[OF that] _ _ a]) simp_all
  have c: "\<exists>s'. act\<^sup>*\<^sup>* s s' \<and> cl s' = ClDone \<and> hc s' = hc s" if "cl s = ClConn" for s
    by (rule cleanup_goes_on[OF act.conn[OF that] _ _ b]) simp_all
  have e: "\<exists>s'. act\<^sup>*\<^sup>* s s' \<and> cl s' = ClDone \<and> hc s' = hc s" if "cl s = ClSession" for s
    by (rule cleanup_goes_on[OF act.close[OF that] _ _ c]) simp_all
  have f: "\<exists>s'. act\<^sup>*\<^sup>* s s' \<and> cl s' = ClDone \<and> hc s' = hc s" if "cl s = ClCancel" for s
    by (rule cleanup_goes_on[OF act.cancel[OF that] _ _ e]) simp_all
  show ?thesis
  proof (cases "cl s")
    case ClWait
    show ?thesis by (rule cleanup_goes_on[OF act.select[OF ClWait assms] _ _ f]) simp_all
  qed (use a b c d e f in blast)+
qed

section \<open>Properties\<close>



text \<open>
  The closed mark can be lost: the health check finds the session open, the cleanup runs to its end, and
  the health check then loads the closed state, fails to ping and replaces it. The state stays on error.
\<close>

lemma closed_mark_lost: "\<exists>s. reachable s \<and> cl s = ClDone \<and> hc s = HcDone \<and> State (state s) = Error"
proof -
  let ?s0 = "NewManagedMuxSession False"
  let ?s1 = "?s0\<lparr>hc := HcLoad\<rparr>"
  have 1: "reachable ?s1" using reachable.step[OF reachable.new act.check, of False] by (simp add: NewManagedMuxSession_def)
  have 2: "reachable (session_Close ?s1)" by (rule reachable.step[OF 1 act.owner])
  have r: "reachable t" if "reachable s" "act\<^sup>*\<^sup>* s t" for s t
    using that(2,1) by induction (auto intro: reachable.step)
  obtain s2 where s2: "act\<^sup>*\<^sup>* (session_Close ?s1) s2" "cl s2 = ClDone" "hc s2 = HcLoad"
    using cleanup_completes[of "session_Close ?s1"] by (auto simp: session_Close_def NewManagedMuxSession_def)
  have R2: "reachable s2" by (rule r[OF 2 s2(1)])
  then have "session_closed s2" using reachable_inv s2(2) by (auto simp: session_inv_def)
  let ?s3 = "s2\<lparr>hc := HcPing (pointer s2)\<rparr>"
  let ?s4 = "?s3\<lparr>hc := HcSwap (pointer s2) (ping_info (Some ''closed''))\<rparr>"
  let ?s5 = "(swap (pointer s2) (ping_info (Some ''closed'')) ?s4)\<lparr>hc := HcWait\<rparr>"
  have 3: "reachable ?s3" by (rule reachable.step[OF R2 act.load[OF s2(3)]])
  have 4: "reachable ?s4" by (rule reachable.step[OF 3 act.ping]) simp_all
  have 5: "reachable ?s5" by (rule reachable.step[OF 4 act.cas]) simp
  have 6: "reachable (?s5\<lparr>hc := HcCheck\<rparr>)" by (rule reachable.step[OF 5 act.wake]) simp
  have 7: "reachable (?s5\<lparr>hc := HcCheck, hc := HcDone\<rparr>)"
    using reachable.step[OF 6 act.check] \<open>session_closed s2\<close> by (simp add: swap_def)
  show ?thesis
    by (rule exI[of _ "?s5\<lparr>hc := HcCheck, hc := HcDone\<rparr>"]) (use 7 s2(2) in \<open>simp add: swap_def ping_info_def\<close>)
qed

end
