(* ===== verification/MuxManager.thy ===== *)
theory MuxManager
  imports MuxSession
begin

text \<open>
  \<^verbatim>\<open>transport/mux/provider.go\<close> and \<^verbatim>\<open>multi_mux_manager.go\<close> with \<^verbatim>\<open>transport/grpcutil/multi_client_conn.go\<close>: the
  loop that keeps a number of multiplexed sessions to the peer, the table of the sessions, and the client
  connection that is told of every change of the table. A connection is a value of the type parameter.
\<close>

section \<open>The client connection\<close>

record 'c MultiClientConn =
  connMap :: "(string, 'c) gomap"
  endpoints :: "string list"

definition deriveStateFromConns :: "(string, 'c) gomap \<Rightarrow> string list" where
  "deriveStateFromConns conns = gkeys conns"

definition UpdateState :: "(string, 'c) gomap \<Rightarrow> 'c MultiClientConn \<Rightarrow> 'c MultiClientConn" where
  "UpdateState conns mcc = mcc\<lparr>connMap := conns, endpoints := deriveStateFromConns conns\<rparr>"

definition OnConnectionListUpdate :: "(string, 'c) gomap \<Rightarrow> 'c MultiClientConn \<Rightarrow> 'c MultiClientConn" where
  "OnConnectionListUpdate muxes mcc =
     (if length muxes = 0 then UpdateState [] mcc
      else UpdateState (fold (\<lambda>(k, v) m. gput k v m) muxes []) mcc)"

definition CanMakeCalls :: "bool \<Rightarrow> 'c MultiClientConn option \<Rightarrow> bool" where
  "CanMakeCalls lifetimeEnded mcc =
     (case mcc of None \<Rightarrow> False | Some m \<Rightarrow> if lifetimeEnded then False else length (connMap m) > 0)"

definition getMapDialer :: "'c MultiClientConn \<Rightarrow> string \<Rightarrow> string + 'c" where
  "getMapDialer mcc addr =
     (case gget (connMap mcc) addr of
        Some conn \<Rightarrow> Inr conn
      | None \<Rightarrow> Inl (''connection key '' @ addr @ '' didn't match a connection''))"

definition disallowed :: "char \<Rightarrow> bool" where
  "disallowed c \<longleftrightarrow> \<not> (is_digit c \<or> c = CHR ''_'' \<or> c = CHR ''-'' \<or>
     (65 \<le> (of_char c :: nat) \<and> (of_char c :: nat) \<le> 90) \<or> (97 \<le> (of_char c :: nat) \<and> (of_char c :: nat) \<le> 122))"

definition NewMultiClientConn :: "string option \<Rightarrow> string \<Rightarrow> string + 'c MultiClientConn" where
  "NewMultiClientConn clientErr name =
     (if list_ex disallowed name then Inl (''invalid client conn name: '' @ name)
      else (case clientErr of
              Some err \<Rightarrow> Inl (''Failed to create underlying grpc client: '' @ err)
            | None \<Rightarrow> Inr \<lparr>connMap = [], endpoints = []\<rparr>))"

section \<open>The manager and its provider\<close>

definition DesiredMuxCount :: "int \<Rightarrow> int" where
  "DesiredMuxCount muxCount = (if muxCount = 0 then 10 else muxCount)"

text \<open>The places of the connect loop, with the connection it works on.\<close>

datatype 'c provider = Acquire | NewConnection | SessionFn 'c | Ping 'c | AddNewMux 'c | Stopped

text \<open>
  \<open>recycled\<close> counts the sessions that are out of the table and have not given their permit back yet. The
  ghost fields count the sessions ever added and list the connections that were closed, and those that were
  dropped without being closed.
\<close>

record 'c multiMuxManager =
  muxPermits :: nat
  muxProvider :: "'c provider"
  muxes :: "(string, 'c) gomap"
  muxIdSequencer :: nat
  listener :: "'c MultiClientConn"
  recycled :: nat
  lifetimeEnded :: bool
  hasShutDown :: bool
  added :: nat
  closedConns :: "'c list"
  dropped :: "'c list"

definition NewCustomMultiMuxManager :: "nat \<Rightarrow> 'c MultiClientConn \<Rightarrow> 'c multiMuxManager" where
  "NewCustomMultiMuxManager muxCount mcc =
     \<lparr>muxPermits = muxCount, muxProvider = Acquire, muxes = [], muxIdSequencer = 0, listener = mcc, recycled = 0,
      lifetimeEnded = False, hasShutDown = False, added = 0, closedConns = [], dropped = []\<rparr>"

definition notifyChange :: "'c multiMuxManager \<Rightarrow> 'c multiMuxManager" where
  "notifyChange m = m\<lparr>listener := OnConnectionListUpdate (muxes m) (listener m)\<rparr>"

definition AddConnection :: "'c \<Rightarrow> 'c multiMuxManager \<Rightarrow> 'c multiMuxManager" where
  "AddConnection conn m =
     (if lifetimeEnded m then m\<lparr>dropped := conn # dropped m\<rparr>
      else
        let newId = show_nat (muxIdSequencer m)
        in notifyChange (m\<lparr>muxIdSequencer := Suc (muxIdSequencer m) mod 2 ^ 64, muxes := gput newId conn (muxes m), added := Suc (added m)\<rparr>))"

definition unregisterMux :: "string \<Rightarrow> 'c multiMuxManager \<Rightarrow> 'c multiMuxManager" where
  "unregisterMux mid m = notifyChange (m\<lparr>muxes := gdel mid (muxes m)\<rparr>)"

definition AllowMoreConns :: "nat \<Rightarrow> 'c multiMuxManager \<Rightarrow> 'c multiMuxManager" where
  "AllowMoreConns amt m = m\<lparr>muxPermits := muxPermits m + amt\<rparr>"

definition HasConnectionsAvailable :: "'c multiMuxManager \<Rightarrow> bool" where
  "HasConnectionsAvailable m \<longleftrightarrow> muxPermits m \<ge> 1"

definition GetMuxConnections :: "'c multiMuxManager \<Rightarrow> (string, 'c) gomap" where
  "GetMuxConnections m = fold (\<lambda>(k, v) r. gput k v r) (muxes m) []"

text \<open>Giving up an attempt: stop when the lifetime has ended, otherwise return the permit and start again.\<close>

definition retry :: "'c multiMuxManager \<Rightarrow> 'c multiMuxManager" where
  "retry m = (AllowMoreConns 1 m)\<lparr>muxProvider := Acquire\<rparr>"

definition connect_failed :: "'c list \<Rightarrow> 'c multiMuxManager \<Rightarrow> 'c multiMuxManager" where
  "connect_failed conns m =
     (if lifetimeEnded m then m\<lparr>muxProvider := Stopped, dropped := conns @ dropped m\<rparr>
      else (retry m)\<lparr>dropped := conns @ dropped m\<rparr>)"

definition ping_failed :: "'c \<Rightarrow> 'c multiMuxManager \<Rightarrow> 'c multiMuxManager" where
  "ping_failed conn m =
     (if lifetimeEnded m then m\<lparr>muxProvider := Stopped, dropped := conn # dropped m\<rparr>
      else (retry m)\<lparr>closedConns := conn # closedConns m\<rparr>)"

text \<open>
  The steps: those of the connect loop, with the outcome of each call, the end of a session (which
  unregisters it and then gives its permit back), and the end of the lifetime.
\<close>

inductive mux_step :: "'c multiMuxManager \<Rightarrow> 'c multiMuxManager \<Rightarrow> bool" where
  acquire: "muxProvider m = Acquire \<Longrightarrow> muxPermits m \<ge> 1 \<Longrightarrow>
    mux_step m (m\<lparr>muxPermits := muxPermits m - 1, muxProvider := NewConnection\<rparr>)"
| cancelled: "muxProvider m = Acquire \<Longrightarrow> lifetimeEnded m \<Longrightarrow> mux_step m (m\<lparr>muxProvider := Stopped\<rparr>)"
| connected: "muxProvider m = NewConnection \<Longrightarrow> mux_step m (m\<lparr>muxProvider := SessionFn conn\<rparr>)"
| no_conn: "muxProvider m = NewConnection \<Longrightarrow> mux_step m (connect_failed [] m)"
| session: "muxProvider m = SessionFn conn \<Longrightarrow> mux_step m (m\<lparr>muxProvider := Ping conn\<rparr>)"
| no_session: "muxProvider m = SessionFn conn \<Longrightarrow> mux_step m (connect_failed [conn] m)"
| pinged: "muxProvider m = Ping conn \<Longrightarrow> mux_step m (m\<lparr>muxProvider := AddNewMux conn\<rparr>)"
| no_ping: "muxProvider m = Ping conn \<Longrightarrow> mux_step m (ping_failed conn m)"
| add: "muxProvider m = AddNewMux conn \<Longrightarrow> mux_step m ((AddConnection conn m)\<lparr>muxProvider := Acquire\<rparr>)"
| ends: "gget (muxes m) mid = Some conn \<Longrightarrow>
    mux_step m ((unregisterMux mid m)\<lparr>recycled := Suc (recycled m), closedConns := conn # closedConns m\<rparr>)"
| recycle: "recycled m \<ge> 1 \<Longrightarrow> mux_step m ((AllowMoreConns 1 m)\<lparr>recycled := recycled m - 1\<rparr>)"
| lifetime: "mux_step m (m\<lparr>lifetimeEnded := True\<rparr>)"
| shutdown: "muxProvider m = Stopped \<Longrightarrow> lifetimeEnded m \<Longrightarrow> mux_step m (m\<lparr>hasShutDown := True\<rparr>)"

inductive mux_reachable :: "nat \<Rightarrow> 'c multiMuxManager \<Rightarrow> bool" for muxCount where
  new: "mux_reachable muxCount (NewCustomMultiMuxManager muxCount \<lparr>connMap = [], endpoints = []\<rparr>)"
| step: "mux_reachable muxCount m \<Longrightarrow> mux_step m m' \<Longrightarrow> mux_reachable muxCount m'"

section \<open>Invariants\<close>

definition holding :: "'c provider \<Rightarrow> nat" where
  "holding p = (case p of Acquire \<Rightarrow> 0 | Stopped \<Rightarrow> 0 | _ \<Rightarrow> 1)"

text \<open>
  The listener has the table; the numbers of the sessions are smaller than the next one, while the
  sequence has not wrapped; and every permit is somewhere.
\<close>

definition mux_inv :: "nat \<Rightarrow> 'c multiMuxManager \<Rightarrow> bool" where
  "mux_inv n m \<longleftrightarrow>
     muxIdSequencer m = added m mod 2 ^ 64 \<and>
     (added m \<le> 2 ^ 64 \<longrightarrow>
        gmap_ok (muxes m) \<and> (\<forall>k \<in> set (gkeys (muxes m)). \<exists>i < added m. k = show_nat i) \<and>
        connMap (listener m) = muxes m \<and> endpoints (listener m) = gkeys (muxes m) \<and>
        muxPermits m + holding (muxProvider m) + length (muxes m) + recycled m \<le> n \<and>
        (\<not> lifetimeEnded m \<longrightarrow> muxPermits m + holding (muxProvider m) + length (muxes m) + recycled m = n)) \<and>
     (hasShutDown m \<or> muxProvider m = Stopped \<longrightarrow> lifetimeEnded m)"

lemma fold_gput_distinct:
  "distinct (gkeys (ys @ xs)) \<Longrightarrow> fold (\<lambda>(k, v) m. gput k v m) xs ys = ys @ xs"
proof (induction xs arbitrary: ys)
  case (Cons p xs)
  obtain k v where p: "p = (k, v)" by (cases p)
  have "k \<notin> set (gkeys ys)" using Cons.prems by (auto simp: p)
  then have "gput k v ys = ys @ [(k, v)]" by (induction ys) auto
  then show ?case using Cons.IH[of "ys @ [p]"] Cons.prems by (simp add: p)
qed simp

lemma update_copies: "gmap_ok ms \<Longrightarrow> connMap (OnConnectionListUpdate ms mcc) = ms \<and> endpoints (OnConnectionListUpdate ms mcc) = gkeys ms"
  using fold_gput_distinct[of "[]" ms] by (simp add: OnConnectionListUpdate_def UpdateState_def deriveStateFromConns_def)

lemma mux_inv_new: "mux_inv n (NewCustomMultiMuxManager n \<lparr>connMap = [], endpoints = []\<rparr>)"
  by (simp add: mux_inv_def NewCustomMultiMuxManager_def holding_def)

lemma mux_inv_add:
  assumes "mux_inv n m" "muxProvider m = AddNewMux conn"
  shows "mux_inv n ((AddConnection conn m)\<lparr>muxProvider := Acquire\<rparr>)"
proof (cases "lifetimeEnded m")
  case True
  with assms show ?thesis by (auto simp: mux_inv_def AddConnection_def holding_def)
next
  case False
  let ?m = "(AddConnection conn m)\<lparr>muxProvider := Acquire\<rparr>" and ?k = "show_nat (muxIdSequencer m)"
  have m: "muxes ?m = gput ?k conn (muxes m)" "added ?m = Suc (added m)" "muxPermits ?m = muxPermits m" "recycled ?m = recycled m"
    "muxProvider ?m = Acquire" "lifetimeEnded ?m = lifetimeEnded m" "hasShutDown ?m = hasShutDown m"
    "listener ?m = OnConnectionListUpdate (muxes ?m) (listener m)" "muxIdSequencer ?m = Suc (muxIdSequencer m) mod 2 ^ 64"
    using False by (simp_all add: AddConnection_def notifyChange_def Let_def)
  have fresh: "?k \<notin> set (gkeys (muxes m))" "muxIdSequencer m = added m" if "added m < 2 ^ 64"
  proof -
    show s: "muxIdSequencer m = added m" using assms(1) that by (simp add: mux_inv_def)
    have "\<forall>k \<in> set (gkeys (muxes m)). \<exists>i < added m. k = show_nat i" using assms(1) that by (simp add: mux_inv_def)
    then show "?k \<notin> set (gkeys (muxes m))" unfolding s by (metis less_irrefl show_nat_inject)
  qed
  have "muxIdSequencer ?m = added ?m mod 2 ^ 64" using assms(1) m by (simp add: mux_inv_def mod_Suc_eq)
  moreover have "gmap_ok (muxes ?m) \<and> (\<forall>k \<in> set (gkeys (muxes ?m)). \<exists>i < added ?m. k = show_nat i) \<and>
      length (muxes ?m) = Suc (length (muxes m))" if "added ?m \<le> 2 ^ 64"
    using assms(1) fresh that unfolding m mux_inv_def by (auto simp: length_gput less_Suc_eq)
  ultimately show ?thesis
    using assms update_copies[of "muxes ?m" "listener m"] m unfolding mux_inv_def
    by (auto simp: holding_def simp del: length_map)
qed

lemma mux_inv_ends:
  assumes "mux_inv n m" "gget (muxes m) mid = Some conn"
  shows "mux_inv n ((unregisterMux mid m)\<lparr>recycled := Suc (recycled m), closedConns := conn # closedConns m\<rparr>)"
proof -
  have k: "mid \<in> set (gkeys (muxes m))" using assms(2) by (metis gget_None_iff option.distinct(1))
  show ?thesis
    using assms(1) update_copies[of "gdel mid (muxes m)" "listener m"] length_gdel[OF _ k] k
    unfolding mux_inv_def unregisterMux_def notifyChange_def by auto
qed

lemma mux_inv_step: "mux_step m m' \<Longrightarrow> mux_inv n m \<Longrightarrow> mux_inv n m'"
proof (induction rule: mux_step.induct)
  case (add m conn)
  then show ?case by (intro mux_inv_add)
next
  case (ends m mid conn)
  then show ?case by (intro mux_inv_ends)
qed (auto simp: mux_inv_def holding_def connect_failed_def ping_failed_def retry_def AllowMoreConns_def)

lemma mux_reachable_inv: "mux_reachable n m \<Longrightarrow> mux_inv n m"
  by (induction rule: mux_reachable.induct) (auto intro: mux_inv_new mux_inv_step)

section \<open>Properties\<close>

text \<open>
  C35: The number of sessions is bounded and no permit is lost. In every run there are at most as many
  sessions as configured. As long as the lifetime has not ended, the free permits, the attempt in
  progress, the sessions in the table and those being recycled add up to the configured number, so a
  permit is never released twice and every session that ends is replaced. The client connection has
  exactly the sessions of the table as its endpoints, and dials the right one for each.
\<close>

theorem mux_sessions_accounted:
  assumes "mux_reachable muxCount m" "added m \<le> 2 ^ 64"
  shows "length (muxes m) \<le> muxCount \<and> gmap_ok (muxes m) \<and>
    (\<not> lifetimeEnded m \<longrightarrow> muxPermits m + holding (muxProvider m) + length (muxes m) + recycled m = muxCount) \<and>
    set (endpoints (listener m)) = set (gkeys (muxes m)) \<and>
    (\<forall>mid conn. getMapDialer (listener m) mid = Inr conn \<longleftrightarrow> gget (muxes m) mid = Some conn)"
proof -
  have i: "mux_inv muxCount m" by (rule mux_reachable_inv[OF assms(1)])
  then have "connMap (listener m) = muxes m" using assms(2) by (simp add: mux_inv_def)
  then have "\<forall>mid conn. getMapDialer (listener m) mid = Inr conn \<longleftrightarrow> gget (muxes m) mid = Some conn"
    by (auto simp: getMapDialer_def split: option.splits)
  with i assms(2) show ?thesis by (simp add: mux_inv_def)
qed

lemma ex_mux_reachable:
  "mux_reachable 1 (NewCustomMultiMuxManager 1 \<lparr>connMap = [], endpoints = []\<rparr>
     \<lparr>muxPermits := 0, muxProvider := AddNewMux ''c''\<rparr>)"
proof -
  let ?m = "NewCustomMultiMuxManager 1 \<lparr>connMap = [], endpoints = []\<rparr> :: string multiMuxManager"
  have 1: "mux_reachable 1 (?m\<lparr>muxPermits := 0, muxProvider := NewConnection\<rparr>)"
    using mux_reachable.step[OF mux_reachable.new mux_step.acquire, of 1] by (simp add: NewCustomMultiMuxManager_def)
  have 2: "mux_reachable 1 (?m\<lparr>muxPermits := 0, muxProvider := SessionFn ''c''\<rparr>)"
    using mux_reachable.step[OF 1 mux_step.connected[of _ "''c''"]] by simp
  have 3: "mux_reachable 1 (?m\<lparr>muxPermits := 0, muxProvider := Ping ''c''\<rparr>)"
    using mux_reachable.step[OF 2 mux_step.session[of _ "''c''"]] by simp
  show ?thesis using mux_reachable.step[OF 3 mux_step.pinged[of _ "''c''"]] by simp
qed

theorem mux_sessions_accounted_witness:
  "\<exists>m :: string multiMuxManager. mux_reachable 1 m \<and> length (muxes m) = 1 \<and> getMapDialer (listener m) (show_nat 0) = Inr ''c''"
proof -
  let ?m = "(AddConnection ''c'' (NewCustomMultiMuxManager 1 \<lparr>connMap = [], endpoints = []\<rparr>
     \<lparr>muxPermits := 0, muxProvider := AddNewMux ''c''\<rparr>))\<lparr>muxProvider := Acquire\<rparr>"
  have r: "mux_reachable 1 ?m" by (rule mux_reachable.step[OF ex_mux_reachable mux_step.add]) simp
  have g: "muxes ?m = [(show_nat 0, ''c'')]" "added ?m \<le> 2 ^ 64"
    by (simp_all add: AddConnection_def NewCustomMultiMuxManager_def notifyChange_def Let_def)
  have "getMapDialer (listener ?m) (show_nat 0) = Inr ''c''"
    using mux_sessions_accounted[OF r g(2)] unfolding g(1) by simp
  with r g(1) show ?thesis by (intro exI[of _ ?m]) simp
qed

text \<open>
  When the session cannot be created, the loop goes on with a new connection and the old one is not closed.
\<close>

lemma failed_session_drops_conn:
  assumes "muxProvider m = SessionFn conn" "\<not> lifetimeEnded m"
  shows "\<exists>m'. mux_step m m' \<and> muxProvider m' = Acquire \<and> dropped m' = conn # dropped m \<and> closedConns m' = closedConns m"
  using mux_step.no_session[OF assms(1)] assms(2)
  by (intro exI[of _ "connect_failed [conn] m"]) (simp add: connect_failed_def retry_def AllowMoreConns_def)

end
