(* ===== verification/Services.thy ===== *)
theory Services
  imports AccessControl ShardCount
begin

text \<open>
  The gRPC services of the proxy, \<^verbatim>\<open>proxy/workflowservice.go\<close>, \<^verbatim>\<open>proxy/operatorservice.go\<close> and the unary calls of
  \<^verbatim>\<open>proxy/adminservice.go\<close> that only forward. A client is a function of the method, the context and the
  request. A method without a body of its own is answered by the embedded server of the API library, the
  argument \<open>unimplemented\<close>. The admin calls that change something are in the theories \<open>ShardCount\<close> and
  \<open>NameMapping\<close>, the replication stream in \<open>StreamForwarder\<close>.
\<close>

section \<open>Contexts\<close>

text \<open>
  The metadata a call came with, the metadata calls made under the context carry, in the order they were
  appended, and the namespace under \<^verbatim>\<open>NamespaceKey\<close>.
\<close>

record goctx =
  incomingMD :: "(string, string list) gomap"
  outgoingMD :: "(string \<times> string) list"
  namespaceKey :: "string option"

type_synonym reply = "val \<times> string option"
type_synonym client = "string \<Rightarrow> goctx \<Rightarrow> val \<Rightarrow> reply"

definition ValueFromIncomingContext :: "goctx \<Rightarrow> string \<Rightarrow> string list" where
  "ValueFromIncomingContext ctx header = (case gget (incomingMD ctx) header of Some vals \<Rightarrow> vals | None \<Rightarrow> [])"

definition DCRedirectionContextHeaderName :: string where
  "DCRedirectionContextHeaderName = ''xdc-redirection''"

definition RequestTranslationHeaderName :: string where
  "RequestTranslationHeaderName = ''s2s-request-translation''"

definition PreservedHeaders :: "string list" where
  "PreservedHeaders = [DCRedirectionContextHeaderName, RequestTranslationHeaderName]"

definition copy_header :: "string \<Rightarrow> goctx \<Rightarrow> goctx" where
  "copy_header header ctx =
     (case ValueFromIncomingContext ctx header of
        [] \<Rightarrow> ctx
      | val # _ \<Rightarrow> ctx\<lparr>outgoingMD := outgoingMD ctx @ [(header, val)]\<rparr>)"

definition copyContext :: "goctx \<Rightarrow> goctx" where
  "copyContext src = fold copy_header PreservedHeaders src"

section \<open>Workflow service\<close>

text \<open>The names under which responses of the global APIs are constructed.\<close>

definition globalAPIResponses :: "string list" where
  "globalAPIResponses =
    [''DescribeTaskQueue'', ''DescribeWorkflowExecution'', ''GetWorkflowExecutionHistory'',
      ''GetWorkflowExecutionHistoryReverse'', ''ListArchivedWorkflowExecutions'', ''ListClosedWorkflowExecutions'',
      ''ListOpenWorkflowExecutions'', ''ListWorkflowExecutions'', ''ScanWorkflowExecutions'',
      ''CountWorkflowExecutions'', ''PollActivityTaskQueue'', ''PollWorkflowTaskQueue'', ''PollNexusTaskQueue'',
      ''QueryWorkflow'', ''RecordActivityTaskHeartbeat'', ''RecordActivityTaskHeartbeatById'',
      ''RequestCancelWorkflowExecution'', ''ResetStickyTaskQueue'', ''ShutdownWorker'', ''ResetWorkflowExecution'',
      ''RespondActivityTaskCanceled'', ''RespondActivityTaskCanceledById'', ''RespondActivityTaskCompleted'',
      ''RespondActivityTaskCompletedById'', ''RespondActivityTaskFailed'', ''RespondActivityTaskFailedById'',
      ''RespondWorkflowTaskCompleted'', ''RespondWorkflowTaskFailed'', ''RespondQueryTaskCompleted'',
      ''RespondNexusTaskCompleted'', ''RespondNexusTaskFailed'', ''SignalWithStartWorkflowExecution'',
      ''SignalWorkflowExecution'', ''StartWorkflowExecution'', ''ExecuteMultiOperation'',
      ''UpdateWorkflowExecution'', ''PollWorkflowExecutionUpdate'', ''PollWorkflowExecutionTimeSkipping'',
      ''TerminateWorkflowExecution'', ''DeleteWorkflowExecution'', ''ListTaskQueuePartitions'',
      ''PauseWorkflowExecution'', ''UnpauseWorkflowExecution'', ''CreateSchedule'', ''DescribeSchedule'',
      ''UpdateSchedule'', ''PatchSchedule'', ''DeleteSchedule'', ''ListSchedules'', ''CountSchedules'',
      ''ListScheduleMatchingTimes'', ''UpdateWorkerBuildIdCompatibility'', ''GetWorkerBuildIdCompatibility'',
      ''UpdateWorkerVersioningRules'', ''GetWorkerVersioningRules'', ''GetWorkerTaskReachability'',
      ''StartBatchOperation'', ''StopBatchOperation'', ''DescribeBatchOperation'', ''ListBatchOperations'',
      ''UpdateActivityOptions'', ''PauseActivity'', ''UnpauseActivity'', ''ResetActivity'',
      ''UpdateActivityExecutionOptions'', ''PauseActivityExecution'', ''UnpauseActivityExecution'',
      ''ResetActivityExecution'', ''UpdateWorkflowExecutionOptions'', ''DescribeDeployment'', ''ListDeployments'',
      ''GetDeploymentReachability'', ''GetCurrentDeployment'', ''SetCurrentDeployment'',
      ''DescribeWorkerDeployment'', ''DescribeWorkerDeploymentVersion'', ''SetWorkerDeploymentCurrentVersion'',
      ''SetWorkerDeploymentRampingVersion'', ''SetWorkerDeploymentManager'', ''ListWorkerDeployments'',
      ''CreateWorkerDeployment'', ''DeleteWorkerDeployment'', ''CreateWorkerDeploymentVersion'',
      ''UpdateWorkerDeploymentVersionComputeConfig'', ''ValidateWorkerDeploymentVersionComputeConfig'',
      ''DeleteWorkerDeploymentVersion'', ''UpdateWorkerDeploymentVersionMetadata'', ''CreateWorkflowRule'',
      ''DescribeWorkflowRule'', ''DeleteWorkflowRule'', ''ListWorkflowRules'', ''TriggerWorkflowRule'',
      ''RecordWorkerHeartbeat'', ''ListWorkers'', ''CountWorkers'', ''DescribeWorker'', ''UpdateTaskQueueConfig'',
      ''FetchWorkerConfig'', ''UpdateWorkerConfig'', ''StartActivityExecution'', ''CountActivityExecutions'',
      ''ListActivityExecutions'', ''DescribeActivityExecution'', ''PollActivityExecution'',
      ''RequestCancelActivityExecution'', ''TerminateActivityExecution'', ''DeleteActivityExecution'',
      ''CountNexusOperationExecutions'', ''DeleteNexusOperationExecution'', ''DescribeNexusOperationExecution'',
      ''ListNexusOperationExecutions'', ''PollNexusOperationExecution'', ''RequestCancelNexusOperationExecution'',
      ''StartNexusOperationExecution'', ''TerminateNexusOperationExecution'']"

text \<open>The methods that forward their request with the copied context, in the order of the file.\<close>

definition workflowMethods :: "string list" where
  "workflowMethods =
    [''CountWorkflowExecutions'', ''CreateSchedule'', ''DeleteSchedule'', ''DeleteWorkflowExecution'',
      ''DeprecateNamespace'', ''DescribeBatchOperation'', ''DescribeNamespace'', ''DescribeSchedule'',
      ''DescribeTaskQueue'', ''DescribeWorkflowExecution'', ''ExecuteMultiOperation'', ''GetClusterInfo'',
      ''GetSearchAttributes'', ''GetSystemInfo'', ''GetWorkerBuildIdCompatibility'', ''GetWorkerTaskReachability'',
      ''GetWorkerVersioningRules'', ''GetWorkflowExecutionHistory'', ''GetWorkflowExecutionHistoryReverse'',
      ''ListArchivedWorkflowExecutions'', ''ListBatchOperations'', ''ListClosedWorkflowExecutions'',
      ''ListOpenWorkflowExecutions'', ''ListScheduleMatchingTimes'', ''ListSchedules'', ''ListTaskQueuePartitions'',
      ''ListWorkflowExecutions'', ''PatchSchedule'', ''PollActivityTaskQueue'', ''PollNexusTaskQueue'',
      ''PollWorkflowExecutionUpdate'', ''PollWorkflowExecutionTimeSkipping'', ''PollWorkflowTaskQueue'',
      ''QueryWorkflow'', ''RecordActivityTaskHeartbeat'', ''RecordActivityTaskHeartbeatById'', ''RegisterNamespace'',
      ''RequestCancelWorkflowExecution'', ''ResetStickyTaskQueue'', ''ResetWorkflowExecution'',
      ''RespondActivityTaskCanceled'', ''RespondActivityTaskCanceledById'', ''RespondActivityTaskCompleted'',
      ''RespondActivityTaskCompletedById'', ''RespondActivityTaskFailed'', ''RespondActivityTaskFailedById'',
      ''RespondNexusTaskCompleted'', ''RespondNexusTaskFailed'', ''RespondQueryTaskCompleted'',
      ''RespondWorkflowTaskCompleted'', ''RespondWorkflowTaskFailed'', ''ScanWorkflowExecutions'',
      ''SignalWithStartWorkflowExecution'', ''SignalWorkflowExecution'', ''StartBatchOperation'',
      ''StartWorkflowExecution'', ''StopBatchOperation'', ''TerminateWorkflowExecution'', ''UpdateNamespace'',
      ''UpdateSchedule'', ''UpdateWorkerBuildIdCompatibility'', ''UpdateWorkerVersioningRules'',
      ''UpdateWorkflowExecution'', ''ShutdownWorker'', ''CountSchedules'', ''DescribeDeployment'',
      ''DescribeWorkerDeploymentVersion'', ''ListDeployments'', ''GetDeploymentReachability'',
      ''GetCurrentDeployment'', ''SetCurrentDeployment'', ''SetWorkerDeploymentCurrentVersion'',
      ''DescribeWorkerDeployment'', ''DeleteWorkerDeployment'', ''DeleteWorkerDeploymentVersion'',
      ''SetWorkerDeploymentRampingVersion'', ''ListWorkerDeployments'', ''CreateWorkerDeployment'',
      ''CreateWorkerDeploymentVersion'', ''UpdateWorkerDeploymentVersionComputeConfig'',
      ''ValidateWorkerDeploymentVersionComputeConfig'', ''UpdateWorkerDeploymentVersionMetadata'',
      ''SetWorkerDeploymentManager'', ''UpdateActivityOptions'', ''UpdateWorkflowExecutionOptions'',
      ''PauseActivity'', ''UnpauseActivity'', ''ResetActivity'', ''CreateWorkflowRule'', ''DescribeWorkflowRule'',
      ''DeleteWorkflowRule'', ''ListWorkflowRules'', ''TriggerWorkflowRule'', ''RecordWorkerHeartbeat'',
      ''ListWorkers'', ''CountWorkers'', ''UpdateTaskQueueConfig'', ''FetchWorkerConfig'', ''UpdateWorkerConfig'',
      ''DescribeWorker'', ''PauseWorkflowExecution'', ''UnpauseWorkflowExecution'', ''StartActivityExecution'',
      ''StartNexusOperationExecution'', ''DescribeActivityExecution'', ''DescribeNexusOperationExecution'',
      ''PollActivityExecution'', ''PollNexusOperationExecution'', ''ListActivityExecutions'',
      ''ListNexusOperationExecutions'', ''CountActivityExecutions'', ''CountNexusOperationExecutions'',
      ''RequestCancelActivityExecution'', ''RequestCancelNexusOperationExecution'', ''TerminateActivityExecution'',
      ''DeleteActivityExecution'', ''PauseActivityExecution'', ''ResetActivityExecution'',
      ''UnpauseActivityExecution'', ''UpdateActivityExecutionOptions'', ''TerminateNexusOperationExecution'',
      ''DeleteNexusOperationExecution'']"

text \<open>
  The client may return a response and an error; the list is filtered in both cases. A namespace without
  \<^verbatim>\<open>NamespaceInfo\<close> is a nil pointer.
\<close>

definition info_of :: "val \<Rightarrow> val" where
  "info_of ns = field (fields_of ns) ''NamespaceInfo''"

definition ListNamespaces :: "AccessControl option \<Rightarrow> client \<Rightarrow> goctx \<Rightarrow> val \<Rightarrow> reply" where
  "ListNamespaces access client ctx req =
     (let (response, err) = client ''ListNamespaces'' (copyContext ctx) req
      in case (response, field (fields_of response) ''Namespaces'', access) of
           (VMsg t fs, VList u nss, Some a) \<Rightarrow>
             if list_ex (\<lambda>ns. info_of ns = VNil) nss then (VNil, Some ''panic: nil pointer dereference'')
             else (VMsg t (set_field ''Namespaces'' (VList u (filter (\<lambda>ns. IsAllowed a (info_name (info_of ns))) nss)) fs), err)
         | _ \<Rightarrow> (response, err))"

definition workflow_call :: "(string \<Rightarrow> reply) \<Rightarrow> AccessControl option \<Rightarrow> client \<Rightarrow> string \<Rightarrow> goctx \<Rightarrow> val \<Rightarrow> reply" where
  "workflow_call unimplemented access client m ctx req =
     (if m = ''ListNamespaces'' then ListNamespaces access client ctx req
      else if m \<in> set workflowMethods then client m (copyContext ctx) req
      else unimplemented m)"

section \<open>Operator and admin service\<close>

text \<open>These pass the context of the call to the client as it is.\<close>

definition operatorMethods :: "string list" where
  "operatorMethods =
    [''AddSearchAttributes'', ''RemoveSearchAttributes'', ''ListSearchAttributes'', ''DeleteNamespace'',
      ''AddOrUpdateRemoteCluster'', ''RemoveRemoteCluster'', ''ListClusters'', ''GetNexusEndpoint'',
      ''CreateNexusEndpoint'', ''UpdateNexusEndpoint'', ''DeleteNexusEndpoint'', ''ListNexusEndpoints'']"

definition operator_call :: "(string \<Rightarrow> reply) \<Rightarrow> client \<Rightarrow> string \<Rightarrow> goctx \<Rightarrow> val \<Rightarrow> reply" where
  "operator_call unimplemented client m ctx req =
     (if m \<in> set operatorMethods then client m ctx req else unimplemented m)"

definition adminMethods :: "string list" where
  "adminMethods =
    [''AddSearchAttributes'', ''AddTasks'', ''CancelDLQJob'', ''CloseShard'', ''DeepHealthCheck'',
      ''DeleteWorkflowExecution'', ''DescribeDLQJob'', ''DescribeHistoryHost'', ''DescribeMutableState'',
      ''DescribeTaskQueuePartition'', ''ForceUnloadTaskQueuePartition'', ''GenerateLastHistoryReplicationTasks'',
      ''GetDLQMessages'', ''GetDLQReplicationMessages'', ''GetDLQTasks'', ''GetNamespace'',
      ''GetReplicationMessages'', ''GetSearchAttributes'', ''GetShard'', ''GetTaskQueueTasks'',
      ''GetTaskQueueUserData'', ''GetWorkflowExecutionRawHistory'', ''GetWorkflowExecutionRawHistoryV2'',
      ''ImportWorkflowExecution'', ''ListClusterMembers'', ''ListClusters'', ''ListHistoryTasks'', ''ListQueues'',
      ''MergeDLQMessages'', ''MergeDLQTasks'', ''MigrateSchedule'', ''PurgeDLQMessages'', ''PurgeDLQTasks'',
      ''ReapplyEvents'', ''RebuildMutableState'', ''RefreshWorkflowTasks'', ''RemoveRemoteCluster'',
      ''RemoveSearchAttributes'', ''RemoveTask'', ''ResendReplicationTasks'', ''StartAdminBatchOperation'',
      ''SyncWorkflowState'']"

text \<open>\<open>own\<close> are the admin methods with a body of their own.\<close>

definition admin_call ::
  "(string \<Rightarrow> reply) \<Rightarrow> (string, client \<Rightarrow> goctx \<Rightarrow> val \<Rightarrow> reply) gomap \<Rightarrow> client \<Rightarrow> string \<Rightarrow> goctx \<Rightarrow> val \<Rightarrow> reply" where
  "admin_call unimplemented own client m ctx req =
     (case gget own m of
        Some f \<Rightarrow> f client ctx req
      | None \<Rightarrow> if m \<in> set adminMethods then client m ctx req else unimplemented m)"

section \<open>What a service does to a call\<close>

lemma copied_context:
  "incomingMD (copyContext ctx) = incomingMD ctx \<and> namespaceKey (copyContext ctx) = namespaceKey ctx \<and>
   outgoingMD (copyContext ctx) = outgoingMD ctx @
     concat (map (\<lambda>h. case ValueFromIncomingContext ctx h of [] \<Rightarrow> [] | v # _ \<Rightarrow> [(h, v)]) PreservedHeaders)"
  by (auto simp: copyContext_def PreservedHeaders_def copy_header_def ValueFromIncomingContext_def split: list.split)

lemma lookup_set_field: "map_of (set_field n v fs) k = map_option (\<lambda>(x, w). (x, if k = n then v else w)) (map_of fs k)"
  by (induction fs) (auto simp: set_field_def)

lemma globals_are_forwarded: "set globalAPIResponses \<subseteq> set workflowMethods"
  unfolding globalAPIResponses_def workflowMethods_def by simp

text \<open>
  C29: The workflow service forwards and hides. Every method that has a global response is forwarded, as
  is every other method with a body, once, with the same request, under the context of the call with the
  first value of each preserved header appended, and the reply goes back unchanged; only in the answer to
  \<^verbatim>\<open>ListNamespaces\<close> the list of namespaces is cut down to those the policy allows, with an error too, and
  nothing else in it is changed.
\<close>

theorem workflow_service_forwards:
  assumes "client ''ListNamespaces'' (copyContext ctx) req = (VMsg t fs, err)" "map_of fs ''Namespaces'' = Some (x, VList u nss)"
    and "\<forall>ns \<in> set nss. info_of ns \<noteq> VNil"
  shows "set globalAPIResponses \<subseteq> set workflowMethods \<and>
    (\<forall>m \<in> set workflowMethods. workflow_call unimplemented access client m ctx req =
       client m (ctx\<lparr>outgoingMD := outgoingMD ctx @
         concat (map (\<lambda>h. case ValueFromIncomingContext ctx h of [] \<Rightarrow> [] | v # _ \<Rightarrow> [(h, v)]) PreservedHeaders)\<rparr>) req) \<and>
    (\<exists>fs'. workflow_call unimplemented (Some (NewAccesControl allowed)) client ''ListNamespaces'' ctx req = (VMsg t fs', err) \<and>
       field fs' ''Namespaces'' = VList u (filter (\<lambda>ns. allowed = [] \<or> info_name (info_of ns) \<in> set allowed) nss) \<and>
       (\<forall>k. k \<noteq> ''Namespaces'' \<longrightarrow> field fs' k = field fs k))"
proof (intro conjI ballI)
  show "set globalAPIResponses \<subseteq> set workflowMethods" by (rule globals_are_forwarded)
next
  fix m assume m: "m \<in> set workflowMethods"
  moreover have "m \<noteq> ''ListNamespaces''" using m unfolding workflowMethods_def by auto
  moreover have "copyContext ctx = ctx\<lparr>outgoingMD := outgoingMD ctx @
         concat (map (\<lambda>h. case ValueFromIncomingContext ctx h of [] \<Rightarrow> [] | v # _ \<Rightarrow> [(h, v)]) PreservedHeaders)\<rparr>"
    using copied_context[of ctx] by (intro goctx.equality) auto
  ultimately show "workflow_call unimplemented access client m ctx req =
       client m (ctx\<lparr>outgoingMD := outgoingMD ctx @
         concat (map (\<lambda>h. case ValueFromIncomingContext ctx h of [] \<Rightarrow> [] | v # _ \<Rightarrow> [(h, v)]) PreservedHeaders)\<rparr>) req"
    by (simp add: workflow_call_def)
next
  let ?nss = "filter (\<lambda>ns. allowed = [] \<or> info_name (info_of ns) \<in> set allowed) nss"
  have f: "field (set_field ''Namespaces'' v fs) k = (if k = ''Namespaces'' then v else field fs k)" for v k
    using assms(2) by (simp add: field_def lookup_set_field split: option.split)
  have "workflow_call unimplemented (Some (NewAccesControl allowed)) client ''ListNamespaces'' ctx req =
      (VMsg t (set_field ''Namespaces'' (VList u ?nss) fs), err)"
    using assms by (simp add: workflow_call_def ListNamespaces_def fields_of_def field_def list_ex_iff)
  with f show "\<exists>fs'. workflow_call unimplemented (Some (NewAccesControl allowed)) client ''ListNamespaces'' ctx req = (VMsg t fs', err) \<and>
       field fs' ''Namespaces'' = VList u ?nss \<and> (\<forall>k. k \<noteq> ''Namespaces'' \<longrightarrow> field fs' k = field fs k)"
    by simp
qed

definition exNamespace :: "string \<Rightarrow> val" where
  "exNamespace n = VMsg ''DescribeNamespaceResponse'' [(''NamespaceInfo'', True, VMsg ''NamespaceInfo'' [(''Name'', True, VStr n)])]"

theorem workflow_service_forwards_witness:
  "\<exists>fs'. workflow_call (\<lambda>_. (VNil, None)) (Some (NewAccesControl [''a'']))
      (\<lambda>m ctx req. (VMsg ''R'' [(''Namespaces'', True, VList ''N'' [exNamespace ''a'', exNamespace ''b''])], Some ''partial''))
      ''ListNamespaces'' \<lparr>incomingMD = [], outgoingMD = [], namespaceKey = None\<rparr> VNil = (VMsg ''R'' fs', Some ''partial'') \<and>
    field fs' ''Namespaces'' = VList ''N'' [exNamespace ''a'']"
proof -
  let ?client = "\<lambda>(m::string) (ctx::goctx) (req::val). (VMsg ''R'' [(''Namespaces'', True, VList ''N'' [exNamespace ''a'', exNamespace ''b''])], Some ''partial'')"
  have "\<forall>ns \<in> set [exNamespace ''a'', exNamespace ''b'']. info_of ns \<noteq> VNil"
    by (simp add: exNamespace_def info_of_def fields_of_def field_def)
  moreover have "info_name (info_of (exNamespace n)) = n" for n
    by (simp add: exNamespace_def info_of_def info_name_def fields_of_def field_def str_of_def)
  ultimately show ?thesis
    using workflow_service_forwards[of ?client "\<lparr>incomingMD = [], outgoingMD = [], namespaceKey = None\<rparr>" VNil "''R''"
        "[(''Namespaces'', True, VList ''N'' [exNamespace ''a'', exNamespace ''b''])]" "Some ''partial''" True "''N''"
        "[exNamespace ''a'', exNamespace ''b'']" "\<lambda>_. (VNil, None)" None "[''a'']"]
    by auto
qed

text \<open>
  A unary call never carries the credentials its caller sent: their headers are not among the preserved
  ones, and nothing else copies the metadata of a unary call.
\<close>

lemma unary_drops_credentials:
  assumes "outgoingMD ctx = []" "h \<in> set CredentialHeaders"
  shows "h \<notin> fst ` set (outgoingMD (copyContext ctx))" "h \<notin> fst ` set (outgoingMD ctx)"
  using assms by (auto simp: copied_context CredentialHeaders_def PreservedHeaders_def DCRedirectionContextHeaderName_def
      RequestTranslationHeaderName_def split: list.splits)

end
