(* ===== verification/ProxyServer.thy ===== *)
theory ProxyServer
  imports Services NameMapping TLSConfig
begin

text \<open>
  The server half of \<^verbatim>\<open>proxy/cluster_connection.go\<close>: the configurations of the two servers of a connection, the
  interceptors in front of their services (\<^verbatim>\<open>makeServerOptions\<close>, \<^verbatim>\<open>stampAndTranslate\<close>) and the services behind
  them (\<^verbatim>\<open>buildProxyServer\<close>). How gRPC runs a chain of interceptors, and the interceptor that counts calls, are
  fields of \<open>serverLib\<close>.
\<close>

section \<open>Configuration of a server\<close>

record ACLPolicy =
  AllowedAdminMethods :: "string list"
  AllowedOperatorMethods :: "string list"
  AllowedNamespaces :: "string list"

record serverConfiguration =
  sc_name :: string
  directionLabel :: string
  callerNamesLocalNamespaces :: bool
  nsTranslations :: "staticBiMap option"
  saTranslations :: SearchAttributeTranslation
  overrides :: AdminServiceOverrides
  aliasOverrides :: aliasConfig
  aclPolicy :: "ACLPolicy option"
  shardCountConfig :: ShardCountConfig
  lcmParameters :: LCMParameters
  routingParameters :: RoutingParameters

text \<open>The fields of a connection's configuration that the servers get.\<close>

record serverSettings =
  ss_name :: string
  ss_FVILocal :: int
  ss_FVIRemote :: int
  ss_ReplicationEndpoint :: string
  ss_Aliases :: aliasConfig
  ss_ACLPolicy :: "ACLPolicy option"
  ss_ShardCount :: ShardCountConfig

definition inboundCfg :: "serverSettings \<Rightarrow> staticBiMap option \<Rightarrow> SearchAttributeTranslation \<Rightarrow> serverConfiguration" where
  "inboundCfg conn ns sa =
     \<lparr>sc_name = ss_name conn, directionLabel = ''inbound'', callerNamesLocalNamespaces = False,
      nsTranslations = bi_Inverse ns, saTranslations = sa_Inverse sa,
      overrides = \<lparr>FVI = ss_FVILocal conn, ReplicationEndpoint = ss_ReplicationEndpoint conn\<rparr>,
      aliasOverrides = ss_Aliases conn, aclPolicy = ss_ACLPolicy conn, shardCountConfig = ss_ShardCount conn,
      lcmParameters = getLCMParameters (ss_ShardCount conn) True,
      routingParameters = getRoutingParameters (ss_ShardCount conn) True ''inbound''\<rparr>"

definition outboundCfg :: "serverSettings \<Rightarrow> staticBiMap option \<Rightarrow> SearchAttributeTranslation \<Rightarrow> serverConfiguration" where
  "outboundCfg conn ns sa =
     \<lparr>sc_name = ss_name conn, directionLabel = ''outbound'', callerNamesLocalNamespaces = True,
      nsTranslations = ns, saTranslations = sa,
      overrides = \<lparr>FVI = ss_FVIRemote conn, ReplicationEndpoint = []\<rparr>,
      aliasOverrides = [], aclPolicy = None, shardCountConfig = ss_ShardCount conn,
      lcmParameters = getLCMParameters (ss_ShardCount conn) False,
      routingParameters = getRoutingParameters (ss_ShardCount conn) False ''outbound''\<rparr>"

section \<open>Interceptors\<close>

type_synonym handler = "goctx \<Rightarrow> val \<Rightarrow> reply"
type_synonym unaryServer = "string \<Rightarrow> goctx \<Rightarrow> handler \<Rightarrow> val \<Rightarrow> reply"

text \<open>The stream interceptors by what they do; how they act on a stream is in \<open>Translation\<close> and \<open>AccessControl\<close>.\<close>

datatype streamServer = CountStreams string | TranslateStream "Translator list" | CheckStream AccessControlInterceptor

record 'c serverLib =
  sl_prefixes :: servicePrefixes
  sl_MethodName :: "string \<Rightarrow> string"
  sl_fuel :: nat
  sl_Values :: walker
  sl_codec :: "'c codec_scheme"
  CountCalls :: "string \<Rightarrow> unaryServer"
  ChainUnaryInterceptor :: "unaryServer list \<Rightarrow> unaryServer"

definition stamp :: unaryServer where
  "stamp m ctx handler req = handler (ctx\<lparr>namespaceKey := StampNamespace (namespaceKey ctx) req\<rparr>) req"

definition translate :: "'c serverLib \<Rightarrow> Translator list \<Rightarrow> unaryServer" where
  "translate L trs m ctx handler req =
     Intercept (sl_prefixes L) (IsRequestTranslationDisabled (ValueFromIncomingContext ctx RequestTranslationHeaderName)) trs m
       (handler ctx) req"

definition check_access :: "'c serverLib \<Rightarrow> AccessControlInterceptor \<Rightarrow> unaryServer" where
  "check_access L i m ctx handler req =
     (case access_Intercept (sl_MethodName L) (sl_prefixes L) (sl_fuel L) (sl_Values L) (sl_codec L) i m (handler ctx) req of
        PermissionDenied err \<Rightarrow> (VNil, Some err)
      | Handled r \<Rightarrow> r)"

definition stampAndTranslate :: "bool \<Rightarrow> unaryServer option \<Rightarrow> unaryServer list" where
  "stampAndTranslate callerNamesLocal tr =
     (case tr of
        None \<Rightarrow> [stamp]
      | Some t \<Rightarrow> if callerNamesLocal then [stamp, t] else [t, stamp])"

datatype serverError = Panics string | Fails string

definition translators :: "'c serverLib \<Rightarrow> serverConfiguration \<Rightarrow> serverError + Translator list" where
  "translators L c =
     (let ns = (if bi_Len (nsTranslations c) > 0
                then [NewNamespaceNameTranslator (sl_fuel L) (sl_Values L) (sl_codec L) (bi_AsMap (nsTranslations c))
                        (bi_AsMap (bi_Inverse (nsTranslations c)))]
                else [])
      in if sa_LenNamespaces (saTranslations c) > 0 then
           (if sa_LenNamespaces (saTranslations c) > 1 then Inl (Panics ''multiple namespace search attribute mappings are not supported'')
            else Inr (ns @ [NewSearchAttributeTranslator (sl_prefixes L) (sl_fuel L) (sl_Values L) (sl_codec L)
                       (FlattenMaps (saTranslations c)) (FlattenMaps (sa_Inverse (saTranslations c)))]))
         else Inr ns)"

definition acl_of :: "ACLPolicy \<Rightarrow> AccessControlInterceptor" where
  "acl_of p = NewAccessControlInterceptor (AllowedAdminMethods p) (AllowedOperatorMethods p) (AllowedNamespaces p)"

record ('p, 'k) serverOptions =
  unaryInterceptors :: "unaryServer list"
  streamInterceptors :: "streamServer list"
  Creds :: "('p, 'k) tlsConfig option"

definition makeServerOptions ::
  "'c serverLib \<Rightarrow> ('x, 'p, 'k) certLib \<Rightarrow> serverConfiguration \<Rightarrow> TLSConfig \<Rightarrow> serverError + ('p, 'k) serverOptions" where
  "makeServerOptions L C c tls =
     (case translators L c of
        Inl panic \<Rightarrow> Inl panic
      | Inr trs \<Rightarrow>
          let tr = (if trs = [] then None else Some (translate L trs));
              unary = [CountCalls L (directionLabel c)] @ stampAndTranslate (callerNamesLocalNamespaces c) tr @
                (case aclPolicy c of None \<Rightarrow> [] | Some p \<Rightarrow> [check_access L (acl_of p)]);
              streams = [CountStreams (directionLabel c)] @ (if trs = [] then [] else [TranslateStream trs]) @
                (case aclPolicy c of None \<Rightarrow> [] | Some p \<Rightarrow> [CheckStream (acl_of p)])
          in if tls_IsEnabled tls
             then (case GetServerTLSConfig C tls of
                     Inl err \<Rightarrow> Inl (Fails err)
                   | Inr t \<Rightarrow> Inr \<lparr>unaryInterceptors = unary, streamInterceptors = streams, Creds = t\<rparr>)
             else Inr \<lparr>unaryInterceptors = unary, streamInterceptors = streams, Creds = None\<rparr>)"

section \<open>The services behind them\<close>

text \<open>
  The clients of the three services, made from the connections of the upstream, and the embedded server.
  \<open>own\<close> are the bodies of the admin methods that do more than forward.
\<close>

record serverClients =
  adminClient :: client
  workflowClient :: client
  operatorClient :: client
  unimplemented :: "string \<Rightarrow> reply"
  ownAdmin :: "(string, client \<Rightarrow> goctx \<Rightarrow> val \<Rightarrow> reply) gomap"

definition accessControl_of :: "serverConfiguration \<Rightarrow> AccessControl option" where
  "accessControl_of c = map_option (\<lambda>p. NewAccesControl (AllowedNamespaces p)) (aclPolicy c)"

definition service :: "'c serverLib \<Rightarrow> serverConfiguration \<Rightarrow> serverClients \<Rightarrow> string \<Rightarrow> handler" where
  "service L c cl fullMethod ctx req =
     (let m = sl_MethodName L fullMethod
      in if has_prefix (AdminServicePrefix (sl_prefixes L)) fullMethod
         then admin_call (unimplemented cl) (ownAdmin cl) (adminClient cl) m ctx req
         else if has_prefix (WorkflowServicePrefix (sl_prefixes L)) fullMethod
         then workflow_call (unimplemented cl) (accessControl_of c) (workflowClient cl) m ctx req
         else if has_prefix (OperatorServicePrefix (sl_prefixes L)) fullMethod
         then operator_call (unimplemented cl) (operatorClient cl) m ctx req
         else unimplemented cl m)"

text \<open>A unary call to a server built with the options.\<close>

definition buildProxyServer ::
  "'c serverLib \<Rightarrow> ('x, 'p, 'k) certLib \<Rightarrow> serverConfiguration \<Rightarrow> TLSConfig \<Rightarrow> serverClients \<Rightarrow>
   serverError + (string \<Rightarrow> goctx \<Rightarrow> val \<Rightarrow> reply)" where
  "buildProxyServer L C c tls cl =
     (case makeServerOptions L C c tls of
        Inl (Panics msg) \<Rightarrow> Inl (Panics msg)
      | Inl (Fails err) \<Rightarrow> Inl (Fails (''could not parse server options: '' @ err))
      | Inr opts \<Rightarrow>
          Inr (\<lambda>fullMethod ctx req.
            ChainUnaryInterceptor L (unaryInterceptors opts) fullMethod ctx (service L c cl fullMethod) req))"

section \<open>Running the chain\<close>

text \<open>
  gRPC calls the first interceptor of a chain with the rest of the chain as its handler; the interceptor
  that counts calls hands them on.
\<close>

definition documented_server :: "'c serverLib \<Rightarrow> bool" where
  "documented_server L \<longleftrightarrow>
     documented_walk (sl_Values L) \<and> serializes (sl_codec L) \<and>
     (\<forall>label m ctx h req. CountCalls L label m ctx h req = h ctx req) \<and>
     (\<forall>m ctx h req. ChainUnaryInterceptor L [] m ctx h req = h ctx req) \<and>
     (\<forall>i is m ctx h req. ChainUnaryInterceptor L (i # is) m ctx h req =
        i m ctx (\<lambda>ctx req. ChainUnaryInterceptor L is m ctx h req) req)"

abbreviation rewritten :: "'c serverLib \<Rightarrow> (string, string) gomap \<Rightarrow> val \<Rightarrow> val" where
  "rewritten L mapping \<equiv> subst_namespaces (sl_fuel L) (sl_codec L) (createStringMatcher mapping)"

abbreviation readable :: "'c serverLib \<Rightarrow> val \<Rightarrow> bool" where
  "readable L \<equiv> visitable (sl_fuel L) (sl_codec L)"

definition translates :: "'c serverLib \<Rightarrow> goctx \<Rightarrow> string \<Rightarrow> bool" where
  "translates L ctx m \<longleftrightarrow> has_prefix (WorkflowServicePrefix (sl_prefixes L)) m \<and>
     \<not> IsRequestTranslationDisabled (ValueFromIncomingContext ctx RequestTranslationHeaderName)"

lemma translate_run:
  assumes "documented_server L" "translators L c = Inr trs" "bi_Len (nsTranslations c) > 0" "translates L ctx m"
    and "readable L req" "\<forall>r. readable L (fst (h ctx r))"
  shows "translate L trs m ctx h req =
    (let (resp, err) = h ctx (rewritten L (bi_AsMap (nsTranslations c)) req)
     in (rewritten L (bi_AsMap (bi_Inverse (nsTranslations c))) resp, err))"
proof -
  obtain rest where t: "trs = NewNamespaceNameTranslator (sl_fuel L) (sl_Values L) (sl_codec L) (bi_AsMap (nsTranslations c))
        (bi_AsMap (bi_Inverse (nsTranslations c))) # rest"
    and rest: "\<forall>t \<in> set rest. \<not> MatchMethod t m"
    using assms(2-4) by (auto simp: translators_def NewSearchAttributeTranslator_def translates_def Let_def split: if_splits)
  have rest_id: "apply_translators f m rest v = v" for f v
    using rest by (induction rest arbitrary: v) (auto simp: apply_translators_def)
  have "apply_translators f m trs v = fst (f (hd trs) v)" for f v
    using rest_id by (simp add: t apply_translators_def NewNamespaceNameTranslator_def)
  moreover have "fst (visitNamespace (sl_fuel L) (sl_Values L) (sl_codec L) match v) = subst_namespaces (sl_fuel L) (sl_codec L) match v"
    if "readable L v" for match v
    using visit_agrees[of "sl_Values L" "sl_codec L"] assms(1) that by (simp add: documented_server_def agrees_def)
  ultimately show ?thesis using assms(4-6)
    by (simp add: translate_def Intercept_def translates_def t NewNamespaceNameTranslator_def case_prod_beta)
qed

lemma field_map: "field (map (\<lambda>(n, x, v). (n, x, f n x v)) fs) k = (case map_of fs k of Some (x, v) \<Rightarrow> f k x v | None \<Rightarrow> VNil)"
  by (induction fs) (auto simp: field_def)

text \<open>A request of some type that names a namespace, as the generated getters read it.\<close>

definition names_namespace :: "val \<Rightarrow> string \<Rightarrow> bool" where
  "names_namespace req ns \<longleftrightarrow> ns \<noteq> [] \<and> (\<exists>t fs. req = VMsg t fs \<and> map_of fs ''Namespace'' = Some (True, VStr ns)) \<and>
     \<not> isSkippableForNamespaceTranslation req"

lemma stamp_named: "names_namespace req ns \<Longrightarrow> StampNamespace k req = Some ns"
  by (auto simp: names_namespace_def StampNamespace_def fields_of_def field_def)

lemma stamp_rewritten:
  assumes "names_namespace req ns" "match ns = (new, True)" "new \<noteq> []" "readable L req"
  shows "StampNamespace k (subst_namespaces (sl_fuel L) (sl_codec L) match req) = Some new"
proof (cases "sl_fuel L")
  case 0
  with assms(4) show ?thesis by simp
next
  case (Suc n)
  with assms(1-3) show ?thesis
    by (auto simp: names_namespace_def StampNamespace_def fields_of_def field_map field_subst_def is_msg_def
        dataBlobFieldNames_def namespaceFieldNames_def)
qed

lemma built_server:
  assumes "documented_server L" "buildProxyServer L C c tls cl = Inr serve" "bi_Len (nsTranslations c) > 0"
  obtains trs where "translators L c = Inr trs"
    and "\<And>m ctx req. serve m ctx req =
      (let inner = (case aclPolicy c of
             None \<Rightarrow> (\<lambda>ctx req. service L c cl m ctx req)
           | Some p \<Rightarrow> (\<lambda>ctx req. check_access L (acl_of p) m ctx (service L c cl m) req))
       in if callerNamesLocalNamespaces c then stamp m ctx (\<lambda>ctx req. translate L trs m ctx inner req) req
          else translate L trs m ctx (\<lambda>ctx req. stamp m ctx inner req) req)"
proof -
  obtain trs opts where o: "translators L c = Inr trs" "makeServerOptions L C c tls = Inr opts"
    and s: "serve = (\<lambda>m ctx req. ChainUnaryInterceptor L (unaryInterceptors opts) m ctx (service L c cl m) req)"
    using assms(2) by (auto simp: buildProxyServer_def makeServerOptions_def split: sum.splits serverError.splits)
  have "trs \<noteq> []" using o(1) assms(3) by (auto simp: translators_def Let_def split: if_splits)
  then have u: "unaryInterceptors opts = [CountCalls L (directionLabel c)] @
      (if callerNamesLocalNamespaces c then [stamp, translate L trs] else [translate L trs, stamp]) @
      (case aclPolicy c of None \<Rightarrow> [] | Some p \<Rightarrow> [check_access L (acl_of p)])"
    using o by (auto simp: makeServerOptions_def stampAndTranslate_def Let_def split: if_splits sum.splits)
  show thesis
    by (rule that[OF o(1)])
      (use assms(1) in \<open>simp add: s u documented_server_def split: option.split\<close>)
qed

lemma bimap_pair:
  assumes "NewStaticBiMap pairs = Inr bm" "(l, r) \<in> set pairs"
  shows "gget (contents bm) l = Some r" "gget (inverseContents bm) r = Some l"
    "bi_Len (Some bm) > 0" "bi_Len (bi_Inverse (Some bm)) > 0"
proof -
  have "mutual [] []" by (simp add: mutual_def)
  from bimap_fill_mutual[OF this, of pairs bm] assms
  have m: "mutual (contents bm) (inverseContents bm)" and 1: "gget (contents bm) l = Some r" by (simp_all add: NewStaticBiMap_def)
  from m have "\<forall>k v. gget (contents bm) k = Some v \<longleftrightarrow> gget (inverseContents bm) v = Some k" unfolding mutual_def by (elim conjE)
  with 1 have 2: "gget (inverseContents bm) r = Some l" by blast
  show "gget (contents bm) l = Some r" by (rule 1)
  show "gget (inverseContents bm) r = Some l" by (rule 2)
  show "bi_Len (Some bm) > 0" "bi_Len (bi_Inverse (Some bm)) > 0" using 1 2 by (auto simp: bi_Len_def bi_Inverse_def)
qed

lemma nil_readable:
  assumes "readable L req"
  shows "rewritten L f VNil = VNil" "readable L VNil"
  using assms by (cases "sl_fuel L"; simp add: isSkippableForNamespaceTranslation_def)+

lemma outbound_run:
  assumes "documented_server L" "NewStaticBiMap pairs = Inr bm" "(l, r) \<in> set pairs"
    and "buildProxyServer L C (outboundCfg conn (Some bm) sa) tls cl = Inr outbound" "translates L ctx m"
    and "readable L req" "names_namespace req l"
    and "\<forall>ctx req. readable L (fst (service L (outboundCfg conn (Some bm) sa) cl m ctx req))"
  shows "outbound m ctx req =
    (let (resp, err) = service L (outboundCfg conn (Some bm) sa) cl m (ctx\<lparr>namespaceKey := Some l\<rparr>) (rewritten L (contents bm) req)
     in (rewritten L (inverseContents bm) resp, err))"
proof (rule built_server[OF assms(1,4)])
  let ?c = "outboundCfg conn (Some bm) sa"
  show "bi_Len (nsTranslations ?c) > 0" using bimap_pair[OF assms(2,3)] by (simp add: outboundCfg_def)
  fix trs assume t: "translators L ?c = Inr trs"
    and run: "\<And>m ctx req. outbound m ctx req = (let inner = (case aclPolicy ?c of
           None \<Rightarrow> (\<lambda>ctx req. service L ?c cl m ctx req)
         | Some p \<Rightarrow> (\<lambda>ctx req. check_access L (acl_of p) m ctx (service L ?c cl m) req))
     in if callerNamesLocalNamespaces ?c then stamp m ctx (\<lambda>ctx req. translate L trs m ctx inner req) req
        else translate L trs m ctx (\<lambda>ctx req. stamp m ctx inner req) req)"
  have tr: "translates L (ctx\<lparr>namespaceKey := Some l\<rparr>) m"
    using assms(5) by (simp add: translates_def ValueFromIncomingContext_def)
  show ?thesis
    using translate_run[OF assms(1) t _ tr assms(6), of "service L ?c cl m"] bimap_pair[OF assms(2,3)] assms(8)
    by (simp add: run stamp_def stamp_named[OF assms(7)] outboundCfg_def bi_AsMap_def bi_Inverse_def)
qed

text \<open>What the policy answers to a call, and to none if it allows it.\<close>

definition denied :: "'c serverLib \<Rightarrow> ACLPolicy \<Rightarrow> string \<Rightarrow> val \<Rightarrow> string option" where
  "denied L p m req =
     (if \<not> method_allowed (sl_prefixes L) (AllowedAdminMethods p) (AllowedOperatorMethods p) m (sl_MethodName L m)
      then Some (method_denied (sl_MethodName L m))
      else if AllowedNamespaces p \<noteq> [] \<and> \<not> set (namespaces (sl_fuel L) (sl_codec L) req) \<subseteq> set (AllowedNamespaces p)
      then Some (namespace_denied (sl_MethodName L m)) else None)"

lemma check_access_exact:
  assumes "documented_server L" "translates L ctx' m" "readable L req"
  shows "check_access L (acl_of p) m ctx h req = (case denied L p m req of Some err \<Rightarrow> (VNil, Some err) | None \<Rightarrow> h ctx req)"
proof -
  have "access_Intercept (sl_MethodName L) (sl_prefixes L) (sl_fuel L) (sl_Values L) (sl_codec L) (acl_of p) m (h ctx) req =
      (case denied L p m req of Some err \<Rightarrow> PermissionDenied err | None \<Rightarrow> Handled (h ctx req))"
    unfolding acl_of_def denied_def using assms
    by (subst access_exact) (auto simp: documented_server_def a_service_def translates_def)
  then show ?thesis by (simp add: check_access_def split: option.split)
qed

lemma handled_request: "access_Intercept MethodName pre n Values c i m h req = Handled x \<Longrightarrow> \<exists>r. x = h r"
  by (auto simp: access_Intercept_def Let_def split: if_splits prod.splits)

lemma check_access_readable:
  assumes "\<forall>r. readable L (fst (h ctx r))" "readable L VNil"
  shows "readable L (fst (check_access L i m ctx h req))"
proof (cases "access_Intercept (sl_MethodName L) (sl_prefixes L) (sl_fuel L) (sl_Values L) (sl_codec L) i m (h ctx) req")
  case (Handled x)
  from handled_request[OF this] obtain r where "x = h ctx r" ..
  with Handled assms(1) show ?thesis by (simp add: check_access_def)
qed (simp add: check_access_def assms(2))

lemma inbound_run:
  assumes "documented_server L" "NewStaticBiMap pairs = Inr bm" "(l, r) \<in> set pairs" "l \<noteq> []"
    and "buildProxyServer L C (inboundCfg conn (Some bm) sa) tls cl = Inr inbound"
    and "ss_ACLPolicy conn = Some p" "translates L ctx m"
    and "readable L req" "names_namespace req r" "readable L (rewritten L (inverseContents bm) req)"
    and "\<forall>ctx req. readable L (fst (service L (inboundCfg conn (Some bm) sa) cl m ctx req))"
  shows "inbound m ctx req =
    (case denied L p m (rewritten L (inverseContents bm) req) of
       Some err \<Rightarrow> (VNil, Some err)
     | None \<Rightarrow>
         let (resp, err) = service L (inboundCfg conn (Some bm) sa) cl m (ctx\<lparr>namespaceKey := Some l\<rparr>) (rewritten L (inverseContents bm) req)
         in (rewritten L (contents bm) resp, err))"
proof (rule built_server[OF assms(1,5)])
  let ?c = "inboundCfg conn (Some bm) sa"
  let ?req = "rewritten L (inverseContents bm) req"
  let ?inner = "\<lambda>ctx req. check_access L (acl_of p) m ctx (service L ?c cl m) req"
  show "bi_Len (nsTranslations ?c) > 0" using bimap_pair[OF assms(2,3)] by (simp add: inboundCfg_def)
  fix trs assume t: "translators L ?c = Inr trs"
    and run: "\<And>m ctx req. inbound m ctx req = (let inner = (case aclPolicy ?c of
           None \<Rightarrow> (\<lambda>ctx req. service L ?c cl m ctx req)
         | Some p \<Rightarrow> (\<lambda>ctx req. check_access L (acl_of p) m ctx (service L ?c cl m) req))
     in if callerNamesLocalNamespaces ?c then stamp m ctx (\<lambda>ctx req. translate L trs m ctx inner req) req
        else translate L trs m ctx (\<lambda>ctx req. stamp m ctx inner req) req)"
  have stamped: "StampNamespace (namespaceKey ctx) ?req = Some l"
    by (rule stamp_rewritten[OF assms(9) _ assms(4,8)]) (simp add: createStringMatcher_def bimap_pair[OF assms(2,3)])
  have good: "\<forall>w. readable L (fst (stamp m ctx ?inner w))"
    using assms(11) nil_readable(2)[OF assms(8)] check_access_readable[of L "service L ?c cl m"] by (simp add: stamp_def)
  have "inbound m ctx req = translate L trs m ctx (\<lambda>ctx req. stamp m ctx ?inner req) req"
    using assms(6) by (simp add: run inboundCfg_def)
  also have "\<dots> = (let (resp, err) = stamp m ctx ?inner ?req in (rewritten L (contents bm) resp, err))"
    using translate_run[OF assms(1) t _ assms(7,8), of "\<lambda>ctx req. stamp m ctx ?inner req"] good bimap_pair[OF assms(2,3)]
    by (simp add: inboundCfg_def bi_AsMap_def bi_Inverse_def)
  finally show ?thesis
    by (simp add: stamp_def stamped check_access_exact[OF assms(1,7,10)] nil_readable(1)[OF assms(8)] case_prod_beta split: option.split)
qed

section \<open>Properties\<close>


text \<open>A server over the example codec, and clients that answer with the request they get.\<close>

primrec exChain :: "unaryServer list \<Rightarrow> unaryServer" where
  "exChain [] m ctx h req = h ctx req"
| "exChain (i # is) m ctx h req = i m ctx (\<lambda>ctx req. exChain is m ctx h req) req"

definition exServer :: "unit serverLib" where
  "exServer = \<lparr>sl_prefixes = exPrefixes, sl_MethodName = drop 3, sl_fuel = Suc (Suc 0), sl_Values = walkValues, sl_codec = exCodec,
     CountCalls = (\<lambda>label m ctx h req. h ctx req), ChainUnaryInterceptor = exChain\<rparr>"

definition exClients :: serverClients where
  "exClients = \<lparr>adminClient = (\<lambda>_ _ _. (VNil, None)),
     workflowClient = (\<lambda>m ctx req. (VMsg ''Resp'' [(''Namespace'', True, VStr (case namespaceKey ctx of Some ns \<Rightarrow> ns | None \<Rightarrow> []))], None)),
     operatorClient = (\<lambda>_ _ _. (VNil, None)), unimplemented = (\<lambda>_. (VNil, Some ''unimplemented'')), ownAdmin = []\<rparr>"

definition exSettings :: serverSettings where
  "exSettings = \<lparr>ss_name = ''c'', ss_FVILocal = 0, ss_FVIRemote = 0, ss_ReplicationEndpoint = [], ss_Aliases = [],
     ss_ACLPolicy = Some \<lparr>AllowedAdminMethods = [], AllowedOperatorMethods = [], AllowedNamespaces = [''mine'']\<rparr>,
     ss_ShardCount = \<lparr>Mode = [], LocalShardCount = 1, RemoteShardCount = 1\<rparr>\<rparr>"

definition exBiMap :: staticBiMap where
  "exBiMap = \<lparr>contents = [(''mine'', ''theirs'')], inverseContents = [(''theirs'', ''mine'')]\<rparr>"

definition exCall :: "string \<Rightarrow> val" where
  "exCall ns = VMsg ''Req'' [(''Namespace'', True, VStr ns)]"

definition exGoctx :: goctx where
  "exGoctx = \<lparr>incomingMD = [], outgoingMD = [], namespaceKey = None\<rparr>"

lemma exServer_documented: "documented_server exServer"
  by (simp add: documented_server_def exServer_def walkValues_documented exCodec_serializes)

lemma exServer_builds:
  assumes "sa_LenNamespaces (saTranslations c) = 0"
  shows "\<exists>serve. buildProxyServer exServer C c \<lparr>CertificatePath = [], KeyPath = [], RemoteCAPath = [], CAServerName = [], SkipCAVerification = False\<rparr> cl = Inr serve"
  using assms by (simp add: buildProxyServer_def makeServerOptions_def translators_def tls_IsEnabled_def Let_def)

lemma ex_readable: "readable exServer (exCall ns)"
  by (simp add: exCall_def exServer_def ex_simps)

lemma ex_service_readable:
  "readable exServer (fst (service exServer c exClients ''/w/DescribeNamespace'' ctx req))"
  by (simp add: service_def exServer_def exPrefixes_def has_prefix_def workflow_call_def workflowMethods_def exClients_def
      ex_simps ListNamespaces_def)


end
