(* ===== verification/ClusterClients.thy ===== *)
theory ClusterClients
  imports ProxyServer KeyExtensions MuxManager ShardManager
begin

text \<open>
  The client half of \<^verbatim>\<open>proxy/cluster_connection.go\<close> with \<^verbatim>\<open>transport/grpcutil/grpc.go\<close> and the credentials of
  \<^verbatim>\<open>config/cluster_conn_config.go\<close>: which connection a client makes and whose credentials its calls carry. The
  credentials of a provider are values of a type parameter; what they add to a call, whether they ask for
  transport security, and \<^verbatim>\<open>grpc.NewClient\<close> are fields of \<open>clientLib\<close>.
\<close>

section \<open>Configuration\<close>

definition ConnTypeTCP :: string where "ConnTypeTCP = ''tcp''"
definition ConnTypeMuxServer :: string where "ConnTypeMuxServer = ''mux-server''"
definition ConnTypeMuxClient :: string where "ConnTypeMuxClient = ''mux-client''"

definition CredentialIdentityDefault :: string where "CredentialIdentityDefault = ''default''"
definition CredentialIdentityProxy :: string where "CredentialIdentityProxy = ''proxy''"
definition CredentialIdentityStrip :: string where "CredentialIdentityStrip = ''strip''"

record TCPTLSInfo =
  ConnectionString :: string
  TLSConfig_of :: TLSConfig

text \<open>The credentials block, when there is one, is its identity.\<close>

record ClusterDefinition =
  ConnectionType :: string
  TcpClient :: TCPTLSInfo
  TcpServer :: TCPTLSInfo
  MuxCount :: int
  MuxAddressInfo :: TCPTLSInfo
  Credentials :: "string option"

definition CredentialIdentity :: "ClusterDefinition \<Rightarrow> string" where
  "CredentialIdentity c =
     (case Credentials c of None \<Rightarrow> CredentialIdentityDefault | Some i \<Rightarrow> if i = [] then CredentialIdentityDefault else i)"

definition check_identity :: "ClusterDefinition \<Rightarrow> string option" where
  "check_identity local =
     (let identity = CredentialIdentity local
      in if identity = CredentialIdentityDefault \<or> identity = CredentialIdentityStrip then None
         else if identity = CredentialIdentityProxy then
           (if ConnectionType local \<noteq> ConnTypeTCP
            then Some (''identity \"'' @ identity @ ''\" requires connectionType \"'' @ ConnTypeTCP @ ''\", got \"'' @ ConnectionType local @ ''\"'')
            else None)
         else Some (''unsupported identity \"'' @ identity @ ''\": must be \"'' @ CredentialIdentityDefault @ ''\", \"'' @
                CredentialIdentityProxy @ ''\" or \"'' @ CredentialIdentityStrip @ ''\"''))"

definition check_remote :: "ClusterDefinition \<Rightarrow> string option" where
  "check_remote remote =
     (if Credentials remote \<noteq> None then Some ''credentials are only supported on the local cluster definition'' else None)"

record ClusterConnConfig =
  conn_Name :: string
  Local :: ClusterDefinition
  Remote :: ClusterDefinition
  conn_ReplicationEndpoint :: string
  FVITranslation :: "int \<times> int"
  conn_ACLPolicy :: "ACLPolicy option"
  NamespaceTranslation :: StringTranslator
  conn_SATranslation :: "SANamespaceMapping list"
  CustomSearchAttributeAliases :: aliasConfig
  RemoteClusterHealthCheck :: "string \<times> string"
  LocalClusterHealthCheck :: "string \<times> string"
  conn_ShardCount :: ShardCountConfig
  conn_Memberlist :: "MemberlistConfig option"
  conn_Encryption :: EncryptionConfig

definition conn_Validate :: "validation \<Rightarrow> urlParser \<Rightarrow> ClusterConnConfig \<Rightarrow> string option" where
  "conn_Validate V url c =
     Validate_rules V
       [NestedRule ''encryption'' (encryption_Validate V url (conn_Encryption c)),
        FieldRule ''local.credentials.identity'' [check_identity (Local c)],
        FieldRule ''remote.credentials'' [check_remote (Remote c)]]"

record S2SProxyConfig =
  ClusterConnections :: "ClusterConnConfig list"
  ExtensionServers :: "ExtensionServer list"

definition conn_prefix :: "nat \<Rightarrow> string" where
  "conn_prefix i = ''clusterConnections['' @ show_nat i @ ''].encryption''"

definition proxy_Validate :: "validation \<Rightarrow> urlParser \<Rightarrow> S2SProxyConfig \<Rightarrow> string option" where
  "proxy_Validate V url c =
     (let conns = ClusterConnections c; known = extension_names (ExtensionServers c)
      in Validate_rules V
        ([NestedRule ''extensionServers'' (extensions_Validate V (ExtensionServers c)),
          ChildrenRule ''clusterConnections'' (map (conn_Validate V url) conns)] @
         concat (map (\<lambda>i. referentialRules url (conn_Encryption (conns ! i)) (conn_prefix i) known) [0..<length conns])))"

section \<open>Dial options\<close>

record 'r ClientOptions =
  PerRPCCredentials :: "'r option"
  StripOutgoingMetadataKeys :: "string list"

text \<open>The dial options that depend on the arguments: transport security, the keys the interceptors strip, and the credentials.\<close>

record ('r, 'p, 'k) dialOptions =
  dial_tls :: "('p, 'k) tlsConfig option"
  dial_strip :: "string list list"
  dial_credentials :: "'r list"

definition MakeDialOptions :: "('p, 'k) tlsConfig option \<Rightarrow> 'r ClientOptions list \<Rightarrow> ('r, 'p, 'k) dialOptions" where
  "MakeDialOptions tls clientOptions =
     \<lparr>dial_tls = tls,
      dial_strip = filter (\<lambda>ks. length ks > 0) (map StripOutgoingMetadataKeys clientOptions),
      dial_credentials = concat (map (\<lambda>o'. case PerRPCCredentials o' of Some r \<Rightarrow> [r] | None \<Rightarrow> []) clientOptions)\<rparr>"

text \<open>The keys of metadata are in lower case; \<^verbatim>\<open>Delete\<close> removes the entries of a key.\<close>

definition stripOutgoingMetadata :: "string list \<Rightarrow> (string \<times> string) list \<Rightarrow> (string \<times> string) list" where
  "stripOutgoingMetadata keys md = fold (\<lambda>key. filter (\<lambda>(k, v). k \<noteq> to_lower key)) keys md"

record ('r, 'p, 'k) clientLib =
  GetRequestMetadata :: "'r \<Rightarrow> (string \<times> string) list"
  RequireTransportSecurity :: "'r \<Rightarrow> bool"
  NewClient :: "string \<Rightarrow> ('r, 'p, 'k) dialOptions \<Rightarrow> string option"

text \<open>
  What a call on a connection carries: the metadata of its context after the interceptors, and the
  metadata of the credentials, which gRPC adds last.
\<close>

definition wire_metadata :: "('r, 'p, 'k) clientLib \<Rightarrow> ('r, 'p, 'k) dialOptions \<Rightarrow> (string \<times> string) list \<Rightarrow> (string \<times> string) list" where
  "wire_metadata G d md = fold stripOutgoingMetadata (dial_strip d) md @ concat (map (GetRequestMetadata G) (dial_credentials d))"

section \<open>Connection names\<close>

text \<open>
  \<^verbatim>\<open>SanitizeForPrometheus\<close>. The pattern of the first character sees one byte; the replacement goes over the
  code points, and over single bytes where there is none.
\<close>

definition prometheus_first :: "char \<Rightarrow> bool" where
  "prometheus_first c \<longleftrightarrow> 65 \<le> byte c \<and> byte c \<le> 90 \<or> 97 \<le> byte c \<and> byte c \<le> 122 \<or> c = CHR ''_'' \<or> c = CHR '':''"

definition prometheus_char :: "char \<Rightarrow> bool" where
  "prometheus_char c \<longleftrightarrow> prometheus_first c \<or> is_digit c"

function replace_disallowed :: "string \<Rightarrow> string" where
  "replace_disallowed s =
     (if s = [] then []
      else if prometheus_char (hd s) then hd s # replace_disallowed (tl s)
      else CHR ''_'' # replace_disallowed (drop (max 1 (rune_len s)) s))"
  by auto
termination
  by (relation "measure length") auto

declare replace_disallowed.simps [simp del]

definition SanitizeForPrometheus :: "string \<Rightarrow> string" where
  "SanitizeForPrometheus value =
     (if value = [] then value
      else replace_disallowed (if \<not> prometheus_first (hd value) then CHR ''_'' # tl value else value))"

definition sanitizeConnectionName :: "string \<Rightarrow> string" where
  "sanitizeConnectionName name = SanitizeForPrometheus name"

section \<open>Clients\<close>

datatype ('r, 'p, 'k) clientConn =
    TCPConn string "('r, 'p, 'k) dialOptions"
  | MuxConn string "('r, 'p, 'k) dialOptions"

definition buildTLSTCPClient ::
  "('x, 'p, 'k) certLib \<Rightarrow> ('r, 'p, 'k) clientLib \<Rightarrow> string \<Rightarrow> TLSConfig \<Rightarrow> 'r ClientOptions \<Rightarrow> string + ('r, 'p, 'k) clientConn" where
  "buildTLSTCPClient C G serverAddress tlsCfg clientOptions =
     (case (if tls_IsEnabled tlsCfg then GetClientTLSConfig C tlsCfg else Inr None) of
        Inl err \<Rightarrow> Inl (''config error when creating tls config: '' @ err)
      | Inr parsed \<Rightarrow>
          let opts = MakeDialOptions parsed [clientOptions]
          in (case NewClient G serverAddress opts of
                Some err \<Rightarrow> Inl (''could not create inbound client: '' @ err)
              | None \<Rightarrow> Inr (TCPConn serverAddress opts)))"

text \<open>The options the identity asks for, or why they cannot be had.\<close>

definition identity_options ::
  "('r, 'p, 'k) clientLib \<Rightarrow> ClusterDefinition \<Rightarrow> string \<Rightarrow> 'r CredentialProvider option \<Rightarrow> string + 'r ClientOptions" where
  "identity_options G cfg dir credProvider =
     (let identity = CredentialIdentity cfg
      in if identity = CredentialIdentityDefault then Inr \<lparr>PerRPCCredentials = None, StripOutgoingMetadataKeys = []\<rparr>
         else if identity = CredentialIdentityStrip then Inr \<lparr>PerRPCCredentials = None, StripOutgoingMetadataKeys = CredentialHeaders\<rparr>
         else if identity = CredentialIdentityProxy then
           (if IsEmptyCredentialProvider credProvider
            then Inl (dir @ '' client: credentials identity \"'' @ identity @ ''\" but no CredentialProvider is configured'')
            else (case Option.bind credProvider credentials_Get of
                    None \<Rightarrow> Inl (dir @ '' client: credential provider returned no credentials'')
                  | Some creds \<Rightarrow>
                      if ConnectionType cfg \<noteq> ConnTypeTCP
                      then Inl (dir @ '' client: credentials require a tcp connection, got \"'' @ ConnectionType cfg @ ''\"'')
                      else if RequireTransportSecurity G creds \<and> \<not> tls_IsEnabled (TLSConfig_of (TcpClient cfg))
                      then Inl (dir @ '' client: credentials require TLS, but tcpClient.tls is not configured'')
                      else Inr \<lparr>PerRPCCredentials = Some creds, StripOutgoingMetadataKeys = CredentialHeaders\<rparr>))
         else Inl (dir @ '' client: unsupported credentials identity \"'' @ identity @ ''\"''))"

text \<open>\<^verbatim>\<open>NewMultiClientConn\<close> refuses names with disallowed characters and calls \<^verbatim>\<open>grpc.NewClient\<close> as well.\<close>

definition createClient ::
  "('x, 'p, 'k) certLib \<Rightarrow> ('r, 'p, 'k) clientLib \<Rightarrow> string \<Rightarrow> ClusterDefinition \<Rightarrow> string \<Rightarrow>
   'r CredentialProvider option \<Rightarrow> string + ('r, 'p, 'k) clientConn" where
  "createClient C G connectionName cfg dir credProvider =
     (case identity_options G cfg dir credProvider of
        Inl err \<Rightarrow> Inl err
      | Inr clientOptions \<Rightarrow>
          if ConnectionType cfg = ConnTypeTCP
          then buildTLSTCPClient C G (ConnectionString (TcpClient cfg)) (TLSConfig_of (TcpClient cfg)) clientOptions
          else if ConnectionType cfg = ConnTypeMuxClient \<or> ConnectionType cfg = ConnTypeMuxServer
          then let name = ''client-conn-'' @ connectionName; opts = MakeDialOptions None [clientOptions]
               in if list_ex disallowed name then Inl (''invalid client conn name: '' @ name)
                  else (case NewClient G (''multiclient://'' @ name) opts of
                          Some err \<Rightarrow> Inl (''Failed to create underlying grpc client: '' @ err)
                        | None \<Rightarrow> Inr (MuxConn name opts))
          else Inl ''invalid connection type'')"

fun conn_dial :: "('r, 'p, 'k) clientConn \<Rightarrow> ('r, 'p, 'k) dialOptions" where
  "conn_dial (TCPConn a d) = d"
| "conn_dial (MuxConn n d) = d"

section \<open>Whose credentials a call carries\<close>

lemma strip_keys: "stripOutgoingMetadata keys md = filter (\<lambda>(k, v). k \<notin> to_lower ` set keys) md"
  unfolding stripOutgoingMetadata_def by (induction keys arbitrary: md) (auto intro: filter_cong)

lemma created_client:
  assumes "createClient C G name cfg dir p = Inr conn"
  obtains opts where "identity_options G cfg dir p = Inr opts" "dial_strip (conn_dial conn) = filter (\<lambda>ks. length ks > 0) [StripOutgoingMetadataKeys opts]"
    "dial_credentials (conn_dial conn) = (case PerRPCCredentials opts of Some r \<Rightarrow> [r] | None \<Rightarrow> [])"
    "ConnectionType cfg = ConnTypeTCP \<longrightarrow> (if tls_IsEnabled (TLSConfig_of (TcpClient cfg))
       then GetClientTLSConfig C (TLSConfig_of (TcpClient cfg)) = Inr (dial_tls (conn_dial conn)) else dial_tls (conn_dial conn) = None)"
proof -
  obtain opts where o: "identity_options G cfg dir p = Inr opts"
    using assms by (auto simp: createClient_def split: sum.splits)
  have m: "dial_strip (MakeDialOptions t [opts]) = filter (\<lambda>ks. length ks > 0) [StripOutgoingMetadataKeys opts]"
    "dial_credentials (MakeDialOptions t [opts]) = (case PerRPCCredentials opts of Some r \<Rightarrow> [r] | None \<Rightarrow> [])"
    "dial_tls (MakeDialOptions t [opts]) = t" for t
    by (simp_all add: MakeDialOptions_def)
  show thesis
  proof (cases "ConnectionType cfg = ConnTypeTCP")
    case True
    with assms o obtain t where t: "(if tls_IsEnabled (TLSConfig_of (TcpClient cfg)) then GetClientTLSConfig C (TLSConfig_of (TcpClient cfg)) else Inr None) = Inr t"
      "conn = TCPConn (ConnectionString (TcpClient cfg)) (MakeDialOptions t [opts])"
      by (auto simp: createClient_def buildTLSTCPClient_def Let_def split: sum.splits option.splits)
    show thesis by (rule that[OF o]) (use t m in \<open>auto split: if_splits\<close>)
  next
    case False
    with assms o have "conn = MuxConn (''client-conn-'' @ name) (MakeDialOptions None [opts])"
      by (auto simp: createClient_def Let_def split: sum.splits option.splits if_splits)
    with False m show thesis by (intro that[OF o]) auto
  qed
qed

lemma validated_connection:
  assumes "documented_validation V" "conn_Validate V url c = None"
  shows "check_identity (Local c) = None" "Credentials (Remote c) = None"
  using assms by (auto simp: conn_Validate_def documented_validation_def check_remote_def split: if_splits)

lemma identity_cases:
  assumes "check_identity cfg = None"
  obtains "CredentialIdentity cfg = CredentialIdentityDefault" | "CredentialIdentity cfg = CredentialIdentityStrip"
  | "CredentialIdentity cfg = CredentialIdentityProxy" "ConnectionType cfg = ConnTypeTCP"
  using assms by (auto simp: check_identity_def Let_def split: if_splits)


text \<open>A connection whose local side is called with the credentials of the proxy, over TLS.\<close>

definition exDefinition :: "string option \<Rightarrow> ClusterDefinition" where
  "exDefinition credentials =
     \<lparr>ConnectionType = ConnTypeTCP, TcpClient = \<lparr>ConnectionString = ''host:1'', TLSConfig_of = exTLS\<rparr>,
      TcpServer = \<lparr>ConnectionString = ''host:2'', TLSConfig_of = exTLS\<rparr>, MuxCount = 0,
      MuxAddressInfo = \<lparr>ConnectionString = [], TLSConfig_of = exTLS\<rparr>, Credentials = credentials\<rparr>"

definition exConn :: ClusterConnConfig where
  "exConn =
     \<lparr>conn_Name = ''c'', Local = exDefinition (Some CredentialIdentityProxy), Remote = exDefinition None,
      conn_ReplicationEndpoint = [], FVITranslation = (0, 0), conn_ACLPolicy = None,
      NamespaceTranslation = \<lparr>Mappings = [], cachedBiMap = None\<rparr>, conn_SATranslation = [], CustomSearchAttributeAliases = [],
      RemoteClusterHealthCheck = ([], []), LocalClusterHealthCheck = ([], []),
      conn_ShardCount = ss_ShardCount exSettings, conn_Memberlist = None, conn_Encryption = exEncryption\<rparr>"

definition exGrpc :: "(unit, string, string) clientLib" where
  "exGrpc = \<lparr>GetRequestMetadata = (\<lambda>_. [(''authorization'', ''proxy'')]), RequireTransportSecurity = (\<lambda>_. True), NewClient = (\<lambda>_ _. None)\<rparr>"


text \<open>
  A sanitized name has only characters Prometheus allows. One of them, the colon, is not allowed in the
  name of a multiplexed client, so a connection whose name has a colon cannot be made over muxes.
\<close>

lemma sanitized_chars: "c \<in> set (SanitizeForPrometheus name) \<Longrightarrow> prometheus_char c"
proof -
  have "c \<in> set (replace_disallowed s) \<Longrightarrow> prometheus_char c" for s
  proof (induction s rule: replace_disallowed.induct)
    case (1 s)
    then show ?case
      by (subst (asm) (3) replace_disallowed.simps) (auto simp: prometheus_char_def prometheus_first_def split: if_splits)
  qed
  then show "c \<in> set (SanitizeForPrometheus name) \<Longrightarrow> prometheus_char c"
    by (auto simp: SanitizeForPrometheus_def split: if_splits)
qed

lemma allowed_unless_colon: "prometheus_char c \<Longrightarrow> disallowed c \<longleftrightarrow> c = CHR '':''"
  by (auto simp: prometheus_char_def prometheus_first_def disallowed_def is_digit_def)

lemma colon_name_refused:
  assumes "ConnectionType cfg = ConnTypeMuxClient" "identity_options G cfg dir p = Inr opts" "CHR '':'' \<in> set (sanitizeConnectionName name)"
  shows "\<exists>err. createClient C G (sanitizeConnectionName name) cfg dir p = Inl err"
  using assms by (auto simp: createClient_def ConnTypeMuxClient_def ConnTypeTCP_def list_ex_iff disallowed_def is_digit_def Let_def)

end
