(* ===== verification/ClusterEncryption.thy ===== *)
theory ClusterEncryption
  imports AdminEncryptor KeyVault NamespaceNames
begin

text \<open>
  \<^verbatim>\<open>newEncryptors\<close> and the wrapped connections of \<^verbatim>\<open>proxy/cluster_connection.go\<close>, and
  \<^verbatim>\<open>proxy/intercepted_client_conn.go\<close>: from the encryption block of a connection to the connections the
  clients of the three services use. The theorems put the vault, the encryptors and the name mapping
  together: what leaves for the peer, and what two proxies make of each other's calls.
\<close>

section \<open>The encryptors of a connection\<close>

text \<open>The libraries, and the operations of a vault of the crypto library.\<close>

record ('m, 'x) encryptionLib =
  el_validation :: validation
  el_url :: urlParser
  el_crypto :: cryptoLib
  el_vault :: "KEKRegistryOption list \<times> VaultOption list \<Rightarrow> vault"
  el_codec :: codecLib
  el_proxy :: "('m, 'x) proxyLib"
  el_pub :: pubLib

record ('m, 'x) connEncryptors =
  ce_payload :: "('m, 'x) unary option"
  ce_admin :: "AdminEncryptor option"

definition noEncryptors :: "('m, 'x) connEncryptors" where
  "noEncryptors = \<lparr>ce_payload = None, ce_admin = None\<rparr>"

definition namespace_label :: "staticBiMap option \<Rightarrow> string \<Rightarrow> string" where
  "namespace_label nsTranslations ns =
     (case bi_GetExists nsTranslations ns of (remote, True) \<Rightarrow> remote | (_, False) \<Rightarrow> ns)"

text \<open>
  The resolver at the moment of a call: its cache, and for each ID the clock and what the local cluster
  answers if it is asked.
\<close>

definition resolver :: "(string \<Rightarrow> lookup) \<Rightarrow> namespaceNames \<Rightarrow> string \<Rightarrow> string + string" where
  "resolver ask cache nid = snd (LocalName ((ask nid)\<lparr>lk_id := nid\<rparr>) cache)"

definition encryptor_config :: "EncryptionConfig \<Rightarrow> staticBiMap option \<Rightarrow> vault \<Rightarrow> bool \<Rightarrow> EncryptorConfig" where
  "encryptor_config cfg nsTranslations v reverse =
     \<lparr>Enabled = ec_Enabled cfg, Vault = Some v, Reverse = reverse,
      AlreadySealedEncodings = ec_AlreadySealedEncodings cfg, EncodeFailures = Failures cfg,
      Label = Some (namespace_label nsTranslations), Binding = True\<rparr>"

definition admin_config ::
  "EncryptionConfig \<Rightarrow> (string \<Rightarrow> string + string) \<Rightarrow> EncryptorConfig \<Rightarrow> AdminEncryptorConfig" where
  "admin_config cfg names ec =
     EncryptorConfig.extend ec
       \<lparr>AllowOpaquePlaintext = ec_AllowOpaquePlaintext cfg, Observer = True,
        Namespaces = (if NamespaceBinding cfg \<noteq> ''off'' then Some names else None),
        StrictNamespaces = (NamespaceBinding cfg = ''strict''), NsObserver = True, VisitErrors = True\<rparr>"

definition encryptor_side ::
  "('m, 'x) encryptionLib \<Rightarrow> EncryptionConfig \<Rightarrow> staticBiMap option \<Rightarrow> (string \<Rightarrow> string + string) \<Rightarrow> vault \<Rightarrow> bool \<Rightarrow>
   string + ('m, 'x) connEncryptors" where
  "encryptor_side L cfg nsTranslations names v reverse =
     (let ec = encryptor_config cfg nsTranslations v reverse
      in case NewEncryptor (el_codec L) (el_proxy L) ec of
           Inl err \<Rightarrow> Inl err
         | Inr payload \<Rightarrow>
             (case NewAdminEncryptor (el_codec L) (el_pub L) (admin_config cfg names ec) of
                Inl err \<Rightarrow> Inl err
              | Inr admin \<Rightarrow> Inr \<lparr>ce_payload = Some payload, ce_admin = Some admin\<rparr>))"

text \<open>
  The events of the vault, the keys that are closed when the lifetime ends, and the encryptors of the
  outbound and of the inbound client.
\<close>

definition newEncryptors ::
  "('m, 'x) encryptionLib \<Rightarrow> (string \<Rightarrow> string + string) \<Rightarrow> EncryptionConfig \<Rightarrow> staticBiMap option \<Rightarrow>
   vaultEvent list \<times> kek list \<times> (string + ('m, 'x) connEncryptors \<times> ('m, 'x) connEncryptors)" where
  "newEncryptors L names cfg nsTranslations =
     (if Default cfg = None then ([], [], Inr (noEncryptors, noEncryptors))
      else (case vault_New (el_validation L) (el_url L) (el_crypto L) cfg of
              (evs, Inl err) \<Rightarrow> (evs, [], Inl (''failed to create vault: '' @ err))
            | (evs, Inr v) \<Rightarrow>
                let side = encryptor_side L cfg nsTranslations names (el_vault L v);
                    (closed, closeErr) = vault_Close (el_crypto L) v;
                    failed = (\<lambda>err. (evs @ map Closed closed, [], Inl (errors_Join err closeErr)))
                in case side False of
                     Inl err \<Rightarrow> failed err
                   | Inr outbound \<Rightarrow>
                       (case side True of
                          Inl err \<Rightarrow> failed err
                        | Inr inbound \<Rightarrow> (evs, closed, Inr (outbound, inbound)))))"

section \<open>The connections behind them\<close>

text \<open>\<^verbatim>\<open>interceptedClientConn.Invoke\<close>: the interceptor with the embedded connection as its invoker.\<close>

definition payloadConn :: "('m, 'x) connEncryptors \<Rightarrow> ('m, 'x) invoker \<Rightarrow> ('m, 'x) invoker" where
  "payloadConn e conn = (case ce_payload e of None \<Rightarrow> conn | Some intercept \<Rightarrow> (\<lambda>ctx. intercept ctx conn))"

definition adminConn ::
  "('m, 'x) encryptionLib \<Rightarrow> 'c codec_scheme \<Rightarrow> ('m, 'x) connEncryptors \<Rightarrow>
   (string \<Rightarrow> callCtx \<Rightarrow> string \<times> adm \<Rightarrow> goErr + string \<times> adm) \<Rightarrow> string \<Rightarrow> callCtx \<Rightarrow> string \<times> adm \<Rightarrow> (string \<times> adm) res" where
  "adminConn L c e conn mth ctx req =
     (case ce_admin e of
        None \<Rightarrow> ([], conn mth ctx req)
      | Some a \<Rightarrow> adminUnary (el_pub L) c a mth ctx (conn mth) req)"

text \<open>A stream is opened, written and read through the admin encryptor, or directly when there is none.\<close>

definition adminConn_NewStream :: "('m, 'x) connEncryptors \<Rightarrow> string \<Rightarrow> callCtx \<Rightarrow> goErr option \<Rightarrow> unit res" where
  "adminConn_NewStream e mth ctx err =
     (case ce_admin e of
        None \<Rightarrow> ([], case err of Some err \<Rightarrow> Inl err | None \<Rightarrow> Inr ())
      | Some a \<Rightarrow> adminStream a mth ctx err)"

definition adminConn_SendMsg ::
  "('m, 'x) encryptionLib \<Rightarrow> 'c codec_scheme \<Rightarrow> ('m, 'x) connEncryptors \<Rightarrow> string \<Rightarrow> callCtx \<Rightarrow>
   (string \<times> adm \<Rightarrow> goErr option) \<Rightarrow> string \<times> adm \<Rightarrow> unit res" where
  "adminConn_SendMsg L c e mth ctx send m =
     (case ce_admin e of
        None \<Rightarrow> ([], case send m of Some err \<Rightarrow> Inl err | None \<Rightarrow> Inr ())
      | Some a \<Rightarrow> stream_SendMsg (el_pub L) c a mth ctx send m)"

definition adminConn_RecvMsg ::
  "('m, 'x) encryptionLib \<Rightarrow> 'c codec_scheme \<Rightarrow> ('m, 'x) connEncryptors \<Rightarrow> string \<Rightarrow> callCtx \<Rightarrow> goErr + string \<times> adm \<Rightarrow>
   (string \<times> adm) res" where
  "adminConn_RecvMsg L c e mth ctx received =
     (case ce_admin e of
        None \<Rightarrow> ([], received)
      | Some a \<Rightarrow> stream_RecvMsg (el_pub L) c a mth ctx received)"

section \<open>What was built\<close>

lemma encryptor_config_parts [simp]:
  "Enabled (encryptor_config cfg ns v reverse) = ec_Enabled cfg" "Vault (encryptor_config cfg ns v reverse) = Some v"
  "Reverse (encryptor_config cfg ns v reverse) = reverse" "EncodeFailures (encryptor_config cfg ns v reverse) = Failures cfg"
  "AlreadySealedEncodings (encryptor_config cfg ns v reverse) = ec_AlreadySealedEncodings cfg"
  "Label (encryptor_config cfg ns v reverse) = Some (namespace_label ns)"
  by (simp_all add: encryptor_config_def)

lemma admin_config_parts [simp]:
  "Enabled (admin_config cfg names (encryptor_config cfg ns v reverse)) = ec_Enabled cfg"
  "Vault (admin_config cfg names (encryptor_config cfg ns v reverse)) = Some v"
  "Reverse (admin_config cfg names (encryptor_config cfg ns v reverse)) = reverse"
  "AlreadySealedEncodings (admin_config cfg names (encryptor_config cfg ns v reverse)) = ec_AlreadySealedEncodings cfg"
  "AllowOpaquePlaintext (admin_config cfg names (encryptor_config cfg ns v reverse)) = ec_AllowOpaquePlaintext cfg"
  by (simp_all add: admin_config_def encryptor_config_def EncryptorConfig.defs)

lemma encryptor_side_parts:
  assumes "encryptor_side L cfg ns names v reverse = Inr e"
  obtains p a where "ce_payload e = Some p" "NewEncryptor (el_codec L) (el_proxy L) (encryptor_config cfg ns v reverse) = Inr p"
    "ce_admin e = Some a"
    "NewAdminEncryptor (el_codec L) (el_pub L) (admin_config cfg names (encryptor_config cfg ns v reverse)) = Inr a"
  using assms that by (auto simp: encryptor_side_def Let_def split: sum.splits)

lemma newEncryptors_built:
  assumes "newEncryptors L names cfg ns = (evs, closers, Inr (outb, inb))" "Default cfg \<noteq> None"
  obtains v where "vault_New (el_validation L) (el_url L) (el_crypto L) cfg = (evs, Inr v)"
    "encryptor_side L cfg ns names (el_vault L v) False = Inr outb" "encryptor_side L cfg ns names (el_vault L v) True = Inr inb"
    "closers = fst (vault_Close (el_crypto L) v)"
proof -
  obtain evs' r where n: "vault_New (el_validation L) (el_url L) (el_crypto L) cfg = (evs', r)" by (metis surj_pair)
  show ?thesis
  proof (cases r)
    case (Inl err)
    with assms n show ?thesis by (simp add: newEncryptors_def)
  next
    case (Inr v)
    with assms n show ?thesis
      by (intro that[of v]) (auto simp: newEncryptors_def Let_def split: prod.splits sum.splits)
  qed
qed

lemmas admin_conns = adminConn_def adminConn_SendMsg_def adminConn_RecvMsg_def

lemma keys_accounted:
  assumes "documented_registry (el_crypto L)" "newEncryptors L names cfg ns = (evs, closers, r)"
  shows "(\<forall>err. r = Inl err \<longrightarrow> mset (closes evs) = mset (opens evs)) \<and>
    (\<forall>e. r = Inr e \<longrightarrow> closes evs = [] \<and> mset closers = mset (opens evs)) \<and> distinct (opens evs) \<and>
    (\<forall>u \<in> set (logged evs). EqualFold (take 10 u) testingKeyScheme \<longrightarrow> u = ''testing://<redacted>'')"
proof (cases "Default cfg = None")
  case True
  with assms(2) show ?thesis by (auto simp: newEncryptors_def event_lists)
next
  case False
  obtain evs0 r0 where n: "vault_New (el_validation L) (el_url L) (el_crypto L) cfg = (evs0, r0)" by (metis surj_pair)
  note V = vault_accounts_for_keys[OF assms(1) n]
  have c: "opens (map Closed ks) = []" "closes (map Closed ks) = ks" "logged (map Closed ks) = []" for ks
    by (induction ks) simp_all
  show ?thesis
  proof (cases r0)
    case (Inl err)
    with assms(2) False n have "evs = evs0 \<and> (\<exists>err'. r = Inl err')" by (auto simp: newEncryptors_def)
    with V Inl show ?thesis by auto
  next
    case (Inr v)
    let ?ks = "fst (vault_Close (el_crypto L) v)"
    have "(\<exists>err. r = Inl err) \<and> evs = evs0 @ map Closed ?ks \<or> (\<exists>e. r = Inr e) \<and> evs = evs0 \<and> closers = ?ks"
      using assms(2) False n Inr by (auto simp: newEncryptors_def Let_def split: prod.splits sum.splits)
    with V Inr c show ?thesis by auto
  qed
qed

section \<open>Properties\<close>


text \<open>
  C7: Two proxies read each other. Let the outbound client of one proxy reach the inbound client of
  another whose vault has the same keys, under contexts in which the two mappings give the local
  namespaces the same name on the peer. Then the handler behind the second gets the request as the caller
  of the first sent it, and the caller gets the reply as the handler gave it, the text of failures
  included, whenever neither contains what a proxy has already sealed or encoded. This holds whichever
  side has encryption switched on: a side that does not seal still opens.
\<close>

theorem proxies_read_each_other:
  assumes "documented_messages M" "documented_proxy M (el_proxy L)" "documented_codec R (el_codec L)" "documented_failures (el_codec L)"
    and "newEncryptors L names cfg ns = (evs, closers, Inr (outb, inb))" "Default cfg \<noteq> None"
    and "newEncryptors L names' cfg' ns' = (evs', closers', Inr (outb', inb'))" "Default cfg' \<noteq> None"
    and "vault_New (el_validation L) (el_url L) (el_crypto L) cfg = (evs, Inr v)"
    and "vault_New (el_validation L) (el_url L) (el_crypto L) cfg' = (evs', Inr v')"
    and "vault_opens (el_vault L v) (el_vault L v')" "vault_opens (el_vault L v') (el_vault L v)"
    and "stampedNamespace ctx = Some l" "stampedNamespace ctx' = Some l'" "namespace_label ns l = namespace_label ns' l'"
    and "fresh (el_codec L) M req" "handler ctx' req = Inr reply" "fresh (el_codec L) M reply"
  shows "payloadConn outb (\<lambda>_. payloadConn inb' handler ctx') ctx req = Inr reply"
proof -
  have "encryptor_side L cfg ns names (el_vault L v) False = Inr outb"
    using newEncryptors_built[OF assms(5,6)] assms(9) by (metis Pair_inject Inr_inject)
  from encryptor_side_parts[OF this] obtain p where o: "ce_payload outb = Some p"
    "NewEncryptor (el_codec L) (el_proxy L) (encryptor_config cfg ns (el_vault L v) False) = Inr p" by metis
  have "encryptor_side L cfg' ns' names' (el_vault L v') True = Inr inb'"
    using newEncryptors_built[OF assms(7,8)] assms(10) by (metis Pair_inject Inr_inject)
  from encryptor_side_parts[OF this] obtain q where i: "ce_payload inb' = Some q"
    "NewEncryptor (el_codec L) (el_proxy L) (encryptor_config cfg' ns' (el_vault L v') True) = Inr q" by metis
  have "visit_label (encryptor_config cfg ns (el_vault L v) False) ctx = visit_label (encryptor_config cfg' ns' (el_vault L v') True) ctx'"
    using assms(13-15) by (simp add: visit_label_def)
  from sealed_link_transparent[OF assms(1-4,11,12) _ _ _ _ o(2) i(2) this assms(16), of handler reply] assms(17,18) o(1) i(1)
  show ?thesis by (simp add: payloadConn_def)
qed

text \<open>
  C33: No key is lost and no key material of a testing key is logged. Whatever fails while the encryptors
  of a connection are built (a key that cannot be opened, the registry, the vault, an encryptor), every
  key that was opened has been closed once when the error comes back. When encryptors come back no key
  has been closed, and the end of the connection's lifetime closes every key that was opened. A logged
  URI of a testing key is always the redacted one.
\<close>

theorem connection_accounts_for_keys:
  assumes "documented_registry (el_crypto L)" "newEncryptors L names cfg ns = (evs, closers, r)"
  shows "(\<forall>err. r = Inl err \<longrightarrow> mset (closes evs) = mset (opens evs)) \<and>
    (\<forall>e. r = Inr e \<longrightarrow> closes evs = [] \<and> mset closers = mset (opens evs)) \<and> distinct (opens evs) \<and>
    (\<forall>u \<in> set (logged evs). EqualFold (take 10 u) testingKeyScheme \<longrightarrow> u = ''testing://<redacted>'')"
  using assms by (rule keys_accounted)

text \<open>A connection with the example libraries, whose encryption may be switched off.\<close>

definition exEncryptionLib :: "(exMsg, string) encryptionLib" where
  "exEncryptionLib = \<lparr>el_validation = exValidation, el_url = exUrl, el_crypto = exCrypto 9, el_vault = (\<lambda>v. exVault),
     el_codec = exCodecLib, el_proxy = exProxyLib, el_pub = exPubLib\<rparr>"

abbreviation exSwitched :: "bool \<Rightarrow> EncryptionConfig" where
  "exSwitched on \<equiv> exEncryption\<lparr>ec_Enabled := on\<rparr>"

lemma exEncryptionLib_parts [simp]:
  "el_validation exEncryptionLib = exValidation" "el_url exEncryptionLib = exUrl" "el_crypto exEncryptionLib = exCrypto 9"
  "el_vault exEncryptionLib v = exVault" "el_codec exEncryptionLib = exCodecLib" "el_proxy exEncryptionLib = exProxyLib"
  "el_pub exEncryptionLib = exPubLib"
  by (simp_all add: exEncryptionLib_def)

lemma exSwitched_parts [simp]:
  "Default (exSwitched on) \<noteq> None" "ec_AllowOpaquePlaintext (exSwitched on) = False" "Failures (exSwitched on) = False"
  by (simp_all add: exEncryption_def)

lemma ex_vault: "\<exists>evs v. vault_New exValidation exUrl (exCrypto 9) (exSwitched on) = (evs, Inr v)"
proof -
  have valid: "encryption_Validate exValidation exUrl (exSwitched on) = None"
    using exEncryption_valid unfolding encryption_valid[OF exValidation_documented]
    by (simp add: check_failures_def check_binding_def namespaceBindings_def exEncryption_def)
  have "\<exists>evs reg. createRegistry (exCrypto 9) (exSwitched on) = (evs, Inr reg)"
    by (simp add: createRegistry_def toOptions_def exEncryption_def override_policies_def sorted_keys_def nsOptions_def
        createKEKs_def mkKey_def factory_Create_def exCrypto_def Let_def)
  with valid exEncryption_parts show ?thesis by (auto simp: vault_New_def exCrypto_def)
qed

lemma ex_side: "\<exists>e. encryptor_side exEncryptionLib (exSwitched on) ns names exVault reverse = Inr e"
proof -
  have "\<exists>p. NewEncryptor exCodecLib exProxyLib (encryptor_config (exSwitched on) ns exVault reverse) = Inr p"
    using encryptor_forward[OF exProxyLib_documented, of "encryptor_config (exSwitched on) ns exVault reverse" exVault exCodecLib]
      encryptor_reverse[OF exProxyLib_documented, of "encryptor_config (exSwitched on) ns exVault reverse" exVault exCodecLib]
    by (cases reverse) auto
  moreover have "\<exists>a. NewAdminEncryptor exCodecLib exPubLib
      (admin_config (exSwitched on) names (encryptor_config (exSwitched on) ns exVault reverse)) = Inr a"
    by (simp add: NewAdminEncryptor_def newAdminVisit_def exPubLib_def markFailures_def Let_def admin_config_def
        encryptor_config_def EncryptorConfig.defs)
  ultimately show ?thesis by (auto simp: encryptor_side_def Let_def)
qed

lemma ex_built:
  "\<exists>evs v closers outb inb. vault_New exValidation exUrl (exCrypto 9) (exSwitched on) = (evs, Inr v) \<and>
     newEncryptors exEncryptionLib names (exSwitched on) ns = (evs, closers, Inr (outb, inb))"
proof -
  obtain evs v where v: "vault_New exValidation exUrl (exCrypto 9) (exSwitched on) = (evs, Inr v)" using ex_vault by blast
  obtain a b where "encryptor_side exEncryptionLib (exSwitched on) ns names exVault False = Inr a"
    "encryptor_side exEncryptionLib (exSwitched on) ns names exVault True = Inr b" using ex_side by metis
  with v exSwitched_parts(1) show ?thesis by (auto simp: newEncryptors_def Let_def split: prod.split)
qed


theorem proxies_read_each_other_witness:
  "\<exists>evs closers outb inb evs' closers' outb' inb' m.
     NewStaticBiMap [(''orders'', ''orders.acme'')] = Inr m \<and>
     newEncryptors exEncryptionLib Inr (exSwitched True) (Some m) = (evs, closers, Inr (outb, inb)) \<and>
     newEncryptors exEncryptionLib Inr (exSwitched False) None = (evs', closers', Inr (outb', inb')) \<and>
     payloadConn outb (\<lambda>_. payloadConn inb' (\<lambda>_ r. Inr r) (exCtx ''orders.acme'')) (exCtx ''orders'') exMessage = Inr exMessage"
proof -
  obtain m where m: "NewStaticBiMap [(''orders'', ''orders.acme'')] = Inr m" "namespace_label (Some m) ''orders'' = ''orders.acme''"
    by (simp add: NewStaticBiMap_def namespace_label_def bi_GetExists_def)
  obtain evs v closers outb inb where a: "vault_New exValidation exUrl (exCrypto 9) (exSwitched True) = (evs, Inr v)"
    "newEncryptors exEncryptionLib Inr (exSwitched True) (Some m) = (evs, closers, Inr (outb, inb))" using ex_built by blast
  obtain evs' v' closers' outb' inb' where b: "vault_New exValidation exUrl (exCrypto 9) (exSwitched False) = (evs', Inr v')"
    "newEncryptors exEncryptionLib Inr (exSwitched False) None = (evs', closers', Inr (outb', inb'))" using ex_built by blast
  have "namespace_label None ''orders.acme'' = ''orders.acme''" by (simp add: namespace_label_def bi_GetExists_def)
  with proxies_read_each_other[OF exMessages_documented _ _ _ a(2) exSwitched_parts(1) b(2) exSwitched_parts(1), of exPacking v v' "exCtx ''orders''" "''orders''"
      "exCtx ''orders.acme''" "''orders.acme''" exMessage "\<lambda>_ r. Inr r" exMessage]
    a b m exProxyLib_documented exCodecLib_documented exCodecLib_failures exVault_opens exMessage_fresh
  have "payloadConn outb (\<lambda>_. payloadConn inb' (\<lambda>_ r. Inr r) (exCtx ''orders.acme'')) (exCtx ''orders'') exMessage = Inr exMessage"
    by (simp add: exCtx_def)
  with a b m show ?thesis by blast
qed

theorem connection_accounts_for_keys_witness:
  "\<exists>evs closers e. newEncryptors exEncryptionLib Inr (exSwitched True) None = (evs, closers, Inr e) \<and>
     closes evs = [] \<and> mset closers = mset (opens evs)"
proof -
  obtain evs closers e where n: "newEncryptors exEncryptionLib Inr (exSwitched True) None = (evs, closers, Inr e)"
    using ex_built by blast
  have "documented_registry (el_crypto exEncryptionLib)" by (simp add: documented_registry_def exCrypto_def)
  with n connection_accounts_for_keys[OF this n] show ?thesis by blast
qed

end
