(* ===== verification/ProxyMain.thy ===== *)
theory ProxyMain
  imports ClusterClients ClusterEncryption
begin

text \<open>
  \<^verbatim>\<open>proxy/proxy.go\<close> and the rest of \<^verbatim>\<open>proxy/cluster_connection.go\<close>: the proxy is built from its
  configuration, one connection after the other, and every part of it is tied to one lifetime. The model
  keeps apart what the code acquires and what it has registered to be closed when the lifetime ends, so
  that what a failed construction leaves behind is visible. \<^verbatim>\<open>transport/mux/grpc_mux_manager.go\<close> and the
  constructors in \<^verbatim>\<open>establisher.go\<close> and \<^verbatim>\<open>receiver.go\<close> are here as far as they are part of it.
\<close>

section \<open>The lifetime\<close>

text \<open>
  What has to be closed: the two client connections of a named connection, a listener by its address, a
  key of a named connection, the connection to an extension server, an HTTP server, and the server of the
  profiler.
\<close>

datatype 'e resource =
    ClientR string string
  | ListenerR string
  | KeyR string kek
  | ExtensionR 'e
  | HttpR string
  | ProfilerR string

record 'e lifetime =
  acquired :: "'e resource list"
  afterFuncs :: "'e resource list"
  released :: "'e resource list"

definition Background :: "'e lifetime" where
  "Background = \<lparr>acquired = [], afterFuncs = [], released = []\<rparr>"

definition acquire :: "'e resource list \<Rightarrow> 'e lifetime \<Rightarrow> 'e lifetime" where
  "acquire rs lt = lt\<lparr>acquired := acquired lt @ rs\<rparr>"

definition AfterFunc :: "'e resource list \<Rightarrow> 'e lifetime \<Rightarrow> 'e lifetime" where
  "AfterFunc rs lt = lt\<lparr>afterFuncs := afterFuncs lt @ rs\<rparr>"

definition release :: "'e resource list \<Rightarrow> 'e lifetime \<Rightarrow> 'e lifetime" where
  "release rs lt = lt\<lparr>released := released lt @ rs\<rparr>"

definition cancel :: "'e lifetime \<Rightarrow> 'e lifetime" where
  "cancel lt = release (afterFuncs lt) lt"

section \<open>Servers\<close>

text \<open>
  The libraries and the outside world. \<open>e_listen\<close> is \<^verbatim>\<open>net.Listen\<close>, with its error; \<open>e_stubs\<close> are the
  generated clients over the connections of the client and of the managed client; \<open>e_enc\<close> has the
  encryption libraries over the dialed extension servers; \<open>e_names\<close> the resolver of each connection.
\<close>

type_synonym ('r, 'p, 'k, 'm, 'y) upstream = "('r, 'p, 'k) clientConn \<times> ('m, 'y) connEncryptors"

record ('c, 'x, 'p, 'k, 'r, 'm, 'y, 'e) environment =
  e_server :: "'c serverLib"
  e_certs :: "('x, 'p, 'k) certLib"
  e_grpc :: "('r, 'p, 'k) clientLib"
  e_enc :: "(string, 'e) gomap \<Rightarrow> ('m, 'y) encryptionLib"
  e_names :: "string \<Rightarrow> string \<Rightarrow> string + string"
  e_listen :: "string \<Rightarrow> string option"
  e_stubs :: "('r, 'p, 'k, 'm, 'y) upstream \<Rightarrow> ('r, 'p, 'k, 'm, 'y) upstream \<Rightarrow> serverClients"
  e_extension :: "string \<Rightarrow> ('p, 'k) tlsConfig option \<Rightarrow> string + 'e"

type_synonym grpcServer = "string \<Rightarrow> goctx \<Rightarrow> val \<Rightarrow> reply"

datatype ('p, 'k) muxProviderConfig =
    MuxEstablisher string "('p, 'k) tlsConfig option" int
  | MuxReceiver string "('p, 'k) tlsConfig option" int

datatype ('p, 'k) contextAwareServer =
    SimpleGRPCServer string string grpcServer
  | GRPCMuxManager string "('p, 'k) muxProviderConfig" string grpcServer

definition tls_present :: "string + ('p, 'k) tlsConfig option \<Rightarrow> string + ('p, 'k) tlsConfig option" where
  "tls_present r =
     (case r of
        Inl err \<Rightarrow> Inl err
      | Inr None \<Rightarrow> Inl ''tls config was nil even though TLS is enabled''
      | Inr (Some t) \<Rightarrow> Inr (Some t))"

definition NewMuxEstablisherProvider ::
  "('x, 'p, 'k) certLib \<Rightarrow> int \<Rightarrow> TCPTLSInfo \<Rightarrow> string + ('p, 'k) muxProviderConfig" where
  "NewMuxEstablisherProvider C capacity setting =
     (case (if tls_IsEnabled (TLSConfig_of setting) then tls_present (GetClientTLSConfig C (TLSConfig_of setting)) else Inr None) of
        Inl err \<Rightarrow> Inl err
      | Inr tls \<Rightarrow> Inr (MuxEstablisher (ConnectionString setting) tls capacity))"

definition NewMuxReceiverProvider ::
  "('x, 'p, 'k) certLib \<Rightarrow> (string \<Rightarrow> string option) \<Rightarrow> int \<Rightarrow> TCPTLSInfo \<Rightarrow> 'e lifetime \<Rightarrow>
   'e lifetime \<times> (string + ('p, 'k) muxProviderConfig)" where
  "NewMuxReceiverProvider C listen capacity setting lt =
     (case (if tls_IsEnabled (TLSConfig_of setting) then tls_present (GetServerTLSConfig C (TLSConfig_of setting)) else Inr None) of
        Inl err \<Rightarrow> (lt, Inl err)
      | Inr tls \<Rightarrow>
          (case listen (ConnectionString setting) of
             Some err \<Rightarrow> (lt, Inl err)
           | None \<Rightarrow>
               let l = [ListenerR (ConnectionString setting)]
               in (AfterFunc l (acquire l lt), Inr (MuxReceiver (ConnectionString setting) tls capacity))))"

definition NewGRPCMuxManager ::
  "('x, 'p, 'k) certLib \<Rightarrow> (string \<Rightarrow> string option) \<Rightarrow> string \<Rightarrow> ClusterDefinition \<Rightarrow> string \<Rightarrow> grpcServer \<Rightarrow> 'e lifetime \<Rightarrow>
   'e lifetime \<times> (string + ('p, 'k) contextAwareServer)" where
  "NewGRPCMuxManager C listen name cd clientName server lt =
     (let muxCount = DesiredMuxCount (MuxCount cd);
          (lt', r) =
            (if ConnectionType cd = ConnTypeMuxClient then
               (lt, map_sum (\<lambda>err. ''building mux provider failed. '' @ err) id (NewMuxEstablisherProvider C muxCount (MuxAddressInfo cd)))
             else if ConnectionType cd = ConnTypeMuxServer then
               map_prod id (map_sum (\<lambda>err. ''building mux provider failed. '' @ err) id)
                 (NewMuxReceiverProvider C listen muxCount (MuxAddressInfo cd) lt)
             else (lt, Inl (''invalid multiplexed transport mode: name '' @ name @ '', mode '' @ ConnectionType cd)))
      in (lt', map_sum id (\<lambda>p. GRPCMuxManager name p clientName server) r))"

text \<open>The clients of a server are stubs over its client and its managed client.\<close>

definition createTCPServer ::
  "('c, 'x, 'p, 'k, 'r, 'm, 'y, 'e) environment \<Rightarrow> serverConfiguration \<Rightarrow> ClusterDefinition \<Rightarrow> serverClients \<Rightarrow> 'e lifetime \<Rightarrow>
   'e lifetime \<times> (serverError + ('p, 'k) contextAwareServer)" where
  "createTCPServer E c cd clients lt =
     (let addr = ConnectionString (TcpServer cd)
      in case e_listen E addr of
           Some err \<Rightarrow> (lt, Inl (Fails (''invalid configuration for inbound server: '' @ err)))
         | None \<Rightarrow>
             let lt = AfterFunc [ListenerR addr] (acquire [ListenerR addr] lt)
             in (case buildProxyServer (e_server E) (e_certs E) c (TLSConfig_of (TcpServer cd)) clients of
                   Inl (Panics msg) \<Rightarrow> (lt, Inl (Panics msg))
                 | Inl (Fails err) \<Rightarrow> (lt, Inl (Fails (''failed to create inbound server: '' @ err)))
                 | Inr server \<Rightarrow> (lt, Inr (SimpleGRPCServer (sc_name c) addr server))))"

definition noTLS :: TLSConfig where
  "noTLS = \<lparr>CertificatePath = [], KeyPath = [], RemoteCAPath = [], CAServerName = [], SkipCAVerification = False\<rparr>"

text \<open>The managed client of a multiplexed server is asserted to be a multiplexed client.\<close>

definition createServer ::
  "('c, 'x, 'p, 'k, 'r, 'm, 'y, 'e) environment \<Rightarrow> serverConfiguration \<Rightarrow> ClusterDefinition \<Rightarrow>
   ('r, 'p, 'k, 'm, 'y) upstream \<Rightarrow> ('r, 'p, 'k, 'm, 'y) upstream \<Rightarrow> 'e lifetime \<Rightarrow>
   'e lifetime \<times> (serverError + ('p, 'k) contextAwareServer)" where
  "createServer E c cd client managedClient lt =
     (let clients = e_stubs E client managedClient
      in if ConnectionType cd = ConnTypeTCP then createTCPServer E c cd clients lt
         else if ConnectionType cd = ConnTypeMuxClient \<or> ConnectionType cd = ConnTypeMuxServer then
           (case buildProxyServer (e_server E) (e_certs E) c noTLS clients of
              Inl err \<Rightarrow> (lt, Inl err)
            | Inr server \<Rightarrow>
                (case fst managedClient of
                   TCPConn _ _ \<Rightarrow> (lt, Inl (Panics ''interface conversion''))
                 | MuxConn clientName _ \<Rightarrow>
                     map_prod id (map_sum Fails id) (NewGRPCMuxManager (e_certs E) (e_listen E) (sc_name c) cd clientName server lt)))
         else (lt, Inl (Fails ''invalid connection type'')))"

section \<open>Connections\<close>

datatype connError = ClientError string | MappingError ConflictError | EncryptorError string | ServerErr string serverError

record ('p, 'k, 'r, 'm, 'y) ClusterConnection =
  inboundClient :: "('r, 'p, 'k, 'm, 'y) upstream"
  outboundClient :: "('r, 'p, 'k, 'm, 'y) upstream"
  inboundServer :: "('p, 'k) contextAwareServer"
  outboundServer :: "('p, 'k) contextAwareServer"
  cc_shardManager :: shardManagerImpl

text \<open>A client is closed when the lifetime ends, over TCP by the proxy and over muxes by \<^verbatim>\<open>NewMultiClientConn\<close>.\<close>

definition openClient ::
  "('c, 'x, 'p, 'k, 'r, 'm, 'y, 'e) environment \<Rightarrow> string \<Rightarrow> ClusterDefinition \<Rightarrow> string \<Rightarrow> 'r CredentialProvider option \<Rightarrow> 'e lifetime \<Rightarrow>
   'e lifetime \<times> (string + ('r, 'p, 'k) clientConn)" where
  "openClient E name cfg dir credProvider lt =
     (case createClient (e_certs E) (e_grpc E) name cfg dir credProvider of
        Inl err \<Rightarrow> (lt, Inl err)
      | Inr conn \<Rightarrow> (AfterFunc [ClientR name dir] (acquire [ClientR name dir] lt), Inr conn))"

definition openEncryptors ::
  "('c, 'x, 'p, 'k, 'r, 'm, 'y, 'e) environment \<Rightarrow> (string, 'e) gomap \<Rightarrow> string \<Rightarrow> EncryptionConfig \<Rightarrow> staticBiMap option \<Rightarrow> 'e lifetime \<Rightarrow>
   'e lifetime \<times> (string + ('m, 'y) connEncryptors \<times> ('m, 'y) connEncryptors)" where
  "openEncryptors E extensions name cfg ns lt =
     (let (evs, closers, r) = newEncryptors (e_enc E extensions) (e_names E name) cfg ns
      in (AfterFunc (map (KeyR name) closers) (release (map (KeyR name) (closes evs)) (acquire (map (KeyR name) (opens evs)) lt)), r))"

definition settings_of :: "ClusterConnConfig \<Rightarrow> serverSettings" where
  "settings_of c =
     \<lparr>ss_name = sanitizeConnectionName (conn_Name c), ss_FVILocal = fst (FVITranslation c), ss_FVIRemote = snd (FVITranslation c),
      ss_ReplicationEndpoint = conn_ReplicationEndpoint c, ss_Aliases = CustomSearchAttributeAliases c,
      ss_ACLPolicy = conn_ACLPolicy c, ss_ShardCount = conn_ShardCount c\<rparr>"

text \<open>The servers, once the clients are there: the inbound one, which the peer calls, and then the outbound one.\<close>

definition createServers ::
  "('c, 'x, 'p, 'k, 'r, 'm, 'y, 'e) environment \<Rightarrow> ClusterConnConfig \<Rightarrow> staticBiMap option \<Rightarrow> SearchAttributeTranslation \<Rightarrow>
   ('r, 'p, 'k, 'm, 'y) upstream \<Rightarrow> ('r, 'p, 'k, 'm, 'y) upstream \<Rightarrow> 'e lifetime \<Rightarrow>
   'e lifetime \<times> (connError + ('p, 'k, 'r, 'm, 'y) ClusterConnection)" where
  "createServers E c ns sa inb outb lt =
     (case createServer E (inboundCfg (settings_of c) ns sa) (Remote c) inb outb lt of
        (lt, Inl err) \<Rightarrow> (lt, Inl (ServerErr ''inbound'' err))
      | (lt, Inr inServer) \<Rightarrow>
          (case createServer E (outboundCfg (settings_of c) ns sa) (Local c) outb inb lt of
             (lt, Inl err) \<Rightarrow> (lt, Inl (ServerErr ''outbound'' err))
           | (lt, Inr outServer) \<Rightarrow>
               (lt, Inr \<lparr>inboundClient = inb, outboundClient = outb, inboundServer = inServer,
                         outboundServer = outServer,
                         cc_shardManager = NewShardManager (conn_Memberlist c) (ShardCountConfig.Mode (conn_ShardCount c))\<rparr>)))"

definition newClusterConnection ::
  "('c, 'x, 'p, 'k, 'r, 'm, 'y, 'e) environment \<Rightarrow> (string, 'e) gomap \<Rightarrow> 'r CredentialProvider option \<Rightarrow> ClusterConnConfig \<Rightarrow> 'e lifetime \<Rightarrow>
   'e lifetime \<times> (connError + ('p, 'k, 'r, 'm, 'y) ClusterConnection)" where
  "newClusterConnection E extensions credProvider c lt =
     (let name = sanitizeConnectionName (conn_Name c)
      in case openClient E name (Local c) ''inbound'' credProvider lt of
           (lt, Inl err) \<Rightarrow> (lt, Inl (ClientError err))
         | (lt, Inr inbound) \<Rightarrow>
             (case openClient E name (Remote c) ''outbound'' (Some EmptyCredentialProvider) lt of
                (lt, Inl err) \<Rightarrow> (lt, Inl (ClientError err))
              | (lt, Inr outbound) \<Rightarrow>
                  (case fst (AsLocalToRemoteBiMap (NamespaceTranslation c)) of
                     Inl err \<Rightarrow> (lt, Inl (MappingError err))
                   | Inr ns \<Rightarrow>
                       (case fst (AsLocalToRemoteSATranslation (conn_SATranslation c) None) of
                          Inl err \<Rightarrow> (lt, Inl (MappingError err))
                        | Inr sa \<Rightarrow>
                            (case openEncryptors E extensions name (conn_Encryption c) (Some ns) lt of
                               (lt, Inl err) \<Rightarrow> (lt, Inl (EncryptorError err))
                             | (lt, Inr (outEnc, inEnc)) \<Rightarrow>
                                 createServers E c (Some ns) sa (inbound, inEnc) (outbound, outEnc) lt)))))"

section \<open>The proxy\<close>

datatype proxyError =
    InvalidConfig string
  | NoConnections
  | ExtensionError string
  | DuplicateName string
  | ConnectionError string connError
  | UnsupportedProtocol string

record ('p, 'k, 'r, 'm, 'y) Proxy =
  clusterConnections :: "(string, ('p, 'k, 'r, 'm, 'y) ClusterConnection) gomap"
  localHealthCheckConfig :: "(string \<times> string) option"
  remoteHealthCheckConfig :: "(string \<times> string) option"

text \<open>\<^verbatim>\<open>extension.Dial\<close> registers every connection when it is made, and closes them itself when it fails.\<close>

definition dialExtensions ::
  "('c, 'x, 'p, 'k, 'r, 'm, 'y, 'e) environment \<Rightarrow> ExtensionServer list \<Rightarrow> 'e lifetime \<Rightarrow> 'e lifetime \<times> (string + (string, 'e) gomap)" where
  "dialExtensions E servers lt =
     (let (closed, r) = Dial (e_certs E) (e_extension E) servers;
          dialed = map ExtensionR (case r of Inl err \<Rightarrow> closed | Inr conns \<Rightarrow> map snd conns)
      in (release (map ExtensionR closed) (AfterFunc dialed (acquire dialed lt)), r))"

fun connect_all ::
  "('c, 'x, 'p, 'k, 'r, 'm, 'y, 'e) environment \<Rightarrow> (string, 'e) gomap \<Rightarrow> 'r CredentialProvider option \<Rightarrow> ClusterConnConfig list \<Rightarrow>
   (string, ('p, 'k, 'r, 'm, 'y) ClusterConnection) gomap \<Rightarrow> 'e lifetime \<Rightarrow>
   'e lifetime \<times> (proxyError + (string, ('p, 'k, 'r, 'm, 'y) ClusterConnection) gomap)" where
  "connect_all E extensions credProvider [] conns lt = (lt, Inr conns)"
| "connect_all E extensions credProvider (c # cs) conns lt =
     (if gget conns (conn_Name c) \<noteq> None then (lt, Inl (DuplicateName (conn_Name c)))
      else (case newClusterConnection E extensions credProvider c lt of
              (lt, Inl err) \<Rightarrow> (lt, Inl (ConnectionError (conn_Name c) err))
            | (lt, Inr cc) \<Rightarrow> connect_all E extensions credProvider cs (gput (conn_Name c) cc conns) lt))"

text \<open>Whether an error is the panic of a server, which does not return to \<^verbatim>\<open>NewProxy\<close>.\<close>

fun panicked :: "proxyError \<Rightarrow> string option" where
  "panicked (ConnectionError _ (ServerErr _ (Panics msg))) = Some msg"
| "panicked _ = None"

definition health_of :: "string \<times> string \<Rightarrow> (string \<times> string) option" where
  "health_of h = (if snd h \<noteq> [] then Some h else None)"

definition NewProxy ::
  "('c, 'x, 'p, 'k, 'r, 'm, 'y, 'e) environment \<Rightarrow> validation \<Rightarrow> urlParser \<Rightarrow> 'r CredentialProvider option \<Rightarrow> S2SProxyConfig \<Rightarrow>
   'e lifetime \<times> (proxyError + ('p, 'k, 'r, 'm, 'y) Proxy)" where
  "NewProxy E V url credProvider cfg =
     (case proxy_Validate V url cfg of
        Some err \<Rightarrow> (Background, Inl (InvalidConfig err))
      | None \<Rightarrow>
          if ClusterConnections cfg = [] then (cancel Background, Inl NoConnections)
          else
            (case dialExtensions E (ExtensionServers cfg) Background of
               (lt, Inl err) \<Rightarrow> (cancel lt, Inl (ExtensionError err))
             | (lt, Inr extensions) \<Rightarrow>
                 (case connect_all E extensions credProvider (ClusterConnections cfg) [] lt of
                    (lt, Inl err) \<Rightarrow> (if panicked err = None then cancel lt else lt, Inl err)
                  | (lt, Inr conns) \<Rightarrow>
                      (lt, Inr \<lparr>clusterConnections = conns,
                                localHealthCheckConfig = health_of (LocalClusterHealthCheck (hd (ClusterConnections cfg))),
                                remoteHealthCheckConfig = health_of (RemoteClusterHealthCheck (hd (ClusterConnections cfg)))\<rparr>))))"

definition startHealthCheckHandler :: "(string \<times> string) option \<Rightarrow> 'e lifetime \<Rightarrow> 'e lifetime \<times> proxyError option" where
  "startHealthCheckHandler h lt =
     (case h of
        None \<Rightarrow> (lt, None)
      | Some (protocol, addr) \<Rightarrow>
          if protocol \<noteq> ''http'' then (lt, Some (UnsupportedProtocol protocol))
          else (AfterFunc [HttpR addr] (acquire [HttpR addr] lt), None))"

definition startPProfHTTPServer :: "string option \<Rightarrow> 'e lifetime \<Rightarrow> 'e lifetime" where
  "startPProfHTTPServer addr lt =
     (case addr of None \<Rightarrow> lt | Some a \<Rightarrow> if a = [] then lt else acquire [ProfilerR a] lt)"

definition startMetricsHandler :: "string option \<Rightarrow> 'e lifetime \<Rightarrow> 'e lifetime" where
  "startMetricsHandler addr lt = (case addr of None \<Rightarrow> lt | Some a \<Rightarrow> AfterFunc [HttpR a] (acquire [HttpR a] lt))"

text \<open>
  The names of the connections that are started. \<open>pprof\<close> and \<open>metrics\<close> are the addresses of the profiler and
  of the metrics server, when they are configured.
\<close>

definition proxy_Start ::
  "string option \<Rightarrow> string option \<Rightarrow> ('p, 'k, 'r, 'm, 'y) Proxy \<Rightarrow> 'e lifetime \<Rightarrow> 'e lifetime \<times> (proxyError + string list)" where
  "proxy_Start pprof metrics p lt =
     (case startHealthCheckHandler (localHealthCheckConfig p) (startPProfHTTPServer pprof lt) of
        (lt, Some err) \<Rightarrow> (lt, Inl err)
      | (lt, None) \<Rightarrow>
          (case startHealthCheckHandler (remoteHealthCheckConfig p) lt of
             (lt, Some err) \<Rightarrow> (lt, Inl err)
           | (lt, None) \<Rightarrow> (startMetricsHandler metrics lt, Inr (gkeys (clusterConnections p)))))"

definition proxy_Stop :: "'e lifetime \<Rightarrow> 'e lifetime" where
  "proxy_Stop lt = cancel lt"

section \<open>Nothing is left behind\<close>

text \<open>Whatever was acquired is closed already or registered to be closed.\<close>

definition owned :: "'e lifetime \<Rightarrow> bool" where
  "owned lt \<longleftrightarrow> set (acquired lt) \<subseteq> set (afterFuncs lt) \<union> set (released lt)"

lemma Background_parts [simp]: "acquired Background = []" "released Background = []" "owned Background"
  by (simp_all add: owned_def Background_def)

lemmas lifetime_defs = acquire_def AfterFunc_def release_def

lemma owned_acquire [simp]: "owned lt \<Longrightarrow> owned (AfterFunc rs (acquire rs lt))" "released (AfterFunc rs (acquire rs lt)) = released lt"
  by (auto simp: owned_def lifetime_defs)

lemma acquired_cancel [simp]: "acquired (cancel lt) = acquired lt"
  by (simp add: cancel_def lifetime_defs)

lemma owned_cancel: "owned lt \<Longrightarrow> set (acquired (cancel lt)) \<subseteq> set (released (cancel lt))"
  by (auto simp: owned_def cancel_def lifetime_defs)

lemma openClient_owned:
  "openClient E name cfg dir p lt = (lt', r) \<Longrightarrow> owned lt \<Longrightarrow> owned lt' \<and> released lt' = released lt"
  by (auto simp: openClient_def split: sum.splits)

lemma openEncryptors_owned:
  assumes "documented_registry (el_crypto (e_enc E extensions))" "openEncryptors E extensions name cfg ns lt = (lt', r)" "owned lt"
  shows "owned lt' \<and> (\<forall>e. r = Inr e \<longrightarrow> released lt' = released lt)"
proof -
  obtain evs closers where n: "newEncryptors (e_enc E extensions) (e_names E name) cfg ns = (evs, closers, r)"
    and lt': "lt' = AfterFunc (map (KeyR name) closers) (release (map (KeyR name) (closes evs)) (acquire (map (KeyR name) (opens evs)) lt))"
    using assms(2) by (auto simp: openEncryptors_def split: prod.splits)
  have "(\<exists>err. r = Inl err) \<and> set (closes evs) = set (opens evs) \<or>
      (\<exists>e. r = Inr e) \<and> closes evs = [] \<and> set closers = set (opens evs)"
    using keys_accounted[OF assms(1) n] by (cases r) (auto dest: mset_eq_setD)
  then show ?thesis using assms(3) unfolding lt' by (auto simp: owned_def lifetime_defs)
qed

lemma NewMuxReceiverProvider_owned:
  "NewMuxReceiverProvider C listen n setting lt = (lt', r) \<Longrightarrow> owned lt \<Longrightarrow> owned lt' \<and> released lt' = released lt"
  by (simp add: NewMuxReceiverProvider_def Let_def split: sum.splits option.splits) auto

lemma NewGRPCMuxManager_owned:
  "NewGRPCMuxManager C listen name cd cn server lt = (lt', r) \<Longrightarrow> owned lt \<Longrightarrow> owned lt' \<and> released lt' = released lt"
  using NewMuxReceiverProvider_owned[of C listen "DesiredMuxCount (MuxCount cd)" "MuxAddressInfo cd" lt]
  by (cases "NewMuxReceiverProvider C listen (DesiredMuxCount (MuxCount cd)) (MuxAddressInfo cd) lt")
    (auto simp: NewGRPCMuxManager_def Let_def split: if_splits)

lemma createTCPServer_owned:
  "createTCPServer E c cd clients lt = (lt', r) \<Longrightarrow> owned lt \<Longrightarrow> owned lt' \<and> released lt' = released lt"
  by (simp add: createTCPServer_def Let_def split: option.splits sum.splits serverError.splits) auto

lemma createServer_owned:
  assumes "createServer E c cd client managed lt = (lt', r)" "owned lt"
  shows "owned lt' \<and> released lt' = released lt"
proof (cases "ConnectionType cd = ConnTypeTCP")
  case True
  with assms(1) have "createTCPServer E c cd (e_stubs E client managed) lt = (lt', r)" by (simp add: createServer_def)
  from createTCPServer_owned[OF this assms(2)] show ?thesis .
next
  case False
  let ?b = "buildProxyServer (e_server E) (e_certs E) c noTLS (e_stubs E client managed)"
  show ?thesis
  proof (cases "\<exists>server n d. ?b = Inr server \<and> fst managed = MuxConn n d \<and>
      (ConnectionType cd = ConnTypeMuxClient \<or> ConnectionType cd = ConnTypeMuxServer)")
    case True
    then obtain server n d where "?b = Inr server" "fst managed = MuxConn n d"
      "ConnectionType cd = ConnTypeMuxClient \<or> ConnectionType cd = ConnTypeMuxServer" by blast
    with assms(1) False obtain r' where "NewGRPCMuxManager (e_certs E) (e_listen E) (sc_name c) cd n server lt = (lt', r')"
      by (auto simp: createServer_def Let_def map_prod_def split: prod.splits)
    from NewGRPCMuxManager_owned[OF this assms(2)] show ?thesis .
  next
    case neither: False
    have "lt' = lt"
      using assms(1) False neither by (auto simp: createServer_def Let_def split: sum.splits clientConn.splits if_splits)
    then show ?thesis using assms(2) by simp
  qed
qed

text \<open>The only panic: the search attributes of more than one namespace.\<close>

abbreviation saPanic :: string where
  "saPanic \<equiv> ''multiple namespace search attribute mappings are not supported''"

lemma build_panics: "buildProxyServer L C c tls clients = Inl (Panics msg) \<Longrightarrow> msg = saPanic"
  by (auto simp: buildProxyServer_def makeServerOptions_def translators_def Let_def split: sum.splits serverError.splits if_splits)

lemma client_kind:
  "createClient C G name cfg dir p = Inr (TCPConn a d) \<Longrightarrow> ConnectionType cfg = ConnTypeTCP"
  "createClient C G name cfg dir p = Inr (MuxConn n d) \<Longrightarrow> ConnectionType cfg = ConnTypeMuxClient \<or> ConnectionType cfg = ConnTypeMuxServer"
  by (auto simp: createClient_def buildTLSTCPClient_def Let_def split: sum.splits option.splits if_splits)

lemma createServer_panics:
  assumes "createServer E c cd client (conn, e) lt = (lt', Inl (Panics msg))"
    and "createClient C G name cd dir p = Inr conn"
  shows "msg = saPanic"
proof (cases conn)
  case (TCPConn a d)
  then have "ConnectionType cd = ConnTypeTCP" using client_kind(1) assms(2) by blast
  then show ?thesis
    using assms(1) by (auto simp: createServer_def createTCPServer_def Let_def dest: build_panics
        split: option.splits sum.splits serverError.splits)
next
  case (MuxConn n d)
  then have "ConnectionType cd = ConnTypeMuxClient \<or> ConnectionType cd = ConnTypeMuxServer" using client_kind(2) assms(2) by blast
  then have "ConnectionType cd \<noteq> ConnTypeTCP" by (auto simp: ConnTypeTCP_def ConnTypeMuxClient_def ConnTypeMuxServer_def)
  then show ?thesis
    using assms(1) MuxConn
    by (auto simp: createServer_def Let_def map_prod_def dest: build_panics split: sum.splits if_splits prod.splits)
      (auto simp: map_sum_def split: sum.splits)
qed

lemma createServers_owned:
  assumes "createServers E c ns sa inb outb lt = (lt', r)" "owned lt"
  shows "owned lt' \<and> released lt' = released lt"
proof -
  obtain lt1 r1 where s: "createServer E (inboundCfg (settings_of c) ns sa) (Remote c) inb outb lt = (lt1, r1)" by (metis surj_pair)
  note o = createServer_owned[OF s assms(2)]
  obtain lt2 r2 where t: "createServer E (outboundCfg (settings_of c) ns sa) (Local c) outb inb lt1 = (lt2, r2)" by (metis surj_pair)
  note p = createServer_owned[OF t]
  show ?thesis
    using assms(1) s t o p by (simp add: createServers_def split: sum.splits)
qed

text \<open>How the construction of a connection can go.\<close>

lemma newClusterConnection_cases:
  assumes "newClusterConnection E exts cp c lt = (lt', r)"
  obtains (early) lt1 r1 lt2 r2 where "openClient E (sanitizeConnectionName (conn_Name c)) (Local c) ''inbound'' cp lt = (lt1, r1)"
      "openClient E (sanitizeConnectionName (conn_Name c)) (Remote c) ''outbound'' (Some EmptyCredentialProvider) lt1 = (lt2, r2)"
      "lt' = lt1 \<or> lt' = lt2" "\<exists>err. r = Inl err \<and> panicked (ConnectionError n err) = None"
  | (encryptors) lt1 inb lt2 outb ns err where
      "openClient E (sanitizeConnectionName (conn_Name c)) (Local c) ''inbound'' cp lt = (lt1, Inr inb)"
      "openClient E (sanitizeConnectionName (conn_Name c)) (Remote c) ''outbound'' (Some EmptyCredentialProvider) lt1 = (lt2, Inr outb)"
      "openEncryptors E exts (sanitizeConnectionName (conn_Name c)) (conn_Encryption c) ns lt2 = (lt', Inl err)"
      "r = Inl (EncryptorError err)"
  | (servers) lt1 inb lt2 outb ns sa lt3 inE outE where
      "openClient E (sanitizeConnectionName (conn_Name c)) (Local c) ''inbound'' cp lt = (lt1, Inr inb)"
      "openClient E (sanitizeConnectionName (conn_Name c)) (Remote c) ''outbound'' (Some EmptyCredentialProvider) lt1 = (lt2, Inr outb)"
      "openEncryptors E exts (sanitizeConnectionName (conn_Name c)) (conn_Encryption c) ns lt2 = (lt3, Inr (outE, inE))"
      "createServers E c ns sa (inb, inE) (outb, outE) lt3 = (lt', r)"
proof -
  let ?n = "sanitizeConnectionName (conn_Name c)"
  obtain lt1 r1 where 1: "openClient E ?n (Local c) ''inbound'' cp lt = (lt1, r1)" by (metis surj_pair)
  obtain lt2 r2 where 2: "openClient E ?n (Remote c) ''outbound'' (Some EmptyCredentialProvider) lt1 = (lt2, r2)" by (metis surj_pair)
  show ?thesis
  proof (cases "\<exists>inb outb ns sa. r1 = Inr inb \<and> r2 = Inr outb \<and> fst (AsLocalToRemoteBiMap (NamespaceTranslation c)) = Inr ns \<and>
      fst (AsLocalToRemoteSATranslation (conn_SATranslation c) None) = Inr sa")
    case False
    with assms 1 2 show ?thesis
      by (intro early[OF 1 2]) (auto simp: newClusterConnection_def Let_def split: sum.splits)
  next
    case True
    then obtain inb outb ns sa where r: "r1 = Inr inb" "r2 = Inr outb" "fst (AsLocalToRemoteBiMap (NamespaceTranslation c)) = Inr ns"
      "fst (AsLocalToRemoteSATranslation (conn_SATranslation c) None) = Inr sa" by blast
    obtain lt3 r3 where 3: "openEncryptors E exts ?n (conn_Encryption c) (Some ns) lt2 = (lt3, r3)" by (metis surj_pair)
    note d = assms[unfolded newClusterConnection_def Let_def, simplified 1 2 3 r, simplified]
    show ?thesis
    proof (cases r3)
      case (Inl err)
      with d 3 show ?thesis using encryptors 1 2 r by auto
    next
      case (Inr e)
      obtain outE inE where "e = (outE, inE)" by (cases e)
      with d 3 Inr show ?thesis using servers 1 2 r by auto
    qed
  qed
qed

lemma newClusterConnection_owned:
  assumes "documented_registry (el_crypto (e_enc E exts))" "newClusterConnection E exts cp c lt = (lt', r)" "owned lt"
  shows "owned lt' \<and> (\<forall>cc. r = Inr cc \<longrightarrow> released lt' = released lt) \<and>
    (\<forall>err msg. r = Inl err \<and> panicked (ConnectionError n err) = Some msg \<longrightarrow> msg = saPanic)"
  using assms(2)
proof (cases rule: newClusterConnection_cases[where n = n])
  case (early lt1 r1 lt2 r2)
  from openClient_owned[OF early(1) assms(3)] have 1: "owned lt1" by simp
  from openClient_owned[OF early(2) 1] have "owned lt2" by simp
  with 1 early(3,4) show ?thesis by auto
next
  case (encryptors lt1 inb lt2 outb ns err)
  from openClient_owned[OF encryptors(1) assms(3)] have 1: "owned lt1" by simp
  from openClient_owned[OF encryptors(2) 1] have 2: "owned lt2" by simp
  from openEncryptors_owned[OF assms(1) encryptors(3) 2] show ?thesis using encryptors(4) by simp
next
  case (servers lt1 inb lt2 outb ns sa lt3 inE outE)
  from openClient_owned[OF servers(1) assms(3)] have 1: "owned lt1" "released lt1 = released lt" by simp_all
  from openClient_owned[OF servers(2) 1(1)] have 2: "owned lt2" "released lt2 = released lt1" by simp_all
  from openEncryptors_owned[OF assms(1) servers(3) 2(1)] have 3: "owned lt3" "released lt3 = released lt2" by simp_all
  have i: "createClient (e_certs E) (e_grpc E) (sanitizeConnectionName (conn_Name c)) (Local c) ''inbound'' cp = Inr inb"
    "createClient (e_certs E) (e_grpc E) (sanitizeConnectionName (conn_Name c)) (Remote c) ''outbound'' (Some EmptyCredentialProvider) = Inr outb"
    using servers(1,2) by (auto simp: openClient_def split: sum.splits)
  have "msg = saPanic" if p: "r = Inl err" "panicked (ConnectionError n err) = Some msg" for err msg
  proof -
    obtain d where "err = ServerErr d (Panics msg)" using p(2) by (cases "ConnectionError n err" rule: panicked.cases) auto
    then show ?thesis
      using servers(4) p(1) createServer_panics[OF _ i(1)] createServer_panics[OF _ i(2)]
      by (auto simp: createServers_def split: prod.splits sum.splits)
  qed
  with createServers_owned[OF servers(4) 3(1)] 1 2 3 show ?thesis by auto
qed

lemma connect_all_owned:
  assumes "documented_registry (el_crypto (e_enc E exts))" "connect_all E exts cp cs conns lt = (lt', r)" "owned lt"
  shows "owned lt' \<and>
    (\<forall>out. r = Inr out \<longrightarrow> released lt' = released lt \<and> gkeys out = gkeys conns @ map conn_Name cs \<and>
       distinct (map conn_Name cs) \<and> set (map conn_Name cs) \<inter> set (gkeys conns) = {}) \<and>
    (\<forall>err msg. r = Inl err \<and> panicked err = Some msg \<longrightarrow> msg = saPanic)"
  using assms(2,3)
proof (induction cs arbitrary: conns lt)
  case (Cons c cs)
  show ?case
  proof (cases "gget conns (conn_Name c)")
    case None
    obtain lt1 r1 where n: "newClusterConnection E exts cp c lt = (lt1, r1)" by (metis surj_pair)
    note o = newClusterConnection_owned[OF assms(1) n Cons.prems(2), of "conn_Name c"]
    show ?thesis
    proof (cases r1)
      case (Inl err)
      with Cons.prems(1) None n o show ?thesis by auto
    next
      case (Inr cc)
      have k: "conn_Name c \<notin> set (gkeys conns)" using None gget_None_iff by metis
      then have "gkeys (gput (conn_Name c) cc conns) = gkeys conns @ [conn_Name c]" by (induction conns) auto
      with Cons.IH[of "gput (conn_Name c) cc conns" lt1] Cons.prems(1) None n o Inr k show ?thesis by auto
    qed
  qed (use Cons.prems in auto)
qed auto

lemma dialExtensions_owned:
  assumes "dialExtensions E servers lt = (lt', r)" "owned lt"
  shows "owned lt' \<and> (\<forall>conns. r = Inr conns \<longrightarrow> released lt' = released lt)"
proof -
  obtain closed where d: "Dial (e_certs E) (e_extension E) servers = (closed, r)"
    and lt': "lt' = release (map ExtensionR closed) (let dialed = map ExtensionR (case r of Inl err \<Rightarrow> closed | Inr conns \<Rightarrow> map snd conns)
      in AfterFunc dialed (acquire dialed lt))"
    using assms(1) by (auto simp: dialExtensions_def Let_def split: prod.splits)
  have "closed = []" if "r = Inr conns" for conns using dial_loop_ok d that unfolding Dial_def by blast
  then show ?thesis using assms(2) unfolding lt' Let_def by (auto simp: owned_def lifetime_defs)
qed

text \<open>The same, but for the resources of a set.\<close>

definition owned_but :: "'e resource set \<Rightarrow> 'e lifetime \<Rightarrow> bool" where
  "owned_but S lt \<longleftrightarrow> set (acquired lt) \<subseteq> set (afterFuncs lt) \<union> set (released lt) \<union> S"

lemma owned_but_acquire: "owned_but S lt \<Longrightarrow> owned_but S (AfterFunc rs (acquire rs lt))"
  by (auto simp: owned_but_def lifetime_defs)

lemma startHealthCheckHandler_owned: "startHealthCheckHandler h lt = (lt', r) \<Longrightarrow> owned_but S lt \<Longrightarrow> owned_but S lt'"
  by (auto simp: startHealthCheckHandler_def owned_but_acquire split: option.splits if_splits)

lemma proxy_Start_owned:
  assumes "proxy_Start pprof addr p lt = (lt', r)" "owned lt"
  shows "owned_but (ProfilerR ` set_option pprof) lt'"
proof -
  let ?S = "ProfilerR ` set_option pprof"
  obtain lt1 r1 where 1: "startHealthCheckHandler (localHealthCheckConfig p) (startPProfHTTPServer pprof lt) = (lt1, r1)" by (metis surj_pair)
  obtain lt2 r2 where 2: "startHealthCheckHandler (remoteHealthCheckConfig p) lt1 = (lt2, r2)" by (metis surj_pair)
  have "owned_but ?S (startPProfHTTPServer pprof lt)"
    using assms(2) by (auto simp: owned_but_def owned_def startPProfHTTPServer_def acquire_def split: option.split)
  from startHealthCheckHandler_owned[OF 1 this] have o: "owned_but ?S lt1" .
  from startHealthCheckHandler_owned[OF 2 this] have "owned_but ?S lt2" .
  with o show ?thesis
    using assms(1) 1 2 by (auto simp: proxy_Start_def startMetricsHandler_def owned_but_acquire split: option.splits)
qed

section \<open>Properties\<close>

text \<open>
  C4: A proxy is built whole or not at all. When \<^verbatim>\<open>NewProxy\<close> returns an error, everything it had acquired on
  the way has been closed: the connections to extension servers, the clients, the listeners and the keys
  of every connection it had begun. When it returns a proxy, nothing has been closed, the proxy has one
  connection for each in the configuration and their names are distinct; and after starting it, stopping
  it closes whatever was acquired, but for the server of the profiler. The construction panics for one reason only, that a connection
  translates the search attributes of more than one namespace: the client that a multiplexed server
  manages always is a multiplexed one.
\<close>

theorem proxy_accounts_for_resources:
  assumes "\<forall>exts. documented_registry (el_crypto (e_enc E exts))" "NewProxy E V url cp cfg = (lt, r)"
  shows "(\<forall>err. r = Inl err \<longrightarrow> (case panicked err of
       None \<Rightarrow> set (acquired lt) \<subseteq> set (released lt)
     | Some msg \<Rightarrow> msg = ''multiple namespace search attribute mappings are not supported'')) \<and>
    (\<forall>p. r = Inr p \<longrightarrow> released lt = [] \<and> gkeys (clusterConnections p) = map conn_Name (ClusterConnections cfg) \<and>
       distinct (gkeys (clusterConnections p)) \<and> ClusterConnections cfg \<noteq> [] \<and>
       (\<forall>pprof addr lt' started. proxy_Start pprof addr p lt = (lt', started) \<longrightarrow>
          set (acquired lt') \<subseteq> set (released (proxy_Stop lt')) \<union> ProfilerR ` set_option pprof))"
proof -
  have stop: "set (acquired l) \<subseteq> set (released (proxy_Stop l)) \<union> S" if "owned_but S l" for l S
    using that by (auto simp: owned_but_def proxy_Stop_def cancel_def lifetime_defs)
  obtain lt1 r1 where d: "dialExtensions E (ExtensionServers cfg) Background = (lt1, r1)" by (metis surj_pair)
  note D = dialExtensions_owned[OF d Background_parts(3)]
  show ?thesis
  proof (cases "proxy_Validate V url cfg = None \<and> ClusterConnections cfg \<noteq> [] \<and> (\<exists>exts. r1 = Inr exts)")
    case False
    then have "(lt = Background \<or> lt = cancel Background \<or> lt = cancel lt1) \<and> (\<exists>err. r = Inl err \<and> panicked err = None)"
      using assms(2) d by (auto simp: NewProxy_def split: option.splits if_splits sum.splits)
    then show ?thesis using owned_cancel[of lt1] D by auto
  next
    case True
    then obtain exts where e: "r1 = Inr exts" by blast
    obtain lt2 r2 where c: "connect_all E exts cp (ClusterConnections cfg) [] lt1 = (lt2, r2)" by (metis surj_pair)
    note C = connect_all_owned[OF assms(1)[rule_format] c conjunct1[OF D]]
    show ?thesis
    proof (cases r2)
      case (Inl err)
      then have "r = Inl err" "lt = (if panicked err = None then cancel lt2 else lt2)"
        using assms(2) True d e c by (auto simp: NewProxy_def)
      with C Inl owned_cancel[of lt2] show ?thesis by (auto split: option.splits)
    next
      case (Inr conns)
      then obtain p where p: "r = Inr p" "lt = lt2" "clusterConnections p = conns"
        using assms(2) True d e c by (auto simp: NewProxy_def)
      have "set (acquired lt') \<subseteq> set (released (proxy_Stop lt')) \<union> ProfilerR ` set_option pprof"
        if "proxy_Start pprof addr p lt = (lt', started)" for pprof addr lt' started
        using stop[OF proxy_Start_owned[OF that]] C p(2) by simp
      with p C D Inr e True show ?thesis by auto
    qed
  qed
qed

text \<open>
  A proxy with two connections, for which the second address to listen on is taken: the keys and clients
  of the first connection are closed again.
\<close>

definition exEnvironment ::
  "string list \<Rightarrow> (unit, char, string, string, unit, exMsg, string, string) environment" where
  "exEnvironment taken =
     \<lparr>e_server = exServer, e_certs = exCerts, e_grpc = exGrpc, e_enc = (\<lambda>_. exEncryptionLib), e_names = (\<lambda>_. Inr),
      e_listen = (\<lambda>a. if a \<in> set taken then Some ''address in use'' else None), e_stubs = (\<lambda>_ _. exClients),
      e_extension = (\<lambda>a _. Inr a)\<rparr>"

definition exPlain :: "string \<Rightarrow> ClusterDefinition" where
  "exPlain a =
     \<lparr>ConnectionType = ConnTypeTCP, TcpClient = \<lparr>ConnectionString = ''host:1'', TLSConfig_of = noTLS\<rparr>,
      TcpServer = \<lparr>ConnectionString = a, TLSConfig_of = noTLS\<rparr>, MuxCount = 0,
      MuxAddressInfo = \<lparr>ConnectionString = [], TLSConfig_of = noTLS\<rparr>, Credentials = None\<rparr>"

definition exProxyConfig :: S2SProxyConfig where
  "exProxyConfig =
     \<lparr>ClusterConnections = [exConn\<lparr>Local := exPlain ''host:2'', Remote := exPlain ''host:3''\<rparr>], ExtensionServers = []\<rparr>"

lemma exProxyConfig_refs: "list_all passes (referentialRules exUrl exEncryption prefix known)"
proof -
  have "\<not> EqualFold (takeWhile (\<lambda>c. c \<noteq> CHR '':'') u) ExtensionKeyScheme"
    if "u \<in> {''testing://secret'', ''awskms://old'', ''awskms://orders''}" for u
    using that by (auto simp: EqualFold_def to_lower_def ExtensionKeyScheme_def)
  then have "passes (extensionRef exUrl subject f u known)"
    if "u \<in> {''testing://secret'', ''awskms://old'', ''awskms://orders''}" for u subject f
    using that by (simp add: extensionRef_def exUrl_def)
  then show ?thesis by (simp add: referentialRules_def policy_refs_def exEncryption_def sorted_keys_def)
qed

lemma exProxyConfig_valid: "proxy_Validate exValidation exUrl exProxyConfig = None"
proof -
  let ?c = "exConn\<lparr>Local := exPlain ''host:2'', Remote := exPlain ''host:3''\<rparr>"
  have c: "conn_Encryption ?c = exEncryption" "ClusterConnections exProxyConfig = [?c]" "ExtensionServers exProxyConfig = []"
    by (simp_all add: exProxyConfig_def exConn_def)
  have "conn_Validate exValidation exUrl ?c = None"
    using exValidation_documented exEncryption_valid c(1)
    by (simp add: conn_Validate_def documented_validation_def exPlain_def check_identity_def check_remote_def CredentialIdentity_def)
  moreover have "extensions_Validate exValidation [] = None" by (simp add: extensions_Validate_def exValidation_def)
  ultimately show ?thesis
    using exValidation_documented exProxyConfig_refs[of "conn_prefix 0" "[]"]
    by (simp add: proxy_Validate_def c documented_validation_def extension_names_def Let_def del: ClusterConnConfig.update_convs)
qed

lemma ex_client:
  "openClient (exEnvironment taken) n (exPlain a) dir p lt = (AfterFunc [ClientR n dir] (acquire [ClientR n dir] lt),
     Inr (TCPConn ''host:1'' (MakeDialOptions None [\<lparr>PerRPCCredentials = None, StripOutgoingMetadataKeys = []\<rparr>])))"
  by (simp add: openClient_def createClient_def identity_options_def buildTLSTCPClient_def exEnvironment_def exPlain_def exGrpc_def
      CredentialIdentity_def tls_IsEnabled_def noTLS_def Let_def)

lemma ex_listens:
  assumes "sa_LenNamespaces (saTranslations c) = 0"
  shows "\<exists>s. createServer (exEnvironment taken) c (exPlain a) u v lt =
    (if a \<in> set taken then (lt, Inl (Fails ''invalid configuration for inbound server: address in use''))
     else (AfterFunc [ListenerR a] (acquire [ListenerR a] lt), Inr s))"
proof -
  obtain s where "buildProxyServer exServer exCerts c noTLS (e_stubs (exEnvironment taken) u v) = Inr s"
    using exServer_builds[OF assms] unfolding noTLS_def by blast
  then show ?thesis
    by (simp add: createServer_def createTCPServer_def exPlain_def Let_def) (simp add: exEnvironment_def)
qed

theorem proxy_accounts_for_resources_witness:
  "\<exists>lt err. NewProxy (exEnvironment [''host:2'']) exValidation exUrl None exProxyConfig = (lt, Inl err) \<and>
     panicked err = None \<and> ListenerR ''host:3'' \<in> set (acquired lt) \<and> set (acquired lt) \<subseteq> set (released lt)"
proof -
  define c where "c = exConn\<lparr>Local := exPlain ''host:2'', Remote := exPlain ''host:3''\<rparr>"
  have sides: "Local c = exPlain ''host:2''" "Remote c = exPlain ''host:3''" by (simp_all add: c_def)
  let ?E = "exEnvironment [''host:2'']" and ?sa = "\<lparr>inner = [], inverted = False\<rparr>" and ?n = "sanitizeConnectionName (conn_Name c)"
  obtain ns where ns: "fst (AsLocalToRemoteBiMap (NamespaceTranslation c)) = Inr ns"
    by (simp add: c_def exConn_def AsLocalToRemoteBiMap_def NewStaticBiMap_def)
  have sa: "fst (AsLocalToRemoteSATranslation (conn_SATranslation c) None) = Inr ?sa"
    by (simp add: c_def exConn_def AsLocalToRemoteSATranslation_def Let_def)
  have "exSwitched True = exEncryption" by (simp add: exEncryption_def)
  then obtain evs closers outb inb where "newEncryptors exEncryptionLib Inr (conn_Encryption c) (Some ns) = (evs, closers, Inr (outb, inb))"
    using ex_built[of True Inr "Some ns"] by (auto simp: c_def exConn_def)
  then have enc: "\<exists>lt'. openEncryptors ?E exts ?n (conn_Encryption c) (Some ns) lt = (lt', Inr (outb, inb))" for exts lt
    by (simp add: openEncryptors_def exEnvironment_def)
  have len: "sa_LenNamespaces (saTranslations (inboundCfg (settings_of c) ns' ?sa)) = 0"
    "sa_LenNamespaces (saTranslations (outboundCfg (settings_of c) ns' ?sa)) = 0" for ns'
    by (simp_all add: inboundCfg_def outboundCfg_def sa_LenNamespaces_def sa_Inverse_def)
  have servers: "\<exists>lt'. createServers ?E c (Some ns) ?sa i o' lt = (lt', Inl (ServerErr ''outbound''
      (Fails ''invalid configuration for inbound server: address in use''))) \<and> ListenerR ''host:3'' \<in> set (acquired lt')" for i o' lt
  proof -
    obtain s where s: "createServer ?E (inboundCfg (settings_of c) (Some ns) ?sa) (exPlain ''host:3'') i o' lt =
        (AfterFunc [ListenerR ''host:3''] (acquire [ListenerR ''host:3''] lt), Inr s)"
      using ex_listens[OF len(1)[of "Some ns"], where taken = "[''host:2'']" and a = "''host:3''" and u = i and v = o' and lt = lt]
      by auto
    have "createServer ?E (outboundCfg (settings_of c) (Some ns) ?sa) (exPlain ''host:2'') o' i lt' =
        (lt', Inl (Fails ''invalid configuration for inbound server: address in use''))" for lt'
      using ex_listens[OF len(2)[of "Some ns"], where taken = "[''host:2'']" and a = "''host:2''" and u = o' and v = i and lt = lt']
      by auto
    with s show ?thesis by (simp add: createServers_def sides lifetime_defs)
  qed
  have conn: "\<exists>lt' err. newClusterConnection ?E exts None c lt = (lt', Inl err) \<and> panicked (ConnectionError nm err) = None \<and>
      ListenerR ''host:3'' \<in> set (acquired lt')" for exts lt nm
  proof -
    obtain lt' where "openEncryptors ?E exts ?n (conn_Encryption c) (Some ns)
        (AfterFunc [ClientR ?n ''outbound''] (acquire [ClientR ?n ''outbound'']
          (AfterFunc [ClientR ?n ''inbound''] (acquire [ClientR ?n ''inbound''] lt)))) = (lt', Inr (outb, inb))"
      using enc by blast
    then show ?thesis
      using servers[of _ _ lt'] by (fastforce simp: newClusterConnection_def ex_client sides ns sa Let_def)
  qed
  obtain exts lt0 where d: "dialExtensions ?E [] Background = (lt0, Inr exts)" by (simp add: dialExtensions_def Dial_def)
  from conn obtain lt1 err where "newClusterConnection ?E exts None c lt0 = (lt1, Inl err)"
    "panicked (ConnectionError (conn_Name c) err) = None" "ListenerR ''host:3'' \<in> set (acquired lt1)" by blast
  moreover have "ClusterConnections exProxyConfig = [c]" "ExtensionServers exProxyConfig = []" by (simp_all add: exProxyConfig_def c_def)
  ultimately have n: "NewProxy ?E exValidation exUrl None exProxyConfig = (cancel lt1, Inl (ConnectionError (conn_Name c) err))"
    "panicked (ConnectionError (conn_Name c) err) = None" "ListenerR ''host:3'' \<in> set (acquired (cancel lt1))"
    using exProxyConfig_valid d by (simp_all add: NewProxy_def)
  have "\<forall>exts. documented_registry (el_crypto (e_enc ?E exts))"
    by (simp add: exEnvironment_def documented_registry_def exCrypto_def)
  from proxy_accounts_for_resources[OF this n(1)] n show ?thesis by auto
qed

text \<open>The server of the profiler is not tied to the lifetime: it outlives the proxy that started it.\<close>

lemma profiler_outlives_proxy:
  assumes "proxy_Start (Some addr) metrics p lt = (lt', Inr names)" "addr \<noteq> []"
    and "ProfilerR addr \<notin> set (afterFuncs lt) \<union> set (released lt)"
  shows "ProfilerR addr \<in> set (acquired lt') \<and> ProfilerR addr \<notin> set (released (proxy_Stop lt'))"
proof -
  let ?out = "\<lambda>lt. ProfilerR addr \<in> set (acquired lt) \<and> ProfilerR addr \<notin> set (afterFuncs lt) \<union> set (released lt)"
  have h: "?out lt'" if "startHealthCheckHandler h lt = (lt', r)" "?out lt" for h lt lt' r
    using that by (auto simp: startHealthCheckHandler_def lifetime_defs split: option.splits if_splits)
  obtain lt1 r1 where 1: "startHealthCheckHandler (localHealthCheckConfig p) (startPProfHTTPServer (Some addr) lt) = (lt1, r1)" by (metis surj_pair)
  obtain lt2 r2 where 2: "startHealthCheckHandler (remoteHealthCheckConfig p) lt1 = (lt2, r2)" by (metis surj_pair)
  have "?out (startPProfHTTPServer (Some addr) lt)" using assms(2,3) by (auto simp: startPProfHTTPServer_def acquire_def)
  from h[OF 1 this] have "?out lt1" .
  from h[OF 2 this] have "?out lt2" .
  moreover have "lt' = startMetricsHandler metrics lt2" using assms(1) 1 2 by (auto simp: proxy_Start_def split: option.splits)
  ultimately show ?thesis by (auto simp: startMetricsHandler_def proxy_Stop_def cancel_def lifetime_defs split: option.split)
qed

end
