(* ===== verification/Timestamps.thy ===== *)
theory Timestamps
  imports Prelude "HOL-Library.Signed_Division"
begin

text \<open>
  \<^verbatim>\<open>proto/1_22/server/common/primitives/timestamp/time.go\<close>: the timestamps of the 1.22 server code, which
  hold either a protobuf timestamp or a Go time. A Go time is its distance to the Unix epoch in
  nanoseconds; reading it as \<^verbatim>\<open>int64\<close> wraps around outside the range. Clocks and the conversions of the
  protobuf library are arguments. A nil pointer that is dereferenced is the result \<open>None\<close>.
\<close>

section \<open>Timestamps\<close>

record protoTimestamp =
  Seconds :: int
  Nanos :: int

record Timestamp =
  protoTime :: "protoTimestamp option"
  goTime :: "int option"

definition time_UnixNano :: "int \<Rightarrow> int" where
  "time_UnixNano t = i64 t"

definition second :: int where
  "second = 1000000000"

definition TimestampFromProto :: "protoTimestamp \<Rightarrow> Timestamp" where
  "TimestampFromProto ts = \<lparr>protoTime = Some \<lparr>Seconds = Seconds ts, Nanos = Nanos ts\<rparr>, goTime = None\<rparr>"

definition TimestampFromTime :: "int \<Rightarrow> Timestamp" where
  "TimestampFromTime t = \<lparr>protoTime = None, goTime = Some (time_UnixNano t)\<rparr>"

definition TimestampFromTimePtr :: "int option \<Rightarrow> Timestamp option" where
  "TimestampFromTimePtr t = map_option (\<lambda>t. \<lparr>protoTime = None, goTime = Some (time_UnixNano t)\<rparr>) t"

definition TimestampNow :: "protoTimestamp \<Rightarrow> Timestamp" where
  "TimestampNow now = \<lparr>protoTime = Some now, goTime = None\<rparr>"

definition TimestampNowAddSeconds :: "protoTimestamp \<Rightarrow> int \<Rightarrow> Timestamp" where
  "TimestampNowAddSeconds now s = TimestampNow (now\<lparr>Seconds := i64 (Seconds now + s)\<rparr>)"

definition TimestampEpoch :: Timestamp where
  "TimestampEpoch = \<lparr>protoTime = None, goTime = Some (time_UnixNano 0)\<rparr>"

text \<open>
  The conversions ignore the error of the library call: \<open>toProto\<close> and \<open>fromProto\<close> are what the library
  returns beside it.
\<close>

definition ToProto :: "(int \<Rightarrow> protoTimestamp option) \<Rightarrow> Timestamp \<Rightarrow> protoTimestamp option option" where
  "ToProto toProto t =
     (case protoTime t of Some p \<Rightarrow> Some (Some p) | None \<Rightarrow> map_option toProto (goTime t))"

definition ToTime :: "(protoTimestamp option \<Rightarrow> int) \<Rightarrow> Timestamp \<Rightarrow> int" where
  "ToTime fromProto t = (case goTime t of Some g \<Rightarrow> g | None \<Rightarrow> fromProto (protoTime t))"

definition UnixNano :: "Timestamp \<Rightarrow> int option" where
  "UnixNano t =
     (case goTime t of
        Some g \<Rightarrow> Some (time_UnixNano g)
      | None \<Rightarrow> map_option (\<lambda>p. i64 (i64 (Seconds p * second) + Nanos p)) (protoTime t))"

definition compare_times :: "(int \<Rightarrow> int \<Rightarrow> bool) \<Rightarrow> Timestamp \<Rightarrow> Timestamp \<Rightarrow> bool option" where
  "compare_times cmp t1 t2 =
     (case (goTime t1, goTime t2) of
        (Some g1, Some g2) \<Rightarrow> Some (cmp g1 g2)
      | _ \<Rightarrow> (case (UnixNano t1, UnixNano t2) of (Some n1, Some n2) \<Rightarrow> Some (cmp n1 n2) | _ \<Rightarrow> None))"

definition After :: "Timestamp \<Rightarrow> Timestamp \<Rightarrow> bool option" where
  "After = compare_times (\<lambda>a b. a > b)"

definition Before :: "Timestamp \<Rightarrow> Timestamp \<Rightarrow> bool option" where
  "Before = compare_times (\<lambda>a b. a < b)"

definition SameAs :: "Timestamp \<Rightarrow> Timestamp \<Rightarrow> bool option" where
  "SameAs = compare_times (\<lambda>a b. a = b)"

section \<open>Times and durations\<close>

definition TimePtr :: "int \<Rightarrow> int option" where
  "TimePtr t = Some t"

text \<open>The zero time is the first of January of the year 1.\<close>

definition TimeValue :: "int option \<Rightarrow> int" where
  "TimeValue t = (case t of None \<Rightarrow> - 62135596800 * second | Some x \<Rightarrow> x)"

definition DurationValue :: "int option \<Rightarrow> int" where
  "DurationValue d = (case d of None \<Rightarrow> 0 | Some x \<Rightarrow> x)"

definition RoundUp :: "int \<Rightarrow> int" where
  "RoundUp d = (let res = (d sdiv second) * second in if res = d then d else i64 (res + second))"

definition UnixOrZeroTime :: "int \<Rightarrow> int" where
  "UnixOrZeroTime nanos = (if nanos \<le> 0 then 0 else nanos)"

definition UnixOrZeroTimePtr :: "int \<Rightarrow> int option" where
  "UnixOrZeroTimePtr nanos = TimePtr (UnixOrZeroTime nanos)"

definition TimeNowPtrUtcAddDuration :: "int \<Rightarrow> int \<Rightarrow> int option" where
  "TimeNowPtrUtcAddDuration now d = TimePtr (now + d)"

definition TimeNowPtrUtcAddSeconds :: "int \<Rightarrow> int \<Rightarrow> int option" where
  "TimeNowPtrUtcAddSeconds now s = TimePtr (now + i64 (second * s))"

definition TimeNowPtrUtc :: "int \<Rightarrow> int option" where
  "TimeNowPtrUtc now = TimePtr now"

section \<open>Comparison agrees with the instant\<close>

text \<open>
  A timestamp that the constructors build from a time, or from a protobuf timestamp in the range of
  \<^verbatim>\<open>int64\<close> nanoseconds, denotes one instant; the comparisons compare instants whichever way the two
  sides are represented.
\<close>

definition instant :: "Timestamp \<Rightarrow> int" where
  "instant t = (case goTime t of Some g \<Rightarrow> g | None \<Rightarrow> (case protoTime t of Some p \<Rightarrow> Seconds p * second + Nanos p | None \<Rightarrow> 0))"

definition in_range :: "Timestamp \<Rightarrow> bool" where
  "in_range t \<longleftrightarrow> is_i64 (instant t) \<and>
     (goTime t \<noteq> None \<or> (\<exists>p. protoTime t = Some p \<and> is_i64 (Seconds p * second)))"

lemma UnixNano_instant [simp]: "in_range t \<Longrightarrow> UnixNano t = Some (instant t)"
  by (auto simp: in_range_def UnixNano_def instant_def time_UnixNano_def go_simps split: option.splits)

lemma compare_instants: "in_range t1 \<Longrightarrow> in_range t2 \<Longrightarrow> compare_times cmp t1 t2 = Some (cmp (instant t1) (instant t2))"
  by (auto simp: compare_times_def instant_def split: option.splits)

lemma timestamps_are_ordered:
  assumes "in_range t1" "in_range t2"
  shows "After t1 t2 = Some (instant t2 < instant t1)" "Before t1 t2 = Some (instant t1 < instant t2)"
    "SameAs t1 t2 = Some (instant t1 = instant t2)"
  using assms by (simp_all add: After_def Before_def SameAs_def compare_instants)

lemma from_time_in_range: "in_range (TimestampFromTime t)" "is_i64 t \<Longrightarrow> instant (TimestampFromTime t) = t"
  by (simp_all add: in_range_def instant_def TimestampFromTime_def time_UnixNano_def go_simps)

text \<open>Rounding up to seconds gives the least multiple that is not below a duration, up to the last second of the range.\<close>

lemma RoundUp_least:
  assumes "0 \<le> d" "d \<le> MaxInt64 - second"
  shows "d \<le> RoundUp d \<and> second dvd RoundUp d \<and> (\<forall>m. second dvd m \<longrightarrow> d \<le> m \<longrightarrow> RoundUp d \<le> m)"
proof -
  have q: "d sdiv second = d div second" using assms(1) by (simp add: signed_divide_int_def second_def sgn_if)
  have le: "d div second * second \<le> d" "d < d div second * second + second"
    using pos_mod_bound[of second d] pos_mod_sign[of second d] by (simp_all add: second_def div_mult_mod_eq[symmetric] minus_mod_eq_div_mult[symmetric])
  show ?thesis
  proof (cases "d div second * second = d")
    case True
    then have "RoundUp d = d" "second dvd d" by (simp_all add: RoundUp_def q) (metis dvd_triv_right)
    then show ?thesis by simp
  next
    case False
    have "is_i64 (d div second * second + second)"
      using assms le by (simp add: is_i64_def second_def)
    then have r: "RoundUp d = (d div second + 1) * second"
      using False by (simp add: RoundUp_def q Let_def go_simps algebra_simps)
    have "(d div second + 1) * second \<le> m" if "second dvd m" "d \<le> m" for m
    proof -
      from that obtain k where m: "m = k * second" by (metis dvd_def mult.commute)
      have "d div second * second < k * second" using that(2) m le False by linarith
      then have "d div second < k" by (simp add: second_def)
      then show ?thesis using m by (simp add: second_def)
    qed
    then show ?thesis using le r by (auto simp: algebra_simps)
  qed
qed

text \<open>Truncation is toward zero, so a negative duration is rounded one second too far.\<close>

lemma negative_RoundUp: "RoundUp (- 1500000000) = 0"
  by (simp add: RoundUp_def second_def signed_divide_int_def sgn_if i64_def)

end
