(* ===== verification/HistoryTasks.thy ===== *)
theory HistoryTasks
  imports Timestamps
begin

text \<open>
  \<^verbatim>\<open>proto/1_22/server/service/history/tasks\<close>: the tasks of the history service in the 1.22 server code,
  with their keys, categories and types. The structs have the fields of \<^verbatim>\<open>definition.WorkflowKey\<close> and a
  visibility time, a task ID and a version in common, which are the header of a task; the further
  fields are those of the constructor, in the order of the struct. Panics are the result \<open>None\<close>.
\<close>

unbundle bit_operations_syntax

section \<open>Keys\<close>

datatype Key = NewKey (FireTime: int) (keyTaskID: int)

definition DefaultFireTime :: int where
  "DefaultFireTime = 0"

definition NewImmediateKey :: "int \<Rightarrow> Key" where
  "NewImmediateKey i = NewKey DefaultFireTime i"

definition MinimumKey :: Key where
  "MinimumKey = NewKey DefaultFireTime 0"

definition MaximumKey :: Key where
  "MaximumKey = NewKey MaxInt64 MaxInt64"

definition ValidateKey :: "Key \<Rightarrow> string option" where
  "ValidateKey k =
     (if time_UnixNano (FireTime k) < time_UnixNano DefaultFireTime
      then Some (''task key fire time must have unix nano value >= 0, got '' @ show_int (time_UnixNano (FireTime k)))
      else if keyTaskID k < 0 then Some (''task key ID must >= 0, got '' @ show_int (keyTaskID k))
      else None)"

definition CompareTo :: "Key \<Rightarrow> Key \<Rightarrow> int" where
  "CompareTo left right =
     (if FireTime left < FireTime right then - 1
      else if FireTime left > FireTime right then 1
      else if keyTaskID left < keyTaskID right then - 1
      else if keyTaskID left > keyTaskID right then 1
      else 0)"

definition Prev :: "Key \<Rightarrow> Key option" where
  "Prev k =
     (if keyTaskID k = 0
      then (if time_UnixNano (FireTime k) = 0 then None else Some (NewKey (FireTime k - 1) MaxInt64))
      else Some (NewKey (FireTime k) (i64 (keyTaskID k - 1))))"

definition Next :: "Key \<Rightarrow> Key option" where
  "Next k =
     (if keyTaskID k = MaxInt64
      then (if time_UnixNano (FireTime k) = MaxInt64 then None else Some (NewKey (FireTime k + 1) 0))
      else Some (NewKey (FireTime k) (i64 (keyTaskID k + 1))))"

definition Sub :: "Key \<Rightarrow> Key \<Rightarrow> Key option" where
  "Sub k subtrahend =
     (let difference = i64 (keyTaskID k - keyTaskID subtrahend);
          borrow = (if difference < 0 then 1 else 0);
          difference = (if difference < 0 then i64 (difference + keyTaskID MaximumKey) else difference);
          fireTime = i64 (time_UnixNano (FireTime k) - borrow);
          subtrahendFireTime = time_UnixNano (FireTime subtrahend)
      in if fireTime < subtrahendFireTime then None
         else Some (NewKey (i64 (fireTime - subtrahendFireTime)) difference))"

definition MinKey :: "Key \<Rightarrow> Key \<Rightarrow> Key" where
  "MinKey this that = (if CompareTo this that < 0 then this else that)"

definition MaxKey :: "Key \<Rightarrow> Key \<Rightarrow> Key" where
  "MaxKey this that = (if CompareTo this that < 0 then that else this)"

definition Keys_Swap :: "Key list \<Rightarrow> nat \<Rightarrow> nat \<Rightarrow> Key list option" where
  "Keys_Swap s this that =
     (if this < length s \<and> that < length s then Some (s[this := s ! that, that := s ! this]) else None)"

definition Keys_Less :: "Key list \<Rightarrow> nat \<Rightarrow> nat \<Rightarrow> bool option" where
  "Keys_Less s this that =
     (if this < length s \<and> that < length s then Some (CompareTo (s ! this) (s ! that) < 0) else None)"

section \<open>Categories\<close>

record Category =
  cat_id :: int
  cType :: nat
  cat_name :: string

abbreviation CategoryTypeUnspecified :: nat where "CategoryTypeUnspecified \<equiv> 0"
abbreviation CategoryTypeImmediate :: nat where "CategoryTypeImmediate \<equiv> 1"
abbreviation CategoryTypeScheduled :: nat where "CategoryTypeScheduled \<equiv> 2"

abbreviation CategoryIDTransfer :: int where "CategoryIDTransfer \<equiv> 1"
abbreviation CategoryIDTimer :: int where "CategoryIDTimer \<equiv> 2"
abbreviation CategoryIDReplication :: int where "CategoryIDReplication \<equiv> 3"
abbreviation CategoryIDVisibility :: int where "CategoryIDVisibility \<equiv> 4"
abbreviation CategoryIDArchival :: int where "CategoryIDArchival \<equiv> 5"
abbreviation CategoryIDMemoryTimer :: int where "CategoryIDMemoryTimer \<equiv> 6"

definition CategoryTransfer :: Category where
  "CategoryTransfer = \<lparr>cat_id = CategoryIDTransfer, cType = CategoryTypeImmediate, cat_name = ''transfer''\<rparr>"

definition CategoryTimer :: Category where
  "CategoryTimer = \<lparr>cat_id = CategoryIDTimer, cType = CategoryTypeScheduled, cat_name = ''timer''\<rparr>"

definition CategoryReplication :: Category where
  "CategoryReplication = \<lparr>cat_id = CategoryIDReplication, cType = CategoryTypeImmediate, cat_name = ''replication''\<rparr>"

definition CategoryVisibility :: Category where
  "CategoryVisibility = \<lparr>cat_id = CategoryIDVisibility, cType = CategoryTypeImmediate, cat_name = ''visibility''\<rparr>"

definition CategoryArchival :: Category where
  "CategoryArchival = \<lparr>cat_id = CategoryIDArchival, cType = CategoryTypeScheduled, cat_name = ''archival''\<rparr>"

definition CategoryMemoryTimer :: Category where
  "CategoryMemoryTimer = \<lparr>cat_id = CategoryIDMemoryTimer, cType = CategoryTypeScheduled, cat_name = ''memory-timer''\<rparr>"

definition categories :: "(int, Category) gomap" where
  "categories = [(CategoryIDTransfer, CategoryTransfer), (CategoryIDTimer, CategoryTimer),
     (CategoryIDVisibility, CategoryVisibility), (CategoryIDReplication, CategoryReplication),
     (CategoryIDMemoryTimer, CategoryMemoryTimer)]"

definition NewCategory :: "int \<Rightarrow> nat \<Rightarrow> string \<Rightarrow> (int, Category) gomap \<Rightarrow> ((int, Category) gomap \<times> Category) option" where
  "NewCategory i ty name m =
     (case gget m i of
        Some _ \<Rightarrow> None
      | None \<Rightarrow> let c = \<lparr>cat_id = i, cType = ty, cat_name = name\<rparr> in Some (gput i c m, c))"

definition RemoveCategory :: "int \<Rightarrow> (int, Category) gomap \<Rightarrow> (int, Category) gomap" where
  "RemoveCategory i m = gdel i m"

definition GetCategoryByID :: "(int, Category) gomap \<Rightarrow> int \<Rightarrow> Category option" where
  "GetCategoryByID m i = gget m i"

definition CategoryType_String :: "nat \<Rightarrow> string" where
  "CategoryType_String t =
     (if t = CategoryTypeImmediate then ''Immediate'' else if t = CategoryTypeScheduled then ''Scheduled'' else show_nat t)"

section \<open>Stages of a deletion\<close>

text \<open>The stage is a byte whose bits are the parts that are deleted; the receiver may be nil.\<close>

definition MarkProcessed :: "nat option \<Rightarrow> nat \<Rightarrow> nat option" where
  "MarkProcessed s stage = map_option (\<lambda>x. x OR stage) s"

definition IsProcessed :: "nat option \<Rightarrow> nat \<Rightarrow> bool" where
  "IsProcessed s stage = (case s of None \<Rightarrow> False | Some x \<Rightarrow> x AND stage = stage)"

section \<open>Tasks\<close>

record WorkflowKey =
  NamespaceID :: string
  WorkflowID :: string
  RunID :: string

record taskHeader = WorkflowKey +
  VisibilityTimestamp :: int
  TaskID :: int
  Version :: int

datatype Task =
    WorkflowTask (header: taskHeader) (TaskQueue: string) (ScheduledEventID: int)
  | ActivityTask (header: taskHeader) (TaskQueue: string) (ScheduledEventID: int)
  | CancelExecutionTask (header: taskHeader) (TargetNamespaceID: string) (TargetWorkflowID: string) (TargetRunID: string) (TargetChildWorkflowOnly: bool) (InitiatedEventID: int)
  | SignalExecutionTask (header: taskHeader) (TargetNamespaceID: string) (TargetWorkflowID: string) (TargetRunID: string) (TargetChildWorkflowOnly: bool) (InitiatedEventID: int)
  | StartChildExecutionTask (header: taskHeader) (TargetNamespaceID: string) (TargetWorkflowID: string) (InitiatedEventID: int)
  | CloseExecutionTask (header: taskHeader) (DeleteAfterClose: bool) (CanSkipVisibilityArchival: bool) (DeleteProcessStage: nat)
  | ResetWorkflowTask (header: taskHeader)
  | DeleteExecutionTask (header: taskHeader) (ProcessStage: nat)
  | WorkflowTaskTimeoutTask (header: taskHeader) (EventID: int) (ScheduleAttempt: int) (TimeoutType: nat) (wtState: nat)
  | WorkflowBackoffTimerTask (header: taskHeader) (WorkflowBackoffType: nat)
  | ActivityTimeoutTask (header: taskHeader) (TimeoutType: nat) (EventID: int) (Attempt: int)
  | ActivityRetryTimerTask (header: taskHeader) (EventID: int) (Attempt: int)
  | UserTimerTask (header: taskHeader) (EventID: int)
  | WorkflowTimeoutTask (header: taskHeader)
  | DeleteHistoryEventTask (header: taskHeader) (BranchToken: string) (WorkflowDataAlreadyArchived: bool) (ProcessStage: nat)
  | StartExecutionVisibilityTask (header: taskHeader)
  | UpsertExecutionVisibilityTask (header: taskHeader)
  | CloseExecutionVisibilityTask (header: taskHeader)
  | DeleteExecutionVisibilityTask (header: taskHeader) (CloseExecutionVisibilityTaskID: int) (StartTime: "int option") (CloseTime: "int option")
  | SyncActivityTask (header: taskHeader) (ScheduledEventID: int)
  | HistoryReplicationTask (header: taskHeader) (FirstEventID: int) (NextEventID: int) (BranchToken: string) (NewRunBranchToken: string) (NewRunID: string)
  | SyncWorkflowStateTask (header: taskHeader)
  | ArchiveExecutionTask (header: taskHeader)
  | FakeTask (header: taskHeader) (Category: Category)

abbreviation TASK_TYPE_UNSPECIFIED :: nat where "TASK_TYPE_UNSPECIFIED \<equiv> 0"
abbreviation TASK_TYPE_REPLICATION_HISTORY :: nat where "TASK_TYPE_REPLICATION_HISTORY \<equiv> 1"
abbreviation TASK_TYPE_REPLICATION_SYNC_ACTIVITY :: nat where "TASK_TYPE_REPLICATION_SYNC_ACTIVITY \<equiv> 2"
abbreviation TASK_TYPE_TRANSFER_WORKFLOW_TASK :: nat where "TASK_TYPE_TRANSFER_WORKFLOW_TASK \<equiv> 3"
abbreviation TASK_TYPE_TRANSFER_ACTIVITY_TASK :: nat where "TASK_TYPE_TRANSFER_ACTIVITY_TASK \<equiv> 4"
abbreviation TASK_TYPE_TRANSFER_CLOSE_EXECUTION :: nat where "TASK_TYPE_TRANSFER_CLOSE_EXECUTION \<equiv> 5"
abbreviation TASK_TYPE_TRANSFER_CANCEL_EXECUTION :: nat where "TASK_TYPE_TRANSFER_CANCEL_EXECUTION \<equiv> 6"
abbreviation TASK_TYPE_TRANSFER_START_CHILD_EXECUTION :: nat where "TASK_TYPE_TRANSFER_START_CHILD_EXECUTION \<equiv> 7"
abbreviation TASK_TYPE_TRANSFER_SIGNAL_EXECUTION :: nat where "TASK_TYPE_TRANSFER_SIGNAL_EXECUTION \<equiv> 8"
abbreviation TASK_TYPE_TRANSFER_RESET_WORKFLOW :: nat where "TASK_TYPE_TRANSFER_RESET_WORKFLOW \<equiv> 10"
abbreviation TASK_TYPE_WORKFLOW_TASK_TIMEOUT :: nat where "TASK_TYPE_WORKFLOW_TASK_TIMEOUT \<equiv> 12"
abbreviation TASK_TYPE_ACTIVITY_TIMEOUT :: nat where "TASK_TYPE_ACTIVITY_TIMEOUT \<equiv> 13"
abbreviation TASK_TYPE_USER_TIMER :: nat where "TASK_TYPE_USER_TIMER \<equiv> 14"
abbreviation TASK_TYPE_WORKFLOW_RUN_TIMEOUT :: nat where "TASK_TYPE_WORKFLOW_RUN_TIMEOUT \<equiv> 15"
abbreviation TASK_TYPE_DELETE_HISTORY_EVENT :: nat where "TASK_TYPE_DELETE_HISTORY_EVENT \<equiv> 16"
abbreviation TASK_TYPE_ACTIVITY_RETRY_TIMER :: nat where "TASK_TYPE_ACTIVITY_RETRY_TIMER \<equiv> 17"
abbreviation TASK_TYPE_WORKFLOW_BACKOFF_TIMER :: nat where "TASK_TYPE_WORKFLOW_BACKOFF_TIMER \<equiv> 18"
abbreviation TASK_TYPE_VISIBILITY_START_EXECUTION :: nat where "TASK_TYPE_VISIBILITY_START_EXECUTION \<equiv> 19"
abbreviation TASK_TYPE_VISIBILITY_UPSERT_EXECUTION :: nat where "TASK_TYPE_VISIBILITY_UPSERT_EXECUTION \<equiv> 20"
abbreviation TASK_TYPE_VISIBILITY_CLOSE_EXECUTION :: nat where "TASK_TYPE_VISIBILITY_CLOSE_EXECUTION \<equiv> 21"
abbreviation TASK_TYPE_VISIBILITY_DELETE_EXECUTION :: nat where "TASK_TYPE_VISIBILITY_DELETE_EXECUTION \<equiv> 22"
abbreviation TASK_TYPE_TRANSFER_DELETE_EXECUTION :: nat where "TASK_TYPE_TRANSFER_DELETE_EXECUTION \<equiv> 24"
abbreviation TASK_TYPE_REPLICATION_SYNC_WORKFLOW_STATE :: nat where "TASK_TYPE_REPLICATION_SYNC_WORKFLOW_STATE \<equiv> 25"
abbreviation TASK_TYPE_ARCHIVAL_ARCHIVE_EXECUTION :: nat where "TASK_TYPE_ARCHIVAL_ARCHIVE_EXECUTION \<equiv> 26"

primrec GetCategory :: "Task \<Rightarrow> Category" where
  "GetCategory (WorkflowTask _ _ _) = CategoryTransfer"
| "GetCategory (ActivityTask _ _ _) = CategoryTransfer"
| "GetCategory (CancelExecutionTask _ _ _ _ _ _) = CategoryTransfer"
| "GetCategory (SignalExecutionTask _ _ _ _ _ _) = CategoryTransfer"
| "GetCategory (StartChildExecutionTask _ _ _ _) = CategoryTransfer"
| "GetCategory (CloseExecutionTask _ _ _ _) = CategoryTransfer"
| "GetCategory (ResetWorkflowTask _) = CategoryTransfer"
| "GetCategory (DeleteExecutionTask _ _) = CategoryTransfer"
| "GetCategory (WorkflowTaskTimeoutTask _ _ _ _ _) = CategoryTimer"
| "GetCategory (WorkflowBackoffTimerTask _ _) = CategoryTimer"
| "GetCategory (ActivityTimeoutTask _ _ _ _) = CategoryTimer"
| "GetCategory (ActivityRetryTimerTask _ _ _) = CategoryTimer"
| "GetCategory (UserTimerTask _ _) = CategoryTimer"
| "GetCategory (WorkflowTimeoutTask _) = CategoryTimer"
| "GetCategory (DeleteHistoryEventTask _ _ _ _) = CategoryTimer"
| "GetCategory (StartExecutionVisibilityTask _) = CategoryVisibility"
| "GetCategory (UpsertExecutionVisibilityTask _) = CategoryVisibility"
| "GetCategory (CloseExecutionVisibilityTask _) = CategoryVisibility"
| "GetCategory (DeleteExecutionVisibilityTask _ _ _ _) = CategoryVisibility"
| "GetCategory (SyncActivityTask _ _) = CategoryReplication"
| "GetCategory (HistoryReplicationTask _ _ _ _ _ _) = CategoryReplication"
| "GetCategory (SyncWorkflowStateTask _) = CategoryReplication"
| "GetCategory (ArchiveExecutionTask _) = CategoryArchival"
| "GetCategory (FakeTask _ c) = c"

primrec GetType :: "Task \<Rightarrow> nat" where
  "GetType (WorkflowTask _ _ _) = TASK_TYPE_TRANSFER_WORKFLOW_TASK"
| "GetType (ActivityTask _ _ _) = TASK_TYPE_TRANSFER_ACTIVITY_TASK"
| "GetType (CancelExecutionTask _ _ _ _ _ _) = TASK_TYPE_TRANSFER_CANCEL_EXECUTION"
| "GetType (SignalExecutionTask _ _ _ _ _ _) = TASK_TYPE_TRANSFER_SIGNAL_EXECUTION"
| "GetType (StartChildExecutionTask _ _ _ _) = TASK_TYPE_TRANSFER_START_CHILD_EXECUTION"
| "GetType (CloseExecutionTask _ _ _ _) = TASK_TYPE_TRANSFER_CLOSE_EXECUTION"
| "GetType (ResetWorkflowTask _) = TASK_TYPE_TRANSFER_RESET_WORKFLOW"
| "GetType (DeleteExecutionTask _ _) = TASK_TYPE_TRANSFER_DELETE_EXECUTION"
| "GetType (WorkflowTaskTimeoutTask _ _ _ _ _) = TASK_TYPE_WORKFLOW_TASK_TIMEOUT"
| "GetType (WorkflowBackoffTimerTask _ _) = TASK_TYPE_WORKFLOW_BACKOFF_TIMER"
| "GetType (ActivityTimeoutTask _ _ _ _) = TASK_TYPE_ACTIVITY_TIMEOUT"
| "GetType (ActivityRetryTimerTask _ _ _) = TASK_TYPE_ACTIVITY_RETRY_TIMER"
| "GetType (UserTimerTask _ _) = TASK_TYPE_USER_TIMER"
| "GetType (WorkflowTimeoutTask _) = TASK_TYPE_WORKFLOW_RUN_TIMEOUT"
| "GetType (DeleteHistoryEventTask _ _ _ _) = TASK_TYPE_DELETE_HISTORY_EVENT"
| "GetType (StartExecutionVisibilityTask _) = TASK_TYPE_VISIBILITY_START_EXECUTION"
| "GetType (UpsertExecutionVisibilityTask _) = TASK_TYPE_VISIBILITY_UPSERT_EXECUTION"
| "GetType (CloseExecutionVisibilityTask _) = TASK_TYPE_VISIBILITY_CLOSE_EXECUTION"
| "GetType (DeleteExecutionVisibilityTask _ _ _ _) = TASK_TYPE_VISIBILITY_DELETE_EXECUTION"
| "GetType (SyncActivityTask _ _) = TASK_TYPE_REPLICATION_SYNC_ACTIVITY"
| "GetType (HistoryReplicationTask _ _ _ _ _ _) = TASK_TYPE_REPLICATION_HISTORY"
| "GetType (SyncWorkflowStateTask _) = TASK_TYPE_REPLICATION_SYNC_WORKFLOW_STATE"
| "GetType (ArchiveExecutionTask _) = TASK_TYPE_ARCHIVAL_ARCHIVE_EXECUTION"
| "GetType (FakeTask _ _) = TASK_TYPE_UNSPECIFIED"

primrec GetKey :: "Task \<Rightarrow> Key" where
  "GetKey (WorkflowTask h _ _) = NewImmediateKey (TaskID h)"
| "GetKey (ActivityTask h _ _) = NewImmediateKey (TaskID h)"
| "GetKey (CancelExecutionTask h _ _ _ _ _) = NewImmediateKey (TaskID h)"
| "GetKey (SignalExecutionTask h _ _ _ _ _) = NewImmediateKey (TaskID h)"
| "GetKey (StartChildExecutionTask h _ _ _) = NewImmediateKey (TaskID h)"
| "GetKey (CloseExecutionTask h _ _ _) = NewImmediateKey (TaskID h)"
| "GetKey (ResetWorkflowTask h) = NewImmediateKey (TaskID h)"
| "GetKey (DeleteExecutionTask h _) = NewImmediateKey (TaskID h)"
| "GetKey (WorkflowTaskTimeoutTask h _ _ _ _) = NewKey (VisibilityTimestamp h) (TaskID h)"
| "GetKey (WorkflowBackoffTimerTask h _) = NewKey (VisibilityTimestamp h) (TaskID h)"
| "GetKey (ActivityTimeoutTask h _ _ _) = NewKey (VisibilityTimestamp h) (TaskID h)"
| "GetKey (ActivityRetryTimerTask h _ _) = NewKey (VisibilityTimestamp h) (TaskID h)"
| "GetKey (UserTimerTask h _) = NewKey (VisibilityTimestamp h) (TaskID h)"
| "GetKey (WorkflowTimeoutTask h) = NewKey (VisibilityTimestamp h) (TaskID h)"
| "GetKey (DeleteHistoryEventTask h _ _ _) = NewKey (VisibilityTimestamp h) (TaskID h)"
| "GetKey (StartExecutionVisibilityTask h) = NewImmediateKey (TaskID h)"
| "GetKey (UpsertExecutionVisibilityTask h) = NewImmediateKey (TaskID h)"
| "GetKey (CloseExecutionVisibilityTask h) = NewImmediateKey (TaskID h)"
| "GetKey (DeleteExecutionVisibilityTask h _ _ _) = NewImmediateKey (TaskID h)"
| "GetKey (SyncActivityTask h _) = NewImmediateKey (TaskID h)"
| "GetKey (HistoryReplicationTask h _ _ _ _ _) = NewImmediateKey (TaskID h)"
| "GetKey (SyncWorkflowStateTask h) = NewImmediateKey (TaskID h)"
| "GetKey (ArchiveExecutionTask h) = NewKey (VisibilityTimestamp h) (TaskID h)"
| "GetKey (FakeTask h c) = (if cType c = CategoryTypeImmediate then NewImmediateKey (TaskID h) else NewKey (VisibilityTimestamp h) (TaskID h))"

text \<open>The accessors are the same for every type.\<close>

primrec map_header :: "(taskHeader \<Rightarrow> taskHeader) \<Rightarrow> Task \<Rightarrow> Task" where
  "map_header f (WorkflowTask h a b) = WorkflowTask (f h) a b"
| "map_header f (ActivityTask h a b) = ActivityTask (f h) a b"
| "map_header f (CancelExecutionTask h a b c d e) = CancelExecutionTask (f h) a b c d e"
| "map_header f (SignalExecutionTask h a b c d e) = SignalExecutionTask (f h) a b c d e"
| "map_header f (StartChildExecutionTask h a b c) = StartChildExecutionTask (f h) a b c"
| "map_header f (CloseExecutionTask h a b c) = CloseExecutionTask (f h) a b c"
| "map_header f (ResetWorkflowTask h) = ResetWorkflowTask (f h)"
| "map_header f (DeleteExecutionTask h a) = DeleteExecutionTask (f h) a"
| "map_header f (WorkflowTaskTimeoutTask h a b c d) = WorkflowTaskTimeoutTask (f h) a b c d"
| "map_header f (WorkflowBackoffTimerTask h a) = WorkflowBackoffTimerTask (f h) a"
| "map_header f (ActivityTimeoutTask h a b c) = ActivityTimeoutTask (f h) a b c"
| "map_header f (ActivityRetryTimerTask h a b) = ActivityRetryTimerTask (f h) a b"
| "map_header f (UserTimerTask h a) = UserTimerTask (f h) a"
| "map_header f (WorkflowTimeoutTask h) = WorkflowTimeoutTask (f h)"
| "map_header f (DeleteHistoryEventTask h a b c) = DeleteHistoryEventTask (f h) a b c"
| "map_header f (StartExecutionVisibilityTask h) = StartExecutionVisibilityTask (f h)"
| "map_header f (UpsertExecutionVisibilityTask h) = UpsertExecutionVisibilityTask (f h)"
| "map_header f (CloseExecutionVisibilityTask h) = CloseExecutionVisibilityTask (f h)"
| "map_header f (DeleteExecutionVisibilityTask h a b c) = DeleteExecutionVisibilityTask (f h) a b c"
| "map_header f (SyncActivityTask h a) = SyncActivityTask (f h) a"
| "map_header f (HistoryReplicationTask h a b c d e) = HistoryReplicationTask (f h) a b c d e"
| "map_header f (SyncWorkflowStateTask h) = SyncWorkflowStateTask (f h)"
| "map_header f (ArchiveExecutionTask h) = ArchiveExecutionTask (f h)"
| "map_header f (FakeTask h a) = FakeTask (f h) a"

definition SetVersion :: "int \<Rightarrow> Task \<Rightarrow> Task" where
  "SetVersion v t = map_header (\<lambda>h. h\<lparr>Version := v\<rparr>) t"

definition SetTaskID :: "int \<Rightarrow> Task \<Rightarrow> Task" where
  "SetTaskID i t = map_header (\<lambda>h. h\<lparr>TaskID := i\<rparr>) t"

definition SetVisibilityTime :: "int \<Rightarrow> Task \<Rightarrow> Task" where
  "SetVisibilityTime ts t = map_header (\<lambda>h. h\<lparr>VisibilityTimestamp := ts\<rparr>) t"

definition NewFakeTask :: "WorkflowKey \<Rightarrow> Category \<Rightarrow> int \<Rightarrow> Task" where
  "NewFakeTask k c ts =
     FakeTask \<lparr>NamespaceID = NamespaceID k, WorkflowID = WorkflowID k, RunID = RunID k,
       VisibilityTimestamp = ts, TaskID = 0, Version = 0\<rparr> c"

definition common_FirstEventID :: int where
  "common_FirstEventID = 1"

fun GetTransferTaskEventID :: "Task \<Rightarrow> int option" where
  "GetTransferTaskEventID (ActivityTask h q e) = Some e"
| "GetTransferTaskEventID (WorkflowTask h q e) = Some e"
| "GetTransferTaskEventID (CloseExecutionTask h a b c) = Some common_FirstEventID"
| "GetTransferTaskEventID (DeleteExecutionTask h a) = Some common_FirstEventID"
| "GetTransferTaskEventID (CancelExecutionTask h a b c d e) = Some e"
| "GetTransferTaskEventID (SignalExecutionTask h a b c d e) = Some e"
| "GetTransferTaskEventID (StartChildExecutionTask h a b e) = Some e"
| "GetTransferTaskEventID (ResetWorkflowTask h) = Some common_FirstEventID"
| "GetTransferTaskEventID (FakeTask h c) = Some 0"
| "GetTransferTaskEventID _ = None"

fun GetTimerTaskEventID :: "Task \<Rightarrow> int option" where
  "GetTimerTaskEventID (UserTimerTask h e) = Some e"
| "GetTimerTaskEventID (ActivityTimeoutTask h a e b) = Some e"
| "GetTimerTaskEventID (WorkflowTaskTimeoutTask h e a b c) = Some e"
| "GetTimerTaskEventID (WorkflowBackoffTimerTask h a) = Some common_FirstEventID"
| "GetTimerTaskEventID (ActivityRetryTimerTask h e a) = Some e"
| "GetTimerTaskEventID (WorkflowTimeoutTask h) = Some common_FirstEventID"
| "GetTimerTaskEventID (DeleteHistoryEventTask h a b c) = Some common_FirstEventID"
| "GetTimerTaskEventID (FakeTask h c) = Some 0"
| "GetTimerTaskEventID _ = None"

section \<open>The order of keys\<close>

text \<open>Keys are ordered by time first and by ID then; \<^verbatim>\<open>CompareTo\<close> is the comparison of that order.\<close>

instantiation Key :: linorder
begin

definition less_eq_Key :: "Key \<Rightarrow> Key \<Rightarrow> bool" where
  "less_eq_Key a b \<longleftrightarrow> FireTime a < FireTime b \<or> FireTime a = FireTime b \<and> keyTaskID a \<le> keyTaskID b"

definition less_Key :: "Key \<Rightarrow> Key \<Rightarrow> bool" where
  "less_Key a b \<longleftrightarrow> FireTime a < FireTime b \<or> FireTime a = FireTime b \<and> keyTaskID a < keyTaskID b"

instance
  by standard (auto simp: less_eq_Key_def less_Key_def intro: Key.expand)

end

lemma CompareTo_order: "CompareTo a b = (if a < b then - 1 else if a = b then 0 else 1)"
  by (auto simp: CompareTo_def less_Key_def intro: Key.expand)

lemma MinKey_min: "MinKey a b = min a b" and MaxKey_max: "MaxKey a b = max a b"
  by (auto simp: MinKey_def MaxKey_def CompareTo_order min_def max_def)

lemma swapped_keys: "Keys_Swap s i j = Some s' \<Longrightarrow> Keys_Less s' i j = Keys_Less s j i"
  by (cases "i = j") (auto simp: Keys_Swap_def Keys_Less_def split: if_splits)

text \<open>Within the range of the two fields a key is a number in base \<open>2\<^sup>6\<^sup>3\<close>.\<close>

definition valid_key :: "Key \<Rightarrow> bool" where
  "valid_key k \<longleftrightarrow> 0 \<le> FireTime k \<and> FireTime k \<le> MaxInt64 \<and> 0 \<le> keyTaskID k \<and> keyTaskID k \<le> MaxInt64"

definition key_index :: "Key \<Rightarrow> int" where
  "key_index k = FireTime k * 9223372036854775808 + keyTaskID k"

lemma valid_key_nano [simp]: "valid_key k \<Longrightarrow> time_UnixNano (FireTime k) = FireTime k"
  by (simp add: valid_key_def time_UnixNano_def i64_def)

lemma validated: "valid_key k \<Longrightarrow> ValidateKey k = None"
  by (simp add: ValidateKey_def) (simp add: valid_key_def DefaultFireTime_def time_UnixNano_def i64_def)

lemma key_index_less: "valid_key a \<Longrightarrow> valid_key b \<Longrightarrow> key_index a < key_index b \<longleftrightarrow> a < b"
  by (auto simp: key_index_def valid_key_def less_Key_def)

lemma key_index_inject: "valid_key a \<Longrightarrow> valid_key b \<Longrightarrow> key_index a = key_index b \<Longrightarrow> a = b"
  using key_index_less[of a b] key_index_less[of b a] by force

lemma Next_index:
  assumes "valid_key k"
  shows "(case Next k of None \<Rightarrow> k = MaximumKey | Some k' \<Rightarrow> valid_key k' \<and> key_index k' = key_index k + 1)"
  using assms by (auto simp: Next_def valid_key_def key_index_def MaximumKey_def i64_def time_UnixNano_def intro: Key.expand)

lemma Prev_index:
  assumes "valid_key k"
  shows "(case Prev k of None \<Rightarrow> k = MinimumKey | Some k' \<Rightarrow> valid_key k' \<and> key_index k' = key_index k - 1)"
  using assms by (auto simp: Prev_def valid_key_def key_index_def MinimumKey_def DefaultFireTime_def i64_def time_UnixNano_def intro: Key.expand)

text \<open>
  \<^verbatim>\<open>Next\<close> gives the least greater key and panics on the greatest only, \<^verbatim>\<open>Prev\<close> the greatest smaller one and
  panics on the least only, and they undo each other.
\<close>

lemma Next_is_successor:
  assumes "valid_key k" "Next k = Some k'"
  shows "valid_key k' \<and> k < k' \<and> (\<forall>j. valid_key j \<longrightarrow> k < j \<longrightarrow> k' \<le> j) \<and> Prev k' = Some k"
proof -
  have n: "valid_key k'" "key_index k' = key_index k + 1" using Next_index[OF assms(1)] assms(2) by auto
  have "k' \<le> j" if "valid_key j" "k < j" for j
  proof -
    have "key_index k < key_index j" using key_index_less[OF assms(1) that(1)] that(2) by blast
    then have "\<not> key_index j < key_index k'" using n(2) by linarith
    then show "k' \<le> j" using key_index_less[OF that(1) n(1)] by (simp add: not_less)
  qed
  moreover have "k < k'" using key_index_less[OF assms(1) n(1)] n(2) by simp
  moreover have "Prev k' = Some k"
  proof (cases "Prev k'")
    case None
    then show ?thesis using Prev_index[OF n(1)] n(2) assms(1)
      by (auto simp: valid_key_def key_index_def MinimumKey_def DefaultFireTime_def)
  next
    case (Some j)
    then have "valid_key j" "key_index j = key_index k" using Prev_index[OF n(1)] n(2) by auto
    then show ?thesis using key_index_inject[OF _ assms(1)] Some by simp
  qed
  ultimately show ?thesis using n(1) by blast
qed

lemma Next_panics_iff: "valid_key k \<Longrightarrow> Next k = None \<longleftrightarrow> k = MaximumKey"
  using Next_index[of k] by (auto simp: Next_def MaximumKey_def time_UnixNano_def i64_def split: option.splits)

text \<open>
  The difference of two keys is the distance of the two, unless a one is borrowed from the time: the ID is
  then filled up with the greatest ID instead of the number of IDs, and the difference is one too small.
\<close>

lemma Sub_distance:
  assumes "valid_key a" "valid_key b" "Sub a b = Some d"
  shows "key_index d = key_index a - key_index b - (if keyTaskID a < keyTaskID b then 1 else 0)"
proof -
  have 1: "i64 (keyTaskID a - keyTaskID b) = keyTaskID a - keyTaskID b" "i64 (FireTime a) = FireTime a" "i64 (FireTime a - 1) = FireTime a - 1"
    "i64 (FireTime a - FireTime b) = FireTime a - FireTime b" "i64 (FireTime a - 1 - FireTime b) = FireTime a - 1 - FireTime b"
    using assms(1,2) by (simp_all add: valid_key_def i64_def)
  have 2: "i64 (keyTaskID a - keyTaskID b + MaxInt64) = keyTaskID a - keyTaskID b + MaxInt64" if "keyTaskID a < keyTaskID b"
    using assms(1,2) that by (simp add: valid_key_def i64_def)
  show ?thesis
    using assms(3) by (cases "keyTaskID a < keyTaskID b") (auto simp: Sub_def Let_def assms(1,2) MaximumKey_def key_index_def 1 2 split: if_splits)
qed

lemma Sub_of_successor: "Next (NewKey 0 MaxInt64) = Some (NewKey 1 0) \<and> Sub (NewKey 1 0) (NewKey 0 MaxInt64) = Some MinimumKey"
  by (simp add: Next_def Sub_def Let_def MaximumKey_def MinimumKey_def DefaultFireTime_def time_UnixNano_def i64_def)

section \<open>Categories and accessors\<close>

text \<open>The key of a task follows the type of its category, and the setters change neither category nor type.\<close>

lemma GetKey_by_category:
  "GetKey t = (if cType (GetCategory t) = CategoryTypeImmediate then NewImmediateKey (TaskID (header t))
     else NewKey (VisibilityTimestamp (header t)) (TaskID (header t)))"
  by (cases t) (simp_all add: CategoryTransfer_def CategoryTimer_def CategoryVisibility_def CategoryReplication_def CategoryArchival_def)

lemma map_header_keeps [simp]:
  "header (map_header f t) = f (header t)" "GetCategory (map_header f t) = GetCategory t" "GetType (map_header f t) = GetType t"
  by (cases t; simp)+

lemma SetTaskID_orders_immediate:
  assumes "cType (GetCategory t) = CategoryTypeImmediate" "i < j"
  shows "GetKey (SetTaskID i t) < GetKey (SetTaskID j t)"
  using assms by (simp add: GetKey_by_category SetTaskID_def NewImmediateKey_def less_Key_def)

lemma NewCategory_once:
  assumes "NewCategory i ty name m = Some (m', c)"
  shows "GetCategoryByID m' i = Some c \<and> NewCategory i ty' name' m' = None \<and> GetCategoryByID (RemoveCategory i m') i = None \<and>
    (\<forall>j. j \<noteq> i \<longrightarrow> GetCategoryByID m' j = GetCategoryByID m j)"
  using assms by (auto simp: NewCategory_def GetCategoryByID_def RemoveCategory_def Let_def update_conv' delete_conv' split: option.splits)

text \<open>The category of archival tasks is the only one of the source that is not registered from the start.\<close>

lemma registered_categories:
  "map (GetCategoryByID categories) [1, 2, 3, 4, 5, 6] =
     [Some CategoryTransfer, Some CategoryTimer, Some CategoryReplication, Some CategoryVisibility, None, Some CategoryMemoryTimer]"
  by (simp add: GetCategoryByID_def categories_def)

lemma marked_is_processed: "s \<noteq> None \<Longrightarrow> IsProcessed (MarkProcessed s stage) stage"
  by (auto simp: IsProcessed_def MarkProcessed_def bit_eq_iff bit_and_iff bit_or_iff)

lemma mark_keeps_processed: "IsProcessed s stage \<Longrightarrow> IsProcessed (MarkProcessed s stage') stage"
  by (auto simp: IsProcessed_def MarkProcessed_def bit_eq_iff bit_and_iff bit_or_iff split: option.splits)

end
