(* ===== verification/Blobs122.thy ===== *)
theory Blobs122
  imports Serializer122
begin

text \<open>
  \<^verbatim>\<open>proto/1_22/server/common/persistence/serialization/blob.go\<close>, the functions of \<^verbatim>\<open>serializer.go\<close> that choose
  between the two encodings, and \<^verbatim>\<open>proto/1_22/server/common/codec/jsonpb.go\<close>. The protobuf and JSON
  libraries are arguments. Data is \<open>None\<close> for a nil slice.
\<close>

section \<open>The JSON codec\<close>

text \<open>A JSON decoder over an input state: the next token, whether the array goes on, and the next message.\<close>

record ('s, 'm) jsonDecoder =
  Token :: "'s \<Rightarrow> string + 's"
  More :: "'s \<Rightarrow> bool"
  UnmarshalNext :: "'s \<Rightarrow> string option \<times> 'm \<times> 's"

fun encode_items :: "('m \<Rightarrow> string + string) \<Rightarrow> 'm list \<Rightarrow> string + string" where
  "encode_items marshal [] = Inr []"
| "encode_items marshal (pb # items) =
     (case marshal pb of
        Inl err \<Rightarrow> Inl err
      | Inr text \<Rightarrow>
          (case encode_items marshal items of
             Inl err \<Rightarrow> Inl err
           | Inr rest \<Rightarrow> Inr (text @ (if items = [] then '']'' else '','') @ rest)))"

definition encodeSlice :: "('m \<Rightarrow> string + string) \<Rightarrow> 'm list \<Rightarrow> string + string" where
  "encodeSlice marshal items = (case encode_items marshal items of Inl err \<Rightarrow> Inl err | Inr text \<Rightarrow> Inr (''['' @ text))"

partial_function (option) decode_items :: "('s, 'm) jsonDecoder \<Rightarrow> 's \<Rightarrow> ('m list \<times> string option) option" where
  "decode_items d s =
     (if More d s
      then (case UnmarshalNext d s of
              (Some err, pb, s') \<Rightarrow> Some ([pb], Some err)
            | (None, pb, s') \<Rightarrow> Option.bind (decode_items d s') (\<lambda>(items, err). Some (pb # items, err)))
      else Some ([], None))"

definition decodeSlice :: "('s, 'm) jsonDecoder \<Rightarrow> 's \<Rightarrow> ('m list \<times> string option) option" where
  "decodeSlice d s = (case Token d s of Inl err \<Rightarrow> Some ([], Some err) | Inr s' \<Rightarrow> decode_items d s')"

section \<open>Blobs\<close>

type_synonym rawBlob = "nat \<times> string option"

definition EncodingType_value :: "string \<Rightarrow> nat option" where
  "EncodingType_value enc = map_of [(''Unspecified'', 0), (''Proto3'', ENCODING_TYPE_PROTO3), (''Json'', ENCODING_TYPE_JSON)] enc"

definition proto3Encode :: "('m \<Rightarrow> string + string) \<Rightarrow> 'm \<Rightarrow> string + rawBlob" where
  "proto3Encode marshal m =
     (case marshal m of
        Inl err \<Rightarrow> Inl (SerializationError ENCODING_TYPE_PROTO3 err)
      | Inr data \<Rightarrow> Inr (ENCODING_TYPE_PROTO3, Some data))"

definition proto3Decode :: "(string \<Rightarrow> string + 'm) \<Rightarrow> string option \<Rightarrow> string \<Rightarrow> string + 'm" where
  "proto3Decode unmarshal data enc =
     (if EncodingType_value enc \<noteq> Some ENCODING_TYPE_PROTO3
      then Inl (UnknownEncodingTypeError enc [ENCODING_TYPE_PROTO3])
      else (case unmarshal (case data of None \<Rightarrow> [] | Some d \<Rightarrow> d) of
              Inl err \<Rightarrow> Inl (DeserializationError ENCODING_TYPE_PROTO3 err)
            | Inr m \<Rightarrow> Inr m))"

record 'm messageCodec =
  mc_Marshal :: "'m \<Rightarrow> string + string"
  mc_Unmarshal :: "string \<Rightarrow> string + 'm"
  mc_MarshalJSON :: "'m \<Rightarrow> string + string"
  mc_UnmarshalJSON :: "string \<Rightarrow> string + 'm"
  mc_blank :: 'm

definition blob_encode :: "'m messageCodec \<Rightarrow> 'm option \<Rightarrow> nat \<Rightarrow> string + rawBlob" where
  "blob_encode c object enc =
     (case object of
        None \<Rightarrow> Inr (enc, None)
      | Some m \<Rightarrow>
          if enc = ENCODING_TYPE_JSON
          then (case mc_MarshalJSON c m of Inl err \<Rightarrow> Inl err | Inr data \<Rightarrow> Inr (ENCODING_TYPE_JSON, Some data))
          else if enc = ENCODING_TYPE_PROTO3 then proto3Encode (mc_Marshal c) m
          else Inl (UnknownEncodingTypeError (EncodingType_String enc) [ENCODING_TYPE_JSON, ENCODING_TYPE_PROTO3]))"

text \<open>The table of encodings answers 0 for a name it does not have.\<close>

definition blob_decode :: "'m messageCodec \<Rightarrow> string option \<Rightarrow> string \<Rightarrow> string + 'm" where
  "blob_decode c data enc =
     (case data of
        None \<Rightarrow> Inr (mc_blank c)
      | Some d \<Rightarrow>
          (let e = (case EncodingType_value enc of None \<Rightarrow> 0 | Some e \<Rightarrow> e)
           in if e = ENCODING_TYPE_JSON then mc_UnmarshalJSON c d
              else if e = ENCODING_TYPE_PROTO3 then proto3Decode (mc_Unmarshal c) data enc
              else Inl (UnknownEncodingTypeError enc [ENCODING_TYPE_JSON, ENCODING_TYPE_PROTO3])))"

definition QueueMetadataToBlob :: "'m messageCodec \<Rightarrow> 'm \<Rightarrow> string + rawBlob" where
  "QueueMetadataToBlob c metadata = blob_encode c (Some metadata) ENCODING_TYPE_JSON"

definition QueueMetadataFromBlob :: "'m messageCodec \<Rightarrow> string option \<Rightarrow> string \<Rightarrow> string + 'm" where
  "QueueMetadataFromBlob c data enc = blob_decode c data enc"

text \<open>The two functions of the serializer work on a blob pointer.\<close>

definition encodeBlob :: "'m messageCodec \<Rightarrow> 'm option \<Rightarrow> nat \<Rightarrow> string + rawBlob" where
  "encodeBlob c obj enc =
     (case obj of
        None \<Rightarrow> Inr (enc, None)
      | Some m \<Rightarrow>
          if enc = ENCODING_TYPE_JSON
          then (case mc_MarshalJSON c m of Inl err \<Rightarrow> Inl err | Inr data \<Rightarrow> Inr (ENCODING_TYPE_JSON, Some data))
          else if enc = ENCODING_TYPE_PROTO3
          then (case ProtoEncodeBlob (mc_Marshal c) (Some m) ENCODING_TYPE_PROTO3 of
                  Inl err \<Rightarrow> Inl err | Inr b \<Rightarrow> Inr (B_encoding b, Some (B_data b)))
          else Inl (UnknownEncodingTypeError (EncodingType_String enc) [ENCODING_TYPE_JSON, ENCODING_TYPE_PROTO3]))"

definition decodeBlob :: "'m messageCodec \<Rightarrow> rawBlob option \<Rightarrow> string + 'm" where
  "decodeBlob c data =
     (case data of
        None \<Rightarrow> Inl (DeserializationError 0 ''cannot decode nil'')
      | Some (enc, None) \<Rightarrow> Inr (mc_blank c)
      | Some (enc, Some d) \<Rightarrow>
          if enc = ENCODING_TYPE_JSON then mc_UnmarshalJSON c d
          else if enc = ENCODING_TYPE_PROTO3 then ProtoDecodeBlob (mc_Unmarshal c) (Some \<lparr>B_encoding = enc, B_data = d\<rparr>)
          else Inl (UnknownEncodingTypeError (EncodingType_String enc) [ENCODING_TYPE_JSON, ENCODING_TYPE_PROTO3]))"

section \<open>Reading what was written\<close>

definition documented_codec :: "'m messageCodec \<Rightarrow> bool" where
  "documented_codec c \<longleftrightarrow>
     (\<forall>m data. mc_Marshal c m = Inr data \<longrightarrow> mc_Unmarshal c data = Inr m) \<and>
     (\<forall>m data. mc_MarshalJSON c m = Inr data \<longrightarrow> mc_UnmarshalJSON c data = Inr m)"

lemma names_of_encodings [simp]:
  "EncodingType_value (EncodingType_String ENCODING_TYPE_PROTO3) = Some ENCODING_TYPE_PROTO3"
  "EncodingType_value (EncodingType_String ENCODING_TYPE_JSON) = Some ENCODING_TYPE_JSON"
  "EncodingType_value (EncodingType_String (Suc 0)) = Some ENCODING_TYPE_PROTO3"
  by (simp_all add: EncodingType_value_def EncodingType_String_def)

lemma proto3_roundtrip:
  assumes "\<forall>m data. marshal m = Inr data \<longrightarrow> unmarshal data = Inr m" "proto3Encode marshal m = Inr (enc, data)"
  shows "proto3Decode unmarshal data (EncodingType_String enc) = Inr m"
  using assms by (auto simp: proto3Encode_def proto3Decode_def split: sum.splits)

lemma blob_roundtrip:
  assumes "documented_codec c" "blob_encode c (Some m) enc = Inr (enc', data)"
  shows "enc' = enc \<and> blob_decode c data (EncodingType_String enc) = Inr m"
proof (cases "enc = ENCODING_TYPE_JSON")
  case True
  then show ?thesis using assms by (auto simp: blob_encode_def blob_decode_def documented_codec_def split: sum.splits)
next
  case False
  then have p: "enc = ENCODING_TYPE_PROTO3" "proto3Encode (mc_Marshal c) m = Inr (enc', data)"
    using assms(2) by (auto simp: blob_encode_def split: if_splits)
  then have "enc' = enc" "data \<noteq> None" by (auto simp: proto3Encode_def split: sum.splits)
  with p show ?thesis
    using proto3_roundtrip[of "mc_Marshal c" "mc_Unmarshal c" m enc' data] assms(1)
    by (auto simp: blob_decode_def documented_codec_def)
qed

lemma encodeBlob_agrees: "encodeBlob c obj enc = blob_encode c obj enc"
  by (simp add: encodeBlob_def blob_encode_def proto3Encode_def ProtoEncodeBlob_def split: option.split sum.split)

lemma decodeBlob_agrees:
  "enc \<in> {ENCODING_TYPE_PROTO3, ENCODING_TYPE_JSON} \<Longrightarrow>
    decodeBlob c (Some (enc, data)) = blob_decode c data (EncodingType_String enc)"
  by (auto simp: decodeBlob_def blob_decode_def proto3Decode_def ProtoDecodeBlob_def split: option.split)

text \<open>
  What the documentation of \<^verbatim>\<open>encoding/json\<close> says of a decoder that is positioned at a text: an opening
  bracket is a token; the array has more elements unless it is closed or the text ends; and the next
  message is read up to what follows it, past a comma before it.
\<close>

definition reads_arrays :: "('s, 'm) jsonDecoder \<Rightarrow> (string \<Rightarrow> 's) \<Rightarrow> ('m \<Rightarrow> string + string) \<Rightarrow> bool" where
  "reads_arrays d pos marshal \<longleftrightarrow>
     (\<forall>s. Token d (pos (''['' @ s)) = Inr (pos s)) \<and>
     (\<forall>s. \<not> More d (pos ('']'' @ s))) \<and> \<not> More d (pos []) \<and>
     (\<forall>m text sep s. marshal m = Inr text \<longrightarrow> sep \<in> {'','', '']''} \<longrightarrow>
        (\<forall>before \<in> {[], '',''}. More d (pos (before @ text @ sep @ s)) \<and>
           UnmarshalNext d (pos (before @ text @ sep @ s)) = (None, m, pos (sep @ s))))"

lemma read_item:
  assumes "reads_arrays d pos marshal" "marshal m = Inr text" "sep = '','' \<or> sep = '']''" "before = [] \<or> before = '',''"
  shows "decode_items d (pos (before @ text @ sep @ s)) =
    Option.bind (decode_items d (pos (sep @ s))) (\<lambda>(items, err). Some (m # items, err))"
proof -
  have "More d (pos (before @ text @ sep @ s)) \<and> UnmarshalNext d (pos (before @ text @ sep @ s)) = (None, m, pos (sep @ s))"
    using assms by (simp only: reads_arrays_def insert_iff empty_iff Ball_def) metis
  then show ?thesis by (subst decode_items.simps) simp
qed

lemma decode_items_end:
  assumes "reads_arrays d pos marshal"
  shows "decode_items d (pos '']'') = Some ([], None)" "decode_items d (pos []) = Some ([], None)"
proof -
  have "\<not> More d (pos '']'')" "\<not> More d (pos [])" using assms append_Nil2[of "'']''"] by (unfold reads_arrays_def) metis+
  then show "decode_items d (pos '']'') = Some ([], None)" "decode_items d (pos []) = Some ([], None)"
    by (subst decode_items.simps, simp)+
qed

lemma decode_encoded_items:
  assumes "reads_arrays d pos marshal" "encode_items marshal items = Inr out" "items \<noteq> []" "before = [] \<or> before = '',''"
  shows "decode_items d (pos (before @ out)) = Some (items, None)"
  using assms(2-)
proof (induction items arbitrary: out before)
  case (Cons m items)
  from Cons.prems obtain t rest where t: "marshal m = Inr t" "encode_items marshal items = Inr rest"
    "out = t @ (if items = [] then '']'' else '','') @ rest" by (auto split: sum.splits)
  show ?case
  proof (cases "items = []")
    case True
    then show ?thesis using read_item[OF assms(1) t(1), of "'']''" before "[]"] t Cons.prems decode_items_end(1)[OF assms(1)] by simp
  next
    case False
    then have "decode_items d (pos ('','' @ rest)) = Some (items, None)" using Cons.IH[OF t(2), of "'',''"] by simp
    then show ?thesis using False read_item[OF assms(1) t(1), of "'',''" before rest] t Cons.prems by simp
  qed
qed simp

text \<open>A slice is decoded to itself, and the loop ends.\<close>

lemma slice_roundtrip:
  assumes "reads_arrays d pos marshal" "encodeSlice marshal items = Inr data"
  shows "decodeSlice d (pos data) = Some (items, None)"
proof -
  obtain out where t: "encode_items marshal items = Inr out" "data = ''['' @ out"
    using assms(2) by (auto simp: encodeSlice_def split: sum.splits)
  have tok: "Token d (pos data) = Inr (pos out)" using assms(1) t(2) by (simp only: reads_arrays_def)
  show ?thesis
  proof (cases "items = []")
    case True
    then show ?thesis using t(1) tok decode_items_end(2)[OF assms(1)] by (simp add: decodeSlice_def)
  next
    case False
    then show ?thesis using decode_encoded_items[OF assms(1) t(1), of "[]"] tok by (simp add: decodeSlice_def)
  qed
qed

text \<open>The bracket is closed after the last element only: an empty slice is not encoded as a JSON array.\<close>

lemma empty_slice_is_not_closed: "encodeSlice marshal [] = Inr ''[''"
  by (simp add: encodeSlice_def)

end
