(* ===== verification/TaskSerializer.thy ===== *)
theory TaskSerializer
  imports HistoryTasks Blobs122
begin

text \<open>
  \<^verbatim>\<open>proto/1_22/server/common/persistence/serialization/task_serializer.go\<close>: history tasks as protobuf
  messages and back. The messages keep the names of their fields, with a prefix where a task has a
  field of the same name; the fields that the five kinds of message have in common are the record
  \<open>taskInfo\<close>. What the generated code encodes and decodes is an argument.
\<close>

section \<open>Messages\<close>

record taskInfo =
  NamespaceId :: string
  WorkflowId :: string
  RunId :: string
  TaskType :: nat
  info_Version :: int
  TaskId :: int
  VisibilityTime :: "int option"

record TransferTaskInfo = taskInfo +
  TargetNamespaceId :: string
  TargetWorkflowId :: string
  TargetRunId :: string
  info_TaskQueue :: string
  info_TargetChildWorkflowOnly :: bool
  ScheduledEventId :: int
  info_DeleteAfterClose :: bool
  CloseExecutionTaskDetails :: "bool option"

record TimerTaskInfo = taskInfo +
  info_TimeoutType :: nat
  info_WorkflowBackoffType :: nat
  info_ScheduleAttempt :: int
  EventId :: int
  info_BranchToken :: string
  AlreadyArchived :: bool

record VisibilityTaskInfo = taskInfo +
  info_CloseTime :: "int option"
  info_StartTime :: "int option"
  CloseVisibilityTaskId :: int

record ReplicationTaskInfo = taskInfo +
  FirstEventId :: int
  NextEventId :: int
  rep_ScheduledEventId :: int
  rep_BranchToken :: string
  rep_NewRunBranchToken :: string
  NewRunId :: string

type_synonym ArchivalTaskInfo = taskInfo

record taskLib =
  MarshalTransfer :: "TransferTaskInfo \<Rightarrow> string + string"
  UnmarshalTransfer :: "string \<Rightarrow> string + TransferTaskInfo"
  MarshalTimer :: "TimerTaskInfo \<Rightarrow> string + string"
  UnmarshalTimer :: "string \<Rightarrow> string + TimerTaskInfo"
  MarshalVisibility :: "VisibilityTaskInfo \<Rightarrow> string + string"
  UnmarshalVisibility :: "string \<Rightarrow> string + VisibilityTaskInfo"
  MarshalReplication :: "ReplicationTaskInfo \<Rightarrow> string + string"
  UnmarshalReplication :: "string \<Rightarrow> string + ReplicationTaskInfo"
  MarshalArchival :: "ArchivalTaskInfo \<Rightarrow> string + string"
  UnmarshalArchival :: "string \<Rightarrow> string + ArchivalTaskInfo"

text \<open>Internal errors keep the value they print; the dereference of a nil time is a panic.\<close>

datatype fmtArg = ACategory Category | ATask Task | AType nat | ANil

datatype taskError = Internal string fmtArg | BlobErr string | NilDereference

definition deref :: "Task option \<Rightarrow> taskError + Task" where
  "deref t = (case t of None \<Rightarrow> Inl NilDereference | Some x \<Rightarrow> Inr x)"

section \<open>Conversions\<close>

text \<open>A message with the header of a task; the other fields have their zero values, as in a composite literal.\<close>

definition transferInfo :: "taskHeader \<Rightarrow> nat \<Rightarrow> TransferTaskInfo" where
  "transferInfo h ty =
     \<lparr>NamespaceId = NamespaceID h, WorkflowId = WorkflowID h, RunId = RunID h, TaskType = ty, info_Version = Version h,
      TaskId = TaskID h, VisibilityTime = TimePtr (VisibilityTimestamp h),
      TargetNamespaceId = [], TargetWorkflowId = [], TargetRunId = [], info_TaskQueue = [],
      info_TargetChildWorkflowOnly = False, ScheduledEventId = 0, info_DeleteAfterClose = False, CloseExecutionTaskDetails = None\<rparr>"

definition timerInfo :: "taskHeader \<Rightarrow> nat \<Rightarrow> TimerTaskInfo" where
  "timerInfo h ty =
     \<lparr>NamespaceId = NamespaceID h, WorkflowId = WorkflowID h, RunId = RunID h, TaskType = ty, info_Version = Version h,
      TaskId = TaskID h, VisibilityTime = Some (VisibilityTimestamp h),
      info_TimeoutType = 0, info_WorkflowBackoffType = 0, info_ScheduleAttempt = 0, EventId = 0,
      info_BranchToken = [], AlreadyArchived = False\<rparr>"

definition visibilityInfo :: "taskHeader \<Rightarrow> nat \<Rightarrow> VisibilityTaskInfo" where
  "visibilityInfo h ty =
     \<lparr>NamespaceId = NamespaceID h, WorkflowId = WorkflowID h, RunId = RunID h, TaskType = ty, info_Version = Version h,
      TaskId = TaskID h, VisibilityTime = Some (VisibilityTimestamp h),
      info_CloseTime = None, info_StartTime = None, CloseVisibilityTaskId = 0\<rparr>"

definition replicationInfo :: "taskHeader \<Rightarrow> nat \<Rightarrow> ReplicationTaskInfo" where
  "replicationInfo h ty =
     \<lparr>NamespaceId = NamespaceID h, WorkflowId = WorkflowID h, RunId = RunID h, TaskType = ty, info_Version = Version h,
      TaskId = TaskID h, VisibilityTime = Some (VisibilityTimestamp h),
      FirstEventId = 0, NextEventId = 0, rep_ScheduledEventId = 0, rep_BranchToken = [], rep_NewRunBranchToken = [], NewRunId = []\<rparr>"

definition archivalInfo :: "taskHeader \<Rightarrow> nat \<Rightarrow> ArchivalTaskInfo" where
  "archivalInfo h ty =
     \<lparr>NamespaceId = NamespaceID h, WorkflowId = WorkflowID h, RunId = RunID h, TaskType = ty, info_Version = Version h,
      TaskId = TaskID h, VisibilityTime = Some (VisibilityTimestamp h)\<rparr>"

definition taskHeader_of :: "'a taskInfo_scheme \<Rightarrow> int \<Rightarrow> taskHeader" where
  "taskHeader_of p ts =
     \<lparr>NamespaceID = NamespaceId p, WorkflowID = WorkflowId p, RunID = RunId p,
      VisibilityTimestamp = ts, TaskID = TaskId p, Version = info_Version p\<rparr>"

definition visibility_or_epoch :: "'a taskInfo_scheme \<Rightarrow> int" where
  "visibility_or_epoch p = (case VisibilityTime p of None \<Rightarrow> 0 | Some ts \<Rightarrow> ts)"

abbreviation DeleteWorkflowExecutionStageNone :: nat where "DeleteWorkflowExecutionStageNone \<equiv> 0"

definition transferActivityTaskToProto :: "taskHeader \<Rightarrow> string \<Rightarrow> int \<Rightarrow> TransferTaskInfo" where
  "transferActivityTaskToProto h q e =
     (transferInfo h TASK_TYPE_TRANSFER_ACTIVITY_TASK)\<lparr>TargetNamespaceId := NamespaceID h, info_TaskQueue := q, ScheduledEventId := e\<rparr>"

definition transferActivityTaskFromProto :: "TransferTaskInfo \<Rightarrow> Task option" where
  "transferActivityTaskFromProto p =
     map_option (\<lambda>ts. ActivityTask (taskHeader_of p ts) (info_TaskQueue p) (ScheduledEventId p)) (VisibilityTime p)"

definition transferWorkflowTaskToProto :: "taskHeader \<Rightarrow> string \<Rightarrow> int \<Rightarrow> TransferTaskInfo" where
  "transferWorkflowTaskToProto h q e =
     (transferInfo h TASK_TYPE_TRANSFER_WORKFLOW_TASK)\<lparr>TargetNamespaceId := NamespaceID h, info_TaskQueue := q, ScheduledEventId := e\<rparr>"

definition transferWorkflowTaskFromProto :: "TransferTaskInfo \<Rightarrow> Task option" where
  "transferWorkflowTaskFromProto p =
     map_option (\<lambda>ts. WorkflowTask (taskHeader_of p ts) (info_TaskQueue p) (ScheduledEventId p)) (VisibilityTime p)"

definition transferRequestCancelTaskToProto :: "taskHeader \<Rightarrow> string \<Rightarrow> string \<Rightarrow> string \<Rightarrow> bool \<Rightarrow> int \<Rightarrow> TransferTaskInfo" where
  "transferRequestCancelTaskToProto h ns wid run childOnly e =
     (transferInfo h TASK_TYPE_TRANSFER_CANCEL_EXECUTION)\<lparr>TargetNamespaceId := ns, TargetWorkflowId := wid, TargetRunId := run, info_TargetChildWorkflowOnly := childOnly, ScheduledEventId := e\<rparr>"

definition transferRequestCancelTaskFromProto :: "TransferTaskInfo \<Rightarrow> Task option" where
  "transferRequestCancelTaskFromProto p =
     map_option (\<lambda>ts. CancelExecutionTask (taskHeader_of p ts) (TargetNamespaceId p) (TargetWorkflowId p) (TargetRunId p) (info_TargetChildWorkflowOnly p) (ScheduledEventId p)) (VisibilityTime p)"

definition transferSignalTaskToProto :: "taskHeader \<Rightarrow> string \<Rightarrow> string \<Rightarrow> string \<Rightarrow> bool \<Rightarrow> int \<Rightarrow> TransferTaskInfo" where
  "transferSignalTaskToProto h ns wid run childOnly e =
     (transferInfo h TASK_TYPE_TRANSFER_SIGNAL_EXECUTION)\<lparr>TargetNamespaceId := ns, TargetWorkflowId := wid, TargetRunId := run, info_TargetChildWorkflowOnly := childOnly, ScheduledEventId := e\<rparr>"

definition transferSignalTaskFromProto :: "TransferTaskInfo \<Rightarrow> Task option" where
  "transferSignalTaskFromProto p =
     map_option (\<lambda>ts. SignalExecutionTask (taskHeader_of p ts) (TargetNamespaceId p) (TargetWorkflowId p) (TargetRunId p) (info_TargetChildWorkflowOnly p) (ScheduledEventId p)) (VisibilityTime p)"

definition transferChildWorkflowTaskToProto :: "taskHeader \<Rightarrow> string \<Rightarrow> string \<Rightarrow> int \<Rightarrow> TransferTaskInfo" where
  "transferChildWorkflowTaskToProto h ns wid e =
     (transferInfo h TASK_TYPE_TRANSFER_START_CHILD_EXECUTION)\<lparr>TargetNamespaceId := ns, TargetWorkflowId := wid, ScheduledEventId := e\<rparr>"

definition transferChildWorkflowTaskFromProto :: "TransferTaskInfo \<Rightarrow> Task option" where
  "transferChildWorkflowTaskFromProto p =
     map_option (\<lambda>ts. StartChildExecutionTask (taskHeader_of p ts) (TargetNamespaceId p) (TargetWorkflowId p) (ScheduledEventId p)) (VisibilityTime p)"

definition transferCloseTaskToProto :: "taskHeader \<Rightarrow> bool \<Rightarrow> bool \<Rightarrow> TransferTaskInfo" where
  "transferCloseTaskToProto h del skip =
     (transferInfo h TASK_TYPE_TRANSFER_CLOSE_EXECUTION)\<lparr>info_DeleteAfterClose := del, CloseExecutionTaskDetails := Some skip\<rparr>"

definition transferCloseTaskFromProto :: "TransferTaskInfo \<Rightarrow> Task option" where
  "transferCloseTaskFromProto p =
     map_option (\<lambda>ts. CloseExecutionTask (taskHeader_of p ts) (info_DeleteAfterClose p) (case CloseExecutionTaskDetails p of None \<Rightarrow> False | Some skip \<Rightarrow> skip) DeleteWorkflowExecutionStageNone) (VisibilityTime p)"

definition transferResetTaskToProto :: "taskHeader \<Rightarrow> TransferTaskInfo" where
  "transferResetTaskToProto h =
     transferInfo h TASK_TYPE_TRANSFER_RESET_WORKFLOW"

definition transferResetTaskFromProto :: "TransferTaskInfo \<Rightarrow> Task option" where
  "transferResetTaskFromProto p =
     map_option (\<lambda>ts. ResetWorkflowTask (taskHeader_of p ts)) (VisibilityTime p)"

definition transferDeleteExecutionTaskToProto :: "taskHeader \<Rightarrow> TransferTaskInfo" where
  "transferDeleteExecutionTaskToProto h =
     transferInfo h TASK_TYPE_TRANSFER_DELETE_EXECUTION"

definition transferDeleteExecutionTaskFromProto :: "TransferTaskInfo \<Rightarrow> Task option" where
  "transferDeleteExecutionTaskFromProto p =
     map_option (\<lambda>ts. DeleteExecutionTask (taskHeader_of p ts) DeleteWorkflowExecutionStageNone) (VisibilityTime p)"

definition timerWorkflowTaskToProto :: "taskHeader \<Rightarrow> int \<Rightarrow> int \<Rightarrow> nat \<Rightarrow> TimerTaskInfo" where
  "timerWorkflowTaskToProto h e attempt ty =
     (timerInfo h TASK_TYPE_WORKFLOW_TASK_TIMEOUT)\<lparr>info_TimeoutType := ty, info_ScheduleAttempt := attempt, EventId := e\<rparr>"

definition timerWorkflowTaskFromProto :: "TimerTaskInfo \<Rightarrow> Task option" where
  "timerWorkflowTaskFromProto p =
     map_option (\<lambda>ts. WorkflowTaskTimeoutTask (taskHeader_of p ts) (EventId p) (info_ScheduleAttempt p) (info_TimeoutType p) 0) (VisibilityTime p)"

definition timerWorkflowDelayTaskToProto :: "taskHeader \<Rightarrow> nat \<Rightarrow> TimerTaskInfo" where
  "timerWorkflowDelayTaskToProto h ty =
     (timerInfo h TASK_TYPE_WORKFLOW_BACKOFF_TIMER)\<lparr>info_WorkflowBackoffType := ty\<rparr>"

definition timerWorkflowDelayTaskFromProto :: "TimerTaskInfo \<Rightarrow> Task option" where
  "timerWorkflowDelayTaskFromProto p =
     map_option (\<lambda>ts. WorkflowBackoffTimerTask (taskHeader_of p ts) (info_WorkflowBackoffType p)) (VisibilityTime p)"

definition timerActivityTaskToProto :: "taskHeader \<Rightarrow> nat \<Rightarrow> int \<Rightarrow> int \<Rightarrow> TimerTaskInfo" where
  "timerActivityTaskToProto h ty e attempt =
     (timerInfo h TASK_TYPE_ACTIVITY_TIMEOUT)\<lparr>info_TimeoutType := ty, info_ScheduleAttempt := attempt, EventId := e\<rparr>"

definition timerActivityTaskFromProto :: "TimerTaskInfo \<Rightarrow> Task option" where
  "timerActivityTaskFromProto p =
     map_option (\<lambda>ts. ActivityTimeoutTask (taskHeader_of p ts) (info_TimeoutType p) (EventId p) (info_ScheduleAttempt p)) (VisibilityTime p)"

definition timerActivityRetryTaskToProto :: "taskHeader \<Rightarrow> int \<Rightarrow> int \<Rightarrow> TimerTaskInfo" where
  "timerActivityRetryTaskToProto h e attempt =
     (timerInfo h TASK_TYPE_ACTIVITY_RETRY_TIMER)\<lparr>info_ScheduleAttempt := attempt, EventId := e\<rparr>"

definition timerActivityRetryTaskFromProto :: "TimerTaskInfo \<Rightarrow> Task option" where
  "timerActivityRetryTaskFromProto p =
     map_option (\<lambda>ts. ActivityRetryTimerTask (taskHeader_of p ts) (EventId p) (info_ScheduleAttempt p)) (VisibilityTime p)"

definition timerUserTaskToProto :: "taskHeader \<Rightarrow> int \<Rightarrow> TimerTaskInfo" where
  "timerUserTaskToProto h e =
     (timerInfo h TASK_TYPE_USER_TIMER)\<lparr>EventId := e\<rparr>"

definition timerUserTaskFromProto :: "TimerTaskInfo \<Rightarrow> Task option" where
  "timerUserTaskFromProto p =
     map_option (\<lambda>ts. UserTimerTask (taskHeader_of p ts) (EventId p)) (VisibilityTime p)"

definition timerWorkflowRunToProto :: "taskHeader \<Rightarrow> TimerTaskInfo" where
  "timerWorkflowRunToProto h =
     timerInfo h TASK_TYPE_WORKFLOW_RUN_TIMEOUT"

definition timerWorkflowRunFromProto :: "TimerTaskInfo \<Rightarrow> Task option" where
  "timerWorkflowRunFromProto p =
     map_option (\<lambda>ts. WorkflowTimeoutTask (taskHeader_of p ts)) (VisibilityTime p)"

definition timerWorkflowCleanupTaskToProto :: "taskHeader \<Rightarrow> string \<Rightarrow> bool \<Rightarrow> TimerTaskInfo" where
  "timerWorkflowCleanupTaskToProto h branch archived =
     (timerInfo h TASK_TYPE_DELETE_HISTORY_EVENT)\<lparr>info_BranchToken := branch, AlreadyArchived := archived\<rparr>"

definition timerWorkflowCleanupTaskFromProto :: "TimerTaskInfo \<Rightarrow> Task option" where
  "timerWorkflowCleanupTaskFromProto p =
     map_option (\<lambda>ts. DeleteHistoryEventTask (taskHeader_of p ts) (info_BranchToken p) (AlreadyArchived p) DeleteWorkflowExecutionStageNone) (VisibilityTime p)"

definition visibilityStartTaskToProto :: "taskHeader \<Rightarrow> VisibilityTaskInfo" where
  "visibilityStartTaskToProto h =
     visibilityInfo h TASK_TYPE_VISIBILITY_START_EXECUTION"

definition visibilityStartTaskFromProto :: "VisibilityTaskInfo \<Rightarrow> Task option" where
  "visibilityStartTaskFromProto p =
     map_option (\<lambda>ts. StartExecutionVisibilityTask (taskHeader_of p ts)) (VisibilityTime p)"

definition visibilityUpsertTaskToProto :: "taskHeader \<Rightarrow> VisibilityTaskInfo" where
  "visibilityUpsertTaskToProto h =
     visibilityInfo h TASK_TYPE_VISIBILITY_UPSERT_EXECUTION"

definition visibilityUpsertTaskFromProto :: "VisibilityTaskInfo \<Rightarrow> Task option" where
  "visibilityUpsertTaskFromProto p =
     map_option (\<lambda>ts. UpsertExecutionVisibilityTask (taskHeader_of p ts)) (VisibilityTime p)"

definition visibilityCloseTaskToProto :: "taskHeader \<Rightarrow> VisibilityTaskInfo" where
  "visibilityCloseTaskToProto h =
     visibilityInfo h TASK_TYPE_VISIBILITY_CLOSE_EXECUTION"

definition visibilityCloseTaskFromProto :: "VisibilityTaskInfo \<Rightarrow> Task option" where
  "visibilityCloseTaskFromProto p =
     map_option (\<lambda>ts. CloseExecutionVisibilityTask (taskHeader_of p ts)) (VisibilityTime p)"

definition visibilityDeleteTaskToProto :: "taskHeader \<Rightarrow> int \<Rightarrow> int option \<Rightarrow> int option \<Rightarrow> VisibilityTaskInfo" where
  "visibilityDeleteTaskToProto h closeId st ct =
     (visibilityInfo h TASK_TYPE_VISIBILITY_DELETE_EXECUTION)\<lparr>info_StartTime := st, info_CloseTime := ct, CloseVisibilityTaskId := closeId\<rparr>"

definition visibilityDeleteTaskFromProto :: "VisibilityTaskInfo \<Rightarrow> Task option" where
  "visibilityDeleteTaskFromProto p =
     map_option (\<lambda>ts. DeleteExecutionVisibilityTask (taskHeader_of p ts) (CloseVisibilityTaskId p) (info_StartTime p) (info_CloseTime p)) (VisibilityTime p)"

definition replicationActivityTaskToProto :: "taskHeader \<Rightarrow> int \<Rightarrow> ReplicationTaskInfo" where
  "replicationActivityTaskToProto h e =
     (replicationInfo h TASK_TYPE_REPLICATION_SYNC_ACTIVITY)\<lparr>rep_ScheduledEventId := e\<rparr>"

definition replicationActivityTaskFromProto :: "ReplicationTaskInfo \<Rightarrow> Task" where
  "replicationActivityTaskFromProto p =
     (let ts = visibility_or_epoch p in SyncActivityTask (taskHeader_of p ts) (rep_ScheduledEventId p))"

definition replicationHistoryTaskToProto :: "taskHeader \<Rightarrow> int \<Rightarrow> int \<Rightarrow> string \<Rightarrow> string \<Rightarrow> string \<Rightarrow> ReplicationTaskInfo" where
  "replicationHistoryTaskToProto h first nxt branch newBranch newRun =
     (replicationInfo h TASK_TYPE_REPLICATION_HISTORY)\<lparr>FirstEventId := first, NextEventId := nxt, rep_BranchToken := branch, rep_NewRunBranchToken := newBranch, NewRunId := newRun\<rparr>"

definition replicationHistoryTaskFromProto :: "ReplicationTaskInfo \<Rightarrow> Task" where
  "replicationHistoryTaskFromProto p =
     (let ts = visibility_or_epoch p in HistoryReplicationTask (taskHeader_of p ts) (FirstEventId p) (NextEventId p) (rep_BranchToken p) (rep_NewRunBranchToken p) (NewRunId p))"

definition replicationSyncWorkflowStateTaskToProto :: "taskHeader \<Rightarrow> ReplicationTaskInfo" where
  "replicationSyncWorkflowStateTaskToProto h =
     replicationInfo h TASK_TYPE_REPLICATION_SYNC_WORKFLOW_STATE"

definition replicationSyncWorkflowStateTaskFromProto :: "ReplicationTaskInfo \<Rightarrow> Task" where
  "replicationSyncWorkflowStateTaskFromProto p =
     (let ts = visibility_or_epoch p in SyncWorkflowStateTask (taskHeader_of p ts))"

definition archiveExecutionTaskToProto :: "taskHeader \<Rightarrow> ArchivalTaskInfo" where
  "archiveExecutionTaskToProto h =
     archivalInfo h TASK_TYPE_ARCHIVAL_ARCHIVE_EXECUTION"

definition archiveExecutionTaskFromProto :: "ArchivalTaskInfo \<Rightarrow> Task" where
  "archiveExecutionTaskFromProto p =
     (let ts = visibility_or_epoch p in ArchiveExecutionTask (taskHeader_of p ts))"

section \<open>The five queues\<close>

fun transfer_to_proto :: "Task \<Rightarrow> TransferTaskInfo option" where
  "transfer_to_proto (ActivityTask h q e) = Some (transferActivityTaskToProto h q e)"
| "transfer_to_proto (WorkflowTask h q e) = Some (transferWorkflowTaskToProto h q e)"
| "transfer_to_proto (CancelExecutionTask h ns wid run childOnly e) = Some (transferRequestCancelTaskToProto h ns wid run childOnly e)"
| "transfer_to_proto (SignalExecutionTask h ns wid run childOnly e) = Some (transferSignalTaskToProto h ns wid run childOnly e)"
| "transfer_to_proto (StartChildExecutionTask h ns wid e) = Some (transferChildWorkflowTaskToProto h ns wid e)"
| "transfer_to_proto (CloseExecutionTask h del skip stage) = Some (transferCloseTaskToProto h del skip)"
| "transfer_to_proto (ResetWorkflowTask h) = Some (transferResetTaskToProto h)"
| "transfer_to_proto (DeleteExecutionTask h stage) = Some (transferDeleteExecutionTaskToProto h)"
| "transfer_to_proto _ = None"

definition serializeTransferTask :: "taskLib \<Rightarrow> Task \<Rightarrow> taskError + rawBlob" where
  "serializeTransferTask L t =
     (case transfer_to_proto t of
        None \<Rightarrow> Inl (Internal ''Unknown transfer task type: '' (ATask t))
      | Some info \<Rightarrow> map_sum BlobErr id (proto3Encode (MarshalTransfer L) info))"

definition transfer_from_proto :: "TransferTaskInfo \<Rightarrow> taskError + Task" where
  "transfer_from_proto p =
     (if TaskType p = TASK_TYPE_TRANSFER_ACTIVITY_TASK then deref (transferActivityTaskFromProto p)
      else if TaskType p = TASK_TYPE_TRANSFER_WORKFLOW_TASK then deref (transferWorkflowTaskFromProto p)
      else if TaskType p = TASK_TYPE_TRANSFER_CANCEL_EXECUTION then deref (transferRequestCancelTaskFromProto p)
      else if TaskType p = TASK_TYPE_TRANSFER_SIGNAL_EXECUTION then deref (transferSignalTaskFromProto p)
      else if TaskType p = TASK_TYPE_TRANSFER_START_CHILD_EXECUTION then deref (transferChildWorkflowTaskFromProto p)
      else if TaskType p = TASK_TYPE_TRANSFER_CLOSE_EXECUTION then deref (transferCloseTaskFromProto p)
      else if TaskType p = TASK_TYPE_TRANSFER_RESET_WORKFLOW then deref (transferResetTaskFromProto p)
      else if TaskType p = TASK_TYPE_TRANSFER_DELETE_EXECUTION then deref (transferDeleteExecutionTaskFromProto p)
      else Inl (Internal ''Unknown transfer task type: '' (AType (TaskType p))))"

definition deserializeTransferTasks :: "taskLib \<Rightarrow> rawBlob \<Rightarrow> taskError + Task" where
  "deserializeTransferTasks L b =
     (case proto3Decode (UnmarshalTransfer L) (snd b) (EncodingType_String (fst b)) of
        Inl err \<Rightarrow> Inl (BlobErr err)
      | Inr info \<Rightarrow> transfer_from_proto info)"

fun timer_to_proto :: "Task \<Rightarrow> TimerTaskInfo option" where
  "timer_to_proto (WorkflowTaskTimeoutTask h e attempt ty st) = Some (timerWorkflowTaskToProto h e attempt ty)"
| "timer_to_proto (WorkflowBackoffTimerTask h ty) = Some (timerWorkflowDelayTaskToProto h ty)"
| "timer_to_proto (ActivityTimeoutTask h ty e attempt) = Some (timerActivityTaskToProto h ty e attempt)"
| "timer_to_proto (ActivityRetryTimerTask h e attempt) = Some (timerActivityRetryTaskToProto h e attempt)"
| "timer_to_proto (UserTimerTask h e) = Some (timerUserTaskToProto h e)"
| "timer_to_proto (WorkflowTimeoutTask h) = Some (timerWorkflowRunToProto h)"
| "timer_to_proto (DeleteHistoryEventTask h branch archived stage) = Some (timerWorkflowCleanupTaskToProto h branch archived)"
| "timer_to_proto _ = None"

definition serializeTimerTask :: "taskLib \<Rightarrow> Task \<Rightarrow> taskError + rawBlob" where
  "serializeTimerTask L t =
     (case timer_to_proto t of
        None \<Rightarrow> Inl (Internal ''Unknown timer task type: '' (ATask t))
      | Some info \<Rightarrow> map_sum BlobErr id (proto3Encode (MarshalTimer L) info))"

definition timer_from_proto :: "TimerTaskInfo \<Rightarrow> taskError + Task" where
  "timer_from_proto p =
     (if TaskType p = TASK_TYPE_WORKFLOW_TASK_TIMEOUT then deref (timerWorkflowTaskFromProto p)
      else if TaskType p = TASK_TYPE_WORKFLOW_BACKOFF_TIMER then deref (timerWorkflowDelayTaskFromProto p)
      else if TaskType p = TASK_TYPE_ACTIVITY_TIMEOUT then deref (timerActivityTaskFromProto p)
      else if TaskType p = TASK_TYPE_ACTIVITY_RETRY_TIMER then deref (timerActivityRetryTaskFromProto p)
      else if TaskType p = TASK_TYPE_USER_TIMER then deref (timerUserTaskFromProto p)
      else if TaskType p = TASK_TYPE_WORKFLOW_RUN_TIMEOUT then deref (timerWorkflowRunFromProto p)
      else if TaskType p = TASK_TYPE_DELETE_HISTORY_EVENT then deref (timerWorkflowCleanupTaskFromProto p)
      else Inl (Internal ''Unknown timer task type: '' (AType (TaskType p))))"

definition deserializeTimerTasks :: "taskLib \<Rightarrow> rawBlob \<Rightarrow> taskError + Task" where
  "deserializeTimerTasks L b =
     (case proto3Decode (UnmarshalTimer L) (snd b) (EncodingType_String (fst b)) of
        Inl err \<Rightarrow> Inl (BlobErr err)
      | Inr info \<Rightarrow> timer_from_proto info)"

fun visibility_to_proto :: "Task \<Rightarrow> VisibilityTaskInfo option" where
  "visibility_to_proto (StartExecutionVisibilityTask h) = Some (visibilityStartTaskToProto h)"
| "visibility_to_proto (UpsertExecutionVisibilityTask h) = Some (visibilityUpsertTaskToProto h)"
| "visibility_to_proto (CloseExecutionVisibilityTask h) = Some (visibilityCloseTaskToProto h)"
| "visibility_to_proto (DeleteExecutionVisibilityTask h closeId st ct) = Some (visibilityDeleteTaskToProto h closeId st ct)"
| "visibility_to_proto _ = None"

definition serializeVisibilityTask :: "taskLib \<Rightarrow> Task \<Rightarrow> taskError + rawBlob" where
  "serializeVisibilityTask L t =
     (case visibility_to_proto t of
        None \<Rightarrow> Inl (Internal ''Unknown visibility task type: '' (ATask t))
      | Some info \<Rightarrow> map_sum BlobErr id (proto3Encode (MarshalVisibility L) info))"

definition visibility_from_proto :: "VisibilityTaskInfo \<Rightarrow> taskError + Task" where
  "visibility_from_proto p =
     (if TaskType p = TASK_TYPE_VISIBILITY_START_EXECUTION then deref (visibilityStartTaskFromProto p)
      else if TaskType p = TASK_TYPE_VISIBILITY_UPSERT_EXECUTION then deref (visibilityUpsertTaskFromProto p)
      else if TaskType p = TASK_TYPE_VISIBILITY_CLOSE_EXECUTION then deref (visibilityCloseTaskFromProto p)
      else if TaskType p = TASK_TYPE_VISIBILITY_DELETE_EXECUTION then deref (visibilityDeleteTaskFromProto p)
      else Inl (Internal ''Unknown visibility task type: '' (AType (TaskType p))))"

definition deserializeVisibilityTasks :: "taskLib \<Rightarrow> rawBlob \<Rightarrow> taskError + Task" where
  "deserializeVisibilityTasks L b =
     (case proto3Decode (UnmarshalVisibility L) (snd b) (EncodingType_String (fst b)) of
        Inl err \<Rightarrow> Inl (BlobErr err)
      | Inr info \<Rightarrow> visibility_from_proto info)"

fun replication_to_proto :: "Task \<Rightarrow> ReplicationTaskInfo option" where
  "replication_to_proto (SyncActivityTask h e) = Some (replicationActivityTaskToProto h e)"
| "replication_to_proto (HistoryReplicationTask h first nxt branch newBranch newRun) = Some (replicationHistoryTaskToProto h first nxt branch newBranch newRun)"
| "replication_to_proto (SyncWorkflowStateTask h) = Some (replicationSyncWorkflowStateTaskToProto h)"
| "replication_to_proto _ = None"

definition serializeReplicationTask :: "taskLib \<Rightarrow> Task \<Rightarrow> taskError + rawBlob" where
  "serializeReplicationTask L t =
     (case replication_to_proto t of
        None \<Rightarrow> Inl (Internal ''Unknown repication task type: '' (ATask t))
      | Some info \<Rightarrow> map_sum BlobErr id (proto3Encode (MarshalReplication L) info))"

definition replication_from_proto :: "ReplicationTaskInfo \<Rightarrow> taskError + Task" where
  "replication_from_proto p =
     (if TaskType p = TASK_TYPE_REPLICATION_SYNC_ACTIVITY then Inr (replicationActivityTaskFromProto p)
      else if TaskType p = TASK_TYPE_REPLICATION_HISTORY then Inr (replicationHistoryTaskFromProto p)
      else if TaskType p = TASK_TYPE_REPLICATION_SYNC_WORKFLOW_STATE then Inr (replicationSyncWorkflowStateTaskFromProto p)
      else Inl (Internal ''Unknown replication task type: '' (AType (TaskType p))))"

definition deserializeReplicationTasks :: "taskLib \<Rightarrow> rawBlob \<Rightarrow> taskError + Task" where
  "deserializeReplicationTasks L b =
     (case proto3Decode (UnmarshalReplication L) (snd b) (EncodingType_String (fst b)) of
        Inl err \<Rightarrow> Inl (BlobErr err)
      | Inr info \<Rightarrow> replication_from_proto info)"

fun archival_to_proto :: "Task \<Rightarrow> ArchivalTaskInfo option" where
  "archival_to_proto (ArchiveExecutionTask h) = Some (archiveExecutionTaskToProto h)"
| "archival_to_proto _ = None"

definition serializeArchivalTask :: "taskLib \<Rightarrow> Task \<Rightarrow> taskError + rawBlob" where
  "serializeArchivalTask L t =
     (case archival_to_proto t of
        None \<Rightarrow> Inl (Internal ''Unknown archival task type while serializing: '' (ATask t))
      | Some info \<Rightarrow> map_sum BlobErr id (proto3Encode (MarshalArchival L) info))"

definition archival_from_proto :: "ArchivalTaskInfo \<Rightarrow> taskError + Task" where
  "archival_from_proto p =
     (if TaskType p = TASK_TYPE_ARCHIVAL_ARCHIVE_EXECUTION then Inr (archiveExecutionTaskFromProto p)
      else Inl (Internal ''Unknown archival task type while deserializing: '' ANil))"

definition deserializeArchivalTasks :: "taskLib \<Rightarrow> rawBlob \<Rightarrow> taskError + Task" where
  "deserializeArchivalTasks L b =
     (case proto3Decode (UnmarshalArchival L) (snd b) (EncodingType_String (fst b)) of
        Inl err \<Rightarrow> Inl (BlobErr err)
      | Inr info \<Rightarrow> archival_from_proto info)"

section \<open>Tasks of any category\<close>

definition SerializeTask :: "taskLib \<Rightarrow> Task \<Rightarrow> taskError + rawBlob" where
  "SerializeTask L t =
     (let i = cat_id (GetCategory t)
      in if i = CategoryIDTransfer then serializeTransferTask L t
         else if i = CategoryIDTimer then serializeTimerTask L t
         else if i = CategoryIDVisibility then serializeVisibilityTask L t
         else if i = CategoryIDReplication then serializeReplicationTask L t
         else if i = CategoryIDArchival then serializeArchivalTask L t
         else Inl (Internal ''Unknown task category: '' (ACategory (GetCategory t))))"

definition DeserializeTask :: "taskLib \<Rightarrow> Category \<Rightarrow> rawBlob \<Rightarrow> taskError + Task" where
  "DeserializeTask L c b =
     (let i = cat_id c
      in if i = CategoryIDTransfer then deserializeTransferTasks L b
         else if i = CategoryIDTimer then deserializeTimerTasks L b
         else if i = CategoryIDVisibility then deserializeVisibilityTasks L b
         else if i = CategoryIDReplication then deserializeReplicationTasks L b
         else if i = CategoryIDArchival then deserializeArchivalTasks L b
         else Inl (Internal ''Unknown task category: '' (ACategory c)))"

section \<open>Reading what was written\<close>

text \<open>The stages of a deletion and the state of a speculative workflow task live in memory only.\<close>

fun persisted :: "Task \<Rightarrow> Task" where
  "persisted (CloseExecutionTask h del skip stage) = CloseExecutionTask h del skip DeleteWorkflowExecutionStageNone"
| "persisted (DeleteExecutionTask h stage) = DeleteExecutionTask h DeleteWorkflowExecutionStageNone"
| "persisted (DeleteHistoryEventTask h branch archived stage) = DeleteHistoryEventTask h branch archived DeleteWorkflowExecutionStageNone"
| "persisted (WorkflowTaskTimeoutTask h e attempt ty st) = WorkflowTaskTimeoutTask h e attempt ty 0"
| "persisted t = t"

named_theorems to_proto \<open>the conversions of tasks to messages\<close>
named_theorems from_proto \<open>the conversions of messages to tasks\<close>

lemmas [to_proto] =
  transferActivityTaskToProto_def
  transferWorkflowTaskToProto_def
  transferRequestCancelTaskToProto_def
  transferSignalTaskToProto_def
  transferChildWorkflowTaskToProto_def
  transferCloseTaskToProto_def
  transferResetTaskToProto_def
  transferDeleteExecutionTaskToProto_def
  timerWorkflowTaskToProto_def
  timerWorkflowDelayTaskToProto_def
  timerActivityTaskToProto_def
  timerActivityRetryTaskToProto_def
  timerUserTaskToProto_def
  timerWorkflowRunToProto_def
  timerWorkflowCleanupTaskToProto_def
  visibilityStartTaskToProto_def
  visibilityUpsertTaskToProto_def
  visibilityCloseTaskToProto_def
  visibilityDeleteTaskToProto_def
  replicationActivityTaskToProto_def
  replicationHistoryTaskToProto_def
  replicationSyncWorkflowStateTaskToProto_def
  archiveExecutionTaskToProto_def
  transferInfo_def timerInfo_def visibilityInfo_def replicationInfo_def archivalInfo_def TimePtr_def

lemmas [from_proto] =
  transferActivityTaskFromProto_def
  transferWorkflowTaskFromProto_def
  transferRequestCancelTaskFromProto_def
  transferSignalTaskFromProto_def
  transferChildWorkflowTaskFromProto_def
  transferCloseTaskFromProto_def
  transferResetTaskFromProto_def
  transferDeleteExecutionTaskFromProto_def
  timerWorkflowTaskFromProto_def
  timerWorkflowDelayTaskFromProto_def
  timerActivityTaskFromProto_def
  timerActivityRetryTaskFromProto_def
  timerUserTaskFromProto_def
  timerWorkflowRunFromProto_def
  timerWorkflowCleanupTaskFromProto_def
  visibilityStartTaskFromProto_def
  visibilityUpsertTaskFromProto_def
  visibilityCloseTaskFromProto_def
  visibilityDeleteTaskFromProto_def
  replicationActivityTaskFromProto_def
  replicationHistoryTaskFromProto_def
  replicationSyncWorkflowStateTaskFromProto_def
  archiveExecutionTaskFromProto_def
  taskHeader_of_def visibility_or_epoch_def deref_def

text \<open>Each conversion is undone by the one for its type number, and the type number is that of the task.\<close>

lemma transfer_conversion: "transfer_to_proto t = Some info \<Longrightarrow> transfer_from_proto info = Inr (persisted t) \<and> TaskType info = GetType t"
  by (cases t) (auto simp: transfer_from_proto_def to_proto from_proto)

lemma timer_conversion: "timer_to_proto t = Some info \<Longrightarrow> timer_from_proto info = Inr (persisted t) \<and> TaskType info = GetType t"
  by (cases t) (auto simp: timer_from_proto_def to_proto from_proto)

lemma visibility_conversion: "visibility_to_proto t = Some info \<Longrightarrow> visibility_from_proto info = Inr (persisted t) \<and> TaskType info = GetType t"
  by (cases t) (auto simp: visibility_from_proto_def to_proto from_proto)

lemma replication_conversion: "replication_to_proto t = Some info \<Longrightarrow> replication_from_proto info = Inr (persisted t) \<and> TaskType info = GetType t"
  by (cases t) (auto simp: replication_from_proto_def to_proto from_proto)

lemma archival_conversion: "archival_to_proto t = Some info \<Longrightarrow> archival_from_proto info = Inr (persisted t) \<and> TaskType info = GetType t"
  by (cases t) (auto simp: archival_from_proto_def to_proto from_proto)

text \<open>The generated code: what a message is encoded to decodes to that message.\<close>

definition documented_lib :: "taskLib \<Rightarrow> bool" where
  "documented_lib L \<longleftrightarrow>
     (\<forall>m data. MarshalTransfer L m = Inr data \<longrightarrow> UnmarshalTransfer L data = Inr m) \<and>
     (\<forall>m data. MarshalTimer L m = Inr data \<longrightarrow> UnmarshalTimer L data = Inr m) \<and>
     (\<forall>m data. MarshalVisibility L m = Inr data \<longrightarrow> UnmarshalVisibility L data = Inr m) \<and>
     (\<forall>m data. MarshalReplication L m = Inr data \<longrightarrow> UnmarshalReplication L data = Inr m) \<and>
     (\<forall>m data. MarshalArchival L m = Inr data \<longrightarrow> UnmarshalArchival L data = Inr m)"

lemma encoded_blob:
  assumes "\<forall>m data. marshal m = Inr data \<longrightarrow> unmarshal data = Inr m" "map_sum BlobErr id (proto3Encode marshal info) = Inr b"
  shows "proto3Decode unmarshal (snd b) (EncodingType_String (fst b)) = Inr info"
  using assms proto3_roundtrip[of marshal unmarshal info "fst b" "snd b"] by (cases "proto3Encode marshal info") auto

lemma queue_roundtrips:
  assumes "documented_lib L"
  shows "serializeTransferTask L t = Inr b \<Longrightarrow> deserializeTransferTasks L b = Inr (persisted t)"
    and "serializeTimerTask L t = Inr b \<Longrightarrow> deserializeTimerTasks L b = Inr (persisted t)"
    and "serializeVisibilityTask L t = Inr b \<Longrightarrow> deserializeVisibilityTasks L b = Inr (persisted t)"
    and "serializeReplicationTask L t = Inr b \<Longrightarrow> deserializeReplicationTasks L b = Inr (persisted t)"
    and "serializeArchivalTask L t = Inr b \<Longrightarrow> deserializeArchivalTasks L b = Inr (persisted t)"
proof -
  note L = assms[unfolded documented_lib_def]
  show "serializeTransferTask L t = Inr b \<Longrightarrow> deserializeTransferTasks L b = Inr (persisted t)"
    using L encoded_blob[of "MarshalTransfer L" "UnmarshalTransfer L"] transfer_conversion
    by (auto simp: serializeTransferTask_def deserializeTransferTasks_def split: option.splits)
  show "serializeTimerTask L t = Inr b \<Longrightarrow> deserializeTimerTasks L b = Inr (persisted t)"
    using L encoded_blob[of "MarshalTimer L" "UnmarshalTimer L"] timer_conversion
    by (auto simp: serializeTimerTask_def deserializeTimerTasks_def split: option.splits)
  show "serializeVisibilityTask L t = Inr b \<Longrightarrow> deserializeVisibilityTasks L b = Inr (persisted t)"
    using L encoded_blob[of "MarshalVisibility L" "UnmarshalVisibility L"] visibility_conversion
    by (auto simp: serializeVisibilityTask_def deserializeVisibilityTasks_def split: option.splits)
  show "serializeReplicationTask L t = Inr b \<Longrightarrow> deserializeReplicationTasks L b = Inr (persisted t)"
    using L encoded_blob[of "MarshalReplication L" "UnmarshalReplication L"] replication_conversion
    by (auto simp: serializeReplicationTask_def deserializeReplicationTasks_def split: option.splits)
  show "serializeArchivalTask L t = Inr b \<Longrightarrow> deserializeArchivalTasks L b = Inr (persisted t)"
    using L encoded_blob[of "MarshalArchival L" "UnmarshalArchival L"] archival_conversion
    by (auto simp: serializeArchivalTask_def deserializeArchivalTasks_def split: option.splits)
qed

lemma persisted_keeps: "header (persisted t) = header t" "GetCategory (persisted t) = GetCategory t" "GetType (persisted t) = GetType t"
  by (cases t; simp)+

text \<open>Every task but the placeholder has a conversion in the queue of its category, so only the encoder can refuse it.\<close>

lemma only_the_encoder_fails:
  assumes "SerializeTask L t = Inl err" "\<nexists>h c. t = FakeTask h c"
  shows "\<exists>e. err = BlobErr e"
proof -
  have "\<exists>e. err = BlobErr e" if "map_sum BlobErr id x = Inl err" for x :: "string + rawBlob"
    using that by (cases x) auto
  then show ?thesis
    using assms by (cases t) (auto simp: SerializeTask_def serializeTransferTask_def serializeTimerTask_def serializeVisibilityTask_def
      serializeReplicationTask_def serializeArchivalTask_def CategoryTransfer_def CategoryTimer_def CategoryVisibility_def
      CategoryReplication_def CategoryArchival_def)
qed

text \<open>
  C20: A history task that is serialized and read back under its category is the task that was written, of
  whichever of the 23 types it is, with the same key, type and header; only what lives in memory, the
  stage of a deletion and the state of a speculative workflow task, is reset. Serialization fails for no
  task but the placeholder unless the encoder of its message fails.
\<close>

theorem tasks_survive_persistence:
  assumes "documented_lib L"
  shows "case SerializeTask L t of
      Inr b \<Rightarrow> DeserializeTask L (GetCategory t) b = Inr (persisted t) \<and> GetKey (persisted t) = GetKey t \<and>
        GetType (persisted t) = GetType t \<and> header (persisted t) = header t
    | Inl err \<Rightarrow> (\<exists>h c. t = FakeTask h c) \<or> (\<exists>e. err = BlobErr e)"
proof (cases "SerializeTask L t")
  case (Inl err)
  then show ?thesis using only_the_encoder_fails[of L t err] by auto
next
  case (Inr b)
  then have "DeserializeTask L (GetCategory t) b = Inr (persisted t)"
    using queue_roundtrips[OF assms] by (auto simp: SerializeTask_def DeserializeTask_def Let_def split: if_splits)
  then show ?thesis using Inr by (simp add: persisted_keeps GetKey_by_category)
qed

definition exCloseTask :: Task where
  "exCloseTask = CloseExecutionTask \<lparr>NamespaceID = ''ns'', WorkflowID = ''wf'', RunID = ''run'',
     VisibilityTimestamp = 7, TaskID = 42, Version = 3\<rparr> True False 5"

definition exTaskLib :: taskLib where
  "exTaskLib =
     (let info = the (transfer_to_proto exCloseTask)
      in \<lparr>MarshalTransfer = (\<lambda>m. if m = info then Inr ''close'' else Inl ''unsupported''),
          UnmarshalTransfer = (\<lambda>data. if data = ''close'' then Inr info else Inl ''unsupported''),
          MarshalTimer = (\<lambda>_. Inl ''unsupported''), UnmarshalTimer = (\<lambda>_. Inl ''unsupported''),
          MarshalVisibility = (\<lambda>_. Inl ''unsupported''), UnmarshalVisibility = (\<lambda>_. Inl ''unsupported''),
          MarshalReplication = (\<lambda>_. Inl ''unsupported''), UnmarshalReplication = (\<lambda>_. Inl ''unsupported''),
          MarshalArchival = (\<lambda>_. Inl ''unsupported''), UnmarshalArchival = (\<lambda>_. Inl ''unsupported'')\<rparr>)"

lemma exTaskLib_documented: "documented_lib exTaskLib"
  by (auto simp: documented_lib_def exTaskLib_def Let_def split: if_splits)

lemma exCloseTask_serialized: "SerializeTask exTaskLib exCloseTask = Inr (ENCODING_TYPE_PROTO3, Some ''close'')"
  by (simp add: SerializeTask_def serializeTransferTask_def exTaskLib_def exCloseTask_def proto3Encode_def CategoryTransfer_def Let_def)

theorem tasks_survive_persistence_witness:
  "DeserializeTask exTaskLib CategoryTransfer (ENCODING_TYPE_PROTO3, Some ''close'') =
     Inr (CloseExecutionTask (header exCloseTask) True False DeleteWorkflowExecutionStageNone)"
  using tasks_survive_persistence[OF exTaskLib_documented, of exCloseTask] exCloseTask_serialized by (simp add: exCloseTask_def)

text \<open>
  A message without a visibility time, which the wire format permits, is read as the epoch by the replication
  and archival queues; the other three dereference the nil pointer.
\<close>

lemma missing_visibility_time:
  assumes "VisibilityTime info = None" "TaskType info = TASK_TYPE_TRANSFER_RESET_WORKFLOW"
    and "VisibilityTime arch = None" "TaskType arch = TASK_TYPE_ARCHIVAL_ARCHIVE_EXECUTION"
  shows "transfer_from_proto info = Inl NilDereference"
    and "archival_from_proto arch = Inr (ArchiveExecutionTask (taskHeader_of arch 0))"
  using assms by (simp_all add: transfer_from_proto_def archival_from_proto_def transferResetTaskFromProto_def
      archiveExecutionTaskFromProto_def visibility_or_epoch_def deref_def)

text \<open>The error for an unknown archival type prints the task that was not made and not the type.\<close>

lemma archival_error_prints_nil:
  "TaskType info \<noteq> TASK_TYPE_ARCHIVAL_ARCHIVE_EXECUTION \<Longrightarrow>
    archival_from_proto info = Inl (Internal ''Unknown archival task type while deserializing: '' ANil)"
  by (simp add: archival_from_proto_def)

end
