(* ===== verification/Spec2Isabelle.thy ===== *)
theory Spec2Isabelle
  imports StreamForwarder StreamObserver StreamLifecycle AccessControl SealingProps AdminEncryptor
    RepairCodec KeyExtensions NamespaceNames MuxManager ProxyMain TaskSerializer
begin

text \<open>
  \<^bold>\<open>The program.\<close> The s2s-proxy stands between two Temporal clusters and carries their replication and
  client traffic. Each cluster connection (\<^verbatim>\<open>proxy/cluster_connection.go\<close>) has two gRPC servers, one towards
  the local cluster and one towards the peer, and a client to either side, over TCP or over multiplexed
  sessions (\<^verbatim>\<open>transport\<close>). A unary call passes the interceptors (\<^verbatim>\<open>interceptor\<close>: translation of names, access
  control, encryption of payloads) and is forwarded by one of the services (\<^verbatim>\<open>proxy/workflowservice.go\<close>,
  \<^verbatim>\<open>operatorservice.go\<close>, \<^verbatim>\<open>adminservice.go\<close>). A replication stream is forwarded as it is, remapped to the least
  common multiple of the shard counts, or routed task by task to the shard owners
  (\<^verbatim>\<open>proxy/admin_stream_transfer.go\<close>, \<^verbatim>\<open>proxy_streams.go\<close>), which may live in other instances of the proxy
  (\<^verbatim>\<open>shard_manager.go\<close>, \<^verbatim>\<open>intra_proxy_router.go\<close>). Messages of the 1.22 protocol with invalid UTF-8 are repaired
  (\<^verbatim>\<open>proto/compat\<close>), with the 1.22 server code under \<^verbatim>\<open>proto/1_22\<close>.

  \<^bold>\<open>Conventions.\<close> Structs are records, Go maps are association lists (\<open>gomap\<close>), and \<^verbatim>\<open>int32\<close> and \<^verbatim>\<open>int64\<close> are
  integers with \<open>i32\<close> and \<open>i64\<close> at the operations that may wrap. An operation that changes state takes
  the state and returns it; errors are the left side of a sum, a panic or a nil pointer is \<open>None\<close> unless
  the text of the definition says otherwise. Goroutines are steps of a relation or of a fold, so that a
  statement about a run quantifies over every interleaving. Clocks, networks, the membership library,
  yamux, gRPC, the key services, TLS and the generated encoders are arguments; what is relied on of them
  is a predicate such as \<open>documented_lib\<close>, or named assumptions, with an instance in the witness.
  Definitions keep the names of the source, with a prefix where two would clash.

  \<^bold>\<open>Replication streams.\<close>
  \<open>RingBuffer\<close> models \<^verbatim>\<open>proxyIDRingBuffer\<close> and shows that it refines a list of mappings for consecutive IDs
  and that the aggregate is the maximum per source shard. \<open>Messages\<close> has the stream messages and the retry
  loop of the stream handlers. \<open>StreamSender\<close> models \<^verbatim>\<open>proxyStreamSender\<close>: fresh IDs on sending, aggregation,
  forwarding and discarding on acknowledgement; no task is acknowledged to its source before the target
  acknowledged it, in every interleaving, and the turn completes when the owners accept.
  \<open>StreamReceiver\<close> models \<^verbatim>\<open>proxyStreamReceiver\<close>: a batch is partitioned by target shard, delivered to the
  owners, and the acknowledgements sent upstream are below those of the targets and ascend.
  \<open>StreamLifecycle\<close> models \<^verbatim>\<open>Run\<close> of both: the tables of the shard manager name running streams only.
  \<open>StreamForwarder\<close> models the stream handler and the direct forwarder, which is transparent and shuts
  down; \<open>ShardCount\<close> the remapping, which is even while the product of the counts is below \<open>2\<^sup>3\<^sup>1\<close>;
  \<open>StreamTracker\<close> and \<open>StreamObserver\<close> the registries of running streams.

  \<^bold>\<open>Instances of one proxy.\<close>
  \<open>ShardManager\<close> models registration, the handlers of the membership protocol and the delivery of tasks and
  acknowledgements to the owner of a shard; its tables stay consistent and forwarding is bounded.
  \<open>IntraProxy\<close> models the streams between instances; reconciliation opens the streams ownership calls for
  and prunes the others, and handing over a batch ends within its deadline.

  \<^bold>\<open>Names and access.\<close>
  \<open>NameMapping\<close> models the bidirectional maps and their configuration, \<open>Translation\<close> the reflective visitors
  over a datatype of messages that keeps the names, kinds and order of fields, \<open>TranslationSpec\<close> the
  reference they agree with. \<open>AccessControl\<close> shows that a unary call reaches its handler exactly when its
  method and namespaces are allowed. \<open>Services\<close> models the three services and the headers they keep,
  \<open>ProxyServer\<close> the chain of interceptors in the order of \<^verbatim>\<open>makeServerOptions\<close>: the peer sees remote names
  only, and the local cluster local ones.

  \<^bold>\<open>Encryption.\<close>
  \<open>EncryptionConfig\<close>, \<open>KeyVault\<close> and \<open>KeyExtensions\<close> model the configuration, the keys that a vault opens and
  closes, and the extension servers; \<open>TLSConfig\<close> the TLS settings. \<open>Sealing\<close> and \<open>SealingProps\<close> are the
  encryptor of workflow calls, \<open>AdminVisitors\<close>, \<open>AdminCoverage\<close>, \<open>AdminPayloads\<close> and \<open>AdminEncryptor\<close> that of
  admin calls and replication streams, with the generated visitors as tables of fields and one interpreter.
  \<open>NamespaceNames\<close> is the cache of names, and \<open>ClusterEncryption\<close> puts the parts together: nothing leaves a
  connection unsealed where sealing is configured, two proxies with the same keys read each other, data
  sealed for one namespace does not open for another, and every opened key is closed once.

  \<^bold>\<open>Connections.\<close>
  \<open>MuxSession\<close> and \<open>MuxManager\<close> model the sessions as state machines, with the invariant that sessions and
  permits add up and that a session is cleaned up. \<open>ClusterClients\<close> models the clients with their
  credentials. \<open>ProxyMain\<close> models \<^verbatim>\<open>NewProxy\<close>, \<^verbatim>\<open>newClusterConnection\<close>, \<^verbatim>\<open>Start\<close> and \<^verbatim>\<open>Stop\<close> over a lifetime
  that records what is acquired and released: a failed construction leaves nothing open, and the end of
  the lifetime closes what a successful one has opened.

  \<^bold>\<open>The 1.22 protocol.\<close>
  \<open>UTF8\<close>, \<open>RepairTables\<close>, \<open>RepairUTF8\<close> and \<open>RepairCodec\<close> model the codec that repairs messages. \<open>Serializer122\<close> and
  \<open>Blobs122\<close> model the serializer and its encodings, \<open>Timestamps\<close> and \<open>HistoryTasks\<close> the timestamps, keys,
  categories and tasks, and \<open>TaskSerializer\<close> the conversion of tasks, which loses in-memory state only.

  \<^bold>\<open>Interfaces.\<close> The locale \<open>id_queue\<close> is the contract between the ring buffer and the sender,
  \<open>keyed_registry\<close> that of the stream tracker, \<open>guarded_registry\<close> that of the channel tables of the shard
  manager, and \<open>owner_delivery\<close> that of the delivery of tasks and acknowledgements to shard owners; each is interpreted on the definitions of the model
  in the theory that provides them.

  \<^bold>\<open>Bounds and fuel.\<close> The retry loop of \<open>Messages\<close> runs until the owners accept or the stream shuts down, so
  it has fuel, one unit per round; the liveness properties of sender and receiver show that as many
  rounds as the slowest owner needs are enough. The wait of \<open>IntraProxy.wait_send\<close> has fuel for the same
  reason. \<open>IntraProxy.msg_loop\<close> pauses at least ten milliseconds and ends after two seconds, so 203 units
  are enough for every clock that advances. The visitors of \<open>Translation\<close> take a bound for
  the nesting of histories in blobs, and the properties hold for every bound that the message stays
  within. The loop over a JSON array in \<open>Blobs122\<close> need not end for every
  decoder; it is a partial function, and it is shown to end on what the encoder writes. All other
  recursions are structural or have a termination proof.

  \<^bold>\<open>Not modelled.\<close> The HTTP handlers for health, debugging and metrics, logging, and the Prometheus counters,
  which no other part reads; the wiring by the fx library and command line flags (\<^verbatim>\<open>app\<close>, \<^verbatim>\<open>cmd/proxy\<close>); the
  reading of YAML files; dialling, listening and accepting of TCP connections, beyond the settings they
  are called with; the restart loop of the gRPC server; the textual descriptions of connections; the
  generators under \<^verbatim>\<open>cmd/tools\<close>, whose output is modelled instead; the code of the protobuf compiler and the
  service errors under \<^verbatim>\<open>proto/1_22/api\<close>; the one-line wrappers of \<^verbatim>\<open>serializer.go\<close> and \<^verbatim>\<open>blob.go\<close> that pass further
  message types to the modelled functions; mocks, tests and examples. Time zones and monotonic clock
  readings are not part of a time, and memory is not bounded.
\<close>

end
